(* ===== verification/Prelude.thy ===== *)
theory Prelude
  imports
    Main
    "HOL-Library.Word"
    "HOL-Library.AList"
    "HOL-Library.Char_ord"
    "HOL-Library.List_Lexorder"
begin

text \<open>
  Vocabulary shared by every component of the gateway and of the relay: Go strings as byte
  lists with the functions of package strings the code calls, Go maps as association lists with
  distinct keys, 64-bit signed integers, and the fact collections of the development.

  A Go string is a sequence of bytes and an Isabelle char is a byte, so string is the model of
  the Go type string and len is length.  The byte-wise order of List_Lexorder and Char_ord is
  the order of sort.Strings.
\<close>

named_theorems go_strings "facts on the string functions of the Go library"
named_theorems go_maps "facts on Go maps as association lists"
named_theorems frame "what an operation leaves alone"

section \<open>Bytes and fallible results\<close>

type_synonym bytes = string

text \<open>A Go pair (value, error) is \<open>Inl error\<close> or \<open>Inr value\<close>.\<close>

fun is_ok :: "'e + 'a \<Rightarrow> bool" where
  "is_ok (Inl _) = False"
| "is_ok (Inr _) = True"

lemma is_ok_iff: "is_ok r \<longleftrightarrow> (\<exists>a. r = Inr a)"
  by (cases r) auto

section \<open>64-bit signed integers\<close>

definition i64 :: "int \<Rightarrow> int" where
  "i64 x = signed_take_bit 63 x"

lemma i64_id [simp]: "- (2 ^ 63) \<le> x \<Longrightarrow> x < 2 ^ 63 \<Longrightarrow> i64 x = x"
  unfolding i64_def by (rule signed_take_bit_int_eq_self) simp_all

lemma i64_range: "- (2 ^ 63) \<le> i64 x \<and> i64 x < 2 ^ 63"
  unfolding i64_def
  by (metis signed_take_bit_int_greater_eq_minus_exp signed_take_bit_int_less_exp)

section \<open>Package strings\<close>

definition has_prefix :: "string \<Rightarrow> string \<Rightarrow> bool" where
  "has_prefix s p \<longleftrightarrow> take (length p) s = p"

definition has_suffix :: "string \<Rightarrow> string \<Rightarrow> bool" where
  "has_suffix s p \<longleftrightarrow> length p \<le> length s \<and> drop (length s - length p) s = p"

fun str_index :: "string \<Rightarrow> string \<Rightarrow> nat option" where
  "str_index [] sub = (if sub = [] then Some 0 else None)"
| "str_index (c # cs) sub =
     (if has_prefix (c # cs) sub then Some 0 else map_option Suc (str_index cs sub))"

definition str_contains :: "string \<Rightarrow> string \<Rightarrow> bool" where
  "str_contains s sub \<longleftrightarrow> str_index s sub \<noteq> None"

text \<open>strings.Split for a separator of one byte.\<close>

fun split_on :: "char \<Rightarrow> string \<Rightarrow> string list" where
  "split_on c [] = [[]]"
| "split_on c (x # xs) =
     (if x = c then [] # split_on c xs
      else (case split_on c xs of [] \<Rightarrow> [[x]] | y # ys \<Rightarrow> (x # y) # ys))"

fun join_on :: "char \<Rightarrow> string list \<Rightarrow> string" where
  "join_on c [] = []"
| "join_on c [x] = x"
| "join_on c (x # y # ys) = x @ c # join_on c (y # ys)"

text \<open>strings.SplitN with n = 2: cut at the first occurrence of the separator.\<close>

definition split_n2 :: "string \<Rightarrow> string \<Rightarrow> string list" where
  "split_n2 s sep =
     (case str_index s sep of
        None \<Rightarrow> [s]
      | Some i \<Rightarrow> [take i s, drop (i + length sep) s])"

text \<open>strings.SplitN with n = 3.\<close>

definition split_n3 :: "string \<Rightarrow> string \<Rightarrow> string list" where
  "split_n3 s sep =
     (case str_index s sep of
        None \<Rightarrow> [s]
      | Some i \<Rightarrow> take i s # split_n2 (drop (i + length sep) s) sep)"

definition trim_prefix :: "string \<Rightarrow> string \<Rightarrow> string" where
  "trim_prefix s p = (if has_prefix s p then drop (length p) s else s)"

definition trim_suffix :: "string \<Rightarrow> string \<Rightarrow> string" where
  "trim_suffix s p = (if has_suffix s p then take (length s - length p) s else s)"

text \<open>strings.TrimRight with a cutset of one byte.\<close>

definition trim_right :: "char \<Rightarrow> string \<Rightarrow> string" where
  "trim_right c s = rev (dropWhile (\<lambda>x. x = c) (rev s))"

text \<open>strings.ToLower and strings.ToUpper on ASCII text; bytes outside a-z and A-Z are kept.\<close>

definition lower_char :: "char \<Rightarrow> char" where
  "lower_char c = (if CHR ''A'' \<le> c \<and> c \<le> CHR ''Z'' then char_of (of_char c + 32 :: nat) else c)"

definition upper_char :: "char \<Rightarrow> char" where
  "upper_char c = (if CHR ''a'' \<le> c \<and> c \<le> CHR ''z'' then char_of (of_char c - 32 :: nat) else c)"

definition to_lower :: "string \<Rightarrow> string" where
  "to_lower s = map lower_char s"

definition to_upper :: "string \<Rightarrow> string" where
  "to_upper s = map upper_char s"

subsection \<open>Facts on strings\<close>

lemma has_prefix_append [simp, go_strings]: "has_prefix (p @ s) p"
  by (simp add: has_prefix_def)

lemma has_prefix_Nil [simp, go_strings]: "has_prefix s []"
  by (simp add: has_prefix_def)

lemma has_prefix_iff: "has_prefix s p \<longleftrightarrow> (\<exists>t. s = p @ t)"
  by (metis append_eq_conv_conj has_prefix_def append_take_drop_id)

lemma has_suffix_append [simp, go_strings]: "has_suffix (s @ p) p"
  by (simp add: has_suffix_def)

lemma has_suffix_iff: "has_suffix s p \<longleftrightarrow> (\<exists>t. s = t @ p)"
proof
  assume "has_suffix s p"
  then have "s = take (length s - length p) s @ p"
    by (metis append_take_drop_id has_suffix_def)
  then show "\<exists>t. s = t @ p" by blast
next
  assume "\<exists>t. s = t @ p"
  then show "has_suffix s p" by auto
qed

lemma trim_prefix_append [simp, go_strings]: "trim_prefix (p @ s) p = s"
  by (simp add: trim_prefix_def)

lemma trim_suffix_append [simp, go_strings]: "trim_suffix (s @ p) p = s"
  by (simp add: trim_suffix_def)

lemma split_on_nonempty [simp]: "split_on c s \<noteq> []"
  by (cases s) (auto split: list.splits)

lemma join_on_Cons: "xs \<noteq> [] \<Longrightarrow> join_on c (x # xs) = x @ c # join_on c xs"
  by (cases xs) auto

lemma join_split [simp, go_strings]: "join_on c (split_on c s) = s"
proof (induction s)
  case Nil
  then show ?case by simp
next
  case (Cons x xs)
  obtain y ys where sp: "split_on c xs = y # ys"
    using split_on_nonempty [of c xs] by (cases "split_on c xs") auto
  then show ?case
    using Cons by (cases ys) (auto simp: join_on_Cons)
qed

lemma split_on_no_sep: "c \<notin> set x \<Longrightarrow> split_on c x = [x]"
  by (induction x) auto

lemma split_on_cut: "c \<notin> set x \<Longrightarrow> split_on c (x @ c # r) = x # split_on c r"
  by (induction x) auto

lemma split_join [go_strings]:
  "xs \<noteq> [] \<Longrightarrow> (\<forall>x \<in> set xs. c \<notin> set x) \<Longrightarrow> split_on c (join_on c xs) = xs"
proof (induction xs rule: join_on.induct)
  case (2 c x)
  then show ?case by (simp add: split_on_no_sep)
next
  case (3 c x y ys)
  then show ?case by (simp add: split_on_cut)
qed simp

lemma split_on_pieces: "x \<in> set (split_on c s) \<Longrightarrow> c \<notin> set x"
proof (induction s arbitrary: x)
  case (Cons a s)
  then show ?case by (cases "split_on c s") (fastforce split: if_splits)+
qed simp

lemma str_index_Some:
  "str_index s sub = Some i \<Longrightarrow> s = take i s @ sub @ drop (i + length sub) s"
proof (induction s arbitrary: i)
  case Nil
  then show ?case by (auto split: if_splits)
next
  case (Cons c cs)
  show ?case
  proof (cases "has_prefix (c # cs) sub")
    case True
    with Cons.prems have "i = 0" by simp
    with True show ?thesis by (simp add: has_prefix_def) (metis append_take_drop_id)
  next
    case False
    with Cons.prems obtain j where "str_index cs sub = Some j" and "i = Suc j" by auto
    with Cons.IH [of j] show ?thesis by simp
  qed
qed

lemma split_n2_cases:
  obtains "split_n2 s sep = [s]" "str_index s sep = None"
  | a b where "split_n2 s sep = [a, b]" "s = a @ sep @ b"
proof (cases "str_index s sep")
  case None
  then show ?thesis using that(1) by (simp add: split_n2_def)
next
  case (Some i)
  then show ?thesis
    using that(2) [of "take i s" "drop (i + length sep) s"] str_index_Some [OF Some]
    by (simp add: split_n2_def)
qed

lemma str_contains_split: "str_contains s sep \<Longrightarrow> \<exists>a b. split_n2 s sep = [a, b] \<and> s = a @ sep @ b"
  by (metis split_n2_cases str_contains_def)

section \<open>Go maps\<close>

text \<open>
  A Go map is an association list with distinct keys.  \<open>map_of m k\<close> is m[k] (None for the
  absent key), \<open>AList.update k v m\<close> is the assignment m[k] = v, \<open>AList.delete k m\<close> is
  delete(m, k), \<open>length m\<close> is len(m).  The order of the list is the order one iteration of the
  map takes: Go leaves it open, so a result that must not depend on it is proved not to.
\<close>

type_synonym ('k, 'v) gomap = "('k \<times> 'v) list"

definition gm_wf :: "('k, 'v) gomap \<Rightarrow> bool" where
  "gm_wf m \<longleftrightarrow> distinct (map fst m)"

abbreviation gm_keys :: "('k, 'v) gomap \<Rightarrow> 'k list" where
  "gm_keys m \<equiv> map fst m"

lemma gm_wf_Nil [simp, intro, go_maps]: "gm_wf []"
  by (simp add: gm_wf_def)

lemma gm_wf_single [simp, intro, go_maps]: "gm_wf [(k, v)]"
  by (simp add: gm_wf_def)

lemma gm_wf_update [simp, intro, go_maps]: "gm_wf m \<Longrightarrow> gm_wf (AList.update k v m)"
  by (simp add: gm_wf_def distinct_update)

lemma gm_wf_delete [simp, intro, go_maps]: "gm_wf m \<Longrightarrow> gm_wf (AList.delete k m)"
  by (simp add: gm_wf_def distinct_delete)

lemma map_of_gm_update [simp, go_maps]:
  "map_of (AList.update k v m) x = (if x = k then Some v else map_of m x)"
  by (simp add: update_conv')

lemma map_of_gm_delete [simp, go_maps]:
  "map_of (AList.delete k m) x = (if x = k then None else map_of m x)"
  by (simp add: delete_conv')

lemma gm_update_nonempty [simp]: "AList.update k v m \<noteq> []"
  by (cases m) (auto split: prod.splits)

lemma map_of_wf_iff: "gm_wf m \<Longrightarrow> map_of m k = Some v \<longleftrightarrow> (k, v) \<in> set m"
  by (simp add: gm_wf_def)

lemma gm_single_length: "gm_wf m \<Longrightarrow> length m = Suc 0 \<Longrightarrow> \<exists>k v. m = [(k, v)]"
  by (cases m) auto

text \<open>The value an iteration over a map with one entry visits.\<close>

fun gm_only :: "('k, 'v) gomap \<Rightarrow> 'v option" where
  "gm_only [(k, v)] = Some v"
| "gm_only _ = None"

lemma gm_only_length: "length m = Suc 0 \<Longrightarrow> gm_only m = Some (snd (hd m))"
  by (cases m rule: gm_only.cases) auto

lemma gm_only_Some: "gm_only m = Some v \<longleftrightarrow> (\<exists>k. m = [(k, v)])"
  by (cases m rule: gm_only.cases) auto

lemma gm_keys_perm_lookup:
  "gm_wf m \<Longrightarrow> gm_wf m' \<Longrightarrow> set m = set m' \<Longrightarrow> map_of m = map_of m'"
  by (simp add: gm_wf_def map_of_inject_set)

end
