(* ===== verification/Json.thy ===== *)
theory Json
  imports Prelude
begin

text \<open>
  Package encoding/json: JSON values as trees, the scanner json.Unmarshal runs on a text
  (\<open>json_parse\<close>), the compact text json.Marshal writes (\<open>json_text\<close>), the decoding of a
  tree into the fields of a Go struct and into an any, and the round trip between text and tree.

  A number keeps its literal, as the decoder sees it.  Bytes from 0x80 on are copied by both
  directions, which is what the package does on valid UTF-8 (it also escapes U+2028 and U+2029).
\<close>

datatype json =
    JNull
  | JBool bool
  | JNum string
  | JStr string
  | JArr "json list"
  | JObj "(string \<times> json) list"

section \<open>Writing\<close>

abbreviation dquote :: char where "dquote \<equiv> CHR 0x22"
abbreviation bslash :: char where "bslash \<equiv> CHR 0x5C"

definition hex_digit :: "nat \<Rightarrow> char" where
  "hex_digit n = (if n < 10 then char_of (48 + n) else char_of (87 + n))"

text \<open>One byte of a string literal; with \<open>html\<close> the three characters of SetEscapeHTML too.\<close>

definition esc_char :: "bool \<Rightarrow> char \<Rightarrow> string" where
  "esc_char html c =
     (if c = dquote then [bslash, dquote]
      else if c = bslash then [bslash, bslash]
      else if c = CHR 0x0A then bslash # ''n''
      else if c = CHR 0x0D then bslash # ''r''
      else if c = CHR 0x09 then bslash # ''t''
      else if c = CHR 0x08 then bslash # ''b''
      else if c = CHR 0x0C then bslash # ''f''
      else if (of_char c :: nat) < 32 \<or> (html \<and> c \<in> set ''<>&'')
        then bslash # ''u00'' @ [hex_digit (of_char c div 16), hex_digit (of_char c mod 16)]
      else [c])"

definition str_text :: "bool \<Rightarrow> string \<Rightarrow> string" where
  "str_text html s = dquote # concat (map (esc_char html) s) @ [dquote]"

fun json_text :: "bool \<Rightarrow> json \<Rightarrow> string" where
  "json_text html JNull = ''null''"
| "json_text html (JBool b) = (if b then ''true'' else ''false'')"
| "json_text html (JNum l) = l"
| "json_text html (JStr s) = str_text html s"
| "json_text html (JArr vs) = CHR ''['' # join_on CHR '','' (map (json_text html) vs) @ '']''"
| "json_text html (JObj kvs) =
     CHR ''{'' # join_on CHR '','' (map (\<lambda>(k, v). str_text html k @ CHR '':'' # json_text html v) kvs) @ ''}''"

text \<open>strconv for the decimal text of an integer.\<close>

fun nat_text :: "nat \<Rightarrow> string" where
  "nat_text n = (if n < 10 then [char_of (48 + n)] else nat_text (n div 10) @ [char_of (48 + n mod 10)])"

declare nat_text.simps [simp del]

definition int_text :: "int \<Rightarrow> string" where
  "int_text i = (if i < 0 then CHR ''-'' # nat_text (nat (- i)) else nat_text (nat i))"

section \<open>Reading\<close>

definition is_ws :: "char \<Rightarrow> bool" where
  "is_ws c \<longleftrightarrow> c = CHR '' '' \<or> c = CHR 0x09 \<or> c = CHR 0x0A \<or> c = CHR 0x0D"

definition skip_ws :: "string \<Rightarrow> string" where
  "skip_ws s = dropWhile is_ws s"

definition is_digit :: "char \<Rightarrow> bool" where
  "is_digit c \<longleftrightarrow> CHR ''0'' \<le> c \<and> c \<le> CHR ''9''"

definition hex_val :: "char \<Rightarrow> nat option" where
  "hex_val c =
     (if is_digit c then Some (of_char c - 48)
      else if CHR ''a'' \<le> c \<and> c \<le> CHR ''f'' then Some (of_char c - 87)
      else if CHR ''A'' \<le> c \<and> c \<le> CHR ''F'' then Some (of_char c - 55)
      else None)"

definition hex4 :: "char \<Rightarrow> char \<Rightarrow> char \<Rightarrow> char \<Rightarrow> nat option" where
  "hex4 a b c d =
     (case (hex_val a, hex_val b, hex_val c, hex_val d) of
        (Some w, Some x, Some y, Some z) \<Rightarrow> Some (4096 * w + 256 * x + 16 * y + z)
      | _ \<Rightarrow> None)"

text \<open>The UTF-8 bytes of a code point.\<close>

definition utf8 :: "nat \<Rightarrow> string" where
  "utf8 n =
     (if n < 128 then [char_of n]
      else if n < 2048 then [char_of (192 + n div 64), char_of (128 + n mod 64)]
      else if n < 65536
        then [char_of (224 + n div 4096), char_of (128 + n div 64 mod 64), char_of (128 + n mod 64)]
      else [char_of (240 + n div 262144), char_of (128 + n div 4096 mod 64),
            char_of (128 + n div 64 mod 64), char_of (128 + n mod 64)])"

definition esc_val :: "char \<Rightarrow> char option" where
  "esc_val e =
     (if e = dquote \<or> e = bslash \<or> e = CHR ''/'' then Some e
      else if e = CHR ''n'' then Some (CHR 0x0A)
      else if e = CHR ''r'' then Some (CHR 0x0D)
      else if e = CHR ''t'' then Some (CHR 0x09)
      else if e = CHR ''b'' then Some (CHR 0x08)
      else if e = CHR ''f'' then Some (CHR 0x0C)
      else None)"

text \<open>
  The rest of a string literal after its opening quote.  A surrogate pair is one code point; a
  lone surrogate becomes U+FFFD.
\<close>

fun p_chars :: "string \<Rightarrow> (string \<times> string) option" where
  "p_chars [] = None"
| "p_chars (c # r) =
     (if c = dquote then Some ([], r)
      else if c = bslash then
        (case r of
           [] \<Rightarrow> None
         | e # r1 \<Rightarrow>
             if e = CHR ''u'' then
               (case r1 of
                  h1 # h2 # h3 # h4 # r2 \<Rightarrow>
                    (case hex4 h1 h2 h3 h4 of
                       None \<Rightarrow> None
                     | Some n \<Rightarrow>
                         if 0xD800 \<le> n \<and> n < 0xE000 then
                           (case r2 of
                              b # u # l1 # l2 # l3 # l4 # r3 \<Rightarrow>
                                (case hex4 l1 l2 l3 l4 of
                                   Some m \<Rightarrow>
                                     if b = bslash \<and> u = CHR ''u'' \<and> n < 0xDC00 \<and> 0xDC00 \<le> m \<and> m < 0xE000
                                     then map_option (apfst ((@) (utf8 (0x10000 + 1024 * (n - 0xD800) + (m - 0xDC00))))) (p_chars r3)
                                     else map_option (apfst ((@) (utf8 0xFFFD))) (p_chars r2)
                                 | None \<Rightarrow> map_option (apfst ((@) (utf8 0xFFFD))) (p_chars r2))
                            | _ \<Rightarrow> map_option (apfst ((@) (utf8 0xFFFD))) (p_chars r2))
                         else map_option (apfst ((@) (utf8 n))) (p_chars r2))
                | _ \<Rightarrow> None)
             else
               (case esc_val e of
                  None \<Rightarrow> None
                | Some d \<Rightarrow> map_option (apfst ((#) d)) (p_chars r1)))
      else if (of_char c :: nat) < 32 then None
      else map_option (apfst ((#) c)) (p_chars r))"

text \<open>The optional sign of a number or of an exponent.\<close>

definition sign_of :: "string \<Rightarrow> string \<Rightarrow> string" where
  "sign_of cs s = (case s of c # _ \<Rightarrow> if c \<in> set cs then [c] else [] | [] \<Rightarrow> [])"

definition p_exp :: "string \<Rightarrow> string \<Rightarrow> (string \<times> string) option" where
  "p_exp acc s =
     (case s of
        e # r \<Rightarrow>
          if e = CHR ''e'' \<or> e = CHR ''E'' then
            (let sg = sign_of ''+-'' r;
                 r1 = drop (length sg) r;
                 ds = takeWhile is_digit r1
             in if ds = [] then None else Some (acc @ e # sg @ ds, dropWhile is_digit r1))
          else Some (acc, s)
      | [] \<Rightarrow> Some (acc, s))"

definition p_frac :: "string \<Rightarrow> string \<Rightarrow> (string \<times> string) option" where
  "p_frac acc s =
     (case s of
        c # r \<Rightarrow>
          if c = CHR ''.'' then
            (let ds = takeWhile is_digit r
             in if ds = [] then None else p_exp (acc @ CHR ''.'' # ds) (dropWhile is_digit r))
          else p_exp acc s
      | [] \<Rightarrow> p_exp acc s)"

definition p_number :: "string \<Rightarrow> (string \<times> string) option" where
  "p_number s =
     (let sg = sign_of ''-'' s;
          s1 = drop (length sg) s
      in (case s1 of
            [] \<Rightarrow> None
          | c # r \<Rightarrow>
              if c = CHR ''0'' then p_frac (sg @ ''0'') r
              else if is_digit c then p_frac (sg @ takeWhile is_digit s1) (dropWhile is_digit s1)
              else None))"

definition p_lit :: "string \<Rightarrow> json \<Rightarrow> string \<Rightarrow> (json \<times> string) option" where
  "p_lit l v s = (if has_prefix s l then Some (v, drop (length l) s) else None)"

text \<open>The scanner; every call spends one unit of fuel (see \<open>json_parse\<close>).\<close>

fun p_value :: "nat \<Rightarrow> string \<Rightarrow> (json \<times> string) option"
  and p_elems :: "nat \<Rightarrow> string \<Rightarrow> (json list \<times> string) option"
  and p_members :: "nat \<Rightarrow> string \<Rightarrow> ((string \<times> json) list \<times> string) option"
where
  "p_value 0 s = None"
| "p_value (Suc n) s =
     (case skip_ws s of
        [] \<Rightarrow> None
      | c # r \<Rightarrow>
          if c = dquote then map_option (apfst JStr) (p_chars r)
          else if c = CHR ''['' then
            (case skip_ws r of
               d # r1 \<Rightarrow> if d = CHR '']'' then Some (JArr [], r1)
                         else map_option (apfst JArr) (p_elems n (d # r1))
             | [] \<Rightarrow> None)
          else if c = CHR ''{'' then
            (case skip_ws r of
               d # r1 \<Rightarrow> if d = CHR ''}'' then Some (JObj [], r1)
                         else map_option (apfst JObj) (p_members n (d # r1))
             | [] \<Rightarrow> None)
          else if c = CHR ''n'' then p_lit ''null'' JNull (c # r)
          else if c = CHR ''t'' then p_lit ''true'' (JBool True) (c # r)
          else if c = CHR ''f'' then p_lit ''false'' (JBool False) (c # r)
          else map_option (apfst JNum) (p_number (c # r)))"
| "p_elems 0 s = None"
| "p_elems (Suc n) s =
     (case p_value n s of
        None \<Rightarrow> None
      | Some (v, r) \<Rightarrow>
          (case skip_ws r of
             d # r1 \<Rightarrow> if d = CHR '','' then map_option (apfst ((#) v)) (p_elems n r1)
                       else if d = CHR '']'' then Some ([v], r1)
                       else None
           | [] \<Rightarrow> None))"
| "p_members 0 s = None"
| "p_members (Suc n) s =
     (case skip_ws s of
        q # r \<Rightarrow>
          if q \<noteq> dquote then None
          else (case p_chars r of
                  None \<Rightarrow> None
                | Some (k, r1) \<Rightarrow>
                    (case skip_ws r1 of
                       c # r2 \<Rightarrow>
                         if c \<noteq> CHR '':'' then None
                         else (case p_value n r2 of
                                 None \<Rightarrow> None
                               | Some (v, r3) \<Rightarrow>
                                   (case skip_ws r3 of
                                      d # r4 \<Rightarrow> if d = CHR '','' then map_option (apfst ((#) (k, v))) (p_members n r4)
                                                else if d = CHR ''}'' then Some ([(k, v)], r4)
                                                else None
                                    | [] \<Rightarrow> None))
                     | [] \<Rightarrow> None))
      | [] \<Rightarrow> None)"

definition json_parse :: "string \<Rightarrow> json option" where
  "json_parse s =
     (case p_value (2 * length s + 1) s of
        Some (v, r) \<Rightarrow> if skip_ws r = [] then Some v else None
      | None \<Rightarrow> None)"

text \<open>json.Valid.\<close>

definition json_valid :: "string \<Rightarrow> bool" where
  "json_valid s \<longleftrightarrow> json_parse s \<noteq> None"

section \<open>Decoding into Go values\<close>

text \<open>strconv.ParseInt with base 10 and 64 bits: None for a malformed or out-of-range text.\<close>

definition digits_val :: "string \<Rightarrow> nat" where
  "digits_val ds = foldl (\<lambda>n c. 10 * n + (of_char c - 48)) 0 ds"

definition parse_int64 :: "string \<Rightarrow> int option" where
  "parse_int64 s =
     (let sg = sign_of ''+-'' s;
          ds = drop (length sg) s;
          v = (if sg = ''-'' then - int (digits_val ds) else int (digits_val ds))
      in if ds = [] \<or> \<not> list_all is_digit ds \<or> v < - (2 ^ 63) \<or> 2 ^ 63 \<le> v then None else Some v)"

text \<open>
  A struct is decoded from an object, and null leaves it as it is.  A key selects the field whose
  name it equals up to letter case; a key that occurs twice sets the field twice.
\<close>

fun obj_fields :: "json \<Rightarrow> (string \<times> json) list option" where
  "obj_fields JNull = Some []"
| "obj_fields (JObj kvs) = Some kvs"
| "obj_fields _ = None"

definition field_vals :: "string \<Rightarrow> (string \<times> json) list \<Rightarrow> json list" where
  "field_vals name kvs = map snd (filter (\<lambda>kv. to_lower (fst kv) = name) kvs)"

text \<open>A field of a plain type: null leaves its value, a value of another type is an error.\<close>

fun dec_field :: "(json \<Rightarrow> 'a option) \<Rightarrow> 'a \<Rightarrow> json list \<Rightarrow> 'a option" where
  "dec_field d z [] = Some z"
| "dec_field d z (v # vs) =
     (if v = JNull then dec_field d z vs
      else (case d v of None \<Rightarrow> None | Some a \<Rightarrow> dec_field d a vs))"

text \<open>A field of a pointer or slice type: null makes it nil.\<close>

fun dec_ptr :: "(json \<Rightarrow> 'a option) \<Rightarrow> 'a option \<Rightarrow> json list \<Rightarrow> 'a option option" where
  "dec_ptr d z [] = Some z"
| "dec_ptr d z (v # vs) =
     (if v = JNull then dec_ptr d None vs
      else (case d v of None \<Rightarrow> None | Some a \<Rightarrow> dec_ptr d (Some a) vs))"

fun d_str :: "json \<Rightarrow> string option" where
  "d_str (JStr s) = Some s"
| "d_str _ = None"

fun d_int :: "json \<Rightarrow> int option" where
  "d_int (JNum l) = parse_int64 l"
| "d_int _ = None"

fun d_bool :: "json \<Rightarrow> bool option" where
  "d_bool (JBool b) = Some b"
| "d_bool _ = None"

text \<open>The map built by assigning pairs in turn: a later pair replaces an earlier one.\<close>

definition gm_of_pairs :: "('k \<times> 'v) list \<Rightarrow> ('k, 'v) gomap" where
  "gm_of_pairs kvs = foldl (\<lambda>m kv. AList.update (fst kv) (snd kv) m) [] kvs"

text \<open>A map[string]string: a null member is the empty string.\<close>

fun d_strmap :: "json \<Rightarrow> (string, string) gomap option" where
  "d_strmap (JObj kvs) =
     map_option (\<lambda>vs. gm_of_pairs (zip (map fst kvs) vs))
       (those (map (\<lambda>kv. dec_field d_str [] [snd kv]) kvs))"
| "d_strmap _ = None"

text \<open>
  Decoding into an any.  An object becomes a map, a number a float64: \<open>fl\<close> takes a literal to
  the literal Marshal writes for the float64 it denotes, None when it is out of range.
\<close>

fun any_of :: "(string \<Rightarrow> string option) \<Rightarrow> json \<Rightarrow> json option" where
  "any_of fl (JNum l) = map_option JNum (fl l)"
| "any_of fl (JArr vs) = map_option JArr (those (map (any_of fl) vs))"
| "any_of fl (JObj kvs) =
     map_option (\<lambda>vs. JObj (gm_of_pairs (zip (map fst kvs) vs))) (those (map (\<lambda>kv. any_of fl (snd kv)) kvs))"
| "any_of fl v = Some v"

text \<open>Marshal writes the members of a map in the order of their keys.\<close>

fun sort_members :: "json \<Rightarrow> json" where
  "sort_members (JArr vs) = JArr (map sort_members vs)"
| "sort_members (JObj kvs) = JObj (sort_key fst (map (\<lambda>kv. (fst kv, sort_members (snd kv))) kvs))"
| "sort_members v = v"

end
