(* ===== verification/Json_Facts.thy ===== *)
theory Json_Facts
  imports Json
begin

text \<open>
  The round trip of package encoding/json: what Marshal writes is a text that Unmarshal reads
  back to the same tree, with the fuel \<open>json_parse\<close> provides; facts on decoding.
\<close>

section \<open>String literals\<close>

declare p_chars.simps [simp del]

lemma hex_val_digit [simp]: "n < 16 \<Longrightarrow> hex_val (hex_digit n) = Some n"
  by (auto simp: hex_val_def hex_digit_def is_digit_def less_eq_char_def)

lemma hex4_low: "n < 128 \<Longrightarrow> hex4 (CHR ''0'') (CHR ''0'') (hex_digit (n div 16)) (hex_digit (n mod 16)) = Some n"
proof -
  have "hex_val (CHR ''0'') = Some 0"
    by (simp add: hex_val_def is_digit_def less_eq_char_def)
  moreover assume "n < 128"
  ultimately show ?thesis by (simp add: hex4_def)
qed

lemma p_chars_simple: "p_chars (bslash # e # r) = map_option (apfst ((#) d)) (p_chars r)"
  if "esc_val e = Some d" and "e \<noteq> CHR ''u''"
  using that by (subst p_chars.simps) simp

lemma p_chars_plain: "c \<noteq> dquote \<Longrightarrow> c \<noteq> bslash \<Longrightarrow> \<not> (of_char c :: nat) < 32 \<Longrightarrow>
    p_chars (c # r) = map_option (apfst ((#) c)) (p_chars r)"
  by (subst p_chars.simps) simp

lemma append_single: "(@) [x] = (#) x"
  by (rule ext) simp

lemma p_chars_u00: "n < 128 \<Longrightarrow>
    p_chars (bslash # CHR ''u'' # CHR ''0'' # CHR ''0'' # hex_digit (n div 16) # hex_digit (n mod 16) # r) =
    map_option (apfst ((#) (char_of n))) (p_chars r)"
  by (subst p_chars.simps) (simp add: hex4_low utf8_def append_single)

lemma p_chars_esc: "p_chars (esc_char h c @ t) = map_option (apfst ((#) c)) (p_chars t)"
proof -
  have u: "p_chars ((bslash # ''u00'' @ [hex_digit (of_char c div 16), hex_digit (of_char c mod 16)]) @ t) =
      map_option (apfst ((#) c)) (p_chars t)" if "(of_char c :: nat) < 128"
    using p_chars_u00 [OF that, of t] by simp
  have s: "(of_char c :: nat) < 128" if "c \<in> set ''<>&''"
    using that by auto
  show ?thesis
    unfolding esc_char_def
    using u s by (auto simp: p_chars_simple p_chars_plain esc_val_def)
qed

lemma p_chars_text: "p_chars (concat (map (esc_char h) s) @ dquote # t) = Some (s, t)"
proof (induction s)
  case Nil
  then show ?case by (simp add: p_chars.simps(2) [of dquote t])
qed (simp add: p_chars_esc)

section \<open>Numbers\<close>

definition num_ok :: "string \<Rightarrow> bool" where
  "num_ok l \<longleftrightarrow> p_number l = Some (l, [])"

text \<open>What may follow a value in a text.\<close>

definition delim :: "string \<Rightarrow> bool" where
  "delim t \<longleftrightarrow> (case t of [] \<Rightarrow> True | c # _ \<Rightarrow> c \<in> set '',]}'')"

lemma delim_digits:
  "delim t \<Longrightarrow> takeWhile is_digit (r @ t) = takeWhile is_digit r"
  "delim t \<Longrightarrow> dropWhile is_digit (r @ t) = dropWhile is_digit r @ t"
proof -
  assume "delim t"
  then have "takeWhile is_digit t = [] \<and> dropWhile is_digit t = t"
    by (cases t) (auto simp: delim_def is_digit_def less_eq_char_def)
  then show "takeWhile is_digit (r @ t) = takeWhile is_digit r"
    "dropWhile is_digit (r @ t) = dropWhile is_digit r @ t"
    by (induction r) auto
qed

lemma sign_of_append: "s \<noteq> [] \<Longrightarrow> sign_of cs (s @ t) = sign_of cs s"
  by (cases s) (auto simp: sign_of_def)

lemma sign_of_length: "length (sign_of cs s) \<le> length s"
  by (cases s) (auto simp: sign_of_def)

lemma p_exp_append:
  assumes "p_exp acc s = Some (l, [])" and t: "delim t"
  shows "p_exp acc (s @ t) = Some (l, t)"
proof (cases s)
  case Nil
  with assms show ?thesis
    by (cases t) (auto simp: p_exp_def delim_def)
next
  case (Cons e r)
  have "r \<noteq> []" if "e = CHR ''e'' \<or> e = CHR ''E''"
    using that assms(1) Cons by (auto simp: p_exp_def sign_of_def split: if_splits)
  then show ?thesis
    using assms Cons sign_of_length [of "''+-''" r]
    by (auto simp: p_exp_def Let_def sign_of_append delim_digits split: if_splits)
qed

lemma p_frac_append:
  assumes "p_frac acc s = Some (l, [])" and t: "delim t"
  shows "p_frac acc (s @ t) = Some (l, t)"
proof (cases s)
  case Nil
  with assms p_exp_append [of acc "[]" l t] show ?thesis
    by (cases t) (auto simp: p_frac_def delim_def)
next
  case (Cons c r)
  then show ?thesis
    using assms p_exp_append [of acc s l t] p_exp_append [OF _ t]
    by (auto simp: p_frac_def Let_def delim_digits split: if_splits)
qed

lemma p_number_append:
  assumes "num_ok l" and t: "delim t"
  shows "p_number (l @ t) = Some (l, t)"
proof -
  have ne: "l \<noteq> []"
    using assms(1) by (auto simp: num_ok_def p_number_def sign_of_def)
  show ?thesis
  proof (cases "drop (length (sign_of ''-'' l)) l")
    case Nil
    then show ?thesis using assms(1) by (simp add: num_ok_def p_number_def)
  next
    case (Cons c r)
    then show ?thesis
      using assms p_frac_append [OF _ t] sign_of_length [of "''-''" l]
      by (auto simp: num_ok_def p_number_def Let_def sign_of_append [OF ne] delim_digits split: if_splits)
  qed
qed

section \<open>Values\<close>

fun json_wf :: "json \<Rightarrow> bool" where
  "json_wf (JNum l) = num_ok l"
| "json_wf (JArr vs) = list_all json_wf vs"
| "json_wf (JObj kvs) = list_all (\<lambda>kv. json_wf (snd kv)) kvs"
| "json_wf _ = True"

lemma skip_ws_non [simp]: "\<not> is_ws c \<Longrightarrow> skip_ws (c # r) = c # r"
  by (simp add: skip_ws_def)

lemma skip_ws_Nil [simp]: "skip_ws [] = []"
  by (simp add: skip_ws_def)

lemma is_ws_simps [simp]:
  "\<not> is_ws dquote" "\<not> is_ws (CHR ''['')" "\<not> is_ws (CHR '']'')" "\<not> is_ws (CHR ''{'')"
  "\<not> is_ws (CHR ''}'')" "\<not> is_ws (CHR '','')" "\<not> is_ws (CHR '':'')" "\<not> is_ws (CHR ''n'')"
  "\<not> is_ws (CHR ''t'')" "\<not> is_ws (CHR ''f'')"
  by (simp_all add: is_ws_def)

lemma num_ok_head:
  assumes "num_ok l"
  obtains c r where "l = c # r" "c = CHR ''-'' \<or> is_digit c"
proof (cases l)
  case Nil
  with assms show ?thesis by (simp add: num_ok_def p_number_def sign_of_def)
next
  case (Cons c r)
  then show ?thesis
    using assms that [of c r]
    by (auto simp: num_ok_def p_number_def sign_of_def is_digit_def less_eq_char_def Let_def split: if_splits)
qed

lemma num_head_other:
  "c = CHR ''-'' \<or> is_digit c \<Longrightarrow> \<not> is_ws c \<and> c \<noteq> dquote \<and> c \<noteq> CHR ''['' \<and> c \<noteq> CHR ''{'' \<and>
     c \<noteq> CHR ''n'' \<and> c \<noteq> CHR ''t'' \<and> c \<noteq> CHR ''f'' \<and> c \<noteq> CHR '']'' \<and> c \<noteq> CHR ''}''"
  by (auto simp: is_ws_def is_digit_def less_eq_char_def)

text \<open>A value starts with a byte that opens neither white space nor a closing bracket.\<close>

lemma json_text_head:
  assumes "json_wf j"
  obtains c r where "json_text h j = c # r" "\<not> is_ws c" "c \<noteq> CHR '']''"
proof (cases j)
  case (JNum l)
  with assms have "num_ok l" by simp
  then show ?thesis
    using JNum that num_head_other by (metis json_text.simps(3) num_ok_head)
next
  case (JBool b)
  then show ?thesis using that by (cases b) (auto simp: is_ws_def)
next
  case (JStr s)
  then show ?thesis using that by (auto simp: str_text_def is_ws_def)
next
  case JNull
  then show ?thesis using that by (auto simp: is_ws_def)
next
  case (JArr x)
  then show ?thesis using that by (auto simp: is_ws_def)
next
  case (JObj x)
  then show ?thesis using that by (auto simp: is_ws_def)
qed

lemma p_elems_text:
  assumes "xs \<noteq> []"
    and "\<And>x n t. x \<in> set xs \<Longrightarrow> delim t \<Longrightarrow> 2 * length (json_text h x) \<le> n + 1 \<Longrightarrow> p_value n (json_text h x @ t) = Some (x, t)"
    and "2 * length (join_on CHR '','' (map (json_text h) xs)) < n" 
  shows "p_elems n (join_on CHR '','' (map (json_text h) xs) @ CHR '']'' # t) = Some (xs, t)"
  using assms
proof (induction xs arbitrary: n)
  case (Cons x xs)
  obtain k where n: "n = Suc k" using Cons.prems(3) by (cases n) auto
  show ?case
  proof (cases xs)
    case Nil
    then show ?thesis
      using Cons.prems n by (simp add: delim_def)
  next
    case (Cons y ys)
    let ?rest = "join_on CHR '','' (map (json_text h) xs)"
    have v: "p_value k (json_text h x @ CHR '','' # ?rest @ CHR '']'' # t) = Some (x, CHR '','' # ?rest @ CHR '']'' # t)"
      using Cons.prems n Cons by (auto simp: delim_def)
    have "p_elems k (?rest @ CHR '']'' # t) = Some (xs, t)"
      using Cons.prems n Cons by (intro Cons.IH) auto
    then show ?thesis using v n Cons by simp
  qed
qed simp

lemma p_members_text:
  assumes "kvs \<noteq> []"
    and "\<And>k x n t. (k, x) \<in> set kvs \<Longrightarrow> delim t \<Longrightarrow> 2 * length (json_text h x) \<le> n + 1 \<Longrightarrow> p_value n (json_text h x @ t) = Some (x, t)"
    and "2 * length (join_on CHR '','' (map (\<lambda>(k, v). str_text h k @ CHR '':'' # json_text h v) kvs)) < n"
  shows "p_members n (join_on CHR '','' (map (\<lambda>(k, v). str_text h k @ CHR '':'' # json_text h v) kvs) @ CHR ''}'' # t) = Some (kvs, t)"
  using assms
proof (induction kvs arbitrary: n)
  case (Cons kv kvs)
  obtain key v where kv: "kv = (key, v)" by (cases kv)
  obtain k where n: "n = Suc k" using Cons.prems(3) by (cases n) auto
  let ?f = "\<lambda>(k, v). str_text h k @ CHR '':'' # json_text h v"
  have key: "p_chars (concat (map (esc_char h) key) @ dquote # r) = Some (key, r)" for r
    by (rule p_chars_text)
  show ?case
  proof (cases kvs)
    case Nil
    then show ?thesis
      using Cons.prems n kv key by (simp add: delim_def str_text_def)
  next
    case (Cons y ys)
    let ?rest = "join_on CHR '','' (map ?f kvs)"
    have v: "p_value k (json_text h v @ CHR '','' # ?rest @ CHR ''}'' # t) = Some (v, CHR '','' # ?rest @ CHR ''}'' # t)"
      using n Cons kv Cons.prems(3) by (intro Cons.prems(2) [of key]) (auto simp: delim_def)
    have r: "p_members k (?rest @ CHR ''}'' # t) = Some (kvs, t)"
      using Cons.prems n Cons kv by (intro Cons.IH) auto
    show ?thesis
      using v r n kv Cons key by (simp add: str_text_def)
  qed
qed simp

lemma json_text_nonempty: "json_wf j \<Longrightarrow> json_text h j \<noteq> []"
  by (metis json_text_head list.distinct(1))

lemma p_value_text:
  "json_wf j \<Longrightarrow> delim t \<Longrightarrow> 2 * length (json_text h j) \<le> n + 1 \<Longrightarrow> p_value n (json_text h j @ t) = Some (j, t)"
proof (induction j arbitrary: n t rule: json.induct)
  case JNull
  then obtain m where "n = Suc m" by (cases n) auto
  then show ?case by (simp add: p_lit_def has_prefix_def)
next
  case (JBool b)
  then obtain m where "n = Suc m" by (cases n) (auto split: if_splits)
  then show ?case by (simp add: p_lit_def has_prefix_def)
next
  case (JNum l)
  obtain c r where l: "l = c # r" and c: "c = CHR ''-'' \<or> is_digit c"
    using JNum.prems(1) num_ok_head by (metis json_wf.simps(1))
  from JNum.prems l obtain m where "n = Suc m" by (cases n) auto
  then show ?case
    using num_head_other [OF c] p_number_append [of l t] JNum.prems l by simp
next
  case (JStr s)
  then obtain m where "n = Suc m" by (cases n) (auto simp: str_text_def)
  then show ?case by (simp add: str_text_def p_chars_text)
next
  case (JArr vs)
  then obtain m where n: "n = Suc m" by (cases n) auto
  show ?case
  proof (cases vs)
    case Nil
    then show ?thesis using n by simp
  next
    case (Cons v vs')
    then have wf: "json_wf v" and ne: "vs \<noteq> []" using JArr.prems by auto
    obtain c r where v: "json_text h v = c # r" "\<not> is_ws c" "c \<noteq> CHR '']''"
      using json_text_head [OF wf] by metis
    obtain r' where hd: "join_on CHR '','' (map (json_text h) vs) @ CHR '']'' # t = c # r'"
      using Cons v by (cases vs') auto
    have "p_elems m (join_on CHR '','' (map (json_text h) vs) @ CHR '']'' # t) = Some (vs, t)"
      using JArr n ne by (intro p_elems_text) (auto simp: list_all_iff)
    then show ?thesis
      using n hd v by simp
  qed
next
  case (JObj kvs)
  then obtain m where n: "n = Suc m" by (cases n) auto
  let ?f = "\<lambda>(k, v). str_text h k @ CHR '':'' # json_text h v"
  show ?case
  proof (cases kvs)
    case Nil
    then show ?thesis using n by simp
  next
    case (Cons kv kvs')
    then have ne: "kvs \<noteq> []" by simp
    obtain r' where hd: "join_on CHR '','' (map ?f kvs) @ CHR ''}'' # t = dquote # r'"
      using Cons by (cases kv; cases kvs') (auto simp: str_text_def)
    have "p_members m (join_on CHR '','' (map ?f kvs) @ CHR ''}'' # t) = Some (kvs, t)"
    proof (rule p_members_text [OF ne])
      fix k x n t
      assume "(k, x) \<in> set kvs" "delim t" "2 * length (json_text h x) \<le> n + 1"
      then show "p_value n (json_text h x @ t) = Some (x, t)"
        using JObj.IH [of "(k, x)" x t n] JObj.prems(1) by (auto simp: list_all_iff)
    qed (use JObj.prems n in auto)
    then show ?thesis
      using n hd by simp
  qed
qed

lemma json_parse_text: "json_wf j \<Longrightarrow> json_parse (json_text h j) = Some j"
  using p_value_text [of j "[]" h "2 * length (json_text h j) + 1"]
  by (simp add: json_parse_def delim_def)

section \<open>Integers\<close>

lemma is_digit_char: "(n::nat) < 10 \<Longrightarrow> is_digit (char_of (48 + n))"
  by (simp add: is_digit_def less_eq_char_def)

lemma zero_char: "(n::nat) < 10 \<Longrightarrow> char_of (48 + n) = CHR ''0'' \<longleftrightarrow> n = 0"
proof
  assume "n < 10" and "char_of (48 + n) = CHR ''0''"
  then have "(of_char (char_of (48 + n) :: char) :: nat) = of_char (CHR ''0'')" by simp
  with \<open>n < 10\<close> show "n = 0" by simp
qed (simp add: char_of_def bit_0)

lemma nat_text_digits: "list_all is_digit (nat_text n) \<and> nat_text n \<noteq> []"
proof (induction n rule: nat_text.induct)
  case (1 n)
  show ?case
  proof (cases "n < 10")
    case True
    then show ?thesis
      by (subst (1 2) nat_text.simps) (simp add: is_digit_char)
  next
    case False
    then show ?thesis
      using 1 by (subst (1 2) nat_text.simps) (simp add: is_digit_char)
  qed
qed

lemma digits_val_append: "digits_val (ds @ [c]) = 10 * digits_val ds + (of_char c - 48)"
  by (simp add: digits_val_def)

lemma digits_val_nat_text: "digits_val (nat_text n) = n"
proof (induction n rule: nat_text.induct)
  case (1 n)
  show ?case
  proof (cases "n < 10")
    case True
    then show ?thesis by (subst nat_text.simps) (simp add: digits_val_def)
  next
    case False
    then show ?thesis
      using 1 by (subst nat_text.simps) (simp add: digits_val_append)
  qed
qed

lemma nat_text_head: "nat_text n = c # r \<Longrightarrow> (c = CHR ''0'' \<longrightarrow> r = [] \<and> n = 0) \<and> is_digit c"
proof (induction n arbitrary: c r rule: nat_text.induct)
  case (1 n)
  show ?case
  proof (cases "n < 10")
    case True
    with "1.prems" have "c = char_of (48 + n)" "r = []"
      by (auto simp: nat_text.simps [of n])
    with True show ?thesis
      by (simp add: is_digit_char zero_char)
  next
    case False
    obtain c' r' where h: "nat_text (n div 10) = c' # r'"
      using nat_text_digits [of "n div 10"] by (cases "nat_text (n div 10)") auto
    with False "1.prems" have "c = c'" by (auto simp: nat_text.simps [of n])
    moreover from 1(1) [OF False h] have "(c' = CHR ''0'' \<longrightarrow> n div 10 = 0) \<and> is_digit c'" by blast
    ultimately show ?thesis using False by auto
  qed
qed

lemma takeWhile_all:
  "list_all P xs \<Longrightarrow> takeWhile P xs = xs"
  "list_all P xs \<Longrightarrow> dropWhile P xs = []"
  by (induction xs) auto

lemma p_number_nat_text: "p_number (nat_text n) = Some (nat_text n, [])"
proof -
  obtain c r where h: "nat_text n = c # r"
    using nat_text_digits [of n] by (cases "nat_text n") auto
  from nat_text_head [OF h] have c: "is_digit c" "c = CHR ''0'' \<Longrightarrow> r = []" by auto
  then have "c \<noteq> CHR ''-''" by (auto simp: is_digit_def less_eq_char_def)
  then show ?thesis
    using h c nat_text_digits [of n]
    by (auto simp: takeWhile_all p_number_def sign_of_def p_frac_def p_exp_def Let_def)
qed

lemma num_ok_int_text [simp]: "num_ok (int_text i)"
proof (cases "i < 0")
  case False
  then show ?thesis by (simp add: num_ok_def int_text_def p_number_nat_text)
next
  case True
  let ?t = "nat_text (nat (- i))"
  obtain c r where h: "?t = c # r"
    using nat_text_digits [of "nat (- i)"] by (cases ?t) auto
  from nat_text_head [OF h] have c: "is_digit c" "c \<noteq> CHR ''0''" using True by auto
  then show ?thesis
    using True h nat_text_digits [of "nat (- i)"]
    by (auto simp: takeWhile_all num_ok_def int_text_def p_number_def sign_of_def p_frac_def p_exp_def)
qed

lemma parse_int64_text:
  assumes "- (2 ^ 63) \<le> i" "i < 2 ^ 63"
  shows "parse_int64 (int_text i) = Some i"
proof (cases "i < 0")
  case True
  then show ?thesis
    using assms nat_text_digits [of "nat (- i)"]
    by (simp add: parse_int64_def int_text_def sign_of_def digits_val_nat_text Let_def)
next
  case False
  obtain c r where h: "nat_text (nat i) = c # r"
    using nat_text_digits [of "nat i"] by (cases "nat_text (nat i)") auto
  from nat_text_head [OF h] have "c \<noteq> CHR ''-''" "c \<noteq> CHR ''+''"
    by (auto simp: is_digit_def less_eq_char_def)
  then have "sign_of ''+-'' (nat_text (nat i)) = []" using h by (simp add: sign_of_def)
  then show ?thesis
    using assms False nat_text_digits [of "nat i"]
    by (simp add: parse_int64_def int_text_def digits_val_nat_text Let_def)
qed

lemma parse_int64_range: "parse_int64 s = Some v \<Longrightarrow> - (2 ^ 63) \<le> v \<and> v < 2 ^ 63"
  by (auto simp: parse_int64_def Let_def split: if_splits)

end
