(* ===== verification/Config.thy ===== *)
theory Config
  imports Json_Facts
begin

text \<open>
  internal/config/config.go (and the functions of relay/internal/config/config.go that have no
  twin there): the YAML configuration as records, the expansion of environment references, the
  defaults and the validation that Load runs before anything else sees a configuration.

  Reading the file and the YAML decoder (gopkg.in/yaml.v3) are parameters of \<open>Load\<close>.
  Durations are nanoseconds.
\<close>

section \<open>The configuration\<close>

record SASLConfig =
  sasl_Mechanism :: string
  sasl_Username :: string
  sasl_Password :: string

record TLSConfig =
  tls_Enabled :: bool
  tls_CACertPath :: string

record KafkaConfig =
  kc_Brokers :: "string list"
  kc_ConsumerGroup :: string
  kc_SASL :: SASLConfig
  kc_TLS :: TLSConfig

record S3Config =
  s3c_Endpoint :: string
  s3c_Region :: string
  s3c_AccessKey :: string
  s3c_SecretKey :: string
  s3c_Bucket :: string

record RedisConfig =
  rc_Addr :: string
  rc_Password :: string
  rc_DB :: int
  rc_JobTTLH :: int

record ServerConfig =
  srv_Addr :: string
  srv_ReadTimeout :: int
  srv_WriteTimeout :: int
  srv_IdleTimeout :: int
  srv_PriorityHeader :: string
  srv_ConsumerHeader :: string
  srv_UserTypeHeader :: string

record ServiceConfig =
  sc_Type :: string
  sc_Model :: string
  sc_Default :: bool
  sc_Operations :: "(string, string list) gomap"
  sc_InferenceURL :: string
  sc_InputTopic :: string
  sc_ResultTopic :: string
  sc_SyncTopic :: string
  sc_PriorityTopic :: string
  sc_AcceptedExts :: "string list"
  sc_MaxFileSizeMB :: int
  sc_SwaggerURL :: string
  sc_SwaggerHeaders :: "(string, string) gomap"
  sc_InferenceHeaders :: "(string, string) gomap"
  sc_BackendModel :: string
  sc_Provider :: string
  sc_ResponseCacheTTL :: int

record Config =
  cfg_Server :: ServerConfig
  cfg_Kafka :: KafkaConfig
  cfg_S3 :: S3Config
  cfg_Redis :: RedisConfig
  cfg_Services :: "ServiceConfig list"
  cfg_EncryptionKey :: string
  cfg_TopConsumers :: int
  cfg_ConsumerLabels :: bool

definition second :: int where
  "second = 1000000000"

section \<open>Environment references\<close>

text \<open>The environment: None for a variable that is not set.\<close>

type_synonym env = "string \<Rightarrow> string option"

definition os_getenv :: "env \<Rightarrow> string \<Rightarrow> string" where
  "os_getenv env k = (case env k of Some v \<Rightarrow> v | None \<Rightarrow> [])"

definition expandWithDefault :: "env \<Rightarrow> string \<Rightarrow> string" where
  "expandWithDefault env key =
     (case str_index key '':-'' of
        Some i \<Rightarrow>
          (let varName = take i key; defaultVal = drop (i + 2) key
           in (case env varName of
                 Some v \<Rightarrow> if v \<noteq> [] then v else defaultVal
               | None \<Rightarrow> defaultVal))
      | None \<Rightarrow> os_getenv env key)"

text \<open>
  os.Expand.  \<open>shell_name s\<close> is the name after a dollar sign and the number of bytes it takes;
  an empty name with a positive width is bad syntax, whose bytes are dropped.
\<close>

definition shell_special :: "char \<Rightarrow> bool" where
  "shell_special c \<longleftrightarrow> c \<in> set ''*#$@!?-'' \<or> is_digit c"

definition shell_alnum :: "char \<Rightarrow> bool" where
  "shell_alnum c \<longleftrightarrow> c = CHR ''_'' \<or> is_digit c \<or> (CHR ''a'' \<le> c \<and> c \<le> CHR ''z'') \<or> (CHR ''A'' \<le> c \<and> c \<le> CHR ''Z'')"

definition shell_name :: "string \<Rightarrow> string \<times> nat" where
  "shell_name s =
     (case s of
        [] \<Rightarrow> ([], 0)
      | c # r \<Rightarrow>
          if c = CHR ''{'' then
            (if 2 \<le> length r \<and> shell_special (r ! 0) \<and> r ! 1 = CHR ''}'' then ([r ! 0], 3)
             else (let name = takeWhile (\<lambda>x. x \<noteq> CHR ''}'') r
                   in if length name < length r
                      then (if name = [] then ([], 2) else (name, length name + 2))
                      else ([], 1)))
          else if shell_special c then ([c], 1)
          else (let name = takeWhile shell_alnum s in (name, length name)))"

function os_expand :: "(string \<Rightarrow> string) \<Rightarrow> string \<Rightarrow> string" where
  "os_expand f [] = []"
| "os_expand f (c # r) =
     (if c = CHR ''$'' \<and> r \<noteq> [] then
        (let (name, w) = shell_name r
         in (if name = [] then (if w > 0 then [] else [c]) else f name) @ os_expand f (drop w r))
      else c # os_expand f r)"
  by pat_completeness auto
termination
  by (relation "measure (\<lambda>(f, s). length s)") auto

declare os_expand.simps(2) [simp del]

section \<open>Defaults\<close>

definition service_defaults :: "ServiceConfig \<Rightarrow> ServiceConfig" where
  "service_defaults svc =
     (if sc_MaxFileSizeMB svc = 0 then svc\<lparr>sc_MaxFileSizeMB := 100\<rparr> else svc)"

definition server_defaults :: "ServerConfig \<Rightarrow> ServerConfig" where
  "server_defaults s =
     (let s1 = (if srv_Addr s = [] then s\<lparr>srv_Addr := '':8080''\<rparr> else s);
          s2 = (if srv_ReadTimeout s1 = 0 then s1\<lparr>srv_ReadTimeout := 120 * second\<rparr> else s1)
      in if srv_IdleTimeout s2 = 0 then s2\<lparr>srv_IdleTimeout := 120 * second\<rparr> else s2)"

definition applyDefaults :: "Config \<Rightarrow> Config" where
  "applyDefaults c =
     c\<lparr>cfg_Server := server_defaults (cfg_Server c),
       cfg_Kafka := (if kc_ConsumerGroup (cfg_Kafka c) = []
                     then (cfg_Kafka c)\<lparr>kc_ConsumerGroup := ''kevent-gateway''\<rparr> else cfg_Kafka c),
       cfg_Redis := (if rc_JobTTLH (cfg_Redis c) = 0
                     then (cfg_Redis c)\<lparr>rc_JobTTLH := 72\<rparr> else cfg_Redis c),
       cfg_Services := map service_defaults (cfg_Services c)\<rparr>"

section \<open>Validation\<close>

datatype config_error =
    MissingS3Endpoint | MissingS3Region | MissingS3Bucket | MissingRedisAddr | NoService
  | EmptyServiceType
  | TopicPair string
  | MissingBrokers
  | UnknownProvider string string
  | NegativeCacheTTL string

definition uses_kafka :: "ServiceConfig \<Rightarrow> bool" where
  "uses_kafka svc \<longleftrightarrow> sc_InputTopic svc \<noteq> [] \<or> sc_ResultTopic svc \<noteq> [] \<or>
     sc_SyncTopic svc \<noteq> [] \<or> sc_PriorityTopic svc \<noteq> []"

definition validProviders :: "string list" where
  "validProviders = [''openai'', ''anthropic'', ''ollama'', ''passthrough'']"

text \<open>The first loop over the services; it answers needsKafka.\<close>

fun validate_topics :: "bool \<Rightarrow> ServiceConfig list \<Rightarrow> config_error + bool" where
  "validate_topics needsKafka [] = Inr needsKafka"
| "validate_topics needsKafka (svc # svcs) =
     (if sc_Type svc = [] then Inl EmptyServiceType
      else if (sc_InputTopic svc = []) \<noteq> (sc_ResultTopic svc = []) then Inl (TopicPair (sc_Type svc))
      else validate_topics (needsKafka \<or> uses_kafka svc) svcs)"

fun validate_providers :: "ServiceConfig list \<Rightarrow> config_error + unit" where
  "validate_providers [] = Inr ()"
| "validate_providers (svc # svcs) =
     (if sc_Provider svc \<noteq> [] \<and> sc_Provider svc \<notin> set validProviders
        then Inl (UnknownProvider (sc_Type svc) (sc_Provider svc))
      else if sc_ResponseCacheTTL svc < 0 then Inl (NegativeCacheTTL (sc_Type svc))
      else validate_providers svcs)"

definition validate :: "Config \<Rightarrow> config_error + unit" where
  "validate c =
     (if s3c_Endpoint (cfg_S3 c) = [] then Inl MissingS3Endpoint
      else if s3c_Region (cfg_S3 c) = [] then Inl MissingS3Region
      else if s3c_Bucket (cfg_S3 c) = [] then Inl MissingS3Bucket
      else if rc_Addr (cfg_Redis c) = [] then Inl MissingRedisAddr
      else if cfg_Services c = [] then Inl NoService
      else (case validate_topics False (cfg_Services c) of
              Inl e \<Rightarrow> Inl e
            | Inr needsKafka \<Rightarrow>
                if needsKafka \<and> kc_Brokers (cfg_Kafka c) = [] then Inl MissingBrokers
                else validate_providers (cfg_Services c)))"

section \<open>Load\<close>

datatype load_error = ReadError | ParseError | InvalidConfig config_error

text \<open>\<open>file\<close> is what os.ReadFile returned, \<open>yaml\<close> the decoder.\<close>

definition Load :: "env \<Rightarrow> (string \<Rightarrow> Config option) \<Rightarrow> string option \<Rightarrow> load_error + Config" where
  "Load env yaml file =
     (case file of
        None \<Rightarrow> Inl ReadError
      | Some data \<Rightarrow>
          (case yaml (os_expand (expandWithDefault env) data) of
             None \<Rightarrow> Inl ParseError
           | Some cfg \<Rightarrow>
               (let cfg' = applyDefaults cfg
                in (case validate cfg' of
                      Inl e \<Rightarrow> Inl (InvalidConfig e)
                    | Inr _ \<Rightarrow> Inr cfg'))))"

section \<open>Facts\<close>

text \<open>What validation promises of one service.\<close>

definition service_valid :: "ServiceConfig \<Rightarrow> bool" where
  "service_valid svc \<longleftrightarrow> sc_Type svc \<noteq> [] \<and>
     (sc_InputTopic svc = [] \<longleftrightarrow> sc_ResultTopic svc = []) \<and>
     (sc_Provider svc = [] \<or> sc_Provider svc \<in> set validProviders) \<and> 0 \<le> sc_ResponseCacheTTL svc"

definition config_valid :: "Config \<Rightarrow> bool" where
  "config_valid c \<longleftrightarrow> s3c_Endpoint (cfg_S3 c) \<noteq> [] \<and> s3c_Region (cfg_S3 c) \<noteq> [] \<and>
     s3c_Bucket (cfg_S3 c) \<noteq> [] \<and> rc_Addr (cfg_Redis c) \<noteq> [] \<and> cfg_Services c \<noteq> [] \<and>
     (\<forall>svc \<in> set (cfg_Services c). service_valid svc) \<and>
     ((\<exists>svc \<in> set (cfg_Services c). uses_kafka svc) \<longrightarrow> kc_Brokers (cfg_Kafka c) \<noteq> [])"

lemma validate_topics_ok:
  "validate_topics b svcs = Inr k \<longleftrightarrow>
     (\<forall>svc \<in> set svcs. sc_Type svc \<noteq> [] \<and> (sc_InputTopic svc = [] \<longleftrightarrow> sc_ResultTopic svc = [])) \<and>
     (k \<longleftrightarrow> b \<or> (\<exists>svc \<in> set svcs. uses_kafka svc))"
  by (induction b svcs rule: validate_topics.induct) auto

lemma validate_providers_ok:
  "is_ok (validate_providers svcs) \<longleftrightarrow>
     (\<forall>svc \<in> set svcs. (sc_Provider svc = [] \<or> sc_Provider svc \<in> set validProviders) \<and> 0 \<le> sc_ResponseCacheTTL svc)"
  by (induction svcs) auto

lemma validate_iff: "is_ok (validate c) \<longleftrightarrow> config_valid c"
proof (cases "validate_topics False (cfg_Services c)")
  case (Inl e)
  then have "\<not> (\<forall>svc \<in> set (cfg_Services c). sc_Type svc \<noteq> [] \<and> (sc_InputTopic svc = [] \<longleftrightarrow> sc_ResultTopic svc = []))"
    using validate_topics_ok [of False "cfg_Services c"] by (metis Inl_Inr_False)
  then show ?thesis
    using Inl by (auto simp: validate_def config_valid_def service_valid_def)
next
  case (Inr k)
  then show ?thesis
    using Inr [unfolded validate_topics_ok] validate_providers_ok [of "cfg_Services c"]
    by (auto simp: validate_def config_valid_def service_valid_def)
qed

lemma service_defaults_size: "sc_MaxFileSizeMB (service_defaults svc) \<noteq> 0"
  by (simp add: service_defaults_def)

lemma service_defaults_idem: "service_defaults (service_defaults svc) = service_defaults svc"
  by (simp add: service_defaults_def)

lemma server_defaults_idem: "server_defaults (server_defaults s) = server_defaults s"
  by (simp add: server_defaults_def Let_def second_def)

lemma applyDefaults_idem: "applyDefaults (applyDefaults c) = applyDefaults c"
  by (simp add: applyDefaults_def server_defaults_idem service_defaults_idem)

lemma Load_cases:
  assumes "Load env yaml file = Inr cfg"
  shows "config_valid cfg"
    and "\<exists>data cfg0. file = Some data \<and> yaml (os_expand (expandWithDefault env) data) = Some cfg0 \<and> cfg = applyDefaults cfg0"
  using assms validate_iff
  by (auto simp: Load_def Let_def is_ok_iff split: option.splits sum.splits)

text \<open>Expansion of a reference in braces, and of text without a dollar sign.\<close>

lemma os_expand_plain: "CHR ''$'' \<notin> set pre \<Longrightarrow> os_expand f (pre @ s) = pre @ os_expand f s"
  by (induction pre) (auto simp: os_expand.simps(2))

lemma shell_name_brace:
  assumes "CHR ''}'' \<notin> set key" and "2 \<le> length key"
  shows "shell_name (CHR ''{'' # key @ CHR ''}'' # s) = (key, length key + 2)"
proof -
  obtain a b r where key: "key = a # b # r"
    using assms(2) by (cases key; cases "tl key") auto
  have "takeWhile (\<lambda>x. x \<noteq> CHR ''}'') (key @ CHR ''}'' # s) = key"
    using assms(1) by (simp add: takeWhile_append)
  then show ?thesis
    using assms(1) key by (auto simp: shell_name_def Let_def)
qed

lemma os_expand_brace:
  assumes "CHR ''}'' \<notin> set key" and "2 \<le> length key"
  shows "os_expand f (CHR ''$'' # CHR ''{'' # key @ CHR ''}'' # s) = f key @ os_expand f s"
  using shell_name_brace [OF assms, of s] assms(2)
  by (subst os_expand.simps(2)) (auto simp: Let_def)

text \<open>A key without a colon in the variable's name is cut at the first colon and dash.\<close>

lemma str_index_colon: "CHR '':'' \<notin> set var \<Longrightarrow> str_index (var @ '':-'' @ d) '':-'' = Some (length var)"
  by (induction var) (auto simp: has_prefix_def)

lemma str_index_no_colon: "CHR '':'' \<notin> set s \<Longrightarrow> str_index s '':-'' = None"
proof (induction s)
  case (Cons c cs)
  then show ?case by (cases cs) (auto simp: has_prefix_def)
qed simp

lemma expandWithDefault_with:
  assumes "CHR '':'' \<notin> set var"
  shows "expandWithDefault env (var @ '':-'' @ d) =
    (case env var of Some v \<Rightarrow> if v \<noteq> [] then v else d | None \<Rightarrow> d)"
proof -
  have "drop (length var + 2) (var @ '':-'' @ d) = d" by simp
  then show ?thesis
    using str_index_colon [OF assms, of d]
    by (simp add: expandWithDefault_def Let_def del: drop_append)
qed

lemma expandWithDefault_without:
  "CHR '':'' \<notin> set var \<Longrightarrow> expandWithDefault env var = os_getenv env var"
  by (simp add: expandWithDefault_def str_index_no_colon)

section \<open>Properties\<close>


definition demo_service :: ServiceConfig where
  "demo_service = \<lparr>sc_Type = ''audio'', sc_Model = ''whisper'', sc_Default = False,
     sc_Operations = [(''transcription'', [''/v1/audio/transcriptions''])], sc_InferenceURL = [],
     sc_InputTopic = ''jobs.whisper.input'', sc_ResultTopic = ''jobs.whisper.results'',
     sc_SyncTopic = [], sc_PriorityTopic = [], sc_AcceptedExts = [''.wav''], sc_MaxFileSizeMB = 0,
     sc_SwaggerURL = [], sc_SwaggerHeaders = [], sc_InferenceHeaders = [], sc_BackendModel = [],
     sc_Provider = [], sc_ResponseCacheTTL = 0\<rparr>"

definition demo_config :: Config where
  "demo_config = \<lparr>
     cfg_Server = \<lparr>srv_Addr = [], srv_ReadTimeout = 0, srv_WriteTimeout = 0, srv_IdleTimeout = 0,
       srv_PriorityHeader = [], srv_ConsumerHeader = [], srv_UserTypeHeader = []\<rparr>,
     cfg_Kafka = \<lparr>kc_Brokers = [''kafka:9092''], kc_ConsumerGroup = [],
       kc_SASL = \<lparr>sasl_Mechanism = [], sasl_Username = [], sasl_Password = []\<rparr>,
       kc_TLS = \<lparr>tls_Enabled = False, tls_CACertPath = []\<rparr>\<rparr>,
     cfg_S3 = \<lparr>s3c_Endpoint = ''e'', s3c_Region = ''r'', s3c_AccessKey = ''a'', s3c_SecretKey = ''s'',
       s3c_Bucket = ''b''\<rparr>,
     cfg_Redis = \<lparr>rc_Addr = ''redis:6379'', rc_Password = [], rc_DB = 0, rc_JobTTLH = 0\<rparr>,
     cfg_Services = [demo_service], cfg_EncryptionKey = [], cfg_TopConsumers = 0, cfg_ConsumerLabels = False\<rparr>"


text \<open>Environment references in the configuration text.  Text without a dollar sign is kept;
  a reference to a variable with a default is replaced by the variable's value when it is set and
  not empty and by the default otherwise; a plain reference is replaced by the variable's value,
  or by nothing when it is not set.\<close>

theorem expand_reference:
  assumes "CHR ''$'' \<notin> set pre" and "CHR ''}'' \<notin> set (var @ d)" and "CHR '':'' \<notin> set var" and "2 \<le> length var"
  shows "os_expand (expandWithDefault env) (pre @ ''${'' @ (var @ '':-'' @ d) @ ''}'' @ post) =
      pre @ (case env var of Some v \<Rightarrow> if v \<noteq> [] then v else d | None \<Rightarrow> d) @
      os_expand (expandWithDefault env) post \<and>
    os_expand (expandWithDefault env) (pre @ ''${'' @ var @ ''}'' @ post) =
      pre @ (case env var of Some v \<Rightarrow> v | None \<Rightarrow> []) @ os_expand (expandWithDefault env) post"
proof (rule conjI)
  have k: "CHR ''}'' \<notin> set (var @ '':-'' @ d)" "2 \<le> length (var @ '':-'' @ d)"
    using assms by auto
  show "os_expand (expandWithDefault env) (pre @ ''${'' @ (var @ '':-'' @ d) @ ''}'' @ post) =
      pre @ (case env var of Some v \<Rightarrow> if v \<noteq> [] then v else d | None \<Rightarrow> d) @
      os_expand (expandWithDefault env) post"
    using os_expand_brace [OF k, of "expandWithDefault env" post] expandWithDefault_with [OF assms(3), of env d]
    by (simp add: os_expand_plain [OF assms(1)])
  show "os_expand (expandWithDefault env) (pre @ ''${'' @ var @ ''}'' @ post) =
      pre @ (case env var of Some v \<Rightarrow> v | None \<Rightarrow> []) @ os_expand (expandWithDefault env) post"
    using os_expand_brace [of var "expandWithDefault env" post] assms
    by (simp add: os_expand_plain [OF assms(1)] expandWithDefault_without os_getenv_def)
qed

theorem expand_reference_witness:
  "os_expand (expandWithDefault [''PORT'' \<mapsto> ''81'']) (''a: '' @ ''${'' @ (''PORT'' @ '':-'' @ ''80'') @ ''}'' @ ''.'') = ''a: 81.''"
proof -
  have "os_expand (expandWithDefault [''PORT'' \<mapsto> ''81'']) ''.'' = ''.''"
    using os_expand_plain [of "''.''" _ "[]"] by simp
  then show ?thesis
    using expand_reference [of "''a: ''" "''PORT''" "''80''" "[''PORT'' \<mapsto> ''81'']" "''.''"] by simp
qed

end
