(* ===== verification/Registry.thy ===== *)
theory Registry
  imports Config
begin

text \<open>
  internal/service/registry.go: the registry NewRegistry builds from the configured services and
  the routing functions over it.  A Go map is an association list with distinct keys; iterating
  over one visits the entries in list order, and what the code must not let depend on that order
  is proved not to.  Service definitions are never written after their creation, so a pointer to
  one is its value; a pattern or wildcard entry that is written through its pointer is replaced in
  its list.
\<close>

section \<open>Service definitions\<close>

record Def =
  def_Type :: string
  def_Model :: string
  def_InputTopic :: string
  def_ResultTopic :: string
  def_AcceptedExts :: "(string, unit) gomap"
  def_MaxFileSizeMB :: int
  def_InferenceURL :: string
  def_Operations :: "(string, string list) gomap"
  def_SyncTopic :: string
  def_PriorityTopic :: string
  def_InferenceHeaders :: "(string, string) gomap"
  def_Provider :: string
  def_BackendModel :: string
  def_ResponseCacheTTL :: int

text \<open>The errors of the registry, each with what its message names.\<close>

datatype route_error =
    UnknownServiceType string
  | MultipleModels string "string list"
  | ModelNotFound string string "string list"
  | NoServiceForPath string string "string list"
  | PatternModelNotRegistered string string string "string list"
  | WildcardModelNotRegistered string string string "string list"
  | NoSyncService string
  | MultipleOperations string "string list"
  | OperationNotFound string string "string list"
  | OperationWithoutPath string string
  | ExtensionNotAccepted string string "string list"

definition OperationPath :: "Def \<Rightarrow> string \<Rightarrow> route_error + string" where
  "OperationPath d op =
     (if def_Operations d = [] then Inr []
      else if op = [] then
        (case gm_only (def_Operations d) of
           Some (p # _) \<Rightarrow> Inr p
         | _ \<Rightarrow> Inl (MultipleOperations (def_Model d) (gm_keys (def_Operations d))))
      else (case map_of (def_Operations d) op of
              None \<Rightarrow> Inl (OperationNotFound op (def_Model d) (gm_keys (def_Operations d)))
            | Some [] \<Rightarrow> Inl (OperationWithoutPath op (def_Model d))
            | Some (p # _) \<Rightarrow> Inr p))"

definition IsLLM :: "Def \<Rightarrow> bool" where
  "IsLLM d \<longleftrightarrow> def_Provider d \<noteq> []"

section \<open>Path patterns\<close>

definition model_ph :: string where
  "model_ph = ''{model}''"

record pathPattern =
  pp_pattern :: string
  pp_segments :: "string list"
  pp_defsByModel :: "(string, Def) gomap"

definition matchModelSegment :: "string \<Rightarrow> string \<Rightarrow> string option" where
  "matchModelSegment pattern actual =
     (let parts = split_n2 pattern model_ph; pre = parts ! 0; suf = parts ! 1
      in if \<not> has_prefix actual pre \<or> \<not> has_suffix actual suf then None
         else if length actual < length pre + length suf then None
         else Some (drop (length pre) (take (length actual - length suf) actual)))"

text \<open>The loop of match over the segments; \<open>model\<close> is the model extracted so far.\<close>

fun match_segs :: "string list \<Rightarrow> string list \<Rightarrow> string \<Rightarrow> string option" where
  "match_segs (p # ps) (u # us) model =
     (if str_contains p model_ph then
        (case matchModelSegment p u of
           None \<Rightarrow> None
         | Some m \<Rightarrow> if m = [] then None else match_segs ps us m)
      else if u \<noteq> p then None
      else match_segs ps us model)"
| "match_segs _ _ model = Some model"

definition pattern_match :: "pathPattern \<Rightarrow> string \<Rightarrow> string option" where
  "pattern_match p urlPath =
     (let urlSegs = split_on CHR ''/'' urlPath
      in if length urlSegs \<noteq> length (pp_segments p) then None
         else (case match_segs (pp_segments p) urlSegs [] of
                 None \<Rightarrow> None
               | Some m \<Rightarrow> if m = [] then None else Some m))"

section \<open>The registry\<close>

record wildcardRoute =
  wr_pattern :: string
  wr_prefix :: string
  wr_byModel :: "(string, Def) gomap"
  wr_deflt :: "Def option"

record Registry =
  byTypeModel :: "(string, (string, Def) gomap) gomap"
  defaultByType :: "(string, Def) gomap"
  bySync :: "(string, (string, Def) gomap) gomap"
  defaultByPath :: "(string, Def) gomap"
  byPattern :: "pathPattern list"
  byWildcard :: "wildcardRoute list"

definition empty_registry :: Registry where
  "empty_registry = \<lparr>byTypeModel = [], defaultByType = [], bySync = [], defaultByPath = [],
     byPattern = [], byWildcard = []\<rparr>"

text \<open>m[k1][k2] = v, with the inner map made on first use.\<close>

definition put2 :: "string \<Rightarrow> string \<Rightarrow> Def \<Rightarrow> (string, (string, Def) gomap) gomap \<Rightarrow> (string, (string, Def) gomap) gomap" where
  "put2 k1 k2 v m =
     AList.update k1 (AList.update k2 v (case map_of m k1 of None \<Rightarrow> [] | Some i \<Rightarrow> i)) m"

fun index_pattern_in :: "string \<Rightarrow> string \<Rightarrow> Def \<Rightarrow> pathPattern list \<Rightarrow> pathPattern list" where
  "index_pattern_in pat model d [] =
     [\<lparr>pp_pattern = pat, pp_segments = split_on CHR ''/'' pat, pp_defsByModel = [(model, d)]\<rparr>]"
| "index_pattern_in pat model d (p # ps) =
     (if pp_pattern p = pat
      then p\<lparr>pp_defsByModel := AList.update model d (pp_defsByModel p)\<rparr> # ps
      else p # index_pattern_in pat model d ps)"

definition indexPattern :: "string \<Rightarrow> string \<Rightarrow> Def \<Rightarrow> Registry \<Rightarrow> Registry" where
  "indexPattern pat model d r = r\<lparr>byPattern := index_pattern_in pat model d (byPattern r)\<rparr>"

fun index_wildcard_in :: "string \<Rightarrow> string \<Rightarrow> Def \<Rightarrow> bool \<Rightarrow> wildcardRoute list \<Rightarrow> wildcardRoute list" where
  "index_wildcard_in pat model d isDefault [] =
     [\<lparr>wr_pattern = pat, wr_prefix = trim_suffix pat ''*'', wr_byModel = [(model, d)],
       wr_deflt = (if isDefault then Some d else None)\<rparr>]"
| "index_wildcard_in pat model d isDefault (w # ws) =
     (if wr_pattern w = pat
      then w\<lparr>wr_byModel := AList.update model d (wr_byModel w),
             wr_deflt := (if isDefault then Some d else wr_deflt w)\<rparr> # ws
      else w # index_wildcard_in pat model d isDefault ws)"

definition indexWildcard :: "string \<Rightarrow> string \<Rightarrow> Def \<Rightarrow> bool \<Rightarrow> Registry \<Rightarrow> Registry" where
  "indexWildcard pat model d isDefault r =
     r\<lparr>byWildcard := index_wildcard_in pat model d isDefault (byWildcard r)\<rparr>"

definition newDef :: "ServiceConfig \<Rightarrow> Def" where
  "newDef cfg = \<lparr>
     def_Type = sc_Type cfg, def_Model = sc_Model cfg,
     def_InputTopic = sc_InputTopic cfg, def_ResultTopic = sc_ResultTopic cfg,
     def_AcceptedExts = foldl (\<lambda>m e. AList.update (to_lower e) () m) [] (sc_AcceptedExts cfg),
     def_MaxFileSizeMB = sc_MaxFileSizeMB cfg,
     def_InferenceURL = sc_InferenceURL cfg, def_Operations = sc_Operations cfg,
     def_SyncTopic = sc_SyncTopic cfg, def_PriorityTopic = sc_PriorityTopic cfg,
     def_InferenceHeaders = sc_InferenceHeaders cfg, def_Provider = sc_Provider cfg,
     def_BackendModel = sc_BackendModel cfg,
     def_ResponseCacheTTL = i64 (sc_ResponseCacheTTL cfg * second)\<rparr>"

text \<open>One path of one operation of a service.\<close>

definition index_path :: "ServiceConfig \<Rightarrow> Registry \<Rightarrow> string \<Rightarrow> Registry" where
  "index_path cfg r path =
     (let d = newDef cfg
      in if path = [] then r
         else if str_contains path model_ph then indexPattern path (sc_Model cfg) d r
         else if has_suffix path ''/*'' then indexWildcard path (sc_Model cfg) d (sc_Default cfg) r
         else (let r1 = r\<lparr>bySync := put2 path (sc_Model cfg) d (bySync r)\<rparr>
               in if sc_Default cfg then r1\<lparr>defaultByPath := AList.update path d (defaultByPath r1)\<rparr> else r1))"

definition sync_indexed :: "ServiceConfig \<Rightarrow> bool" where
  "sync_indexed cfg \<longleftrightarrow> sc_Model cfg \<noteq> [] \<and> (sc_InferenceURL cfg \<noteq> [] \<or> sc_SyncTopic cfg \<noteq> [])"

definition config_paths :: "ServiceConfig \<Rightarrow> string list" where
  "config_paths cfg = concat (map snd (sc_Operations cfg))"

definition register :: "Registry \<Rightarrow> ServiceConfig \<Rightarrow> Registry" where
  "register r cfg =
     (let d = newDef cfg;
          r1 = r\<lparr>byTypeModel := put2 (sc_Type cfg) (sc_Model cfg) d (byTypeModel r)\<rparr>;
          r2 = (if sc_Default cfg
                then r1\<lparr>defaultByType := AList.update (sc_Type cfg) d (defaultByType r1)\<rparr> else r1)
      in if sync_indexed cfg then foldl (index_path cfg) r2 (config_paths cfg) else r2)"

definition NewRegistry :: "ServiceConfig list \<Rightarrow> Registry" where
  "NewRegistry cfgs = foldl register empty_registry cfgs"

section \<open>Routing\<close>

definition RouteAsync :: "Registry \<Rightarrow> string \<Rightarrow> string \<Rightarrow> route_error + Def" where
  "RouteAsync r serviceType model =
     (case map_of (byTypeModel r) serviceType of
        None \<Rightarrow> Inl (UnknownServiceType serviceType)
      | Some models \<Rightarrow>
          if model = [] then
            (case gm_only models of
               Some d \<Rightarrow> Inr d
             | None \<Rightarrow>
                 (case map_of (defaultByType r) serviceType of
                    Some d \<Rightarrow> Inr d
                  | None \<Rightarrow> Inl (MultipleModels serviceType (gm_keys models))))
          else (case map_of models model of
                  None \<Rightarrow> Inl (ModelNotFound model serviceType (gm_keys models))
                | Some d \<Rightarrow> Inr d))"

fun route_patterns :: "pathPattern list \<Rightarrow> string \<Rightarrow> (route_error + Def) option" where
  "route_patterns [] path = None"
| "route_patterns (p # ps) path =
     (case pattern_match p path of
        None \<Rightarrow> route_patterns ps path
      | Some extracted \<Rightarrow>
          (case map_of (pp_defsByModel p) extracted of
             Some d \<Rightarrow> Some (Inr d)
           | None \<Rightarrow> Some (Inl (PatternModelNotRegistered path (pp_pattern p) extracted (gm_keys (pp_defsByModel p))))))"

fun route_wildcards :: "wildcardRoute list \<Rightarrow> string \<Rightarrow> string \<Rightarrow> (route_error + Def) option" where
  "route_wildcards [] path model = None"
| "route_wildcards (w # ws) path model =
     (if \<not> has_prefix path (wr_prefix w) then route_wildcards ws path model
      else (case map_of (wr_byModel w) model of
              Some d \<Rightarrow> Some (Inr d)
            | None \<Rightarrow>
                (case (if model = [] then (case gm_only (wr_byModel w) of Some d \<Rightarrow> Some d | None \<Rightarrow> wr_deflt w) else None) of
                   Some d \<Rightarrow> Some (Inr d)
                 | None \<Rightarrow> Some (Inl (WildcardModelNotRegistered path (wr_pattern w) model (gm_keys (wr_byModel w)))))))"

definition RouteSync :: "Registry \<Rightarrow> string \<Rightarrow> string \<Rightarrow> route_error + Def" where
  "RouteSync r path model =
     (case map_of (bySync r) path of
        Some models \<Rightarrow>
          (case map_of models model of
             Some d \<Rightarrow> Inr d
           | None \<Rightarrow>
               (case (if model = [] then (case gm_only models of Some d \<Rightarrow> Some d | None \<Rightarrow> map_of (defaultByPath r) path) else None) of
                  Some d \<Rightarrow> Inr d
                | None \<Rightarrow> Inl (NoServiceForPath path model (gm_keys models))))
      | None \<Rightarrow>
          (case route_patterns (byPattern r) path of
             Some res \<Rightarrow> res
           | None \<Rightarrow>
               (case route_wildcards (byWildcard r) path model of
                  Some res \<Rightarrow> res
                | None \<Rightarrow> Inl (NoSyncService path))))"

section \<open>Queries\<close>

definition HasSyncServices :: "Registry \<Rightarrow> bool" where
  "HasSyncServices r \<longleftrightarrow> length (bySync r) > 0 \<or> length (byPattern r) > 0 \<or> length (byWildcard r) > 0"

definition SyncPaths :: "Registry \<Rightarrow> string list" where
  "SyncPaths r = gm_keys (bySync r) @ map pp_pattern (byPattern r) @ map wr_pattern (byWildcard r)"

definition pathPrefix :: "string \<Rightarrow> string" where
  "pathPrefix path = CHR ''/'' # hd (split_n2 (trim_prefix path ''/'') ''/'')"

definition SyncPathPrefixes :: "Registry \<Rightarrow> string list" where
  "SyncPathPrefixes r = gm_keys (foldl (\<lambda>seen p. AList.update (pathPrefix p) () seen) [] (SyncPaths r))"

definition max_size :: "(string, Def) gomap \<Rightarrow> int" where
  "max_size models =
     foldl (\<lambda>m kd. if def_MaxFileSizeMB (snd kd) > m then def_MaxFileSizeMB (snd kd) else m) 0 models"

definition MaxFileSizeForType :: "Registry \<Rightarrow> string \<Rightarrow> route_error + int" where
  "MaxFileSizeForType r serviceType =
     (case map_of (byTypeModel r) serviceType of
        None \<Rightarrow> Inl (UnknownServiceType serviceType)
      | Some models \<Rightarrow> Inr (max_size models))"

text \<open>filepath.Ext: from the last dot of the last path element on.\<close>

definition file_ext :: "string \<Rightarrow> string" where
  "file_ext s =
     (let t = takeWhile (\<lambda>c. c \<noteq> CHR ''/'') (rev s); e = takeWhile (\<lambda>c. c \<noteq> CHR ''.'') t
      in if length e < length t then CHR ''.'' # rev e else [])"

definition ValidateFileDef :: "Def \<Rightarrow> string \<Rightarrow> route_error + unit" where
  "ValidateFileDef d filename =
     (if def_AcceptedExts d = [] then Inr ()
      else (let ext = to_lower (file_ext filename)
            in if map_of (def_AcceptedExts d) ext = None
               then Inl (ExtensionNotAccepted ext (def_Model d) (gm_keys (def_AcceptedExts d)))
               else Inr ()))"

definition Types :: "Registry \<Rightarrow> string list" where
  "Types r = gm_keys (byTypeModel r)"

definition AllDefs :: "Registry \<Rightarrow> Def list" where
  "AllDefs r = concat (map (\<lambda>tm. map snd (snd tm)) (byTypeModel r))"

definition Models :: "Registry \<Rightarrow> Def list" where
  "Models r = filter (\<lambda>d. def_Model d \<noteq> []) (AllDefs r)"

definition HasKafkaServices :: "Registry \<Rightarrow> bool" where
  "HasKafkaServices r \<longleftrightarrow> list_ex (\<lambda>d. def_InputTopic d \<noteq> [] \<or> def_ResultTopic d \<noteq> [] \<or>
     def_SyncTopic d \<noteq> [] \<or> def_PriorityTopic d \<noteq> []) (AllDefs r)"

definition KafkaServices :: "Registry \<Rightarrow> Def list" where
  "KafkaServices r = filter (\<lambda>d. def_ResultTopic d \<noteq> []) (AllDefs r)"

end
