(* ===== verification/Registry_Facts.thy ===== *)
theory Registry_Facts
  imports Registry
begin

text \<open>
  What NewRegistry puts into the registry, stated over the list of configurations alone, and what
  the routing functions answer from it.
\<close>

section \<open>Two-level maps\<close>

definition lookup2 :: "('a, ('b, 'c) gomap) gomap \<Rightarrow> 'a \<Rightarrow> 'b \<Rightarrow> 'c option" where
  "lookup2 m k1 k2 = (case map_of m k1 of None \<Rightarrow> None | Some i \<Rightarrow> map_of i k2)"

definition wf2 :: "('a, ('b, 'c) gomap) gomap \<Rightarrow> bool" where
  "wf2 m \<longleftrightarrow> gm_wf m \<and> (\<forall>k i. map_of m k = Some i \<longrightarrow> gm_wf i \<and> i \<noteq> [])"

lemma lookup2_put2 [simp, go_maps]:
  "lookup2 (put2 a b v m) x y = (if x = a \<and> y = b then Some v else lookup2 m x y)"
  by (auto simp: lookup2_def put2_def split: option.splits)

lemma map_of_put2:
  "map_of (put2 a b v m) x =
    (if x = a then Some (AList.update b v (case map_of m a of None \<Rightarrow> [] | Some i \<Rightarrow> i)) else map_of m x)"
  by (simp add: put2_def)

lemma wf2_Nil [simp]: "wf2 []"
  by (simp add: wf2_def)

lemma wf2_put2 [simp]: "wf2 m \<Longrightarrow> wf2 (put2 a b v m)"
  by (auto simp: wf2_def put2_def split: option.splits)

lemma wf2_mem:
  assumes "wf2 m" and "(k, i) \<in> set m" and "(k', v) \<in> set i"
  shows "lookup2 m k k' = Some v"
  using assms by (auto simp: wf2_def lookup2_def gm_wf_def)

section \<open>What one configuration adds\<close>

lemma index_path_frame [simp, frame]:
  "byTypeModel (index_path cfg r p) = byTypeModel r"
  "defaultByType (index_path cfg r p) = defaultByType r"
  by (simp_all add: index_path_def Let_def indexPattern_def indexWildcard_def)

lemma index_paths_frame [simp, frame]:
  "byTypeModel (foldl (index_path cfg) r ps) = byTypeModel r"
  "defaultByType (foldl (index_path cfg) r ps) = defaultByType r"
  by (induction ps arbitrary: r) simp_all

lemma register_byTypeModel [simp]:
  "byTypeModel (register r cfg) = put2 (sc_Type cfg) (sc_Model cfg) (newDef cfg) (byTypeModel r)"
  by (simp add: register_def Let_def)

lemma register_defaultByType [simp]:
  "defaultByType (register r cfg) =
    (if sc_Default cfg then AList.update (sc_Type cfg) (newDef cfg) (defaultByType r) else defaultByType r)"
  by (simp add: register_def Let_def)

lemma newDef_simps [simp]:
  "def_Type (newDef c) = sc_Type c" "def_Model (newDef c) = sc_Model c"
  "def_InputTopic (newDef c) = sc_InputTopic c" "def_ResultTopic (newDef c) = sc_ResultTopic c"
  "def_SyncTopic (newDef c) = sc_SyncTopic c" "def_PriorityTopic (newDef c) = sc_PriorityTopic c"
  "def_MaxFileSizeMB (newDef c) = sc_MaxFileSizeMB c" "def_Operations (newDef c) = sc_Operations c"
  "def_InferenceURL (newDef c) = sc_InferenceURL c" "def_Provider (newDef c) = sc_Provider c"
  "def_BackendModel (newDef c) = sc_BackendModel c" "def_InferenceHeaders (newDef c) = sc_InferenceHeaders c"
  by (simp_all add: newDef_def)

lemma NewRegistry_snoc: "NewRegistry (cfgs @ [c]) = register (NewRegistry cfgs) c"
  by (simp add: NewRegistry_def)

lemma NewRegistry_Nil: "NewRegistry [] = empty_registry"
  by (simp add: NewRegistry_def)

section \<open>The asynchronous index\<close>

definition last_cfg :: "(ServiceConfig \<Rightarrow> bool) \<Rightarrow> ServiceConfig list \<Rightarrow> ServiceConfig option" where
  "last_cfg P cfgs = find P (rev cfgs)"

lemma last_cfg_simps [simp]:
  "last_cfg P [] = None"
  "last_cfg P (cfgs @ [c]) = (if P c then Some c else last_cfg P cfgs)"
  by (simp_all add: last_cfg_def)

lemma last_cfg_Some: "last_cfg P cfgs = Some c \<Longrightarrow> c \<in> set cfgs \<and> P c"
  by (auto simp: last_cfg_def find_Some_iff) (metis length_rev nth_mem set_rev)

lemma last_cfg_None: "last_cfg P cfgs = None \<longleftrightarrow> (\<forall>c \<in> set cfgs. \<not> P c)"
  by (auto simp: last_cfg_def find_None_iff)

lemma wf2_byTypeModel: "wf2 (byTypeModel (NewRegistry cfgs))"
  by (induction cfgs rule: rev_induct) (simp_all add: NewRegistry_Nil NewRegistry_snoc empty_registry_def)

lemma lookup_byTypeModel:
  "lookup2 (byTypeModel (NewRegistry cfgs)) t m =
    map_option newDef (last_cfg (\<lambda>c. sc_Type c = t \<and> sc_Model c = m) cfgs)"
  by (induction cfgs rule: rev_induct)
    (simp_all add: NewRegistry_Nil NewRegistry_snoc empty_registry_def lookup2_def [of "[]"])

lemma lookup_defaultByType:
  "map_of (defaultByType (NewRegistry cfgs)) t =
    map_option newDef (last_cfg (\<lambda>c. sc_Type c = t \<and> sc_Default c) cfgs)"
  by (induction cfgs rule: rev_induct)
    (simp_all add: NewRegistry_Nil NewRegistry_snoc empty_registry_def)

lemma byTypeModel_None:
  "map_of (byTypeModel (NewRegistry cfgs)) t = None \<longleftrightarrow> (\<forall>c \<in> set cfgs. sc_Type c \<noteq> t)"
  by (induction cfgs rule: rev_induct)
    (auto simp: NewRegistry_Nil NewRegistry_snoc empty_registry_def map_of_put2)

text \<open>
  A two-level index that holds, under k and m, the last configuration that satisfies P and has the
  model m.
\<close>

definition index_of :: "(string, (string, Def) gomap) gomap \<Rightarrow> string \<Rightarrow> (ServiceConfig \<Rightarrow> bool) \<Rightarrow> ServiceConfig list \<Rightarrow> bool" where
  "index_of M k P cfgs \<longleftrightarrow> wf2 M \<and>
     (\<forall>m. lookup2 M k m = map_option newDef (last_cfg (\<lambda>c. P c \<and> sc_Model c = m) cfgs))"

lemma index_of_keys:
  assumes "index_of M k P cfgs" and "map_of M k = Some models"
  shows "set (gm_keys models) = sc_Model ` {c \<in> set cfgs. P c}"
proof -
  have "m \<in> set (gm_keys models) \<longleftrightarrow> lookup2 M k m \<noteq> None" for m
    using assms by (simp add: lookup2_def map_of_eq_None_iff)
  also have "\<dots> m \<longleftrightarrow> m \<in> sc_Model ` {c \<in> set cfgs. P c}" for m
    using assms(1) by (auto simp: index_of_def last_cfg_None)
  finally show ?thesis by blast
qed

lemma index_of_entry:
  assumes "index_of M k P cfgs" and "map_of M k = Some models" and "(m, d) \<in> set models"
  shows "\<exists>c \<in> set cfgs. d = newDef c \<and> P c \<and> sc_Model c = m"
proof -
  have "wf2 M" using assms(1) by (simp add: index_of_def)
  then have "gm_wf models" using assms(2) by (auto simp: wf2_def)
  then have "lookup2 M k m = Some d"
    using assms(2,3) by (simp add: lookup2_def map_of_wf_iff)
  then show ?thesis
    using assms(1) by (auto simp: index_of_def dest: last_cfg_Some)
qed

text \<open>A map with one entry: every configuration indexed there has the same model.\<close>

lemma index_of_only:
  assumes ix: "index_of M k P cfgs" and m: "map_of M k = Some models"
  shows "gm_only models =
    (if \<exists>m. \<forall>c \<in> set cfgs. P c \<longrightarrow> sc_Model c = m
     then map_option newDef (last_cfg P cfgs) else None)"
proof (cases "\<exists>m. \<forall>c \<in> set cfgs. P c \<longrightarrow> sc_Model c = m")
  case True
  then obtain mo where mo: "\<forall>c \<in> set cfgs. P c \<longrightarrow> sc_Model c = mo" by blast
  have wf: "gm_wf models" "models \<noteq> []"
    using ix m by (auto simp: wf2_def index_of_def)
  have sub: "set (gm_keys models) \<subseteq> {mo}"
    using index_of_keys [OF ix m] mo by auto
  then have "length models = Suc 0"
    using wf by (cases models; cases "tl models") (auto simp: gm_wf_def)
  then obtain k' v where kv: "models = [(k', v)]"
    using gm_single_length wf(1) by blast
  then have "lookup2 M k mo = Some v"
    using m sub by (simp add: lookup2_def)
  moreover have "last_cfg (\<lambda>c. P c \<and> sc_Model c = mo) cfgs = last_cfg P cfgs"
    unfolding last_cfg_def using mo by (intro find_cong) auto
  ultimately show ?thesis
    using True kv ix by (auto simp: index_of_def)
next
  case False
  then have "gm_only models \<noteq> Some v" for v
    using index_of_keys [OF ix m] by (fastforce simp: gm_only_Some)
  then show ?thesis using False by (metis not_None_eq)
qed

text \<open>
  The choice among the configurations that satisfy P: the last one with the requested model;
  without a model, the last one if they all have the same model, else the last one marked default.
\<close>

definition pick :: "(ServiceConfig \<Rightarrow> bool) \<Rightarrow> ServiceConfig list \<Rightarrow> string \<Rightarrow> ServiceConfig option" where
  "pick P cfgs m =
     (if m \<noteq> [] then last_cfg (\<lambda>c. P c \<and> sc_Model c = m) cfgs
      else if \<forall>c \<in> set cfgs. \<forall>c' \<in> set cfgs. P c \<longrightarrow> P c' \<longrightarrow> sc_Model c = sc_Model c'
        then last_cfg P cfgs
      else last_cfg (\<lambda>c. P c \<and> sc_Default c) cfgs)"

lemma pick_Some: "pick P cfgs m = Some c \<Longrightarrow> c \<in> set cfgs \<and> P c \<and> (m = [] \<or> sc_Model c = m)"
  by (auto simp: pick_def split: if_splits dest: last_cfg_Some)

lemma pick_None: "\<forall>c \<in> set cfgs. \<not> P c \<Longrightarrow> pick P cfgs m = None"
  by (auto simp: pick_def last_cfg_None)

lemma pick_index:
  assumes ix: "index_of M k P cfgs" and m: "map_of M k = Some models"
    and D: "D = map_option newDef (last_cfg (\<lambda>c. P c \<and> sc_Default c) cfgs)"
  shows "(if m = [] then (case gm_only models of Some d \<Rightarrow> Some d | None \<Rightarrow> D) else map_of models m) =
    map_option newDef (pick P cfgs m)"
proof (cases "m = []")
  case False
  have "map_of models m = map_option newDef (last_cfg (\<lambda>c. P c \<and> sc_Model c = m) cfgs)"
    using ix m by (simp add: index_of_def lookup2_def)
  with False show ?thesis by (simp add: pick_def)
next
  case True
  have "models \<noteq> []" using ix m by (auto simp: index_of_def wf2_def)
  then obtain k' v where "(k', v) \<in> set models" by (cases models) auto
  then have ne: "last_cfg P cfgs \<noteq> None"
    using index_of_entry [OF ix m] by (auto simp: last_cfg_None)
  show ?thesis
  proof (cases "\<exists>mo. \<forall>c \<in> set cfgs. P c \<longrightarrow> sc_Model c = mo")
    case one: True
    then have all: "\<forall>c \<in> set cfgs. \<forall>c' \<in> set cfgs. P c \<longrightarrow> P c' \<longrightarrow> sc_Model c = sc_Model c'"
      by auto
    have "gm_only models = map_option newDef (last_cfg P cfgs)"
      using index_of_only [OF ix m] by (simp only: if_P [OF one])
    then obtain c where "gm_only models = Some (newDef c)" "last_cfg P cfgs = Some c"
      using ne by (cases "last_cfg P cfgs") simp_all
    then show ?thesis
      using True unfolding pick_def by (simp only: if_P [OF all]) simp
  next
    case many: False
    then have all: "\<not> (\<forall>c \<in> set cfgs. \<forall>c' \<in> set cfgs. P c \<longrightarrow> P c' \<longrightarrow> sc_Model c = sc_Model c')"
      by metis
    have "gm_only models = None"
      using index_of_only [OF ix m] by (simp only: if_not_P [OF many])
    then show ?thesis
      using True unfolding pick_def D by (simp only: if_not_P [OF all]) simp
  qed
qed

definition ok_of :: "'e + 'a \<Rightarrow> 'a option" where
  "ok_of r = (case r of Inl _ \<Rightarrow> None | Inr a \<Rightarrow> Some a)"

lemma ok_of_simps [simp]: "ok_of (Inl e) = None" "ok_of (Inr a) = Some a"
  by (simp_all add: ok_of_def)

lemma ok_of_Some [simp]: "ok_of r = Some a \<longleftrightarrow> r = Inr a"
  by (cases r) auto

text \<open>
  The answer of RouteAsync, as a function of the configurations.
\<close>

definition async_spec :: "ServiceConfig list \<Rightarrow> string \<Rightarrow> string \<Rightarrow> ServiceConfig option" where
  "async_spec cfgs t m = pick (\<lambda>c. sc_Type c = t) cfgs m"

lemma byTypeModel_index: "index_of (byTypeModel (NewRegistry cfgs)) t (\<lambda>c. sc_Type c = t) cfgs"
  by (simp add: index_of_def wf2_byTypeModel lookup_byTypeModel)

lemma RouteAsync_ok_of: "ok_of (RouteAsync (NewRegistry cfgs) t m) = map_option newDef (async_spec cfgs t m)"
proof (cases "map_of (byTypeModel (NewRegistry cfgs)) t")
  case None
  then have "pick (\<lambda>c. sc_Type c = t) cfgs m = None"
    by (simp add: byTypeModel_None pick_None)
  then show ?thesis
    using None by (simp add: RouteAsync_def async_spec_def)
next
  case (Some models)
  have "ok_of (RouteAsync (NewRegistry cfgs) t m) =
      (if m = [] then (case gm_only models of Some d \<Rightarrow> Some d | None \<Rightarrow> map_of (defaultByType (NewRegistry cfgs)) t)
       else map_of models m)"
    using Some by (simp add: RouteAsync_def split: option.split)
  then show ?thesis
    using pick_index [OF byTypeModel_index Some lookup_defaultByType] by (simp add: async_spec_def)
qed

section \<open>The synchronous index\<close>

abbreviation exact_path :: "string \<Rightarrow> bool" where
  "exact_path p \<equiv> p \<noteq> [] \<and> \<not> str_contains p model_ph \<and> \<not> has_suffix p ''/*''"

definition serves :: "ServiceConfig list \<Rightarrow> string \<Rightarrow> Def \<Rightarrow> bool" where
  "serves cfgs key d \<longleftrightarrow> (\<exists>c \<in> set cfgs. sync_indexed c \<and> d = newDef c \<and> key \<in> set (config_paths c))"

lemma index_path_bySync:
  "bySync (index_path cfg r p) =
    (if exact_path p then put2 p (sc_Model cfg) (newDef cfg) (bySync r) else bySync r)"
  "defaultByPath (index_path cfg r p) =
    (if exact_path p \<and> sc_Default cfg then AList.update p (newDef cfg) (defaultByPath r) else defaultByPath r)"
  by (simp_all add: index_path_def Let_def indexPattern_def indexWildcard_def)

lemma index_path_byPattern:
  "byPattern (index_path cfg r p) =
    (if p \<noteq> [] \<and> str_contains p model_ph then index_pattern_in p (sc_Model cfg) (newDef cfg) (byPattern r)
     else byPattern r)"
  "byWildcard (index_path cfg r p) =
    (if p \<noteq> [] \<and> \<not> str_contains p model_ph \<and> has_suffix p ''/*''
     then index_wildcard_in p (sc_Model cfg) (newDef cfg) (sc_Default cfg) (byWildcard r) else byWildcard r)"
  by (simp_all add: index_path_def Let_def indexPattern_def indexWildcard_def)

lemma index_paths_bySync:
  "lookup2 (bySync (foldl (index_path cfg) r ps)) p m =
    (if p \<in> set ps \<and> exact_path p \<and> sc_Model cfg = m then Some (newDef cfg) else lookup2 (bySync r) p m)"
  by (induction ps arbitrary: r) (auto simp: index_path_bySync)

lemma index_paths_defaultByPath:
  "map_of (defaultByPath (foldl (index_path cfg) r ps)) p =
    (if p \<in> set ps \<and> exact_path p \<and> sc_Default cfg then Some (newDef cfg) else map_of (defaultByPath r) p)"
  by (induction ps arbitrary: r) (auto simp: index_path_bySync)

lemma index_paths_wf2: "wf2 (bySync r) \<Longrightarrow> wf2 (bySync (foldl (index_path cfg) r ps))"
  by (induction ps arbitrary: r) (auto simp: index_path_bySync)

definition base_register :: "Registry \<Rightarrow> ServiceConfig \<Rightarrow> Registry" where
  "base_register r cfg = (let r1 = r\<lparr>byTypeModel := put2 (sc_Type cfg) (sc_Model cfg) (newDef cfg) (byTypeModel r)\<rparr>
     in if sc_Default cfg
        then r1\<lparr>defaultByType := AList.update (sc_Type cfg) (newDef cfg) (defaultByType r1)\<rparr> else r1)"

lemma base_register_frame [simp]:
  "bySync (base_register r cfg) = bySync r" "defaultByPath (base_register r cfg) = defaultByPath r"
  "byPattern (base_register r cfg) = byPattern r" "byWildcard (base_register r cfg) = byWildcard r"
  by (simp_all add: base_register_def Let_def)

lemma register_paths:
  "register r cfg =
    (if sync_indexed cfg then foldl (index_path cfg) (base_register r cfg) (config_paths cfg) else base_register r cfg)"
  by (simp add: register_def base_register_def Let_def)

lemma lookup_bySync:
  "lookup2 (bySync (NewRegistry cfgs)) p m = map_option newDef
    (last_cfg (\<lambda>c. sync_indexed c \<and> p \<in> set (config_paths c) \<and> exact_path p \<and> sc_Model c = m) cfgs)"
  by (induction cfgs rule: rev_induct)
    (auto simp: NewRegistry_Nil NewRegistry_snoc empty_registry_def lookup2_def [of "[]"] register_paths
      index_paths_bySync)

lemma lookup_defaultByPath:
  "map_of (defaultByPath (NewRegistry cfgs)) p = map_option newDef
    (last_cfg (\<lambda>c. sync_indexed c \<and> p \<in> set (config_paths c) \<and> exact_path p \<and> sc_Default c) cfgs)"
  by (induction cfgs rule: rev_induct)
    (auto simp: NewRegistry_Nil NewRegistry_snoc empty_registry_def register_paths index_paths_defaultByPath)

lemma wf2_bySync: "wf2 (bySync (NewRegistry cfgs))"
  by (induction cfgs rule: rev_induct)
    (simp_all add: NewRegistry_Nil NewRegistry_snoc empty_registry_def register_paths index_paths_wf2)

text \<open>The entries of the pattern and wildcard lists.\<close>

definition pattern_ok :: "ServiceConfig list \<Rightarrow> pathPattern \<Rightarrow> bool" where
  "pattern_ok cfgs p \<longleftrightarrow> pp_segments p = split_on CHR ''/'' (pp_pattern p) \<and>
     str_contains (pp_pattern p) model_ph \<and>
     (\<forall>m d. map_of (pp_defsByModel p) m = Some d \<longrightarrow> serves cfgs (pp_pattern p) d \<and> def_Model d = m)"

definition wildcard_ok :: "ServiceConfig list \<Rightarrow> wildcardRoute \<Rightarrow> bool" where
  "wildcard_ok cfgs w \<longleftrightarrow> wr_prefix w = trim_suffix (wr_pattern w) ''*'' \<and> has_suffix (wr_pattern w) ''/*'' \<and>
     \<not> str_contains (wr_pattern w) model_ph \<and> gm_wf (wr_byModel w) \<and>
     (\<forall>m d. map_of (wr_byModel w) m = Some d \<longrightarrow> serves cfgs (wr_pattern w) d \<and> def_Model d = m) \<and>
     (\<forall>d. wr_deflt w = Some d \<longrightarrow> serves cfgs (wr_pattern w) d)"

lemma serves_mono: "serves cfgs k d \<Longrightarrow> serves (cfgs @ cs) k d"
  by (auto simp: serves_def)

lemma pattern_ok_mono: "pattern_ok cfgs p \<Longrightarrow> pattern_ok (cfgs @ cs) p"
  by (auto simp: pattern_ok_def serves_mono)

lemma wildcard_ok_mono: "wildcard_ok cfgs w \<Longrightarrow> wildcard_ok (cfgs @ cs) w"
  by (auto simp: wildcard_ok_def serves_mono)

lemma index_pattern_in_ok:
  assumes "\<forall>p \<in> set ps. pattern_ok cfgs p" and "serves cfgs pat d" and "def_Model d = m"
    and "str_contains pat model_ph"
  shows "\<forall>p \<in> set (index_pattern_in pat m d ps). pattern_ok cfgs p"
  using assms
  by (induction pat m d ps rule: index_pattern_in.induct) (auto simp: pattern_ok_def split: if_splits)

lemma index_wildcard_in_ok:
  assumes "\<forall>w \<in> set ws. wildcard_ok cfgs w" and "serves cfgs pat d" and "def_Model d = m"
    and "has_suffix pat ''/*''" and "\<not> str_contains pat model_ph"
  shows "\<forall>w \<in> set (index_wildcard_in pat m d df ws). wildcard_ok cfgs w"
  using assms
  by (induction pat m d df ws rule: index_wildcard_in.induct) (auto simp: wildcard_ok_def split: if_splits)

lemma index_paths_ok:
  assumes "\<forall>p \<in> set (byPattern r). pattern_ok cfgs p" and "\<forall>w \<in> set (byWildcard r). wildcard_ok cfgs w"
    and "\<forall>p \<in> set ps. serves cfgs p (newDef c)"
  shows "(\<forall>p \<in> set (byPattern (foldl (index_path c) r ps)). pattern_ok cfgs p) \<and>
    (\<forall>w \<in> set (byWildcard (foldl (index_path c) r ps)). wildcard_ok cfgs w)"
  using assms
proof (induction ps arbitrary: r)
  case (Cons p ps)
  have "\<forall>q \<in> set (byPattern (index_path c r p)). pattern_ok cfgs q"
    using index_pattern_in_ok [of "byPattern r" cfgs p "newDef c" "sc_Model c"] Cons.prems
    by (simp add: index_path_byPattern)
  moreover have "\<forall>q \<in> set (byWildcard (index_path c r p)). wildcard_ok cfgs q"
    using index_wildcard_in_ok [of "byWildcard r" cfgs p "newDef c" "sc_Model c"] Cons.prems
    by (simp add: index_path_byPattern)
  ultimately show ?case
    using Cons.IH [of "index_path c r p"] Cons.prems(3) by simp
qed simp

lemma NewRegistry_patterns_ok:
  "(\<forall>p \<in> set (byPattern (NewRegistry cfgs)). pattern_ok cfgs p) \<and>
   (\<forall>w \<in> set (byWildcard (NewRegistry cfgs)). wildcard_ok cfgs w)"
proof (induction cfgs rule: rev_induct)
  case Nil
  then show ?case by (simp add: NewRegistry_Nil empty_registry_def)
next
  case (snoc c cfgs)
  have "\<forall>p \<in> set (config_paths c). serves (cfgs @ [c]) p (newDef c)" if "sync_indexed c"
    using that by (auto simp: serves_def)
  with snoc show ?case
    using index_paths_ok [of "base_register (NewRegistry cfgs) c" "cfgs @ [c]" "config_paths c" c]
    by (auto simp: NewRegistry_snoc register_paths pattern_ok_mono wildcard_ok_mono)
qed

section \<open>Matching a path against a pattern\<close>

lemma matchModelSegment_iff:
  assumes "split_n2 seg model_ph = [pre, suf]"
  shows "matchModelSegment seg u = Some m \<longleftrightarrow> u = pre @ m @ suf"
proof
  assume "matchModelSegment seg u = Some m"
  then have p: "has_prefix u pre" and s: "has_suffix u suf" and l: "length pre + length suf \<le> length u"
    and m: "m = drop (length pre) (take (length u - length suf) u)"
    using assms by (auto simp: matchModelSegment_def split: if_splits)
  obtain t where t: "u = pre @ t" using p by (auto simp: has_prefix_iff)
  have "drop (length u - length suf) u = suf" using s by (simp add: has_suffix_def)
  with t l have "drop (length t - length suf) t = suf" by simp
  moreover have "m = take (length t - length suf) t" using m t l by simp
  ultimately show "u = pre @ m @ suf" using t by (metis append_take_drop_id)
next
  assume u: "u = pre @ m @ suf"
  have "has_suffix u suf" unfolding has_suffix_iff u by (metis append_assoc)
  with u assms show "matchModelSegment seg u = Some m"
    by (simp add: matchModelSegment_def)
qed

lemma match_segs_same:
  "\<forall>s \<in> set ss. \<not> str_contains s model_ph \<Longrightarrow> match_segs (ss @ ps) (ss @ vs) m = match_segs ps vs m"
  by (induction ss) simp_all

lemma match_segs_plain:
  "\<forall>s \<in> set ss. \<not> str_contains s model_ph \<Longrightarrow> length ss = length us \<Longrightarrow>
   match_segs (ss @ ps) (us @ vs) m = (if us = ss then match_segs ps vs m else None)"
proof (induction ss arbitrary: us)
  case (Cons s ss)
  then obtain u us' where us: "us = u # us'" "length ss = length us'"
    by (cases us) simp_all
  have IH: "match_segs (ss @ ps) (us' @ vs) m = (if us' = ss then match_segs ps vs m else None)"
    using Cons.IH [of us'] Cons.prems(1) us(2) by simp
  have "\<not> str_contains s model_ph" "match_segs (ss @ ps) (ss @ vs) m = match_segs ps vs m"
    using Cons.prems(1) match_segs_same by simp_all
  then show ?case unfolding us(1) by (simp add: IH)
qed simp

lemma match_segs_plain_all:
  "\<forall>s \<in> set ss. \<not> str_contains s model_ph \<Longrightarrow> length ss = length us \<Longrightarrow>
   match_segs ss us m = (if us = ss then Some m else None)"
  using match_segs_plain [of ss us "[]" "[]" m] by simp

lemma slash_not_in_ph [simp]: "CHR ''/'' \<notin> set model_ph" "model_ph \<noteq> []"
  by (simp_all add: model_ph_def)

text \<open>
  A pattern with one placeholder segment matches exactly the paths in which a non-empty model
  without slash stands for the placeholder, and yields that model.
\<close>

lemma pattern_match_iff:
  assumes seg: "split_n2 seg model_ph = [pre, suf]" and pre: "seg = pre @ model_ph @ suf"
    and plain: "\<forall>s \<in> set (xs @ ys). \<not> str_contains s model_ph"
    and slash: "\<forall>s \<in> set (xs @ ys @ [pre, suf]). CHR ''/'' \<notin> set s"
    and p: "pp_segments p = xs @ seg # ys"
  shows "pattern_match p url = Some m \<longleftrightarrow>
    m \<noteq> [] \<and> CHR ''/'' \<notin> set m \<and> url = join_on CHR ''/'' (xs @ (pre @ m @ suf) # ys)"
proof
  have has: "str_contains seg model_ph"
    using seg by (auto simp: split_n2_def str_contains_def split: option.splits)
  {
    assume pm: "pattern_match p url = Some m"
    let ?u = "split_on CHR ''/'' url"
    have len: "length ?u = length xs + Suc (length ys)" and ms: "match_segs (xs @ seg # ys) ?u [] = Some m"
      and m: "m \<noteq> []"
      using pm p by (auto simp: pattern_match_def Let_def split: if_splits option.splits)
    define us v vs where "us = take (length xs) ?u" and "v = ?u ! length xs" and "vs = drop (Suc (length xs)) ?u"
    have u: "?u = us @ v # vs" and lus: "length us = length xs" and lvs: "length vs = length ys"
      using len by (simp_all add: us_def v_def vs_def id_take_nth_drop [symmetric])
    have "us = xs" and ms2: "match_segs (seg # ys) (v # vs) [] = Some m"
      using ms u lus plain match_segs_plain [of xs us "seg # ys" "v # vs" "[]"] by (auto split: if_splits)
    from ms2 obtain m' where m': "matchModelSegment seg v = Some m'" and ms3: "match_segs ys vs m' = Some m"
      using has by (auto split: option.splits if_splits)
    have "vs = ys" "m' = m"
      using ms3 lvs plain match_segs_plain_all [of ys vs m'] by (auto split: if_splits)
    have "v = pre @ m @ suf" using m' \<open>m' = m\<close> matchModelSegment_iff [OF seg] by simp
    then have "?u = xs @ (pre @ m @ suf) # ys" using u \<open>us = xs\<close> \<open>vs = ys\<close> by simp
    moreover from this have "CHR ''/'' \<notin> set (pre @ m @ suf)"
      using split_on_pieces [of "pre @ m @ suf" "CHR ''/''" url] by simp
    ultimately show "m \<noteq> [] \<and> CHR ''/'' \<notin> set m \<and> url = join_on CHR ''/'' (xs @ (pre @ m @ suf) # ys)"
      using m join_split [of "CHR ''/''" url] by auto
  }
  {
    assume r: "m \<noteq> [] \<and> CHR ''/'' \<notin> set m \<and> url = join_on CHR ''/'' (xs @ (pre @ m @ suf) # ys)"
    then have u: "split_on CHR ''/'' url = xs @ (pre @ m @ suf) # ys"
      using slash by (auto intro!: split_join)
    have "matchModelSegment seg (pre @ m @ suf) = Some m"
      using matchModelSegment_iff [OF seg] by simp
    then have "match_segs (xs @ seg # ys) (xs @ (pre @ m @ suf) # ys) [] = Some m"
      using plain has r match_segs_plain [of xs xs "seg # ys" "(pre @ m @ suf) # ys" "[]"]
        match_segs_plain_all [of ys ys m] by simp
    then show "pattern_match p url = Some m"
      using r u p by (simp add: pattern_match_def)
  }
qed

end
