(* ===== verification/Routing.thy ===== *)
theory Routing
  imports Registry_Facts
begin

text \<open>
  What a caller of the registry may rely on: which configuration a job or a synchronous request is
  routed to, the file checks, and the size bound.
\<close>

section \<open>Asynchronous routing\<close>

text \<open>C36: for every list of configured services, RouteAsync finds a service exactly when the
  configuration determines one, and then the one it determines: the last configured with the type
  and the requested model; when no model is requested, the last of the type if the type has one
  model only, else the last one marked default.  In particular the order in which Go iterates over
  the maps of the registry is irrelevant.\<close>

theorem RouteAsync_refines:
  "ok_of (RouteAsync (NewRegistry cfgs) t m) = map_option newDef (async_spec cfgs t m)"
  by (rule RouteAsync_ok_of)

lemma async_spec_member: "async_spec cfgs t m = Some c \<Longrightarrow> c \<in> set cfgs \<and> sc_Type c = t"
  by (auto simp: async_spec_def dest: pick_Some)

lemma RouteAsync_config:
  assumes "RouteAsync (NewRegistry cfgs) t m = Inr d"
  obtains c where "c \<in> set cfgs" "d = newDef c" "sc_Type c = t"
  using assms RouteAsync_ok_of [of cfgs t m] async_spec_member [of cfgs t m]
  by (cases "async_spec cfgs t m") auto

section \<open>All definitions\<close>

definition effective :: "ServiceConfig list \<Rightarrow> ServiceConfig \<Rightarrow> bool" where
  "effective cfgs c \<longleftrightarrow> last_cfg (\<lambda>c'. sc_Type c' = sc_Type c \<and> sc_Model c' = sc_Model c) cfgs = Some c"

lemma lookup2_AllDefs:
  assumes "wf2 (byTypeModel r)"
  shows "d \<in> set (AllDefs r) \<longleftrightarrow> (\<exists>t m. lookup2 (byTypeModel r) t m = Some d)"
proof
  assume "d \<in> set (AllDefs r)"
  then obtain t i m where "(t, i) \<in> set (byTypeModel r)" "(m, d) \<in> set i"
    by (auto simp: AllDefs_def)
  then show "\<exists>t m. lookup2 (byTypeModel r) t m = Some d" using wf2_mem [OF assms] by blast
next
  assume "\<exists>t m. lookup2 (byTypeModel r) t m = Some d"
  then obtain t i m where "map_of (byTypeModel r) t = Some i" "map_of i m = Some d"
    by (auto simp: lookup2_def split: option.splits)
  then have "(t, i) \<in> set (byTypeModel r)" "(m, d) \<in> set i"
    by (simp_all add: map_of_SomeD)
  then show "d \<in> set (AllDefs r)" by (force simp: AllDefs_def)
qed

lemma set_AllDefs: "set (AllDefs (NewRegistry cfgs)) = newDef ` {c \<in> set cfgs. effective cfgs c}"
proof -
  have "d \<in> set (AllDefs (NewRegistry cfgs)) \<longleftrightarrow> d \<in> newDef ` {c \<in> set cfgs. effective cfgs c}" for d
    unfolding lookup2_AllDefs [OF wf2_byTypeModel] lookup_byTypeModel effective_def
    by (auto dest: last_cfg_Some)
  then show ?thesis by blast
qed

text \<open>The result consumers are started for the configured services that have a result topic,
  where of two services with the same type and model the later one counts; and Kafka is set up
  exactly when one of the effective services names a topic.\<close>

theorem KafkaServices_config:
  "set (KafkaServices (NewRegistry cfgs)) = newDef ` {c \<in> set cfgs. effective cfgs c \<and> sc_ResultTopic c \<noteq> []} \<and>
   (HasKafkaServices (NewRegistry cfgs) \<longleftrightarrow> (\<exists>c \<in> set cfgs. effective cfgs c \<and>
     \<not> (sc_InputTopic c = [] \<and> sc_ResultTopic c = [] \<and> sc_SyncTopic c = [] \<and> sc_PriorityTopic c = [])))"
proof (rule conjI)
  show "set (KafkaServices (NewRegistry cfgs)) =
      newDef ` {c \<in> set cfgs. effective cfgs c \<and> sc_ResultTopic c \<noteq> []}"
    by (auto simp: KafkaServices_def set_AllDefs)
  show "HasKafkaServices (NewRegistry cfgs) \<longleftrightarrow> (\<exists>c \<in> set cfgs. effective cfgs c \<and>
     \<not> (sc_InputTopic c = [] \<and> sc_ResultTopic c = [] \<and> sc_SyncTopic c = [] \<and> sc_PriorityTopic c = []))"
    unfolding HasKafkaServices_def list_ex_iff set_AllDefs by auto
qed

section \<open>File checks\<close>

lemma max_size_Cons_aux:
  "foldl (\<lambda>m kd. if def_MaxFileSizeMB (snd kd) > m then def_MaxFileSizeMB (snd kd) else m) a xs =
    foldl max a (map (def_MaxFileSizeMB \<circ> snd) xs)"
  by (induction xs arbitrary: a) (simp_all add: max_def)

lemma foldl_max: "foldl max a xs = Max (insert a (set xs))" for a :: int
proof (induction xs arbitrary: a)
  case (Cons x xs)
  have "insert a (set (x # xs)) = insert a (insert x (set xs))" by simp
  then show ?case using Cons by (cases "xs = []") (simp_all add: Max_insert max.assoc max.left_commute)
qed simp

lemma max_size_Max: "max_size models = Max (insert 0 (def_MaxFileSizeMB ` snd ` set models))"
  by (simp add: max_size_def max_size_Cons_aux foldl_max image_comp)

lemma RouteAsync_in_models:
  "RouteAsync r t m = Inr d \<Longrightarrow> map_of (byTypeModel r) t = Some models \<Longrightarrow>
   d \<in> snd ` set models \<or> map_of (defaultByType r) t = Some d"
  by (auto simp: RouteAsync_def gm_only_Some split: if_splits option.splits)
    (force dest: map_of_SomeD)+

text \<open>The limit put on the body of an upload is at least the limit of the model the job is
  routed to, for every model of the type that the configuration keeps: an upload the model accepts
  is never cut by the type-wide limit.  The limit is zero or the one of a model of the type.\<close>

lemma MaxFileSize_bound:
  assumes "RouteAsync (NewRegistry cfgs) t m = Inr d" and "d \<in> set (AllDefs (NewRegistry cfgs))"
  shows "\<exists>n. MaxFileSizeForType (NewRegistry cfgs) t = Inr n \<and> def_MaxFileSizeMB d \<le> n \<and> 0 \<le> n \<and>
    (n = 0 \<or> (\<exists>c \<in> set cfgs. sc_Type c = t \<and> n = sc_MaxFileSizeMB c))"
proof -
  let ?r = "NewRegistry cfgs"
  obtain models where models: "map_of (byTypeModel ?r) t = Some models"
    using assms(1) by (auto simp: RouteAsync_def split: option.splits)
  have "def_Type d = t" using assms(1) by (auto elim: RouteAsync_config)
  obtain t' m' where l: "lookup2 (byTypeModel ?r) t' m' = Some d"
    using assms(2) lookup2_AllDefs [OF wf2_byTypeModel] by blast
  then have "def_Type d = t'" by (auto simp: lookup_byTypeModel dest: last_cfg_Some)
  then have mem: "d \<in> snd ` set models"
    using l models \<open>def_Type d = t\<close> by (force simp: lookup2_def dest: map_of_SomeD)
  let ?S = "insert 0 (def_MaxFileSizeMB ` snd ` set models)"
  have "Max ?S \<in> ?S" by (rule Max_in) auto
  moreover have "def_MaxFileSizeMB d \<le> Max ?S" "0 \<le> Max ?S" using mem by auto
  moreover have "\<exists>c \<in> set cfgs. sc_Type c = t \<and> n = sc_MaxFileSizeMB c"
    if "n \<in> def_MaxFileSizeMB ` snd ` set models" for n
    using that index_of_entry [OF byTypeModel_index models] by fastforce
  ultimately show ?thesis
    using models by (auto simp: MaxFileSizeForType_def max_size_Max)
qed

definition exts_of :: "string list \<Rightarrow> (string, unit) gomap" where
  "exts_of es = foldl (\<lambda>m e. AList.update (to_lower e) () m) [] es"

lemma exts_fold:
  "map_of (foldl (\<lambda>m e. AList.update (to_lower e) () m) a es) x \<noteq> None \<longleftrightarrow>
    map_of a x \<noteq> None \<or> x \<in> to_lower ` set es"
  by (induction es arbitrary: a) auto

lemma exts_fold_Nil:
  "foldl (\<lambda>m e. AList.update (to_lower e) () m) a es = [] \<longleftrightarrow> a = [] \<and> es = []"
  by (induction es arbitrary: a) auto

lemma file_ext_dot:
  assumes "CHR ''.'' \<notin> set e" and "CHR ''/'' \<notin> set e"
  shows "file_ext (s @ CHR ''.'' # e) = CHR ''.'' # e"
proof -
  have "takeWhile (\<lambda>c. c \<noteq> CHR ''/'') (rev e @ CHR ''.'' # rev s) =
      rev e @ CHR ''.'' # takeWhile (\<lambda>c. c \<noteq> CHR ''/'') (rev s)"
    using assms(2) by (subst takeWhile_append2) auto
  moreover have "takeWhile (\<lambda>c. c \<noteq> CHR ''.'') (rev e @ CHR ''.'' # takeWhile (\<lambda>c. c \<noteq> CHR ''/'') (rev s)) = rev e"
    using assms(1) by (subst takeWhile_append2) auto
  ultimately show ?thesis by (simp add: file_ext_def)
qed

text \<open>The file check of a service accepts a name exactly when the service lists no extension or
  lists that of the name, both taken without regard to case; the extension is what follows the last
  dot of the name.\<close>

theorem ValidateFileDef_iff:
  "(ValidateFileDef (newDef c) f = Inr () \<longleftrightarrow>
     sc_AcceptedExts c = [] \<or> to_lower (file_ext f) \<in> to_lower ` set (sc_AcceptedExts c)) \<and>
   (CHR ''.'' \<in> set e \<or> CHR ''/'' \<in> set e \<or> file_ext (s @ CHR ''.'' # e) = CHR ''.'' # e)"
proof (rule conjI)
  show "ValidateFileDef (newDef c) f = Inr () \<longleftrightarrow>
     sc_AcceptedExts c = [] \<or> to_lower (file_ext f) \<in> to_lower ` set (sc_AcceptedExts c)"
    using exts_fold [of "[]" "sc_AcceptedExts c" "to_lower (file_ext f)"]
    by (auto simp: ValidateFileDef_def newDef_def exts_fold_Nil Let_def)
  show "CHR ''.'' \<in> set e \<or> CHR ''/'' \<in> set e \<or> file_ext (s @ CHR ''.'' # e) = CHR ''.'' # e"
    using file_ext_dot by blast
qed

section \<open>Synchronous routing\<close>

text \<open>A request on an exact path is served by: the last service with the path and the model; without
  a model, the only model of the path, else the last default.\<close>

definition at_path :: "string \<Rightarrow> ServiceConfig \<Rightarrow> bool" where
  "at_path p c \<longleftrightarrow> sync_indexed c \<and> p \<in> set (config_paths c)"

definition sync_spec :: "ServiceConfig list \<Rightarrow> string \<Rightarrow> string \<Rightarrow> ServiceConfig option" where
  "sync_spec cfgs p m = pick (at_path p) cfgs m"

lemma bySync_index: "exact_path p \<Longrightarrow> index_of (bySync (NewRegistry cfgs)) p (at_path p) cfgs"
  by (simp add: index_of_def wf2_bySync lookup_bySync at_path_def)

lemma bySync_Some:
  assumes "exact_path p" and "c \<in> set cfgs" and "at_path p c"
  obtains models where "map_of (bySync (NewRegistry cfgs)) p = Some models"
proof -
  have "last_cfg (\<lambda>c'. at_path p c' \<and> sc_Model c' = sc_Model c) cfgs \<noteq> None"
    using assms by (auto simp: last_cfg_None)
  then have "lookup2 (bySync (NewRegistry cfgs)) p (sc_Model c) \<noteq> None"
    using bySync_index [OF assms(1), of cfgs] by (simp add: index_of_def)
  with that show ?thesis
    by (auto simp: lookup2_def split: option.splits)
qed

lemma bySync_no_empty_model:
  assumes "exact_path p" and "map_of (bySync (NewRegistry cfgs)) p = Some models"
  shows "map_of models [] = None"
  using index_of_keys [OF bySync_index [OF assms(1)] assms(2)]
  by (auto simp: at_path_def sync_indexed_def map_of_eq_None_iff)

lemma RouteSync_exact_aux:
  assumes "exact_path p" and "c \<in> set cfgs" and "at_path p c"
  shows "ok_of (RouteSync (NewRegistry cfgs) p m) = map_option newDef (sync_spec cfgs p m)"
proof -
  obtain models where models: "map_of (bySync (NewRegistry cfgs)) p = Some models"
    using bySync_Some assms by blast
  have D: "map_of (defaultByPath (NewRegistry cfgs)) p =
      map_option newDef (last_cfg (\<lambda>c. at_path p c \<and> sc_Default c) cfgs)"
    using assms(1) by (simp add: lookup_defaultByPath at_path_def conj_ac)
  have "ok_of (RouteSync (NewRegistry cfgs) p m) =
      (if m = [] then (case gm_only models of Some d \<Rightarrow> Some d | None \<Rightarrow> map_of (defaultByPath (NewRegistry cfgs)) p)
       else map_of models m)"
    using models bySync_no_empty_model [OF assms(1) models]
    by (simp add: RouteSync_def split: option.split)
  then show ?thesis
    using pick_index [OF bySync_index [OF assms(1)] models D] by (simp add: sync_spec_def)
qed

text \<open>C37: on an exact path that some synchronous service is configured with, RouteSync answers what
  the configuration determines: the last service with the path and the requested model; without a
  model, the only model of the path, else the last default on it; and an error where there is
  none.  Patterns and wildcards are not consulted there.\<close>

theorem RouteSync_exact:
  assumes "exact_path p" and "c \<in> set cfgs" and "at_path p c"
  shows "ok_of (RouteSync (NewRegistry cfgs) p m) = map_option newDef (sync_spec cfgs p m)"
  using assms by (rule RouteSync_exact_aux)

lemma route_patterns_Some:
  assumes "route_patterns ps path = Some (Inr d)"
  shows "\<exists>p \<in> set ps. \<exists>m. pattern_match p path = Some m \<and> map_of (pp_defsByModel p) m = Some d"
  using assms by (induction ps path rule: route_patterns.induct) (auto split: option.splits)

lemma route_wildcards_Some:
  assumes "route_wildcards ws path model = Some (Inr d)"
  shows "\<exists>w \<in> set ws. has_prefix path (wr_prefix w) \<and>
    (map_of (wr_byModel w) model = Some d \<or>
     model = [] \<and> ((\<exists>k. wr_byModel w = [(k, d)]) \<or> wr_deflt w = Some d))"
  using assms
  by (induction ws path model rule: route_wildcards.induct)
    (auto split: option.splits if_splits simp: gm_only_Some)

lemma bySync_only_exact:
  assumes "map_of (bySync (NewRegistry cfgs)) p = Some models"
  shows "exact_path p"
proof (rule ccontr)
  assume "\<not> exact_path p"
  then have "lookup2 (bySync (NewRegistry cfgs)) p m = None" for m
    unfolding lookup_bySync by (simp add: last_cfg_None) blast
  then have "map_of models m = None" for m using assms by (simp add: lookup2_def)
  moreover have "models \<noteq> []" using assms wf2_bySync [of cfgs] by (auto simp: wf2_def)
  ultimately show False by (metis map_of_eq_Some_iff neq_Nil_conv not_Some_eq surj_pair map_of_Cons_code(2))
qed

text \<open>The pattern compiled from a configured path, without its models.\<close>

definition compiled :: "string \<Rightarrow> pathPattern" where
  "compiled key = \<lparr>pp_pattern = key, pp_segments = split_on CHR ''/'' key, pp_defsByModel = []\<rparr>"

lemma pattern_match_compiled: "pattern_ok cfgs p \<Longrightarrow> pattern_match (compiled (pp_pattern p)) u = pattern_match p u"
  by (simp add: pattern_match_def compiled_def pattern_ok_def cong: if_cong)

lemma RouteSync_origin:
  assumes "RouteSync (NewRegistry cfgs) path m = Inr d"
  shows "\<exists>c \<in> set cfgs. sync_indexed c \<and> d = newDef c \<and> (\<exists>key \<in> set (config_paths c).
    key = path \<and> (m = [] \<or> m = sc_Model c) \<or>
    str_contains key model_ph \<and> pattern_match (compiled key) path = Some (sc_Model c) \<or>
    has_suffix key ''/*'' \<and> has_prefix path (trim_suffix key ''*'') \<and> (m = [] \<or> m = sc_Model c))"
proof (cases "map_of (bySync (NewRegistry cfgs)) path")
  case (Some models)
  note ex = bySync_only_exact [OF Some]
  have ne: "models \<noteq> []" using Some wf2_bySync [of cfgs] by (auto simp: wf2_def)
  then obtain k v where "(k, v) \<in> set models" by (cases models) auto
  then obtain c0 where "c0 \<in> set cfgs" "at_path path c0"
    using index_of_entry [OF bySync_index [OF ex] Some] by blast
  then have "map_option newDef (sync_spec cfgs path m) = Some d"
    using RouteSync_exact_aux [OF ex] assms by (metis ok_of_Some)
  then obtain c where "d = newDef c" "pick (at_path path) cfgs m = Some c"
    unfolding sync_spec_def by blast
  then show ?thesis
    using pick_Some [of "at_path path" cfgs m c] unfolding at_path_def by blast
next
  case None
  show ?thesis
  proof (cases "route_patterns (byPattern (NewRegistry cfgs)) path")
    case (Some res)
    then have "res = Inr d" using assms None by (simp add: RouteSync_def)
    then obtain p mo where p: "p \<in> set (byPattern (NewRegistry cfgs))" "pattern_match p path = Some mo"
        "map_of (pp_defsByModel p) mo = Some d"
      using Some route_patterns_Some by blast
    then have ok: "pattern_ok cfgs p" using NewRegistry_patterns_ok by blast
    then have "serves cfgs (pp_pattern p) d" "def_Model d = mo" "str_contains (pp_pattern p) model_ph"
      using p(3) by (auto simp: pattern_ok_def)
    then show ?thesis
      using p(2) pattern_match_compiled [OF ok, of path] unfolding serves_def by (metis newDef_simps(2))
  next
    case None': None
    then have "route_wildcards (byWildcard (NewRegistry cfgs)) path m = Some (Inr d)"
      using assms None by (simp add: RouteSync_def split: option.splits)
    then obtain w where w: "w \<in> set (byWildcard (NewRegistry cfgs))" "has_prefix path (wr_prefix w)"
      and d: "map_of (wr_byModel w) m = Some d \<or> m = [] \<and> ((\<exists>k. wr_byModel w = [(k, d)]) \<or> wr_deflt w = Some d)"
      using route_wildcards_Some by blast
    have ok: "wildcard_ok cfgs w" using w NewRegistry_patterns_ok by blast
    then have "serves cfgs (wr_pattern w) d" "m = [] \<or> def_Model d = m"
        "has_suffix (wr_pattern w) ''/*''" "has_prefix path (trim_suffix (wr_pattern w) ''*'')"
      using d w(2) by (auto simp: wildcard_ok_def)
    then show ?thesis
      unfolding serves_def by (metis newDef_simps(2))
  qed
qed

text \<open>Whatever RouteSync answers was configured for the request: it is the definition of a
  service that is reachable synchronously, and one of the paths of that service is the request
  path itself, or a pattern whose placeholder stands for that service's model in the request path,
  or a wildcard whose prefix the request path starts with; on an exact path and on a wildcard the
  model is the one that was asked for, where one was.\<close>

theorem RouteSync_sound:
  assumes "RouteSync (NewRegistry cfgs) path m = Inr d"
  shows "\<exists>c \<in> set cfgs. sync_indexed c \<and> d = newDef c \<and> (\<exists>key \<in> set (config_paths c).
    key = path \<and> (m = [] \<or> m = sc_Model c) \<or>
    str_contains key model_ph \<and> pattern_match (compiled key) path = Some (sc_Model c) \<or>
    has_suffix key ''/*'' \<and> has_prefix path (trim_suffix key ''*'') \<and> (m = [] \<or> m = sc_Model c))"
  by (rule RouteSync_origin [OF assms])


text \<open>C38: a path pattern with one placeholder segment matches exactly the request paths in which a
  non-empty model without a slash stands in the place of {model}, and it extracts that model; the
  text around the placeholder in its segment may be anything, also when the request path is shorter
  than prefix and suffix together.\<close>

theorem pattern_match_exactly:
  assumes "split_n2 seg model_ph = [pre, suf]" and "seg = pre @ model_ph @ suf"
    and "\<forall>s \<in> set (xs @ ys). \<not> str_contains s model_ph"
    and "\<forall>s \<in> set (xs @ ys @ [pre, suf]). CHR ''/'' \<notin> set s"
  shows "pattern_match (compiled (join_on CHR ''/'' (xs @ seg # ys))) url = Some m \<longleftrightarrow>
    m \<noteq> [] \<and> CHR ''/'' \<notin> set m \<and> url = join_on CHR ''/'' (xs @ (pre @ m @ suf) # ys)"
proof (rule pattern_match_iff [OF assms])
  have "\<forall>s \<in> set (xs @ seg # ys). CHR ''/'' \<notin> set s"
    using assms(2,4) by auto
  then show "pp_segments (compiled (join_on CHR ''/'' (xs @ seg # ys))) = xs @ seg # ys"
    by (auto simp: compiled_def intro!: split_join)
qed

lemma pattern_match_exactly_witness:
  "pattern_match (compiled ''/v2/models/{model}/infer'') ''/v2/models/bert-1/infer'' = Some ''bert-1''"
proof -
  have s: "split_n2 ''{model}'' model_ph = [[], []]" by code_simp
  have ns: "\<forall>s \<in> set ([[], ''v2'', ''models''] @ [''infer'']). \<not> str_contains s model_ph" by code_simp
  have nd: "\<forall>s \<in> set ([[], ''v2'', ''models''] @ [''infer''] @ [[], []]). CHR ''/'' \<notin> set s" by simp
  have seg: "''{model}'' = [] @ model_ph @ []" by (simp add: model_ph_def)
  show ?thesis
    using pattern_match_exactly [OF s seg ns nd, of "''/v2/models/bert-1/infer''" "''bert-1''"] by simp
qed

section \<open>Operations\<close>

text \<open>The path OperationPath yields is the first path of an operation of the service: of the one
  asked for, or of the only one when none is asked for; a service without operations has the empty
  path; and every path it yields for a named operation is one of the paths the service is indexed
  under.\<close>

theorem OperationPath_ok:
  "(OperationPath d op = Inr p \<longleftrightarrow>
     def_Operations d = [] \<and> p = [] \<or>
     (\<exists>ps. (if op = [] then \<exists>k. def_Operations d = [(k, p # ps)]
           else map_of (def_Operations d) op = Some (p # ps)))) \<and>
   (OperationPath (newDef c) op = Inr q \<longrightarrow> sc_Operations c = [] \<or> q \<in> set (config_paths c))"
proof (rule conjI)
  show "OperationPath d op = Inr p \<longleftrightarrow>
     def_Operations d = [] \<and> p = [] \<or>
     (\<exists>ps. (if op = [] then \<exists>k. def_Operations d = [(k, p # ps)]
           else map_of (def_Operations d) op = Some (p # ps)))"
    by (auto simp: OperationPath_def gm_only_Some split: option.splits list.splits if_splits)
  show "OperationPath (newDef c) op = Inr q \<longrightarrow> sc_Operations c = [] \<or> q \<in> set (config_paths c)"
    by (auto simp: OperationPath_def gm_only_Some config_paths_def split: option.splits list.splits if_splits
        dest!: map_of_SomeD) force+
qed

lemma OperationPath_ok_witness:
  "OperationPath (newDef demo_service) [] = Inr ''/v1/audio/transcriptions'' \<and>
   ''/v1/audio/transcriptions'' \<in> set (config_paths demo_service)"
proof -
  have "OperationPath (newDef demo_service) [] = Inr ''/v1/audio/transcriptions''" by code_simp
  with OperationPath_ok [of "newDef demo_service" "[]" "[]" demo_service "''/v1/audio/transcriptions''"]
  show ?thesis by (simp add: demo_service_def)
qed

section \<open>A registry with two models\<close>

definition route_demo :: "ServiceConfig list" where
  "route_demo = [
     demo_service\<lparr>sc_Type := ''audio'', sc_Model := ''whisper'', sc_Default := True,
       sc_InferenceURL := ''http://w'', sc_SyncTopic := [], sc_ResultTopic := ''r'', sc_MaxFileSizeMB := 20,
       sc_Operations := [(''transcription'', [''/v1/audio/transcriptions''])]\<rparr>,
     demo_service\<lparr>sc_Type := ''audio'', sc_Model := ''tiny'', sc_Default := False,
       sc_InferenceURL := ''http://t'', sc_SyncTopic := [], sc_ResultTopic := ''r2'', sc_MaxFileSizeMB := 50,
       sc_Operations := [(''transcription'', [''/v1/audio/transcriptions''])]\<rparr>]"

lemma MaxFileSize_bound_witness:
  "\<exists>n. MaxFileSizeForType (NewRegistry route_demo) ''audio'' = Inr n \<and> 50 \<le> n"
proof -
  let ?d = "newDef (route_demo ! 1)"
  have "RouteAsync (NewRegistry route_demo) ''audio'' ''tiny'' = Inr ?d" by code_simp
  moreover have "?d \<in> set (AllDefs (NewRegistry route_demo))" by code_simp
  ultimately show ?thesis
    using MaxFileSize_bound [of route_demo "''audio''" "''tiny''" ?d] by (auto simp: route_demo_def)
qed

lemma RouteSync_exact_witness:
  "ok_of (RouteSync (NewRegistry route_demo) ''/v1/audio/transcriptions'' []) = Some (newDef (route_demo ! 0))"
proof -
  let ?p = "''/v1/audio/transcriptions''"
  have "exact_path ?p" "at_path ?p (route_demo ! 0)" by code_simp+
  moreover have "route_demo ! 0 \<in> set route_demo" by (simp add: route_demo_def)
  moreover have "map_option newDef (sync_spec route_demo ?p []) = Some (newDef (route_demo ! 0))" by code_simp
  ultimately show ?thesis using RouteSync_exact [of ?p "route_demo ! 0" route_demo "[]"] by simp
qed

lemma RouteSync_sound_witness:
  "\<exists>c \<in> set route_demo. sync_indexed c \<and> newDef (route_demo ! 1) = newDef c"
proof -
  have "RouteSync (NewRegistry route_demo) ''/v1/audio/transcriptions'' ''tiny'' = Inr (newDef (route_demo ! 1))"
    by code_simp
  from RouteSync_sound [OF this] show ?thesis by blast
qed

end
