(* ===== verification/Model.thy ===== *)
theory Model
  imports Json_Facts "HOL-Library.Monad_Syntax"
begin

text \<open>
  internal/model/job.go and relay/internal/model/event.go: the records the gateway and the relay
  exchange, the JSON they are written as, and that decoding gives back what was encoded.  The two
  modules declare InputEvent and ResultEvent twice, field for field the same.

  A time.Time is kept as its RFC 3339 text, which is all the code ever stores or sends of it;
  \<open>rfc3339_unix\<close> is time.Parse followed by Unix.
\<close>

section \<open>Times\<close>

type_synonym time = string

definition digits2 :: "string \<Rightarrow> nat option" where
  "digits2 s = (if length s = 2 \<and> list_all is_digit s then Some (digits_val s) else None)"

definition leap_year :: "nat \<Rightarrow> bool" where
  "leap_year y \<longleftrightarrow> y mod 4 = 0 \<and> (y mod 100 \<noteq> 0 \<or> y mod 400 = 0)"

definition days_in :: "nat \<Rightarrow> nat \<Rightarrow> nat" where
  "days_in y m = (if m = 2 then (if leap_year y then 29 else 28)
     else if m \<in> {4, 6, 9, 11} then 30 else 31)"

text \<open>Days from 1970-01-01 to a date of the Gregorian calendar.\<close>

definition days_from_civil :: "nat \<Rightarrow> nat \<Rightarrow> nat \<Rightarrow> int" where
  "days_from_civil y m d =
     (let y' = (if m \<le> 2 then int y - 1 else int y);
          era = y' div 400; yoe = y' mod 400;
          mp = (int m + 9) mod 12;
          doy = (153 * mp + 2) div 5 + int d - 1;
          doe = yoe * 365 + yoe div 4 - yoe div 100 + doy
      in era * 146097 + doe - 719468)"

text \<open>The zone: Z or a signed offset in hours and minutes; the answer is in seconds.\<close>

definition zone_offset :: "string \<Rightarrow> int option" where
  "zone_offset s =
     (if s = ''Z'' then Some 0
      else (case s of
              sg # r \<Rightarrow>
                if (sg = CHR ''+'' \<or> sg = CHR ''-'') \<and> length r = 5 \<and> r ! 2 = CHR '':'' then
                  (case (digits2 (take 2 r), digits2 (drop 3 r)) of
                     (Some h, Some m) \<Rightarrow>
                       if h \<le> 24 \<and> m < 60
                       then Some ((if sg = CHR ''-'' then - 1 else 1) * (int h * 3600 + int m * 60)) else None
                   | _ \<Rightarrow> None)
                else None
            | [] \<Rightarrow> None))"

text \<open>The optional fraction of a second is dropped.\<close>

definition skip_fraction :: "string \<Rightarrow> string option" where
  "skip_fraction s =
     (case s of
        c # r \<Rightarrow> if c = CHR ''.'' then (if takeWhile is_digit r = [] then None else Some (dropWhile is_digit r)) else Some s
      | [] \<Rightarrow> Some s)"

definition rfc3339_unix :: "time \<Rightarrow> int option" where
  "rfc3339_unix s =
     (if length s < 20 \<or> \<not> list_all is_digit (take 4 s) \<or> s ! 4 \<noteq> CHR ''-'' \<or> s ! 7 \<noteq> CHR ''-'' \<or>
         s ! 10 \<noteq> CHR ''T'' \<or> s ! 13 \<noteq> CHR '':'' \<or> s ! 16 \<noteq> CHR '':'' then None
      else do {
        let y = digits_val (take 4 s);
        m \<leftarrow> digits2 (take 2 (drop 5 s));
        d \<leftarrow> digits2 (take 2 (drop 8 s));
        h \<leftarrow> digits2 (take 2 (drop 11 s));
        mi \<leftarrow> digits2 (take 2 (drop 14 s));
        sec \<leftarrow> digits2 (take 2 (drop 17 s));
        rest \<leftarrow> skip_fraction (drop 19 s);
        off \<leftarrow> zone_offset rest;
        (if m < 1 \<or> 12 < m \<or> d < 1 \<or> days_in y m < d \<or> 23 < h \<or> 59 < mi \<or> 59 < sec then None
         else Some (days_from_civil y m d * 86400 + int h * 3600 + int mi * 60 + int sec - off))
      })"

definition time_ok :: "time \<Rightarrow> bool" where
  "time_ok t \<longleftrightarrow> rfc3339_unix t \<noteq> None"

definition unix_secs :: "time \<Rightarrow> int" where
  "unix_secs t = (case rfc3339_unix t of Some n \<Rightarrow> n | None \<Rightarrow> 0)"

definition zero_time :: time where
  "zero_time = ''0001-01-01T00:00:00Z''"

fun d_time :: "json \<Rightarrow> time option" where
  "d_time (JStr s) = (if time_ok s then Some s else None)"
| "d_time _ = None"

section \<open>Fields of a struct\<close>

abbreviation str_field :: "string \<Rightarrow> (string \<times> json) list \<Rightarrow> string option" where
  "str_field name f \<equiv> dec_field d_str [] (field_vals name f)"

abbreviation time_field :: "string \<Rightarrow> (string \<times> json) list \<Rightarrow> time option" where
  "time_field name f \<equiv> dec_field d_time zero_time (field_vals name f)"

definition omitempty :: "string \<Rightarrow> string \<Rightarrow> (string \<times> json) list" where
  "omitempty name s = (if s = [] then [] else [(name, JStr s)])"

section \<open>Jobs\<close>

datatype JobStatus = Pending | Processing | Completed | Failed | OtherStatus string

text \<open>JobStatus is a Go string type: any text can come out of a decoder.\<close>

fun status_text :: "JobStatus \<Rightarrow> string" where
  "status_text Pending = ''pending''"
| "status_text Processing = ''processing''"
| "status_text Completed = ''completed''"
| "status_text Failed = ''failed''"
| "status_text (OtherStatus s) = s"

definition status_of :: "string \<Rightarrow> JobStatus" where
  "status_of s =
     (if s = ''pending'' then Pending else if s = ''processing'' then Processing
      else if s = ''completed'' then Completed else if s = ''failed'' then Failed else OtherStatus s)"

definition status_ok :: "JobStatus \<Rightarrow> bool" where
  "status_ok st \<longleftrightarrow> status_of (status_text st) = st"

lemma status_of_text [simp]: "status_ok st \<Longrightarrow> status_of (status_text st) = st"
  by (simp add: status_ok_def)

lemma status_ok_simps [simp]: "status_ok Pending" "status_ok Processing" "status_ok Completed" "status_ok Failed"
  by (simp_all add: status_ok_def status_of_def)

lemma status_ok_of [simp]: "status_ok (status_of s)"
  by (simp add: status_ok_def status_of_def)

lemma status_text_of [simp]: "status_text (status_of s) = s"
  by (simp add: status_of_def)

record Job =
  job_ID :: string
  job_ServiceType :: string
  job_Model :: string
  job_Status :: JobStatus
  job_InputRef :: string
  job_ResultRef :: string
  job_CallbackURL :: string
  job_ConsumerName :: string
  job_Error :: string
  job_CreatedAt :: time
  job_UpdatedAt :: time

definition job_json :: "Job \<Rightarrow> json" where
  "job_json j = JObj (
     [(''id'', JStr (job_ID j)), (''service_type'', JStr (job_ServiceType j)), (''model'', JStr (job_Model j)),
      (''status'', JStr (status_text (job_Status j))), (''input_ref'', JStr (job_InputRef j))] @
     omitempty ''result_ref'' (job_ResultRef j) @ omitempty ''callback_url'' (job_CallbackURL j) @
     omitempty ''consumer_name'' (job_ConsumerName j) @ omitempty ''error'' (job_Error j) @
     [(''created_at'', JStr (job_CreatedAt j)), (''updated_at'', JStr (job_UpdatedAt j))])"

definition job_of_json :: "json \<Rightarrow> Job option" where
  "job_of_json v = do {
     f \<leftarrow> obj_fields v;
     a \<leftarrow> str_field ''id'' f;
     b \<leftarrow> str_field ''service_type'' f;
     c \<leftarrow> str_field ''model'' f;
     d \<leftarrow> str_field ''status'' f;
     e \<leftarrow> str_field ''input_ref'' f;
     g \<leftarrow> str_field ''result_ref'' f;
     h \<leftarrow> str_field ''callback_url'' f;
     i \<leftarrow> str_field ''consumer_name'' f;
     j \<leftarrow> str_field ''error'' f;
     k \<leftarrow> time_field ''created_at'' f;
     l \<leftarrow> time_field ''updated_at'' f;
     Some \<lparr>job_ID = a, job_ServiceType = b, job_Model = c, job_Status = status_of d, job_InputRef = e,
       job_ResultRef = g, job_CallbackURL = h, job_ConsumerName = i, job_Error = j, job_CreatedAt = k,
       job_UpdatedAt = l\<rparr>
   }"

text \<open>json.Marshal and json.Unmarshal.\<close>

definition marshal_job :: "Job \<Rightarrow> string" where
  "marshal_job j = json_text True (job_json j)"

definition unmarshal_job :: "string \<Rightarrow> Job option" where
  "unmarshal_job s = do { v \<leftarrow> json_parse s; job_of_json v }"

section \<open>Events\<close>

record InputEvent =
  ie_JobID :: string
  ie_ServiceType :: string
  ie_Model :: string
  ie_InputRef :: string
  ie_InferenceURL :: string
  ie_Params :: "(string, string) gomap"
  ie_CreatedAt :: time

text \<open>Marshal writes a map in the order of its keys; omitempty leaves an empty one out.\<close>

definition params_json :: "(string, string) gomap \<Rightarrow> json" where
  "params_json m = JObj (map (\<lambda>kv. (fst kv, JStr (snd kv))) (sort_key fst m))"

definition input_event_json :: "InputEvent \<Rightarrow> json" where
  "input_event_json e = JObj (
     [(''job_id'', JStr (ie_JobID e)), (''service_type'', JStr (ie_ServiceType e)), (''model'', JStr (ie_Model e)),
      (''input_ref'', JStr (ie_InputRef e)), (''inference_url'', JStr (ie_InferenceURL e))] @
     (if ie_Params e = [] then [] else [(''params'', params_json (ie_Params e))]) @
     [(''created_at'', JStr (ie_CreatedAt e))])"

text \<open>Decoding into a map[string]string keeps what the map held; null makes it nil.\<close>

definition put_all :: "('k, 'v) gomap \<Rightarrow> ('k \<times> 'v) list \<Rightarrow> ('k, 'v) gomap" where
  "put_all m kvs = foldl (\<lambda>m kv. AList.update (fst kv) (snd kv) m) m kvs"

fun dec_params :: "(string, string) gomap \<Rightarrow> json list \<Rightarrow> (string, string) gomap option" where
  "dec_params m [] = Some m"
| "dec_params m (JNull # vs) = dec_params [] vs"
| "dec_params m (JObj kvs # vs) =
     (case those (map (\<lambda>kv. dec_field d_str [] [snd kv]) kvs) of
        None \<Rightarrow> None
      | Some ss \<Rightarrow> dec_params (put_all m (zip (map fst kvs) ss)) vs)"
| "dec_params m (_ # vs) = None"

definition input_event_of_json :: "json \<Rightarrow> InputEvent option" where
  "input_event_of_json v = do {
     f \<leftarrow> obj_fields v;
     a \<leftarrow> str_field ''job_id'' f;
     b \<leftarrow> str_field ''service_type'' f;
     c \<leftarrow> str_field ''model'' f;
     d \<leftarrow> str_field ''input_ref'' f;
     e \<leftarrow> str_field ''inference_url'' f;
     p \<leftarrow> dec_params [] (field_vals ''params'' f);
     t \<leftarrow> time_field ''created_at'' f;
     Some \<lparr>ie_JobID = a, ie_ServiceType = b, ie_Model = c, ie_InputRef = d, ie_InferenceURL = e,
       ie_Params = p, ie_CreatedAt = t\<rparr>
   }"

definition marshal_input_event :: "InputEvent \<Rightarrow> string" where
  "marshal_input_event e = json_text True (input_event_json e)"

definition unmarshal_input_event :: "string \<Rightarrow> InputEvent option" where
  "unmarshal_input_event s = do { v \<leftarrow> json_parse s; input_event_of_json v }"

record ResultEvent =
  re_JobID :: string
  re_ServiceType :: string
  re_Status :: JobStatus
  re_ResultRef :: string
  re_Error :: string
  re_CompletedAt :: time

definition result_event_json :: "ResultEvent \<Rightarrow> json" where
  "result_event_json e = JObj (
     [(''job_id'', JStr (re_JobID e)), (''service_type'', JStr (re_ServiceType e)),
      (''status'', JStr (status_text (re_Status e)))] @
     omitempty ''result_ref'' (re_ResultRef e) @ omitempty ''error'' (re_Error e) @
     [(''completed_at'', JStr (re_CompletedAt e))])"

definition result_event_of_json :: "json \<Rightarrow> ResultEvent option" where
  "result_event_of_json v = do {
     f \<leftarrow> obj_fields v;
     a \<leftarrow> str_field ''job_id'' f;
     b \<leftarrow> str_field ''service_type'' f;
     c \<leftarrow> str_field ''status'' f;
     d \<leftarrow> str_field ''result_ref'' f;
     e \<leftarrow> str_field ''error'' f;
     t \<leftarrow> time_field ''completed_at'' f;
     Some \<lparr>re_JobID = a, re_ServiceType = b, re_Status = status_of c, re_ResultRef = d, re_Error = e,
       re_CompletedAt = t\<rparr>
   }"

definition marshal_result_event :: "ResultEvent \<Rightarrow> string" where
  "marshal_result_event e = json_text True (result_event_json e)"

definition unmarshal_result_event :: "string \<Rightarrow> ResultEvent option" where
  "unmarshal_result_event s = do { v \<leftarrow> json_parse s; result_event_of_json v }"

section \<open>Round trips\<close>

lemma field_vals_simps [simp]:
  "field_vals n [] = []"
  "field_vals n ((k, v) # kvs) = (if to_lower k = n then v # field_vals n kvs else field_vals n kvs)"
  by (simp_all add: field_vals_def)

lemma field_vals_append [simp]: "field_vals n (f @ g) = field_vals n f @ field_vals n g"
  by (simp add: field_vals_def)

lemma field_vals_omit [simp]:
  "field_vals n (omitempty k s) = (if s \<noteq> [] \<and> to_lower k = n then [JStr s] else [])"
  by (simp add: omitempty_def)

lemma dec_str_single [simp]: "dec_field d_str z [JStr s] = Some s"
  by simp

lemma json_wf_omit [simp]: "list_all (\<lambda>kv. json_wf (snd kv)) (omitempty k s)"
  by (simp add: omitempty_def)


lemma lower_names [simp]:
  "to_lower ''id'' = ''id''" "to_lower ''service_type'' = ''service_type''" "to_lower ''model'' = ''model''"
  "to_lower ''status'' = ''status''" "to_lower ''input_ref'' = ''input_ref''"
  "to_lower ''result_ref'' = ''result_ref''" "to_lower ''callback_url'' = ''callback_url''"
  "to_lower ''consumer_name'' = ''consumer_name''" "to_lower ''error'' = ''error''"
  "to_lower ''created_at'' = ''created_at''" "to_lower ''updated_at'' = ''updated_at''"
  "to_lower ''job_id'' = ''job_id''" "to_lower ''inference_url'' = ''inference_url''"
  "to_lower ''params'' = ''params''" "to_lower ''completed_at'' = ''completed_at''"
  by code_simp+

text \<open>What the encoding of a job can carry: a status that is not a misspelt constructor, and times
  in RFC 3339.\<close>

definition job_ok :: "Job \<Rightarrow> bool" where
  "job_ok j \<longleftrightarrow> status_ok (job_Status j) \<and> time_ok (job_CreatedAt j) \<and> time_ok (job_UpdatedAt j)"

lemma json_wf_job: "json_wf (job_json j)"
  by (simp add: job_json_def)

lemma job_of_job_json: "job_ok j \<Longrightarrow> job_of_json (job_json j) = Some j"
  by (simp add: job_json_def job_of_json_def job_ok_def split: if_splits)

lemma unmarshal_marshal_job: "job_ok j \<Longrightarrow> unmarshal_job (marshal_job j) = Some j"
  by (simp add: unmarshal_job_def marshal_job_def json_parse_text json_wf_job job_of_job_json)

lemma dec_field_time_ok: "dec_field d_time z vs = Some t \<Longrightarrow> time_ok z \<Longrightarrow> time_ok t"
  by (induction vs arbitrary: z) (auto split: if_splits option.splits elim: d_time.elims)

lemma zero_time_ok: "time_ok zero_time"
  by code_simp

lemma unmarshal_job_ok: "unmarshal_job s = Some j \<Longrightarrow> job_ok j"
  by (auto simp: unmarshal_job_def job_of_json_def job_ok_def zero_time_ok dest!: dec_field_time_ok
      split: bind_splits)

lemma gm_update_fresh: "k \<notin> fst ` set m \<Longrightarrow> AList.update k v m = m @ [(k, v)]"
  by (induction m) auto

lemma put_all_distinct: "distinct (map fst (m @ kvs)) \<Longrightarrow> put_all m kvs = m @ kvs"
proof (induction kvs arbitrary: m)
  case (Cons kv kvs)
  have "fst kv \<notin> fst ` set m" using Cons.prems by auto
  then have "AList.update (fst kv) (snd kv) m = m @ [kv]"
    by (cases kv) (simp add: gm_update_fresh)
  then show ?case using Cons.IH [of "m @ [kv]"] Cons.prems by (simp add: put_all_def)
qed (simp add: put_all_def)

lemma those_strs: "those (map (\<lambda>kv. dec_field d_str [] [snd kv]) (map (\<lambda>kv. (fst kv, JStr (snd kv))) m)) = Some (map snd m)"
  by (induction m) simp_all

definition sorted_params :: "InputEvent \<Rightarrow> InputEvent" where
  "sorted_params e = e\<lparr>ie_Params := sort_key fst (ie_Params e)\<rparr>"

definition input_event_ok :: "InputEvent \<Rightarrow> bool" where
  "input_event_ok e \<longleftrightarrow> gm_wf (ie_Params e) \<and> time_ok (ie_CreatedAt e)"

lemma json_wf_input_event: "json_wf (input_event_json e)"
  by (simp add: input_event_json_def params_json_def list_all_iff)

lemma sort_key_wf: "gm_wf m \<Longrightarrow> distinct (map fst (sort_key fst m))"
proof -
  assume "gm_wf m"
  then have "distinct m" "inj_on fst (set m)"
    by (auto simp: gm_wf_def distinct_map)
  then show ?thesis by (simp add: distinct_map)
qed

lemma input_event_of_event_json:
  assumes "input_event_ok e"
  shows "input_event_of_json (input_event_json e) = Some (sorted_params e)"
proof -
  have d: "put_all [] (sort_key fst (ie_Params e)) = sort_key fst (ie_Params e)"
    using put_all_distinct [of "[]" "sort_key fst (ie_Params e)"] sort_key_wf [of "ie_Params e"] assms
    by (simp add: input_event_ok_def)
  have z: "zip (map fst m) (map snd m) = m" for m :: "(string \<times> string) list"
    by (rule zip_map_fst_snd)
  have k: "map fst (map (\<lambda>kv. (fst kv, JStr (snd kv))) m) = map fst m" for m :: "(string \<times> string) list"
    by simp
  have "dec_params [] [params_json (ie_Params e)] = Some (sort_key fst (ie_Params e))"
    by (simp only: params_json_def dec_params.simps those_strs k z option.case d)
  then show ?thesis
    using assms by (simp add: input_event_json_def input_event_of_json_def input_event_ok_def sorted_params_def)
qed

lemma unmarshal_marshal_input_event:
  "input_event_ok e \<Longrightarrow> unmarshal_input_event (marshal_input_event e) = Some (sorted_params e)"
  by (simp add: unmarshal_input_event_def marshal_input_event_def json_parse_text json_wf_input_event
      input_event_of_event_json)

lemma sorted_params_same: "gm_wf (ie_Params e) \<Longrightarrow> map_of (ie_Params (sorted_params e)) = map_of (ie_Params e)"
  using gm_keys_perm_lookup [of "sort_key fst (ie_Params e)" "ie_Params e"] sort_key_wf [of "ie_Params e"]
  by (simp add: sorted_params_def gm_wf_def)

lemma sorted_params_simps [simp]:
  "ie_JobID (sorted_params e) = ie_JobID e" "ie_InputRef (sorted_params e) = ie_InputRef e"
  "ie_ServiceType (sorted_params e) = ie_ServiceType e" "ie_Model (sorted_params e) = ie_Model e"
  "ie_InferenceURL (sorted_params e) = ie_InferenceURL e" "ie_CreatedAt (sorted_params e) = ie_CreatedAt e"
  by (simp_all add: sorted_params_def)

definition result_event_ok :: "ResultEvent \<Rightarrow> bool" where
  "result_event_ok e \<longleftrightarrow> status_ok (re_Status e) \<and> time_ok (re_CompletedAt e)"

lemma json_wf_result_event: "json_wf (result_event_json e)"
  by (simp add: result_event_json_def)

lemma result_event_of_event_json:
  "result_event_ok e \<Longrightarrow> result_event_of_json (result_event_json e) = Some e"
  by (simp add: result_event_json_def result_event_of_json_def result_event_ok_def split: if_splits)

lemma unmarshal_marshal_result_event:
  "result_event_ok e \<Longrightarrow> unmarshal_result_event (marshal_result_event e) = Some e"
  by (simp add: unmarshal_result_event_def marshal_result_event_def json_parse_text json_wf_result_event
      result_event_of_event_json)


definition demo_job :: Job where
  "demo_job = \<lparr>job_ID = ''j1'', job_ServiceType = ''audio'', job_Model = ''whisper'', job_Status = Pending,
     job_InputRef = ''j1/input.wav'', job_ResultRef = [], job_CallbackURL = ''http://c/?a=1&b=2'',
     job_ConsumerName = ''team'', job_Error = [], job_CreatedAt = ''2024-02-29T12:34:56.789Z'',
     job_UpdatedAt = ''2024-02-29T12:34:56.789Z''\<rparr>"

definition demo_input_event :: InputEvent where
  "demo_input_event = \<lparr>ie_JobID = ''j1'', ie_ServiceType = ''audio'', ie_Model = ''whisper'',
     ie_InputRef = ''j1/input.wav'', ie_InferenceURL = ''/v1/audio'',
     ie_Params = [(''lang'', ''fr''), (''beam'', ''5'')], ie_CreatedAt = ''2024-02-29T12:34:56.789Z''\<rparr>"

definition demo_result_event :: ResultEvent where
  "demo_result_event = \<lparr>re_JobID = ''j1'', re_ServiceType = ''audio'', re_Status = Completed,
     re_ResultRef = ''j1/result.json'', re_Error = [], re_CompletedAt = ''2024-02-29T12:35:00Z''\<rparr>"

lemma demo_times: "time_ok ''2024-02-29T12:34:56.789Z''" "time_ok ''2024-02-29T12:35:00Z''"
  by code_simp+

lemma demo_ok: "job_ok demo_job" "input_event_ok demo_input_event" "result_event_ok demo_result_event"
  by (simp_all add: job_ok_def input_event_ok_def result_event_ok_def demo_job_def demo_input_event_def
      demo_result_event_def gm_wf_def demo_times)


end
