(* ===== verification/Gcm.thy ===== *)
theory Gcm
  imports Prelude
begin

text \<open>
  The part of the Go standard library that internal/crypto uses: crypto/aes and cipher.NewGCM with
  12-byte nonces and no additional data.  Everything is defined (FIPS 197 and NIST SP 800-38D), so
  that Open after Seal is a theorem about the cipher the code runs.  What cannot be a theorem is
  that a forged chunk is rejected: that is a property of AES and not of this program.
\<close>

unbundle bit_operations_syntax

section \<open>AES\<close>

type_synonym byte = "8 word"

definition sbox :: "byte list" where
  "sbox = [
     99, 124, 119, 123, 242, 107, 111, 197, 48, 1, 103, 43, 254, 215, 171, 118,
     202, 130, 201, 125, 250, 89, 71, 240, 173, 212, 162, 175, 156, 164, 114, 192,
     183, 253, 147, 38, 54, 63, 247, 204, 52, 165, 229, 241, 113, 216, 49, 21,
     4, 199, 35, 195, 24, 150, 5, 154, 7, 18, 128, 226, 235, 39, 178, 117,
     9, 131, 44, 26, 27, 110, 90, 160, 82, 59, 214, 179, 41, 227, 47, 132,
     83, 209, 0, 237, 32, 252, 177, 91, 106, 203, 190, 57, 74, 76, 88, 207,
     208, 239, 170, 251, 67, 77, 51, 133, 69, 249, 2, 127, 80, 60, 159, 168,
     81, 163, 64, 143, 146, 157, 56, 245, 188, 182, 218, 33, 16, 255, 243, 210,
     205, 12, 19, 236, 95, 151, 68, 23, 196, 167, 126, 61, 100, 93, 25, 115,
     96, 129, 79, 220, 34, 42, 144, 136, 70, 238, 184, 20, 222, 94, 11, 219,
     224, 50, 58, 10, 73, 6, 36, 92, 194, 211, 172, 98, 145, 149, 228, 121,
     231, 200, 55, 109, 141, 213, 78, 169, 108, 86, 244, 234, 101, 122, 174, 8,
     186, 120, 37, 46, 28, 166, 180, 198, 232, 221, 116, 31, 75, 189, 139, 138,
     112, 62, 181, 102, 72, 3, 246, 14, 97, 53, 87, 185, 134, 193, 29, 158,
     225, 248, 152, 17, 105, 217, 142, 148, 155, 30, 135, 233, 206, 85, 40, 223,
     140, 161, 137, 13, 191, 230, 66, 104, 65, 153, 45, 15, 176, 84, 187, 22]"

definition sub_byte :: "byte \<Rightarrow> byte" where
  "sub_byte b = sbox ! unat b"

definition xtime :: "byte \<Rightarrow> byte" where
  "xtime b = (if bit b 7 then push_bit 1 b XOR 27 else push_bit 1 b)"

fun rcon :: "nat \<Rightarrow> byte" where
  "rcon 0 = 1"
| "rcon (Suc n) = xtime (rcon n)"

definition xor_bytes :: "byte list \<Rightarrow> byte list \<Rightarrow> byte list" where
  "xor_bytes xs ys = map2 (XOR) xs ys"

text \<open>The key schedule: the words of the expanded key, four bytes each, the last one first.\<close>

definition next_word :: "nat \<Rightarrow> byte list list \<Rightarrow> byte list" where
  "next_word nk ws =
     (let i = length ws; temp = hd ws; old = ws ! (nk - 1);
          t = (if i mod nk = 0
               then (case map sub_byte (rotate1 temp) of [] \<Rightarrow> [] | a # r \<Rightarrow> (a XOR rcon (i div nk - 1)) # r)
               else if nk > 6 \<and> i mod nk = 4 then map sub_byte temp
               else temp)
      in xor_bytes old t)"

fun expand :: "nat \<Rightarrow> nat \<Rightarrow> byte list list \<Rightarrow> byte list list" where
  "expand nk 0 ws = ws"
| "expand nk (Suc n) ws = expand nk n (next_word nk ws # ws)"

fun chunks_of :: "nat \<Rightarrow> nat \<Rightarrow> 'a list \<Rightarrow> 'a list list" where
  "chunks_of w 0 xs = []"
| "chunks_of w (Suc n) xs = take w xs # chunks_of w n (drop w xs)"

definition round_keys :: "byte list \<Rightarrow> byte list list" where
  "round_keys key =
     (let nk = length key div 4; nr = nk + 6;
          ws = rev (expand nk (4 * (nr + 1) - nk) (rev (chunks_of 4 nk key)))
      in chunks_of 16 (nr + 1) (concat ws))"

text \<open>The state is the block itself: byte 4 c + r stands in row r of column c.\<close>

definition shift_rows :: "byte list \<Rightarrow> byte list" where
  "shift_rows s = map (\<lambda>i. s ! ((i + 4 * (i mod 4)) mod 16)) [0..<16]"

definition mix_column :: "byte list \<Rightarrow> byte list" where
  "mix_column c =
     (let a = c ! 0; b = c ! 1; d = c ! 2; e = c ! 3
      in [xtime a XOR (xtime b XOR b) XOR d XOR e,
          a XOR xtime b XOR (xtime d XOR d) XOR e,
          a XOR b XOR xtime d XOR (xtime e XOR e),
          (xtime a XOR a) XOR b XOR d XOR xtime e])"

definition mix_columns :: "byte list \<Rightarrow> byte list" where
  "mix_columns s = concat (map mix_column (chunks_of 4 4 s))"

fun aes_rounds :: "byte list list \<Rightarrow> byte list \<Rightarrow> byte list" where
  "aes_rounds [] s = s"
| "aes_rounds [k] s = xor_bytes (shift_rows (map sub_byte s)) k"
| "aes_rounds (k # k' # ks) s =
     aes_rounds (k' # ks) (xor_bytes (mix_columns (shift_rows (map sub_byte s))) k)"

definition aes_encrypt :: "byte list \<Rightarrow> byte list \<Rightarrow> byte list" where
  "aes_encrypt key block =
     (let ks = round_keys key in aes_rounds (tl ks) (xor_bytes block (hd ks)))"

section \<open>GCM\<close>

text \<open>Big-endian bytes of a number.\<close>

definition be_bytes :: "nat \<Rightarrow> nat \<Rightarrow> byte list" where
  "be_bytes n x = map (\<lambda>i. word_of_nat (x div 256 ^ (n - 1 - i))) [0..<n]"

definition block_word :: "byte list \<Rightarrow> 128 word" where
  "block_word bs = foldl (\<lambda>w b. push_bit 8 w OR ucast b) 0 bs"

definition word_block :: "128 word \<Rightarrow> byte list" where
  "word_block w = map (\<lambda>i. ucast (drop_bit (8 * (15 - i)) w)) [0..<16]"

text \<open>Multiplication in the field of GHASH, bit 127 of the word being the first bit of the block.\<close>

fun gf_mult_aux :: "nat \<Rightarrow> 128 word \<Rightarrow> 128 word \<Rightarrow> 128 word \<Rightarrow> 128 word" where
  "gf_mult_aux 0 x v z = z"
| "gf_mult_aux (Suc n) x v z =
     gf_mult_aux n x (if bit v 0 then drop_bit 1 v XOR push_bit 120 225 else drop_bit 1 v)
       (if bit x n then z XOR v else z)"

definition gf_mult :: "128 word \<Rightarrow> 128 word \<Rightarrow> 128 word" where
  "gf_mult x y = gf_mult_aux 128 x y 0"

definition pad16 :: "byte list \<Rightarrow> byte list" where
  "pad16 xs = xs @ replicate ((16 - length xs mod 16) mod 16) 0"

definition ghash :: "128 word \<Rightarrow> byte list \<Rightarrow> 128 word" where
  "ghash h xs = foldl (\<lambda>y b. gf_mult (y XOR block_word b) h) 0 (chunks_of 16 (length xs div 16) xs)"

definition ctr_block :: "byte list \<Rightarrow> nat \<Rightarrow> byte list" where
  "ctr_block nonce i = nonce @ be_bytes 4 i"

definition keystream :: "byte list \<Rightarrow> byte list \<Rightarrow> nat \<Rightarrow> byte list" where
  "keystream key nonce n =
     take n (concat (map (\<lambda>i. aes_encrypt key (ctr_block nonce (i + 2))) [0..<(n + 15) div 16]))"

definition gcm_crypt :: "byte list \<Rightarrow> byte list \<Rightarrow> byte list \<Rightarrow> byte list" where
  "gcm_crypt key nonce xs = xor_bytes xs (keystream key nonce (length xs))"

definition gcm_tag :: "byte list \<Rightarrow> byte list \<Rightarrow> byte list \<Rightarrow> byte list" where
  "gcm_tag key nonce c =
     (let h = block_word (aes_encrypt key (replicate 16 0));
          s = ghash h (pad16 c @ be_bytes 8 0 @ be_bytes 8 (8 * length c))
      in word_block (s XOR block_word (aes_encrypt key (ctr_block nonce 1))))"

definition seal_bytes :: "byte list \<Rightarrow> byte list \<Rightarrow> byte list \<Rightarrow> byte list" where
  "seal_bytes key nonce p = (let c = gcm_crypt key nonce p in c @ gcm_tag key nonce c)"

definition open_bytes :: "byte list \<Rightarrow> byte list \<Rightarrow> byte list \<Rightarrow> byte list option" where
  "open_bytes key nonce x =
     (if length x < 16 then None
      else (let c = take (length x - 16) x; t = drop (length x - 16) x
            in if t = gcm_tag key nonce c then Some (gcm_crypt key nonce c) else None))"

text \<open>Seal and Open on Go byte slices.\<close>

definition to_bytes :: "string \<Rightarrow> byte list" where
  "to_bytes s = map (\<lambda>c. word_of_nat (of_char c)) s"

definition of_bytes :: "byte list \<Rightarrow> string" where
  "of_bytes bs = map (\<lambda>b. char_of (unat b)) bs"

definition gcm_seal :: "string \<Rightarrow> string \<Rightarrow> string \<Rightarrow> string" where
  "gcm_seal key nonce p = of_bytes (seal_bytes (to_bytes key) (to_bytes nonce) (to_bytes p))"

definition gcm_open :: "string \<Rightarrow> string \<Rightarrow> string \<Rightarrow> string option" where
  "gcm_open key nonce c =
     map_option of_bytes (open_bytes (to_bytes key) (to_bytes nonce) (to_bytes c))"

section \<open>Lengths\<close>

lemma length_chunks_of [simp]: "length (chunks_of w n xs) = n"
  by (induction n arbitrary: xs) simp_all

lemma concat_chunks_of [simp]: "concat (chunks_of w n xs) = take (w * n) xs"
  by (induction n arbitrary: xs) (simp_all add: take_add [symmetric] add.commute)

lemma chunks_of_all: "w * n \<le> length xs \<Longrightarrow> \<forall>c \<in> set (chunks_of w n xs). length c = w"
proof (induction n arbitrary: xs)
  case (Suc n)
  have "w + w * n \<le> length xs" using Suc.prems by simp
  then have l: "w * n \<le> length (drop w xs)" "w \<le> length xs" by simp_all
  have *: "\<forall>c \<in> set (chunks_of w n (drop w xs)). length c = w" using l(1) by (rule Suc.IH)
  have "length (take w xs) = w" using l(2) by simp
  with * show ?case unfolding chunks_of.simps list.set by blast
qed simp

lemma length_xor_bytes [simp]: "length (xor_bytes xs ys) = min (length xs) (length ys)"
  by (simp add: xor_bytes_def)

lemma length_shift_rows [simp]: "length (shift_rows s) = 16"
  by (simp add: shift_rows_def)

lemma length_mix_columns [simp]: "length (mix_columns s) = 16"
  by (simp add: mix_columns_def mix_column_def Let_def length_concat eval_nat_numeral)

lemma length_concat_same: "\<forall>x \<in> set xs. length x = w \<Longrightarrow> length (concat xs) = w * length xs"
  by (induction xs) simp_all

lemma length_next_word:
  "length ws \<ge> nk \<Longrightarrow> nk > 0 \<Longrightarrow> \<forall>w \<in> set ws. length w = 4 \<Longrightarrow> length (next_word nk ws) = 4"
proof -
  assume a: "length ws \<ge> nk" "nk > 0" "\<forall>w \<in> set ws. length w = 4"
  from a(1,2) have ne: "ws \<noteq> []" and n: "nk - 1 < length ws" by auto
  have "hd ws \<in> set ws" "ws ! (nk - 1) \<in> set ws"
    by (rule hd_in_set [OF ne], rule nth_mem [OF n])
  then have l: "length (hd ws) = 4" "length (ws ! (nk - 1)) = 4" using a(3) by blast+
  have "length (case map sub_byte (rotate1 (hd ws)) of [] \<Rightarrow> [] | a # r \<Rightarrow> (a XOR k) # r) = 4" for k
  proof -
    have "length (rotate1 (hd ws)) = 4" using l(1) by simp
    then show ?thesis by (cases "rotate1 (hd ws)") simp_all
  qed
  then show ?thesis using l by (simp only: next_word_def Let_def length_xor_bytes) simp
qed

lemma expand_lengths:
  "length ws \<ge> nk \<Longrightarrow> nk > 0 \<Longrightarrow> \<forall>w \<in> set ws. length w = 4 \<Longrightarrow>
   length (expand nk n ws) = n + length ws \<and> (\<forall>w \<in> set (expand nk n ws). length w = 4)"
proof (induction n arbitrary: ws)
  case (Suc n)
  have "length (next_word nk ws) = 4" using length_next_word Suc.prems by blast
  then have "\<forall>w \<in> set (next_word nk ws # ws). length w = 4" using Suc.prems(3) unfolding list.set by blast
  moreover have "nk \<le> length (next_word nk ws # ws)" using Suc.prems(1) by simp
  ultimately have "length (expand nk n (next_word nk ws # ws)) = n + length (next_word nk ws # ws) \<and>
      (\<forall>w \<in> set (expand nk n (next_word nk ws # ws)). length w = 4)"
    using Suc.prems(2) by (intro Suc.IH)
  then show ?case by simp
qed simp

lemma round_keys_lengths:
  assumes "length key = 4 * nk" and "nk > 0" and "nk \<le> 9"
  shows "length (round_keys key) = nk + 7" and "\<forall>k \<in> set (round_keys key). length k = 16"
proof -
  let ?w0 = "rev (chunks_of 4 nk key)"
  let ?ws = "rev (expand nk (4 * (nk + 7) - nk) ?w0)"
  have nk: "length key div 4 = nk" using assms by simp
  have "\<forall>w \<in> set ?w0. length w = 4" using chunks_of_all [of 4 nk key] assms by simp
  then have ws: "length ?ws = 4 * (nk + 7)" "\<forall>w \<in> set ?ws. length w = 4"
    using expand_lengths [of nk ?w0 "4 * (nk + 7) - nk"] assms by auto
  then have "length (concat ?ws) = 16 * (nk + 7)"
    using length_concat_same [of ?ws 4] by (simp add: distrib_left)
  then have l: "16 * (nk + 7) \<le> length (concat ?ws)" by simp
  have r: "round_keys key = chunks_of 16 (nk + 7) (concat ?ws)"
    using nk by (simp only: round_keys_def Let_def) (simp add: add.commute del: chunks_of.simps)
  show "length (round_keys key) = nk + 7" unfolding r by simp
  show "\<forall>k \<in> set (round_keys key). length k = 16" unfolding r by (rule chunks_of_all [OF l])
qed

lemma length_aes_rounds:
  "\<forall>k \<in> set ks. length k = 16 \<Longrightarrow> length s = 16 \<Longrightarrow> length (aes_rounds ks s) = 16"
  by (induction ks s rule: aes_rounds.induct) simp_all

lemma length_aes_encrypt:
  assumes "length key = 32" and "length b = 16"
  shows "length (aes_encrypt key b) = 16"
proof -
  have l: "length (round_keys key) = 15" and k: "\<forall>k \<in> set (round_keys key). length k = 16"
    using round_keys_lengths [of key 8] assms by simp_all
  then obtain k0 ks where "round_keys key = k0 # ks" by (cases "round_keys key") auto
  with k assms show ?thesis by (simp add: aes_encrypt_def length_aes_rounds)
qed

lemma length_ctr_block [simp]: "length (ctr_block nonce i) = length nonce + 4"
  by (simp add: ctr_block_def be_bytes_def)

lemma length_keystream:
  assumes "length key = 32" and "length nonce = 12"
  shows "length (keystream key nonce n) = n"
proof -
  have "length (aes_encrypt key (ctr_block nonce i)) = 16" for i
    using length_aes_encrypt assms by simp
  then have "length (concat (map (\<lambda>i. aes_encrypt key (ctr_block nonce (i + 2))) [0..<m])) = 16 * m" for m
    by (induction m) simp_all
  moreover have "n \<le> 16 * ((n + 15) div 16)" by presburger
  ultimately show ?thesis by (simp add: keystream_def)
qed

lemma length_word_block [simp]: "length (word_block w) = 16"
  by (simp add: word_block_def)

section \<open>Open after Seal\<close>

lemma xor_bytes_twice: "length xs \<le> length ks \<Longrightarrow> xor_bytes (xor_bytes xs ks) ks = xs"
proof (induction xs arbitrary: ks)
  case (Cons x xs)
  then obtain k ks' where "ks = k # ks'" by (cases ks) auto
  with Cons show ?case by (simp add: xor_bytes_def xor.assoc)
qed (simp add: xor_bytes_def)

lemma length_gcm_crypt:
  "length key = 32 \<Longrightarrow> length nonce = 12 \<Longrightarrow> length (gcm_crypt key nonce xs) = length xs"
  by (simp add: gcm_crypt_def length_keystream)

lemma gcm_crypt_twice:
  assumes "length key = 32" and "length nonce = 12"
  shows "gcm_crypt key nonce (gcm_crypt key nonce xs) = xs"
  using xor_bytes_twice [of xs "keystream key nonce (length xs)"] assms length_keystream [OF assms]
  by (simp add: gcm_crypt_def)

lemma open_seal_bytes:
  assumes "length key = 32" and "length nonce = 12"
  shows "open_bytes key nonce (seal_bytes key nonce p) = Some p"
    and "length (seal_bytes key nonce p) = length p + 16"
  by (simp_all add: open_bytes_def seal_bytes_def Let_def gcm_tag_def gcm_crypt_twice [OF assms]
      length_gcm_crypt [OF assms])

lemma length_to_bytes [simp]: "length (to_bytes s) = length s"
  by (simp add: to_bytes_def)

lemma length_of_bytes [simp]: "length (of_bytes s) = length s"
  by (simp add: of_bytes_def)

lemma byte_char: "word_of_nat (of_char (char_of (unat b))) = (b :: byte)"
proof -
  have "unat b < 2 ^ 8" using unsigned_less [of b] by simp
  then show ?thesis by simp
qed

lemma of_to_bytes [simp]: "of_bytes (to_bytes s) = s"
  by (rule nth_equalityI) (simp_all add: of_bytes_def to_bytes_def unsigned_of_nat take_bit_eq_mod)

lemma to_of_bytes [simp]: "to_bytes (of_bytes bs) = bs"
  by (rule nth_equalityI) (simp_all add: of_bytes_def to_bytes_def byte_char del: of_char_of)

lemma gcm_open_seal:
  assumes "length key = 32" and "length nonce = 12"
  shows "gcm_open key nonce (gcm_seal key nonce p) = Some p"
  using open_seal_bytes(1) [of "to_bytes key" "to_bytes nonce" "to_bytes p"] assms
  by (simp add: gcm_open_def gcm_seal_def)

lemma length_gcm_seal:
  assumes "length key = 32" and "length nonce = 12"
  shows "length (gcm_seal key nonce p) = length p + 16"
  using open_seal_bytes(2) [of "to_bytes key" "to_bytes nonce" "to_bytes p"] assms
  by (simp add: gcm_seal_def)

lemma gcm_open_empty [simp]: "gcm_open key nonce [] = None"
  by (simp add: gcm_open_def open_bytes_def)

end
