(* ===== verification/Crypto.thy ===== *)
theory Crypto
  imports Gcm
begin

text \<open>
  internal/crypto/aes.go (for relay/internal/crypto/aes.go see Relay_Crypto): S3 objects are encrypted
  in chunks of 64 KB, each sealed on its own under a nonce made of eight random bytes and the chunk
  number.  A reader is the bytes it delivers and the error it ends with, None for io.EOF; a pipe
  reader delivers what its writer goroutine wrote before it closed the pipe.
\<close>

section \<open>Readers\<close>

datatype io_error =
    UnexpectedEOF
  | SourceError string
  | ChunkError nat
  | NoncePrefixError
  | RandomError
  | KeySizeError nat

type_synonym reader = "string \<times> io_error option"

datatype read_result = ReadOk | ReadEOF | ReadErr io_error

text \<open>io.ReadFull: the bytes read, what is left of the source, the error.\<close>

definition ReadFull :: "nat \<Rightarrow> string \<Rightarrow> io_error option \<Rightarrow> string \<times> string \<times> read_result" where
  "ReadFull n src rerr =
     (if n \<le> length src then (take n src, drop n src, ReadOk)
      else (src, [],
        (case rerr of
           Some e \<Rightarrow> ReadErr e
         | None \<Rightarrow> if src = [] then ReadEOF else ReadErr UnexpectedEOF)))"

section \<open>Keys and sizes\<close>

definition chunkPlainSize :: nat where "chunkPlainSize = 65536"
definition gcmTagSize :: nat where "gcmTagSize = 16"
definition chunkCipherSize :: nat where "chunkCipherSize = chunkPlainSize + gcmTagSize"
definition noncePrefixLen :: nat where "noncePrefixLen = 8"

datatype key_error = InvalidHex | WrongKeyLength nat

definition hex_nibble :: "char \<Rightarrow> nat option" where
  "hex_nibble c =
     (let n = of_char c :: nat
      in if 48 \<le> n \<and> n \<le> 57 then Some (n - 48)
         else if 97 \<le> n \<and> n \<le> 102 then Some (n - 87)
         else if 65 \<le> n \<and> n \<le> 70 then Some (n - 55) else None)"

fun hex_decode :: "string \<Rightarrow> string option" where
  "hex_decode [] = Some []"
| "hex_decode [_] = None"
| "hex_decode (a # b # r) =
     (case (hex_nibble a, hex_nibble b, hex_decode r) of
        (Some x, Some y, Some bs) \<Rightarrow> Some (char_of (16 * x + y) # bs)
      | _ \<Rightarrow> None)"

text \<open>None is the nil key: encryption disabled.\<close>

definition ParseKey :: "string \<Rightarrow> key_error + string option" where
  "ParseKey keyHex =
     (if keyHex = [] then Inr None
      else (case hex_decode keyHex of
              None \<Rightarrow> Inl InvalidHex
            | Some key \<Rightarrow> if length key \<noteq> 32 then Inl (WrongKeyLength (length key)) else Inr (Some key)))"

definition EncryptedSize :: "int \<Rightarrow> int" where
  "EncryptedSize plainSize =
     (if plainSize < 0 then - 1
      else (let fullChunks = plainSize div int chunkPlainSize;
                lastPlain = plainSize mod int chunkPlainSize;
                size = i64 (int noncePrefixLen + fullChunks * int chunkCipherSize)
            in if plainSize = 0 \<or> lastPlain > 0 then i64 (size + (lastPlain + int gcmTagSize)) else size))"

section \<open>The chunk loops\<close>

text \<open>The nonce of chunk i; the chunk number is a uint32 and wraps.\<close>

definition be32 :: "32 word \<Rightarrow> string" where
  "be32 i = map (\<lambda>k. char_of (unat (drop_bit (8 * (3 - k)) i))) [0..<4]"

definition chunk_nonce :: "string \<Rightarrow> 32 word \<Rightarrow> string" where
  "chunk_nonce noncePrefix i = noncePrefix @ be32 i"

function encrypt_loop ::
    "(string \<Rightarrow> string \<Rightarrow> string) \<Rightarrow> string \<Rightarrow> 32 word \<Rightarrow> string \<Rightarrow> io_error option \<Rightarrow> reader" where
  "encrypt_loop seal pre i src rerr =
     (let (buf, rest, readErr) = ReadFull chunkPlainSize src rerr;
          out = (if buf \<noteq> [] \<or> i = 0 then seal (chunk_nonce pre i) buf else [])
      in (case readErr of
            ReadEOF \<Rightarrow> (out, None)
          | ReadErr e \<Rightarrow> if e = UnexpectedEOF then (out, None) else (out, Some e)
          | ReadOk \<Rightarrow>
              (let (out', err) = encrypt_loop seal pre (i + 1) rest rerr in (out @ out', err))))"
  by pat_completeness auto
termination
  by (relation "measure (\<lambda>(_, _, _, src, _). length src)")
    (auto simp: ReadFull_def chunkPlainSize_def split: if_splits option.splits)

function decrypt_loop ::
    "(string \<Rightarrow> string \<Rightarrow> string option) \<Rightarrow> string \<Rightarrow> 32 word \<Rightarrow> string \<Rightarrow> io_error option \<Rightarrow> reader" where
  "decrypt_loop opn pre i src rerr =
     (let (buf, rest, readErr) = ReadFull chunkCipherSize src rerr
      in if buf = [] then
           (case readErr of ReadEOF \<Rightarrow> ([], None) | ReadErr e \<Rightarrow> ([], Some e) | ReadOk \<Rightarrow> ([], None))
         else
           (case opn (chunk_nonce pre i) buf of
              None \<Rightarrow> ([], Some (ChunkError (unat i)))
            | Some plain \<Rightarrow>
                (case readErr of
                   ReadEOF \<Rightarrow> (plain, None)
                 | ReadErr e \<Rightarrow> if e = UnexpectedEOF then (plain, None) else (plain, Some e)
                 | ReadOk \<Rightarrow>
                     (let (out', err) = decrypt_loop opn pre (i + 1) rest rerr in (plain @ out', err)))))"
  by pat_completeness auto
termination
  by (relation "measure (\<lambda>(_, _, _, src, _). length src)")
    (auto simp: ReadFull_def chunkCipherSize_def chunkPlainSize_def split: if_splits option.splits)

declare encrypt_loop.simps [simp del] decrypt_loop.simps [simp del]

section \<open>Streams\<close>

text \<open>aes.NewCipher refuses a key that is not 16, 24 or 32 bytes long; \<open>rnd\<close> is what rand.Read
  delivers, None when it fails.\<close>

definition aes_key_ok :: "string \<Rightarrow> bool" where
  "aes_key_ok key \<longleftrightarrow> length key \<in> {16, 24, 32}"

definition encryptStream :: "string \<Rightarrow> string option \<Rightarrow> reader \<Rightarrow> reader" where
  "encryptStream key rnd src =
     (if \<not> aes_key_ok key then ([], Some (KeySizeError (length key)))
      else (case rnd of
              None \<Rightarrow> ([], Some RandomError)
            | Some pre \<Rightarrow>
                (let (out, err) = encrypt_loop (gcm_seal key) pre 0 (fst src) (snd src) in (pre @ out, err))))"

definition decryptStream :: "string \<Rightarrow> reader \<Rightarrow> reader" where
  "decryptStream key src =
     (if \<not> aes_key_ok key then ([], Some (KeySizeError (length key)))
      else (case ReadFull noncePrefixLen (fst src) (snd src) of
              (pre, rest, ReadOk) \<Rightarrow> decrypt_loop (gcm_open key) pre 0 rest (snd src)
            | _ \<Rightarrow> ([], Some NoncePrefixError)))"

definition Encrypt :: "string option \<Rightarrow> string option \<Rightarrow> reader \<Rightarrow> reader" where
  "Encrypt key rnd src = (case key of None \<Rightarrow> src | Some k \<Rightarrow> encryptStream k rnd src)"

definition Decrypt :: "string option \<Rightarrow> reader \<Rightarrow> reader" where
  "Decrypt key src = (case key of None \<Rightarrow> src | Some k \<Rightarrow> decryptStream k src)"

section \<open>The cipher as an interface\<close>

text \<open>
  What the chunk loops rely on of cipher.AEAD: opening what was sealed under the same key and nonce
  gives the plaintext back, and sealing adds a tag of 16 bytes.
\<close>

locale aead =
  fixes seal :: "string \<Rightarrow> string \<Rightarrow> string \<Rightarrow> string"
    and opn :: "string \<Rightarrow> string \<Rightarrow> string \<Rightarrow> string option"
  assumes open_seal: "length key = 32 \<Longrightarrow> length nonce = 12 \<Longrightarrow> opn key nonce (seal key nonce p) = Some p"
    and length_seal: "length key = 32 \<Longrightarrow> length nonce = 12 \<Longrightarrow> length (seal key nonce p) = length p + gcmTagSize"

lemma length_chunk_nonce: "length pre = noncePrefixLen \<Longrightarrow> length (chunk_nonce pre i) = 12"
  by (simp add: chunk_nonce_def be32_def noncePrefixLen_def)

lemma sizes [simp]: "0 < chunkPlainSize" "chunkPlainSize \<noteq> 0" "chunkCipherSize = chunkPlainSize + 16" "gcmTagSize = 16"
  by (simp_all add: chunkPlainSize_def chunkCipherSize_def gcmTagSize_def)

lemma drop_chunk: "chunkPlainSize \<le> length src \<Longrightarrow> length (drop chunkPlainSize src) < length src"
  using sizes(1) by (simp only: length_drop)

lemma ReadFull_ge [simp]: "n \<le> length src \<Longrightarrow> ReadFull n src e = (take n src, drop n src, ReadOk)"
  by (simp add: ReadFull_def)

lemma ReadFull_lt: "length src < n \<Longrightarrow>
  ReadFull n src None = (src, [], if src = [] then ReadEOF else ReadErr UnexpectedEOF)"
  by (simp add: ReadFull_def)

context aead
begin

lemma encrypt_full:
  assumes "chunkPlainSize \<le> length src"
  shows "fst (encrypt_loop (seal k) pre i src e) =
      seal k (chunk_nonce pre i) (take chunkPlainSize src) @
      fst (encrypt_loop (seal k) pre (i + 1) (drop chunkPlainSize src) e)"
    and "snd (encrypt_loop (seal k) pre i src e) =
      snd (encrypt_loop (seal k) pre (i + 1) (drop chunkPlainSize src) e)"
proof -
  have "take chunkPlainSize src \<noteq> []" using assms sizes(1) by (cases src) auto
  then show "fst (encrypt_loop (seal k) pre i src e) =
      seal k (chunk_nonce pre i) (take chunkPlainSize src) @
      fst (encrypt_loop (seal k) pre (i + 1) (drop chunkPlainSize src) e)"
    and "snd (encrypt_loop (seal k) pre i src e) =
      snd (encrypt_loop (seal k) pre (i + 1) (drop chunkPlainSize src) e)"
    by (simp_all add: encrypt_loop.simps [of "seal k" pre i src] assms split_beta)
qed

lemma encrypt_last:
  assumes "length src < chunkPlainSize"
  shows "encrypt_loop (seal k) pre i src None =
    (if src \<noteq> [] \<or> i = 0 then seal k (chunk_nonce pre i) src else [], None)"
  using assms by (simp add: encrypt_loop.simps [of "seal k" pre i src] ReadFull_lt)

lemma encrypt_no_error: "snd (encrypt_loop (seal k) pre i src None) = None"
proof (induction "length src" arbitrary: src i rule: less_induct)
  case less
  show ?case
  proof (cases "chunkPlainSize \<le> length src")
    case True
    have "length (drop chunkPlainSize src) < length src" using True by (rule drop_chunk)
    then show ?thesis using less True by (simp add: encrypt_full)
  next
    case False
    then show ?thesis by (simp add: encrypt_last)
  qed
qed

lemma decrypt_encrypted_chunk:
  assumes "length k = 32" and "length pre = noncePrefixLen" and "length buf = chunkPlainSize"
  shows "decrypt_loop (opn k) pre i (seal k (chunk_nonce pre i) buf @ rest) None =
    (let (out, err) = decrypt_loop (opn k) pre (i + 1) rest None in (buf @ out, err))"
proof -
  note n = length_chunk_nonce [OF assms(2)]
  have l: "length (seal k (chunk_nonce pre i) buf) = chunkCipherSize"
    using length_seal [OF assms(1) n] assms(3) by simp
  then have "seal k (chunk_nonce pre i) buf \<noteq> []" by auto
  then show ?thesis
    using l by (subst decrypt_loop.simps) (simp add: open_seal [OF assms(1) n])
qed

lemma decrypt_last_chunk:
  assumes "length k = 32" and "length pre = noncePrefixLen" and "length buf < chunkPlainSize"
  shows "decrypt_loop (opn k) pre i (seal k (chunk_nonce pre i) buf) None = (buf, None)"
proof -
  note n = length_chunk_nonce [OF assms(2)]
  have l: "length (seal k (chunk_nonce pre i) buf) = length buf + 16"
    using length_seal [OF assms(1) n] by simp
  then have "seal k (chunk_nonce pre i) buf \<noteq> []" by auto
  then show ?thesis
    using l assms(3)
    by (subst decrypt_loop.simps) (simp add: open_seal [OF assms(1) n] ReadFull_lt)
qed

lemma decrypt_nothing: "decrypt_loop (opn k) pre i [] None = ([], None)"
  by (simp add: decrypt_loop.simps ReadFull_lt)

text \<open>Decrypting an encrypted stream, or the first chunks of one.\<close>

lemma decrypt_encrypt_loop:
  assumes "length k = 32" and "length pre = noncePrefixLen"
  shows "decrypt_loop (opn k) pre i (fst (encrypt_loop (seal k) pre i src None)) None = (src, None)"
proof (induction "length src" arbitrary: src i rule: less_induct)
  case less
  show ?case
  proof (cases "chunkPlainSize \<le> length src")
    case True
    have "length (drop chunkPlainSize src) < length src" using True by (rule drop_chunk)
    then show ?thesis
      using less True by (simp add: encrypt_full decrypt_encrypted_chunk [OF assms])
  next
    case False
    then show ?thesis
      using decrypt_last_chunk [OF assms, of src i] by (simp add: encrypt_last decrypt_nothing)
  qed
qed

lemma decrypt_truncated_loop:
  assumes "length k = 32" and "length pre = noncePrefixLen"
  shows "n * chunkPlainSize \<le> length src \<Longrightarrow>
    decrypt_loop (opn k) pre i (take (n * chunkCipherSize) (fst (encrypt_loop (seal k) pre i src None))) None =
      (take (n * chunkPlainSize) src, None)"
proof (induction n arbitrary: src i)
  case 0
  then show ?case by (simp add: decrypt_nothing)
next
  case (Suc n)
  then have full: "chunkPlainSize \<le> length src" by simp
  let ?c = "seal k (chunk_nonce pre i) (take chunkPlainSize src)"
  have l: "length ?c = chunkCipherSize"
    using length_seal [OF assms(1) length_chunk_nonce [OF assms(2)]] full by simp
  have "take (Suc n * chunkCipherSize) (fst (encrypt_loop (seal k) pre i src None)) =
      ?c @ take (n * chunkCipherSize) (fst (encrypt_loop (seal k) pre (i + 1) (drop chunkPlainSize src) None))"
    using l by (simp add: encrypt_full(1) [OF full])
  moreover have "n * chunkPlainSize \<le> length (drop chunkPlainSize src)" using Suc.prems by simp
  ultimately show ?case
    using Suc.IH [of "drop chunkPlainSize src" "i + 1"] full
    by (simp add: decrypt_encrypted_chunk [OF assms] take_add)
qed

text \<open>The length of the encrypted stream, as long as the chunk number does not wrap.\<close>

lemma length_encrypt_loop:
  assumes "length k = 32" and "length pre = noncePrefixLen"
  shows "unat i + length src div chunkPlainSize < 2 ^ 32 \<Longrightarrow>
    length (fst (encrypt_loop (seal k) pre i src None)) =
      (length src div chunkPlainSize) * chunkCipherSize +
      (if 0 < length src mod chunkPlainSize \<or> (src = [] \<and> i = 0) then length src mod chunkPlainSize + 16 else 0)"
proof (induction "length src" arbitrary: src i rule: less_induct)
  case less
  note sl = length_seal [OF assms(1) length_chunk_nonce [OF assms(2)]]
  show ?case
  proof (cases "chunkPlainSize \<le> length src")
    case True
    let ?r = "drop chunkPlainSize src"
    have lr: "length ?r < length src" using True by (rule drop_chunk)
    have d: "length src div chunkPlainSize = Suc (length ?r div chunkPlainSize)"
      and m: "length src mod chunkPlainSize = length ?r mod chunkPlainSize"
      using True by (simp_all add: le_div_geq le_mod_geq)
    have u: "unat (i + 1) = unat i + 1"
      using less.prems d by (subst unat_add_lem [THEN iffD1]) simp_all
    then have "unat (i + 1) + length ?r div chunkPlainSize < 2 ^ 32" "i + 1 \<noteq> 0"
      using less.prems d by auto
    moreover have "src \<noteq> []" using lr by auto
    ultimately show ?thesis
      using less.hyps [OF lr, of "i + 1"] True by (simp add: encrypt_full sl d m)
  next
    case False
    then show ?thesis by (auto simp: encrypt_last sl)
  qed
qed

end

interpretation gcm: aead gcm_seal gcm_open
  by unfold_locales (simp_all add: gcm_open_seal length_gcm_seal)

section \<open>Nonces\<close>

lemma char_of_bits:
  assumes "char_of (unat x) = (char_of (unat y) :: char)" and "r < 8"
  shows "bit (x :: 32 word) r = bit y r"
proof -
  have *: "(256 :: nat) = 2 ^ 8" by simp
  have "of_char (char_of (unat x) :: char) = (of_char (char_of (unat y) :: char) :: nat)"
    using assms(1) by simp
  then have "unat x mod 256 = unat y mod 256" by (simp only: of_char_of)
  then have "take_bit 8 (unat x) = take_bit 8 (unat y)" by (simp only: take_bit_eq_mod *)
  then have "bit (unat x) r = bit (unat y) r" using assms(2) by (metis bit_take_bit_iff)
  then show ?thesis by (simp add: bit_unsigned_iff)
qed

lemma be32_inj:
  assumes "be32 i = be32 j"
  shows "i = j"
proof (rule bit_word_eqI)
  fix n
  assume "n < LENGTH(32)"
  then have n: "n < 32" by simp
  let ?k = "3 - n div 8"
  have k: "?k < 4" "8 * (3 - ?k) + n mod 8 = n" using n by presburger+
  have "be32 i ! ?k = be32 j ! ?k" using assms by simp
  then have "char_of (unat (drop_bit (8 * (3 - ?k)) i)) = (char_of (unat (drop_bit (8 * (3 - ?k)) j)) :: char)"
    using k(1) by (simp add: be32_def)
  then have "bit (drop_bit (8 * (3 - ?k)) i) (n mod 8) = bit (drop_bit (8 * (3 - ?k)) j) (n mod 8)"
    by (rule char_of_bits) simp
  then show "bit i n = bit j n" using k(2) by (simp add: bit_drop_bit_eq)
qed

text \<open>No two chunks of one file are sealed under the same nonce: the nonces of different chunk
  numbers differ, and a nonce is as long as GCM requires.\<close>

theorem chunk_nonce_distinct:
  assumes "length pre = noncePrefixLen"
  shows "inj (chunk_nonce pre) \<and> length (chunk_nonce pre i) = 12"
  using length_chunk_nonce [OF assms] by (auto simp: inj_def chunk_nonce_def dest: be32_inj)

lemma chunk_nonce_distinct_witness: "chunk_nonce ''abcdefgh'' 0 \<noteq> chunk_nonce ''abcdefgh'' 256"
proof -
  have "inj (chunk_nonce ''abcdefgh'')"
    using chunk_nonce_distinct [of "''abcdefgh''" 0] by (simp add: noncePrefixLen_def)
  moreover have "(0 :: 32 word) \<noteq> 256" by simp
  ultimately show ?thesis by (metis injD)
qed

section \<open>Streams\<close>

definition key_usable :: "string option \<Rightarrow> bool" where
  "key_usable key \<longleftrightarrow> (\<forall>k. key = Some k \<longrightarrow> length k = 32)"

lemma Decrypt_Encrypt:
  assumes "key_usable key" and "length pre = noncePrefixLen"
  shows "Decrypt key (Encrypt key (Some pre) (src, None)) = (src, None)"
proof (cases key)
  case None
  then show ?thesis by (simp add: Encrypt_def Decrypt_def)
next
  case (Some k)
  then have k: "length k = 32" using assms(1) by (simp add: key_usable_def)
  obtain out err where e: "encrypt_loop (gcm_seal k) pre 0 src None = (out, err)" by fastforce
  have "err = None" using gcm.encrypt_no_error [of k pre 0 src] e by simp
  moreover have "decrypt_loop (gcm_open k) pre 0 out None = (src, None)"
    using gcm.decrypt_encrypt_loop [OF k assms(2), of 0 src] e by simp
  ultimately show ?thesis
    using Some k e assms(2)
    by (simp add: Encrypt_def Decrypt_def encryptStream_def decryptStream_def aes_key_ok_def)
qed

text \<open>C32: what is stored encrypted comes back: decrypting an encrypted object yields the original
  bytes and no error, for every content, also empty, exactly aligned to the chunk size or longer
  than the chunk counter can count, with encryption on (a 32-byte key) or off.\<close>

theorem Decrypt_Encrypt_roundtrip:
  assumes "ParseKey keyHex = Inr key" and "length pre = noncePrefixLen"
  shows "Decrypt key (Encrypt key (Some pre) (src, None)) = (src, None)"
proof (rule Decrypt_Encrypt [OF _ assms(2)])
  show "key_usable key"
    using assms(1) by (auto simp: ParseKey_def key_usable_def split: if_splits option.splits)
qed

definition demo_key_hex :: string where
  "demo_key_hex = replicate 62 CHR ''0'' @ ''fF''"

lemma ParseKey_demo: "ParseKey demo_key_hex = Inr (Some (replicate 31 (CHR 0x00) @ [CHR 0xFF]))"
  by code_simp

lemma Decrypt_Encrypt_roundtrip_witness:
  "Decrypt (Some (replicate 31 (CHR 0x00) @ [CHR 0xFF]))
    (Encrypt (Some (replicate 31 (CHR 0x00) @ [CHR 0xFF])) (Some ''noncepre'') (''audio'', None)) = (''audio'', None)"
  by (rule Decrypt_Encrypt_roundtrip [OF ParseKey_demo]) (simp add: noncePrefixLen_def)

text \<open>EncryptedSize announces the exact length of the encrypted object, for every content of less
  than 2^48 bytes, the size at which the chunk counter would wrap.\<close>

theorem EncryptedSize_exact:
  assumes "length key = 32" and "length pre = noncePrefixLen" and "length src < 2 ^ 48"
  shows "int (length (fst (Encrypt (Some key) (Some pre) (src, None)))) = EncryptedSize (int (length src))"
proof -
  let ?n = "length src"
  obtain out err where e: "encrypt_loop (gcm_seal key) pre 0 src None = (out, err)" by fastforce
  have "?n div chunkPlainSize < 2 ^ 32"
    using assms(3) by (simp add: chunkPlainSize_def less_mult_imp_div_less)
  then have l: "length out = (?n div chunkPlainSize) * chunkCipherSize +
      (if 0 < ?n mod chunkPlainSize \<or> src = [] then ?n mod chunkPlainSize + 16 else 0)"
    using gcm.length_encrypt_loop [OF assms(1,2), of 0 src] e by simp
  have mi: "int ?n mod 65536 = int (?n mod 65536)" "int ?n div 65536 = int (?n div 65536)"
    by (simp_all add: zmod_int zdiv_int)
  have "?n div 65536 < 4294967296" "?n mod 65536 < 65536"
    using assms(3) by (simp_all add: less_mult_imp_div_less)
  then have bound: "int (?n div 65536) < 4294967296" "int (?n mod 65536) < 65536" by linarith+
  have s: "EncryptedSize (int ?n) = 8 + int (?n div 65536) * 65552 +
      (if ?n = 0 \<or> 0 < ?n mod 65536 then int (?n mod 65536) + 16 else 0)"
    using bound by (simp add: EncryptedSize_def Let_def noncePrefixLen_def chunkPlainSize_def mi)
  have "fst (Encrypt (Some key) (Some pre) (src, None)) = pre @ out"
    using e assms(1) by (simp add: Encrypt_def encryptStream_def aes_key_ok_def)
  then show ?thesis
    unfolding s using l assms(2) by (simp add: chunkPlainSize_def noncePrefixLen_def)
qed

lemma EncryptedSize_exact_witness:
  "int (length (fst (Encrypt (Some (replicate 32 CHR ''k'')) (Some ''noncepre'') ([], None)))) = 24"
  using EncryptedSize_exact [of "replicate 32 CHR ''k''" "''noncepre''" "[]"]
  by (simp add: noncePrefixLen_def EncryptedSize_def chunkPlainSize_def)

text \<open>C34: an encrypted object of which only the first n chunks are left is decrypted to the first n
  chunks of the content, with no error: a truncation between two chunks is not noticed.\<close>

theorem Decrypt_truncated:
  assumes "length key = 32" and "length pre = noncePrefixLen" and "n * chunkPlainSize \<le> length src"
  shows "Decrypt (Some key)
      (take (noncePrefixLen + n * chunkCipherSize) (fst (Encrypt (Some key) (Some pre) (src, None))), None) =
    (take (n * chunkPlainSize) src, None)"
proof -
  obtain out err where e: "encrypt_loop (gcm_seal key) pre 0 src None = (out, err)" by fastforce
  have "decrypt_loop (gcm_open key) pre 0 (take (n * chunkCipherSize) out) None = (take (n * chunkPlainSize) src, None)"
    using gcm.decrypt_truncated_loop [OF assms(1,2,3), of 0] e by simp
  then show ?thesis
    using e assms(1,2)
    by (simp add: Encrypt_def Decrypt_def encryptStream_def decryptStream_def aes_key_ok_def)
qed

lemma Decrypt_truncated_witness:
  "Decrypt (Some (replicate 32 CHR ''k''))
     (take 8 (fst (Encrypt (Some (replicate 32 CHR ''k'')) (Some ''noncepre'') (''audio'', None))), None) = ([], None)"
  using Decrypt_truncated [of "replicate 32 CHR ''k''" "''noncepre''" 0 "''audio''"]
  by (simp add: noncePrefixLen_def)

end
