(* ===== verification/Relay_Crypto.thy ===== *)
theory Relay_Crypto
  imports Crypto
begin

text \<open>
  relay/internal/crypto/aes.go.  The relay is a Go module of its own and carries a second copy of the
  gateway's file, which a comment in both asks to keep in sync.  The copy is modelled on its own
  here, from its own text; the last section proves that the two agree, so that each process reads
  the objects the other one writes.  Readers, hexadecimal and AES-GCM are the standard library's.
\<close>

section \<open>Keys and sizes\<close>

definition relay_chunkPlainSize :: nat where "relay_chunkPlainSize = 65536"
definition relay_gcmTagSize :: nat where "relay_gcmTagSize = 16"
definition relay_chunkCipherSize :: nat where "relay_chunkCipherSize = relay_chunkPlainSize + relay_gcmTagSize"
definition relay_noncePrefixLen :: nat where "relay_noncePrefixLen = 8"

definition relay_ParseKey :: "string \<Rightarrow> key_error + string option" where
  "relay_ParseKey keyHex =
     (if keyHex = [] then Inr None
      else (case hex_decode keyHex of
              None \<Rightarrow> Inl InvalidHex
            | Some key \<Rightarrow> if length key \<noteq> 32 then Inl (WrongKeyLength (length key)) else Inr (Some key)))"

definition relay_EncryptedSize :: "int \<Rightarrow> int" where
  "relay_EncryptedSize plainSize =
     (if plainSize < 0 then - 1
      else (let fullChunks = plainSize div int relay_chunkPlainSize;
                lastPlain = plainSize mod int relay_chunkPlainSize;
                size = i64 (int relay_noncePrefixLen + fullChunks * int relay_chunkCipherSize)
            in if plainSize = 0 \<or> lastPlain > 0 then i64 (size + (lastPlain + int relay_gcmTagSize)) else size))"

section \<open>The chunk loops\<close>

definition relay_chunk_nonce :: "string \<Rightarrow> 32 word \<Rightarrow> string" where
  "relay_chunk_nonce noncePrefix i = noncePrefix @ be32 i"

function relay_encrypt_loop ::
    "(string \<Rightarrow> string \<Rightarrow> string) \<Rightarrow> string \<Rightarrow> 32 word \<Rightarrow> string \<Rightarrow> io_error option \<Rightarrow> reader" where
  "relay_encrypt_loop seal pre i src rerr =
     (let (buf, rest, readErr) = ReadFull relay_chunkPlainSize src rerr;
          out = (if buf \<noteq> [] \<or> i = 0 then seal (relay_chunk_nonce pre i) buf else [])
      in (case readErr of
            ReadEOF \<Rightarrow> (out, None)
          | ReadErr e \<Rightarrow> if e = UnexpectedEOF then (out, None) else (out, Some e)
          | ReadOk \<Rightarrow>
              (let (out', err) = relay_encrypt_loop seal pre (i + 1) rest rerr in (out @ out', err))))"
  by pat_completeness auto
termination
  by (relation "measure (\<lambda>(_, _, _, src, _). length src)")
    (auto simp: ReadFull_def relay_chunkPlainSize_def split: if_splits option.splits)

function relay_decrypt_loop ::
    "(string \<Rightarrow> string \<Rightarrow> string option) \<Rightarrow> string \<Rightarrow> 32 word \<Rightarrow> string \<Rightarrow> io_error option \<Rightarrow> reader" where
  "relay_decrypt_loop opn pre i src rerr =
     (let (buf, rest, readErr) = ReadFull relay_chunkCipherSize src rerr
      in if buf = [] then
           (case readErr of ReadEOF \<Rightarrow> ([], None) | ReadErr e \<Rightarrow> ([], Some e) | ReadOk \<Rightarrow> ([], None))
         else
           (case opn (relay_chunk_nonce pre i) buf of
              None \<Rightarrow> ([], Some (ChunkError (unat i)))
            | Some plain \<Rightarrow>
                (case readErr of
                   ReadEOF \<Rightarrow> (plain, None)
                 | ReadErr e \<Rightarrow> if e = UnexpectedEOF then (plain, None) else (plain, Some e)
                 | ReadOk \<Rightarrow>
                     (let (out', err) = relay_decrypt_loop opn pre (i + 1) rest rerr in (plain @ out', err)))))"
  by pat_completeness auto
termination
  by (relation "measure (\<lambda>(_, _, _, src, _). length src)")
    (auto simp: ReadFull_def relay_chunkCipherSize_def relay_chunkPlainSize_def split: if_splits option.splits)

declare relay_encrypt_loop.simps [simp del] relay_decrypt_loop.simps [simp del]

section \<open>Streams\<close>

definition relay_encryptStream :: "string \<Rightarrow> string option \<Rightarrow> reader \<Rightarrow> reader" where
  "relay_encryptStream key rnd src =
     (if \<not> aes_key_ok key then ([], Some (KeySizeError (length key)))
      else (case rnd of
              None \<Rightarrow> ([], Some RandomError)
            | Some pre \<Rightarrow>
                (let (out, err) = relay_encrypt_loop (gcm_seal key) pre 0 (fst src) (snd src) in (pre @ out, err))))"

definition relay_decryptStream :: "string \<Rightarrow> reader \<Rightarrow> reader" where
  "relay_decryptStream key src =
     (if \<not> aes_key_ok key then ([], Some (KeySizeError (length key)))
      else (case ReadFull relay_noncePrefixLen (fst src) (snd src) of
              (pre, rest, ReadOk) \<Rightarrow> relay_decrypt_loop (gcm_open key) pre 0 rest (snd src)
            | _ \<Rightarrow> ([], Some NoncePrefixError)))"

definition relay_Encrypt :: "string option \<Rightarrow> string option \<Rightarrow> reader \<Rightarrow> reader" where
  "relay_Encrypt key rnd src = (case key of None \<Rightarrow> src | Some k \<Rightarrow> relay_encryptStream k rnd src)"

definition relay_Decrypt :: "string option \<Rightarrow> reader \<Rightarrow> reader" where
  "relay_Decrypt key src = (case key of None \<Rightarrow> src | Some k \<Rightarrow> relay_decryptStream k src)"

section \<open>Two copies of one file\<close>

lemma relay_sizes:
  "relay_chunkPlainSize = chunkPlainSize" "relay_gcmTagSize = gcmTagSize"
  "relay_chunkCipherSize = chunkCipherSize" "relay_noncePrefixLen = noncePrefixLen"
  by (simp_all add: relay_chunkPlainSize_def chunkPlainSize_def relay_gcmTagSize_def gcmTagSize_def
    relay_chunkCipherSize_def chunkCipherSize_def relay_noncePrefixLen_def noncePrefixLen_def)

lemma relay_ParseKey_eq: "relay_ParseKey = ParseKey"
  by (rule ext) (simp add: relay_ParseKey_def ParseKey_def)

lemma relay_EncryptedSize_eq: "relay_EncryptedSize = EncryptedSize"
  by (rule ext) (simp only: relay_EncryptedSize_def EncryptedSize_def relay_sizes)

lemma relay_chunk_nonce_eq: "relay_chunk_nonce = chunk_nonce"
  by (intro ext) (simp add: relay_chunk_nonce_def chunk_nonce_def)

lemma relay_encrypt_loop_eq: "relay_encrypt_loop seal pre i src rerr = encrypt_loop seal pre i src rerr"
proof (induction seal pre i src rerr rule: relay_encrypt_loop.induct)
  case (1 seal pre i src rerr)
  obtain buf rest re where r: "ReadFull chunkPlainSize src rerr = (buf, rest, re)" by (metis prod.collapse)
  have ih: "re = ReadOk \<Longrightarrow> relay_encrypt_loop seal pre (i + 1) rest rerr = encrypt_loop seal pre (i + 1) rest rerr"
    by (rule 1 [OF refl _ refl refl], unfold relay_sizes) (simp_all add: r)
  show ?case
  proof (cases re)
    case ReadOk
    show ?thesis
      using r ReadOk ih [OF ReadOk]
      by (subst relay_encrypt_loop.simps, subst encrypt_loop.simps) (simp add: relay_sizes(1) relay_chunk_nonce_eq)
  qed (use r in \<open>(subst relay_encrypt_loop.simps, subst encrypt_loop.simps,
        simp add: relay_sizes(1) relay_chunk_nonce_eq)+\<close>)
qed

lemma relay_decrypt_loop_eq: "relay_decrypt_loop opn pre i src rerr = decrypt_loop opn pre i src rerr"
proof (induction opn pre i src rerr rule: relay_decrypt_loop.induct)
  case (1 opn pre i src rerr)
  obtain buf rest re where r: "ReadFull chunkCipherSize src rerr = (buf, rest, re)" by (metis prod.collapse)
  have r': "ReadFull relay_chunkCipherSize src rerr = (buf, rest, re)" using r by (simp only: relay_sizes)
  show ?case
  proof (cases "re = ReadOk \<and> buf \<noteq> [] \<and> opn (chunk_nonce pre i) buf \<noteq> None")
    case True
    then obtain plain where o: "re = ReadOk" "buf \<noteq> []" "opn (chunk_nonce pre i) buf = Some plain" by blast
    then have "relay_decrypt_loop opn pre (i + 1) rest rerr = decrypt_loop opn pre (i + 1) rest rerr"
      by (intro 1 [OF refl r' [symmetric] refl, unfolded relay_chunk_nonce_eq])
    then show ?thesis
      using o by (subst relay_decrypt_loop.simps, subst decrypt_loop.simps, unfold r r' relay_chunk_nonce_eq) simp
  next
    case False
    then show ?thesis
      by (subst relay_decrypt_loop.simps, subst decrypt_loop.simps, unfold r r' relay_chunk_nonce_eq)
        (auto split: read_result.split option.split)
  qed
qed

lemma relay_Encrypt_eq: "relay_Encrypt = Encrypt"
  by (intro ext) (simp add: relay_Encrypt_def Encrypt_def relay_encryptStream_def encryptStream_def
    relay_encrypt_loop_eq split: option.split)

lemma relay_Decrypt_eq: "relay_Decrypt = Decrypt"
  by (intro ext) (simp add: relay_Decrypt_def Decrypt_def relay_decryptStream_def decryptStream_def
    relay_decrypt_loop_eq relay_sizes split: option.split)

lemmas relay_crypto = relay_ParseKey_eq relay_EncryptedSize_eq relay_Encrypt_eq relay_Decrypt_eq

section \<open>Interoperation\<close>

text \<open>C33: the two copies of the encryption code work together: the relay accepts the key texts the
  gateway accepts, as the same key, the relay decrypts what the gateway encrypted, the gateway
  decrypts what the relay encrypted, each to the original bytes with no error, for every content, and
  both announce the same encrypted size.\<close>

theorem relay_interoperates:
  assumes "ParseKey keyHex = Inr key" and "length pre = noncePrefixLen"
  shows "relay_ParseKey keyHex = Inr key \<and>
    relay_Decrypt key (Encrypt key (Some pre) (src, None)) = (src, None) \<and>
    Decrypt key (relay_Encrypt key (Some pre) (src, None)) = (src, None) \<and>
    relay_EncryptedSize n = EncryptedSize n"
proof -
  have "key_usable key"
    using assms(1) by (auto simp: ParseKey_def key_usable_def split: if_splits option.splits)
  then show ?thesis
    using assms Decrypt_Encrypt [of key pre src] by (simp add: relay_crypto)
qed

lemma relay_interoperates_witness:
  "relay_Decrypt (Some (replicate 31 (CHR 0x00) @ [CHR 0xFF]))
    (Encrypt (Some (replicate 31 (CHR 0x00) @ [CHR 0xFF])) (Some ''noncepre'') (''audio'', None)) = (''audio'', None)"
  using relay_interoperates [OF ParseKey_demo, of "''noncepre''" "''audio''"] by (simp add: noncePrefixLen_def)

end
