(* ===== verification/World.thy ===== *)
theory World
  imports Config Relay_Crypto Model
begin

text \<open>
  The services outside the two processes, as one state: an S3-compatible object store, a Redis key
  space with its pub/sub channels, the Kafka topics as one log in the order of arrival, and the
  HTTP servers that answer the requests the processes send.

  Every call to one of them takes the next entry of \<open>w_outcomes\<close>: the call is carried out and
  acknowledged, or fails before it has an effect, or has its effect but the acknowledgement is
  lost and the caller sees an error.  All statements hold for every sequence of outcomes, so for
  every pattern of failures.  With no entry left calls succeed.

  The open Kafka writers of the two processes are process state that only the producers touch; they
  are kept here so that the producers are operations on this state too.
\<close>

datatype outcome = Done | Lost | Unacked

record S3Object =
  so_Body :: string
  so_ContentType :: string

datatype RedisValue = RString string | RZset "(string, int) gomap"

record KafkaWriter =
  kw_Brokers :: "string list"
  kw_Topic :: string

record HttpRequest =
  hq_Method :: string
  hq_URL :: string
  hq_Headers :: "(string, string) gomap"
  hq_Body :: reader

record HttpResponse =
  hr_Status :: int
  hr_Headers :: "(string, string list) gomap"
  hr_Body :: reader

record World =
  w_outcomes :: "outcome list"
  w_rand :: "string list"
  w_objects :: "(string \<times> string, S3Object) gomap"
  w_redis :: "(string, RedisValue \<times> int) gomap"
  w_published :: "string list"
  w_topics :: "(string \<times> string \<times> string) list"
  w_writers :: "(string, KafkaWriter) gomap"
  w_relay_writers :: "(string, KafkaWriter) gomap"
  w_answers :: "(string + HttpResponse) list"
  w_requests :: "HttpRequest list"

definition next_outcome :: "World \<Rightarrow> outcome \<times> World" where
  "next_outcome w =
     (case w_outcomes w of [] \<Rightarrow> (Done, w) | c # cs \<Rightarrow> (c, w\<lparr>w_outcomes := cs\<rparr>))"

text \<open>A call for its effect: whether it was acknowledged.\<close>

definition attempt :: "(World \<Rightarrow> World) \<Rightarrow> World \<Rightarrow> bool \<times> World" where
  "attempt effect w =
     (let (c, w1) = next_outcome w
      in (case c of Done \<Rightarrow> (True, effect w1) | Lost \<Rightarrow> (False, w1) | Unacked \<Rightarrow> (False, effect w1)))"

text \<open>rand.Read for a nonce prefix.\<close>

definition next_rand :: "World \<Rightarrow> string \<times> World" where
  "next_rand w =
     (case w_rand w of
        [] \<Rightarrow> (replicate noncePrefixLen (CHR 0x00), w)
      | s # ss \<Rightarrow> (take noncePrefixLen (s @ replicate noncePrefixLen (CHR 0x00)), w\<lparr>w_rand := ss\<rparr>))"

datatype store_error =
    Unavailable
  | NoSuchKey string
  | StreamError io_error
  | MissingCredentials
  | BadKey key_error
  | JobNotFound string
  | BadRecord string
  | WrongType string

section \<open>internal/storage/s3.go and relay/internal/storage/s3.go\<close>

record S3Client =
  s3_bucket :: string
  s3_encKey :: "string option"

definition NewS3Client :: "S3Config \<Rightarrow> string \<Rightarrow> store_error + S3Client" where
  "NewS3Client cfg encKeyHex =
     (if s3c_AccessKey cfg = [] \<or> s3c_SecretKey cfg = [] then Inl MissingCredentials
      else (case ParseKey encKeyHex of
              Inl e \<Rightarrow> Inl (BadKey e)
            | Inr key \<Rightarrow> Inr \<lparr>s3_bucket = s3c_Bucket cfg, s3_encKey = key\<rparr>))"

definition put_object :: "S3Client \<Rightarrow> string \<Rightarrow> S3Object \<Rightarrow> World \<Rightarrow> World" where
  "put_object c key ob w = w\<lparr>w_objects := AList.update (s3_bucket c, key) ob (w_objects w)\<rparr>"

text \<open>An upload whose body ends with an error stores nothing.\<close>

definition s3_Upload :: "S3Client \<Rightarrow> string \<Rightarrow> reader \<Rightarrow> int \<Rightarrow> string \<Rightarrow> World \<Rightarrow> (store_error + unit) \<times> World" where
  "s3_Upload c objectKey body sz contentType w =
     (let (rnd, w1) = (if s3_encKey c = None then ([], w) else next_rand w);
          enc = Encrypt (s3_encKey c) (Some rnd) body
      in (case snd enc of
            Some e \<Rightarrow> (Inl (StreamError e), w1)
          | None \<Rightarrow>
              (let (acked, w2) = attempt (put_object c objectKey \<lparr>so_Body = fst enc, so_ContentType = contentType\<rparr>) w1
               in (if acked then Inr () else Inl Unavailable, w2))))"

text \<open>The stored object as a stream and its content type.\<close>

definition s3_stream :: "S3Client \<Rightarrow> string \<Rightarrow> World \<Rightarrow> (store_error + reader \<times> string) \<times> World" where
  "s3_stream c objectKey w =
     (let (out, w1) = next_outcome w
      in (case out of
            Done \<Rightarrow>
              (case map_of (w_objects w1) (s3_bucket c, objectKey) of
                 None \<Rightarrow> (Inl (NoSuchKey objectKey), w1)
               | Some ob \<Rightarrow> (Inr (Decrypt (s3_encKey c) (so_Body ob, None), so_ContentType ob), w1))
          | _ \<Rightarrow> (Inl Unavailable, w1)))"

definition s3_GetObject :: "S3Client \<Rightarrow> string \<Rightarrow> World \<Rightarrow> (store_error + string) \<times> World" where
  "s3_GetObject c objectKey w =
     (case s3_stream c objectKey w of
        (Inl e, w1) \<Rightarrow> (Inl e, w1)
      | (Inr ((data, err), _), w1) \<Rightarrow>
          (case err of None \<Rightarrow> (Inr data, w1) | Some e \<Rightarrow> (Inl (StreamError e), w1)))"

definition s3_DeleteObject :: "S3Client \<Rightarrow> string \<Rightarrow> World \<Rightarrow> (store_error + unit) \<times> World" where
  "s3_DeleteObject c objectKey w =
     (let (acked, w1) = attempt (\<lambda>w. w\<lparr>w_objects := AList.delete (s3_bucket c, objectKey) (w_objects w)\<rparr>) w
      in (if acked then Inr () else Inl Unavailable, w1))"

text \<open>The relay's client, with the relay's copy of the encryption; the body of GetObject stays a stream,
  and the size it was uploaded with is not known.\<close>

definition relay_NewS3Client :: "S3Config \<Rightarrow> string \<Rightarrow> store_error + S3Client" where
  "relay_NewS3Client cfg encKeyHex =
     (if s3c_AccessKey cfg = [] \<or> s3c_SecretKey cfg = [] then Inl MissingCredentials
      else (case relay_ParseKey encKeyHex of
              Inl e \<Rightarrow> Inl (BadKey e)
            | Inr key \<Rightarrow> Inr \<lparr>s3_bucket = s3c_Bucket cfg, s3_encKey = key\<rparr>))"

definition relay_GetObject :: "S3Client \<Rightarrow> string \<Rightarrow> World \<Rightarrow> (store_error + reader \<times> int \<times> string) \<times> World" where
  "relay_GetObject c key w =
     (let (out, w1) = next_outcome w
      in (case out of
            Done \<Rightarrow>
              (case map_of (w_objects w1) (s3_bucket c, key) of
                 None \<Rightarrow> (Inl (NoSuchKey key), w1)
               | Some ob \<Rightarrow> (Inr (relay_Decrypt (s3_encKey c) (so_Body ob, None), - 1, so_ContentType ob), w1))
          | _ \<Rightarrow> (Inl Unavailable, w1)))"

definition relay_DeleteObject :: "S3Client \<Rightarrow> string \<Rightarrow> World \<Rightarrow> (store_error + unit) \<times> World" where
  "relay_DeleteObject c key w =
     (let (acked, w1) = attempt (\<lambda>w. w\<lparr>w_objects := AList.delete (s3_bucket c, key) (w_objects w)\<rparr>) w
      in (if acked then Inr () else Inl Unavailable, w1))"

definition relay_PutObject :: "S3Client \<Rightarrow> string \<Rightarrow> reader \<Rightarrow> int \<Rightarrow> string \<Rightarrow> World \<Rightarrow> (store_error + unit) \<times> World" where
  "relay_PutObject c key body sz contentType w =
     (let (rnd, w1) = (if s3_encKey c = None then ([], w) else next_rand w);
          enc = relay_Encrypt (s3_encKey c) (Some rnd) body
      in (case snd enc of
            Some e \<Rightarrow> (Inl (StreamError e), w1)
          | None \<Rightarrow>
              (let (acked, w2) = attempt (put_object c key \<lparr>so_Body = fst enc, so_ContentType = contentType\<rparr>) w1
               in (if acked then Inr () else Inl Unavailable, w2))))"

text \<open>On the same store they do what the gateway's client does.\<close>

lemma relay_PutObject_eq: "relay_PutObject c key body sz contentType w = s3_Upload c key body sz contentType w"
  by (simp add: relay_PutObject_def s3_Upload_def relay_crypto)

lemma relay_DeleteObject_eq: "relay_DeleteObject c key w = s3_DeleteObject c key w"
  by (simp add: relay_DeleteObject_def s3_DeleteObject_def)

lemma relay_GetObject_eq: "relay_GetObject c key w =
    (case s3_stream c key w of
       (Inl e, w1) \<Rightarrow> (Inl e, w1)
     | (Inr (body, ct), w1) \<Rightarrow> (Inr (body, - 1, ct), w1))"
  by (auto simp: relay_GetObject_def s3_stream_def relay_crypto Let_def
      split: prod.split outcome.split option.split)

lemma relay_NewS3Client_eq: "relay_NewS3Client = NewS3Client"
  by (intro ext) (simp add: relay_NewS3Client_def NewS3Client_def relay_crypto)

section \<open>Redis commands\<close>

definition redis_str :: "World \<Rightarrow> string \<Rightarrow> string option" where
  "redis_str w k = (case map_of (w_redis w) k of Some (RString s, _) \<Rightarrow> Some s | _ \<Rightarrow> None)"

definition redis_zset :: "World \<Rightarrow> string \<Rightarrow> (string, int) gomap" where
  "redis_zset w k = (case map_of (w_redis w) k of Some (RZset z, _) \<Rightarrow> z | _ \<Rightarrow> [])"

definition redis_ttl :: "World \<Rightarrow> string \<Rightarrow> int" where
  "redis_ttl w k = (case map_of (w_redis w) k of Some (_, t) \<Rightarrow> t | None \<Rightarrow> 0)"

text \<open>SET with the expiration go-redis sends: none when it is not positive.\<close>

definition redis_set :: "string \<Rightarrow> string \<Rightarrow> int \<Rightarrow> World \<Rightarrow> World" where
  "redis_set k v ttl w = w\<lparr>w_redis := AList.update k (RString v, if ttl > 0 then ttl else 0) (w_redis w)\<rparr>"

definition redis_del :: "string \<Rightarrow> World \<Rightarrow> World" where
  "redis_del k w = w\<lparr>w_redis := AList.delete k (w_redis w)\<rparr>"

definition is_string_key :: "World \<Rightarrow> string \<Rightarrow> bool" where
  "is_string_key w k = (case map_of (w_redis w) k of Some (RString _, _) \<Rightarrow> True | _ \<Rightarrow> False)"

definition redis_put_zset :: "string \<Rightarrow> (string, int) gomap \<Rightarrow> World \<Rightarrow> World" where
  "redis_put_zset k z w =
     (if is_string_key w k then w
      else if z = [] then redis_del k w
      else w\<lparr>w_redis := AList.update k (RZset z, redis_ttl w k) (w_redis w)\<rparr>)"

definition redis_zadd :: "string \<Rightarrow> string \<Rightarrow> int \<Rightarrow> World \<Rightarrow> World" where
  "redis_zadd k member score w = redis_put_zset k (AList.update member score (redis_zset w k)) w"

definition redis_zincrby :: "string \<Rightarrow> string \<Rightarrow> int \<Rightarrow> World \<Rightarrow> World" where
  "redis_zincrby k member n w =
     redis_put_zset k
       (AList.update member ((case map_of (redis_zset w k) member of Some s \<Rightarrow> s | None \<Rightarrow> 0) + n) (redis_zset w k)) w"

definition redis_zrem :: "string \<Rightarrow> string \<Rightarrow> World \<Rightarrow> World" where
  "redis_zrem k member w = redis_put_zset k (AList.delete member (redis_zset w k)) w"

text \<open>EXPIRE in whole seconds; a time that is not positive deletes the key.\<close>

definition redis_expire :: "string \<Rightarrow> int \<Rightarrow> World \<Rightarrow> World" where
  "redis_expire k ttl w =
     (let secs = (if 0 < ttl \<and> ttl < second then 1 else ttl div second)
      in (case map_of (w_redis w) k of
            None \<Rightarrow> w
          | Some (v, _) \<Rightarrow>
              if secs \<le> 0 then redis_del k w
              else w\<lparr>w_redis := AList.update k (v, secs * second) (w_redis w)\<rparr>))"

text \<open>ZREVRANGE: highest score first, members of the same score in reverse order.\<close>

definition zrev_members :: "(string, int) gomap \<Rightarrow> string list" where
  "zrev_members z = map fst (rev (sort_key snd (sort_key fst z)))"

definition redis_range :: "int \<Rightarrow> int \<Rightarrow> 'a list \<Rightarrow> 'a list" where
  "redis_range start stop xs =
     (let n = int (length xs);
          a = (if start < 0 then max 0 (start + n) else start);
          b = (if stop < 0 then stop + n else min stop (n - 1))
      in if a > b \<or> a \<ge> n then [] else take (nat (b - a + 1)) (drop (nat a) xs))"

section \<open>internal/storage/redis.go\<close>

record RedisClient =
  rd_jobTTL :: int

definition NewRedis :: "RedisConfig \<Rightarrow> World \<Rightarrow> (store_error + RedisClient) \<times> World" where
  "NewRedis cfg w =
     (case next_outcome w of
        (Done, w1) \<Rightarrow> (Inr \<lparr>rd_jobTTL = i64 (rc_JobTTLH cfg * (3600 * second))\<rparr>, w1)
      | (_, w1) \<Rightarrow> (Inl Unavailable, w1))"

definition jobKey :: "string \<Rightarrow> string" where
  "jobKey jobid = ''job:'' @ jobid"

definition consumerKey :: "string \<Rightarrow> string" where
  "consumerKey name = ''consumer:'' @ name @ '':jobs''"

definition doneChannel :: "string \<Rightarrow> string" where
  "doneChannel jobID = ''job:'' @ jobID @ '':done''"

definition save_effect :: "int \<Rightarrow> Job \<Rightarrow> World \<Rightarrow> World" where
  "save_effect ttl job w =
     (let w1 = redis_set (jobKey (job_ID job)) (marshal_job job) ttl w
      in if job_ConsumerName job \<noteq> [] then
           redis_expire (consumerKey (job_ConsumerName job)) ttl
             (redis_zadd (consumerKey (job_ConsumerName job)) (job_ID job) (unix_secs (job_CreatedAt job)) w1)
         else w1)"

definition SaveJob :: "RedisClient \<Rightarrow> Job \<Rightarrow> World \<Rightarrow> (store_error + unit) \<times> World" where
  "SaveJob r job w =
     (let (acked, w1) = attempt (save_effect (rd_jobTTL r) job) w
      in (if acked then Inr () else Inl Unavailable, w1))"

definition GetJob :: "RedisClient \<Rightarrow> string \<Rightarrow> World \<Rightarrow> (store_error + Job) \<times> World" where
  "GetJob r jobid w =
     (case next_outcome w of
        (Done, w1) \<Rightarrow>
          (case map_of (w_redis w1) (jobKey jobid) of
             None \<Rightarrow> (Inl (JobNotFound jobid), w1)
           | Some (RZset _, _) \<Rightarrow> (Inl (WrongType jobid), w1)
           | Some (RString data, _) \<Rightarrow>
               (case unmarshal_job data of
                  None \<Rightarrow> (Inl (BadRecord jobid), w1)
                | Some job \<Rightarrow> (Inr job, w1)))
      | (_, w1) \<Rightarrow> (Inl Unavailable, w1))"

text \<open>
  The Lua scripts.  cjson turns an object into a table, where the last of two equal keys counts.
  The text cjson writes is modelled up to its escapes, of which the JSON decoder sees nothing.
\<close>

definition lua_table :: "string \<Rightarrow> (string, json) gomap option" where
  "lua_table data = (case json_parse data of Some (JObj kvs) \<Rightarrow> Some (put_all [] kvs) | _ \<Rightarrow> None)"

definition lua_consumer :: "string \<Rightarrow> string" where
  "lua_consumer data =
     (case lua_table data of
        Some t \<Rightarrow> (case map_of t ''consumer_name'' of Some (JStr s) \<Rightarrow> s | _ \<Rightarrow> [])
      | None \<Rightarrow> [])"

definition delete_effect :: "string \<Rightarrow> World \<Rightarrow> World" where
  "delete_effect jobid w =
     (let w1 = (case redis_str w (jobKey jobid) of
                  Some data \<Rightarrow>
                    (if lua_consumer data \<noteq> [] then redis_zrem (consumerKey (lua_consumer data)) jobid w else w)
                | None \<Rightarrow> w)
      in redis_del (jobKey jobid) w1)"

definition DeleteJob :: "RedisClient \<Rightarrow> string \<Rightarrow> World \<Rightarrow> (store_error + unit) \<times> World" where
  "DeleteJob r jobid w =
     (let (acked, w1) = attempt (delete_effect jobid) w
      in (if acked then Inr () else Inl Unavailable, w1))"

definition lua_patch :: "string \<Rightarrow> string \<Rightarrow> string \<Rightarrow> string \<Rightarrow> (string, json) gomap \<Rightarrow> (string, json) gomap" where
  "lua_patch status resultRef errMsg updatedAt t =
     AList.update ''updated_at'' (JStr updatedAt) (AList.update ''error'' (JStr errMsg)
       (AList.update ''result_ref'' (JStr resultRef) (AList.update ''status'' (JStr status) t)))"

text \<open>The script fails, with no effect, when there is no record or none it can decode.\<close>

definition update_effect :: "string \<Rightarrow> string \<Rightarrow> string \<Rightarrow> string \<Rightarrow> time \<Rightarrow> int \<Rightarrow> World \<Rightarrow> store_error + World" where
  "update_effect jobID status resultRef errMsg updatedAt ttlSecs w =
     (case redis_str w (jobKey jobID) of
        None \<Rightarrow> Inl (JobNotFound jobID)
      | Some data \<Rightarrow>
          (case lua_table data of
             None \<Rightarrow> Inl (BadRecord jobID)
           | Some t \<Rightarrow>
               Inr (redis_set (jobKey jobID) (json_text False (JObj (lua_patch status resultRef errMsg updatedAt t)))
                 (ttlSecs * second) w)))"

definition update_ttl :: "RedisClient \<Rightarrow> int" where
  "update_ttl r = (let ttlSecs = rd_jobTTL r div second in if ttlSecs \<le> 0 then 3600 else ttlSecs)"

definition UpdateJobResult ::
    "RedisClient \<Rightarrow> time \<Rightarrow> string \<Rightarrow> JobStatus \<Rightarrow> string \<Rightarrow> string \<Rightarrow> World \<Rightarrow> (store_error + unit) \<times> World" where
  "UpdateJobResult r now jobID status resultRef errMsg w =
     (let (out, w1) = next_outcome w;
          eff = update_effect jobID (status_text status) resultRef errMsg now (update_ttl r) w1
      in (case out of
            Lost \<Rightarrow> (Inl Unavailable, w1)
          | Done \<Rightarrow> (case eff of Inl e \<Rightarrow> (Inl e, w1) | Inr w2 \<Rightarrow> (Inr (), w2))
          | Unacked \<Rightarrow> (case eff of Inl e \<Rightarrow> (Inl Unavailable, w1) | Inr w2 \<Rightarrow> (Inl Unavailable, w2))))"

definition ListJobsByConsumer ::
    "RedisClient \<Rightarrow> string \<Rightarrow> int \<Rightarrow> int \<Rightarrow> World \<Rightarrow> (store_error + Job list \<times> int) \<times> World" where
  "ListJobsByConsumer r consumer limit offset w =
     (case next_outcome w of
        (Done, w1) \<Rightarrow>
          (case next_outcome w1 of
             (Done, w2) \<Rightarrow>
               (if is_string_key w2 (consumerKey consumer) then (Inl (WrongType consumer), w2)
                else
                  (let z = redis_zset w2 (consumerKey consumer);
                       total = int (length z);
                       ids = redis_range offset (i64 (offset + limit - 1)) (zrev_members z)
                   in if ids = [] then (Inr ([], total), w2)
                      else (case next_outcome w2 of
                              (Done, w3) \<Rightarrow>
                                (Inr (List.map_filter (\<lambda>i. do { data \<leftarrow> redis_str w3 (jobKey i); unmarshal_job data }) ids,
                                   total), w3)
                            | (_, w3) \<Rightarrow> (Inl Unavailable, w3))))
           | (_, w2) \<Rightarrow> (Inl Unavailable, w2))
      | (_, w1) \<Rightarrow> (Inl Unavailable, w1))"

text \<open>
  A subscription sees what is published on its channel after it was made; \<open>sub_from\<close> is how much
  had been published by then.
\<close>

record JobDoneSub =
  sub_channel :: string
  sub_from :: nat

definition SubscribeJobDone :: "RedisClient \<Rightarrow> string \<Rightarrow> World \<Rightarrow> JobDoneSub" where
  "SubscribeJobDone r jobID w = \<lparr>sub_channel = doneChannel jobID, sub_from = length (w_published w)\<rparr>"

definition sub_ready :: "JobDoneSub \<Rightarrow> World \<Rightarrow> bool" where
  "sub_ready s w \<longleftrightarrow> sub_channel s \<in> set (drop (sub_from s) (w_published w))"

definition NotifyJobDone :: "RedisClient \<Rightarrow> string \<Rightarrow> World \<Rightarrow> World" where
  "NotifyJobDone r jobID w =
     snd (attempt (\<lambda>w. w\<lparr>w_published := w_published w @ [doneChannel jobID]\<rparr>) w)"

section \<open>internal/kafka/producer.go and relay/internal/kafka/publisher.go\<close>

text \<open>One writer per topic, made on first use.\<close>

definition writerFor :: "string list \<Rightarrow> string \<Rightarrow> (string, KafkaWriter) gomap \<Rightarrow> KafkaWriter \<times> (string, KafkaWriter) gomap" where
  "writerFor brokers topic ws =
     (case map_of ws topic of
        Some kw \<Rightarrow> (kw, ws)
      | None \<Rightarrow>
          (let kw = \<lparr>kw_Brokers = brokers, kw_Topic = topic\<rparr> in (kw, AList.update topic kw ws)))"

definition WriteMessages :: "KafkaWriter \<Rightarrow> string \<Rightarrow> string \<Rightarrow> World \<Rightarrow> (store_error + unit) \<times> World" where
  "WriteMessages kw key value w =
     (let (acked, w1) = attempt (\<lambda>w. w\<lparr>w_topics := w_topics w @ [(kw_Topic kw, key, value)]\<rparr>) w
      in (if acked then Inr () else Inl Unavailable, w1))"

definition PublishInputEvent :: "string list \<Rightarrow> string \<Rightarrow> InputEvent \<Rightarrow> World \<Rightarrow> (store_error + unit) \<times> World" where
  "PublishInputEvent brokers topic event w =
     (let payload = marshal_input_event event;
          (kw, ws) = writerFor brokers topic (w_writers w)
      in WriteMessages kw (ie_JobID event) payload (w\<lparr>w_writers := ws\<rparr>))"

definition Producer_Close :: "World \<Rightarrow> World" where
  "Producer_Close w = w\<lparr>w_writers := []\<rparr>"

text \<open>The relay's publisher, with writers of its own.\<close>

definition relay_writerFor ::
    "string list \<Rightarrow> string \<Rightarrow> (string, KafkaWriter) gomap \<Rightarrow> KafkaWriter \<times> (string, KafkaWriter) gomap" where
  "relay_writerFor brokers topic ws =
     (case map_of ws topic of
        Some kw \<Rightarrow> (kw, ws)
      | None \<Rightarrow>
          (let kw = \<lparr>kw_Brokers = brokers, kw_Topic = topic\<rparr> in (kw, AList.update topic kw ws)))"

lemma relay_writerFor_eq [simp]: "relay_writerFor = writerFor"
  by (intro ext) (simp add: relay_writerFor_def writerFor_def)

definition PublishResultEvent :: "string list \<Rightarrow> string \<Rightarrow> ResultEvent \<Rightarrow> World \<Rightarrow> (store_error + unit) \<times> World" where
  "PublishResultEvent brokers topic event w =
     (let payload = marshal_result_event event;
          (kw, ws) = relay_writerFor brokers topic (w_relay_writers w)
      in WriteMessages kw (re_JobID event) payload (w\<lparr>w_relay_writers := ws\<rparr>))"

definition Publisher_Close :: "World \<Rightarrow> World" where
  "Publisher_Close w = w\<lparr>w_relay_writers := []\<rparr>"

section \<open>net/http clients\<close>

text \<open>The next answer is what the server sent, or why the client got none.\<close>

definition http_do :: "HttpRequest \<Rightarrow> World \<Rightarrow> (string + HttpResponse) \<times> World" where
  "http_do req w =
     (let w1 = w\<lparr>w_requests := w_requests w @ [req]\<rparr>
      in (case w_answers w of
            [] \<Rightarrow> (Inl ''no answer'', w1)
          | a # as \<Rightarrow> (a, w1\<lparr>w_answers := as\<rparr>)))"

end
