(* ===== verification/Http.thy ===== *)
theory Http
  imports Registry Model World
begin

text \<open>
  What the handlers see of net/http: requests with their headers, query and parsed multipart form,
  and the ResponseWriter, whose first WriteHeader counts.  Parsing a multipart body is the
  library's; a request carries its outcome.
\<close>

section \<open>Texts of errors\<close>

text \<open>The verb q of package fmt.\<close>

definition quote_char :: "char \<Rightarrow> string" where
  "quote_char c =
     (if c = dquote then [bslash, dquote]
      else if c = bslash then [bslash, bslash]
      else if c = CHR 0x0A then bslash # ''n''
      else if c = CHR 0x0D then bslash # ''r''
      else if c = CHR 0x09 then bslash # ''t''
      else if c = CHR 0x07 then bslash # ''a''
      else if c = CHR 0x08 then bslash # ''b''
      else if c = CHR 0x0C then bslash # ''f''
      else if c = CHR 0x0B then bslash # ''v''
      else if (of_char c :: nat) < 32 \<or> of_char c = (127 :: nat)
        then bslash # ''x'' @ [hex_digit (of_char c div 16), hex_digit (of_char c mod 16)]
      else [c])"

definition go_quote :: "string \<Rightarrow> string" where
  "go_quote s = dquote # concat (map quote_char s) @ [dquote]"

text \<open>The verb v on a slice of strings.\<close>

definition go_list :: "string list \<Rightarrow> string" where
  "go_list xs = CHR ''['' # join_on CHR '' '' xs @ '']''"

fun route_error_text :: "route_error \<Rightarrow> string" where
  "route_error_text (UnknownServiceType t) = ''unknown service type '' @ go_quote t"
| "route_error_text (MultipleModels t av) =
     ''service type '' @ go_quote t @ '' has multiple models, specify one via -F model=... (available: '' @ go_list av @ '')''"
| "route_error_text (ModelNotFound m t av) =
     ''model '' @ go_quote m @ '' not found for service type '' @ go_quote t @ '' (available: '' @ go_list av @ '')''"
| "route_error_text (NoServiceForPath p m av) =
     ''no service for path '' @ go_quote p @ '' with model '' @ go_quote m @ '' (available: '' @ go_list av @ '')''"
| "route_error_text (PatternModelNotRegistered p pat m av) =
     ''path '' @ go_quote p @ '' matched pattern '' @ go_quote pat @ '' but model '' @ go_quote m @
       '' is not registered (available: '' @ go_list av @ '')''"
| "route_error_text (WildcardModelNotRegistered p pat m av) =
     ''no service for path '' @ go_quote p @ '' (matched wildcard '' @ go_quote pat @ '') with model '' @ go_quote m @
       '' (available: '' @ go_list av @ '')''"
| "route_error_text (NoSyncService p) = ''no sync service configured for path '' @ go_quote p"
| "route_error_text (MultipleOperations m av) =
     ''model '' @ go_quote m @ '' has multiple operations, specify one via -F operation=... (available: '' @ go_list av @ '')''"
| "route_error_text (OperationNotFound op m av) =
     ''operation '' @ go_quote op @ '' not found for model '' @ go_quote m @ '' (available: '' @ go_list av @ '')''"
| "route_error_text (OperationWithoutPath op m) =
     ''operation '' @ go_quote op @ '' has no paths configured for model '' @ go_quote m"
| "route_error_text (ExtensionNotAccepted e m av) =
     ''extension '' @ go_quote e @ '' not accepted for model '' @ go_quote m @ '' (accepted: '' @ go_list av @ '')''"

section \<open>Requests\<close>

text \<open>An uploaded file: its name, declared content type and content.\<close>

record FileHeader =
  fh_Filename :: string
  fh_ContentType :: string
  fh_Data :: string

record Form =
  fm_Value :: "(string, string list) gomap"
  fm_File :: "(string, FileHeader list) gomap"

text \<open>\<open>rq_form\<close> is what parsing the body as multipart/form-data yields: the form, or the error text.\<close>

record Request =
  rq_Method :: string
  rq_Path :: string
  rq_RawQuery :: string
  rq_Query :: "(string, string list) gomap"
  rq_Headers :: "(string, string list) gomap"
  rq_Body :: reader
  rq_form :: "string + Form"

definition first_value :: "(string, string list) gomap \<Rightarrow> string \<Rightarrow> string" where
  "first_value m k = (case map_of m k of Some (v # _) \<Rightarrow> v | _ \<Rightarrow> [])"

text \<open>textproto.CanonicalMIMEHeaderKey.\<close>

definition token_char :: "char \<Rightarrow> bool" where
  "token_char c \<longleftrightarrow> is_digit c \<or> (CHR ''a'' \<le> c \<and> c \<le> CHR ''z'') \<or> (CHR ''A'' \<le> c \<and> c \<le> CHR ''Z'') \<or>
     c \<in> set ''!#$%&*+-.^_`|~'' \<or> c = CHR 0x27"

fun canonical_from :: "bool \<Rightarrow> string \<Rightarrow> string" where
  "canonical_from up [] = []"
| "canonical_from up (c # cs) = (if up then upper_char c else lower_char c) # canonical_from (c = CHR ''-'') cs"

definition canonical_header :: "string \<Rightarrow> string" where
  "canonical_header s = (if list_all token_char s then canonical_from True s else s)"

definition header_get :: "Request \<Rightarrow> string \<Rightarrow> string" where
  "header_get r name = first_value (rq_Headers r) (canonical_header name)"

text \<open>What MaxBytesReader counts.\<close>

definition body_size :: "Request \<Rightarrow> int" where
  "body_size r = int (length (fst (rq_Body r)))"

text \<open>r.ParseMultipartForm, with the limit MaxBytesReader puts on the body, if any.\<close>

definition parse_form :: "int option \<Rightarrow> Request \<Rightarrow> string + Form" where
  "parse_form limit r =
     (if (case limit of Some n \<Rightarrow> max 0 n < body_size r | None \<Rightarrow> False)
      then Inl ''http: request body too large'' else rq_form r)"

text \<open>r.FormValue after ParseMultipartForm: the query comes before the form.\<close>

definition form_value :: "Request \<Rightarrow> Form \<Rightarrow> string \<Rightarrow> string" where
  "form_value r f k =
     (case (case map_of (rq_Query r) k of Some vs \<Rightarrow> vs | None \<Rightarrow> []) @
           (case map_of (fm_Value f) k of Some vs \<Rightarrow> vs | None \<Rightarrow> []) of
        v # _ \<Rightarrow> v | [] \<Rightarrow> [])"

definition form_file :: "Form \<Rightarrow> string \<Rightarrow> FileHeader option" where
  "form_file f k = (case map_of (fm_File f) k of Some (h # _) \<Rightarrow> Some h | _ \<Rightarrow> None)"

text \<open>The form fields passed on to the inference API: the first value of each field that is not
  reserved.\<close>

definition collect_params :: "string list \<Rightarrow> (string, string list) gomap \<Rightarrow> (string, string) gomap" where
  "collect_params reserved vs =
     foldl (\<lambda>params (k, values). if k \<in> set reserved \<or> values = [] then params else AList.update k (hd values) params)
       [] vs"

section \<open>Responses\<close>

record Response =
  rs_Header :: "(string, string list) gomap"
  rs_Status :: "int option"
  rs_Sent :: "(string, string list) gomap"
  rs_Body :: string

definition new_response :: Response where
  "new_response = \<lparr>rs_Header = [], rs_Status = None, rs_Sent = [], rs_Body = []\<rparr>"

definition set_header :: "string \<Rightarrow> string \<Rightarrow> Response \<Rightarrow> Response" where
  "set_header k v rs = rs\<lparr>rs_Header := AList.update k [v] (rs_Header rs)\<rparr>"

definition add_header :: "string \<Rightarrow> string \<Rightarrow> Response \<Rightarrow> Response" where
  "add_header k v rs =
     rs\<lparr>rs_Header := AList.update k ((case map_of (rs_Header rs) k of Some vs \<Rightarrow> vs | None \<Rightarrow> []) @ [v]) (rs_Header rs)\<rparr>"

definition WriteHeader :: "int \<Rightarrow> Response \<Rightarrow> Response" where
  "WriteHeader code rs =
     (if rs_Status rs = None then rs\<lparr>rs_Status := Some code, rs_Sent := rs_Header rs\<rparr> else rs)"

definition write_body :: "string \<Rightarrow> Response \<Rightarrow> Response" where
  "write_body s rs = (let rs1 = WriteHeader 200 rs in rs1\<lparr>rs_Body := rs_Body rs1 @ s\<rparr>)"

text \<open>The status the client sees.\<close>

definition final_status :: "Response \<Rightarrow> int" where
  "final_status rs = (case rs_Status rs of Some c \<Rightarrow> c | None \<Rightarrow> 200)"

text \<open>json.Encoder with SetEscapeHTML(false); a value that does not encode writes nothing.\<close>

definition encode_json :: "json option \<Rightarrow> Response \<Rightarrow> Response" where
  "encode_json v rs = (case v of None \<Rightarrow> rs | Some j \<Rightarrow> write_body (json_text False j @ [CHR 0x0A]) rs)"

definition content_type_json :: "Response \<Rightarrow> Response" where
  "content_type_json rs = set_header ''Content-Type'' ''application/json'' rs"

definition writeError :: "int \<Rightarrow> string \<Rightarrow> Response \<Rightarrow> Response" where
  "writeError code msg rs =
     encode_json (Some (JObj [(''error'', JStr msg)])) (WriteHeader code (content_type_json rs))"

text \<open>A json.RawMessage is compacted into the output and must be valid JSON.\<close>

definition raw_message :: "string \<Rightarrow> json option" where
  "raw_message data = json_parse data"

section \<open>Facts\<close>

lemma status_simps [simp]:
  "rs_Status (set_header k v rs) = rs_Status rs" "rs_Status (add_header k v rs) = rs_Status rs"
  "rs_Status (content_type_json rs) = rs_Status rs"
  "rs_Status (WriteHeader code rs) = (if rs_Status rs = None then Some code else rs_Status rs)"
  "rs_Status (write_body s rs) = (if rs_Status rs = None then Some 200 else rs_Status rs)"
  "rs_Status (encode_json js rs) = (if rs_Status rs = None \<and> js \<noteq> None then Some 200 else rs_Status rs)"
  "rs_Status (writeError code msg rs) = (if rs_Status rs = None then Some code else rs_Status rs)"
  by (simp_all add: set_header_def add_header_def content_type_json_def WriteHeader_def write_body_def
      encode_json_def writeError_def Let_def split: option.split)

lemma body_simps [simp]:
  "rs_Body (set_header k v rs) = rs_Body rs" "rs_Body (add_header k v rs) = rs_Body rs"
  "rs_Body (content_type_json rs) = rs_Body rs"
  "rs_Body (WriteHeader code rs) = rs_Body rs" "rs_Body (write_body s rs) = rs_Body rs @ s"
  "rs_Body (writeError code msg rs) = rs_Body rs @ json_text False (JObj [(''error'', JStr msg)]) @ [CHR 0x0A]"
  by (simp_all add: set_header_def add_header_def content_type_json_def WriteHeader_def write_body_def
      encode_json_def writeError_def Let_def)

lemma new_response_simps [simp]:
  "rs_Status new_response = None" "rs_Body new_response = []"
  by (simp_all add: new_response_def)

lemma collect_params_wf: "gm_wf (collect_params reserved vs)"
proof -
  have "gm_wf m \<Longrightarrow> gm_wf (foldl (\<lambda>params (k, values). if k \<in> set reserved \<or> values = [] then params
      else AList.update k (hd values) params) m vs)" for m
    by (induction vs arbitrary: m) auto
  then show ?thesis by (simp add: collect_params_def)
qed

lemma collect_params_lookup:
  assumes "gm_wf vs"
  shows "map_of (collect_params reserved vs) k =
    (case map_of vs k of Some (v # _) \<Rightarrow> if k \<in> set reserved then None else Some v | _ \<Rightarrow> None)"
proof -
  have "gm_wf vs \<Longrightarrow> map_of (foldl (\<lambda>params (k, values). if k \<in> set reserved \<or> values = [] then params
      else AList.update k (hd values) params) m vs) k =
    (case map_of vs k of Some (v # _) \<Rightarrow> if k \<in> set reserved then map_of m k else Some v | _ \<Rightarrow> map_of m k)" for m
  proof (induction vs arbitrary: m)
    case (Cons kv vs)
    then have "gm_wf vs" "fst kv = k \<Longrightarrow> map_of vs k = None"
      by (auto simp: gm_wf_def map_of_eq_None_iff)
    with Cons.IH show ?case by (cases kv) (auto split: list.splits option.splits)
  qed simp
  from this [OF assms, of "[]"] show ?thesis by (auto simp: collect_params_def split: option.splits list.splits)
qed

end
