(* ===== verification/Interfaces.thy ===== *)
theory Interfaces
  imports Model Crypto World
begin

text \<open>
  The Go interfaces the handlers are written against (s3Store, asyncJobStore, jobStore and
  eventProducer of internal/handler), as records of operations on a state of any type, and what
  the handlers rely on, as locales.  World_Facts interprets them on the clients the gateway runs
  with.

  A locale sees the state through abstraction functions: \<open>obj\<close>, the contents of the object
  store after decryption, \<open>jobs\<close>, the job records, and \<open>log\<close>, the messages on the Kafka topics.
  A call that reports an error may have had its effect or not.
\<close>

section \<open>Interface values\<close>

type_synonym 'a result = "store_error + 'a"

record 'w s3Store =
  st_Upload :: "string \<Rightarrow> reader \<Rightarrow> int \<Rightarrow> string \<Rightarrow> 'w \<Rightarrow> unit result \<times> 'w"
  st_GetObject :: "string \<Rightarrow> 'w \<Rightarrow> string result \<times> 'w"
  st_DeleteObject :: "string \<Rightarrow> 'w \<Rightarrow> unit result \<times> 'w"

record 'w asyncJobStore =
  aj_SaveJob :: "Job \<Rightarrow> 'w \<Rightarrow> unit result \<times> 'w"
  aj_GetJob :: "string \<Rightarrow> 'w \<Rightarrow> Job result \<times> 'w"
  aj_DeleteJob :: "string \<Rightarrow> 'w \<Rightarrow> unit result \<times> 'w"
  aj_UpdateJobResult :: "time \<Rightarrow> string \<Rightarrow> JobStatus \<Rightarrow> string \<Rightarrow> string \<Rightarrow> 'w \<Rightarrow> unit result \<times> 'w"
  aj_ListJobsByConsumer :: "string \<Rightarrow> int \<Rightarrow> int \<Rightarrow> 'w \<Rightarrow> (Job list \<times> int) result \<times> 'w"

record 'w jobStore =
  js_SaveJob :: "Job \<Rightarrow> 'w \<Rightarrow> unit result \<times> 'w"
  js_GetJob :: "string \<Rightarrow> 'w \<Rightarrow> Job result \<times> 'w"
  js_DeleteJob :: "string \<Rightarrow> 'w \<Rightarrow> unit result \<times> 'w"
  js_SubscribeJobDone :: "string \<Rightarrow> 'w \<Rightarrow> JobDoneSub"

record 'w eventProducer =
  ep_PublishInputEvent :: "string \<Rightarrow> InputEvent \<Rightarrow> 'w \<Rightarrow> unit result \<times> 'w"

section \<open>Contracts\<close>

text \<open>What a call did to a map: it set or removed one entry, or, when it failed, possibly did not.\<close>

definition changed_at :: "bool \<Rightarrow> 'k \<Rightarrow> 'v option \<Rightarrow> ('k \<Rightarrow> 'v option) \<Rightarrow> ('k \<Rightarrow> 'v option) \<Rightarrow> bool" where
  "changed_at acked k v m m' \<longleftrightarrow> m' = m(k := v) \<or> (\<not> acked \<and> m' = m)"

definition appended :: "bool \<Rightarrow> 'a \<Rightarrow> 'a list \<Rightarrow> 'a list \<Rightarrow> bool" where
  "appended acked x xs xs' \<longleftrightarrow> xs' = xs @ [x] \<or> (\<not> acked \<and> xs' = xs)"

lemma changed_at_other: "changed_at b k v m m' \<Longrightarrow> k' \<noteq> k \<Longrightarrow> m' k' = m k'"
  by (auto simp: changed_at_def)

lemma changed_at_acked [simp]: "changed_at True k v m m' \<longleftrightarrow> m' = m(k := v)"
  by (simp add: changed_at_def)

lemma appended_acked [simp]: "appended True x xs xs' \<longleftrightarrow> xs' = xs @ [x]"
  by (simp add: appended_def)

locale object_store =
  fixes store :: "'w s3Store"
    and ok :: "'w \<Rightarrow> bool"
    and obj :: "'w \<Rightarrow> string \<Rightarrow> string option"
  assumes upload: "ok w \<Longrightarrow> st_Upload store k (data, None) n ct w = (r, w') \<Longrightarrow>
      ok w' \<and> changed_at (is_ok r) k (Some data) (obj w) (obj w')"
    and get: "ok w \<Longrightarrow> st_GetObject store k w = (g, w') \<Longrightarrow>
      ok w' \<and> obj w' = obj w \<and> (\<forall>d. g = Inr d \<longrightarrow> obj w k = Some d)"
    and remove: "ok w \<Longrightarrow> st_DeleteObject store k w = (r, w') \<Longrightarrow>
      ok w' \<and> changed_at (is_ok r) k None (obj w) (obj w')"

locale job_records =
  fixes redis :: "'w asyncJobStore"
    and ok :: "'w \<Rightarrow> bool"
    and jobs :: "'w \<Rightarrow> string \<Rightarrow> Job option"
  assumes save: "ok w \<Longrightarrow> job_ok j \<Longrightarrow> aj_SaveJob redis j w = (r, w') \<Longrightarrow>
      ok w' \<and> changed_at (is_ok r) (job_ID j) (Some j) (jobs w) (jobs w')"
    and fetch: "ok w \<Longrightarrow> aj_GetJob redis i w = (g, w') \<Longrightarrow>
      ok w' \<and> jobs w' = jobs w \<and> (\<forall>j. g = Inr j \<longrightarrow> jobs w i = Some j)"
    and drop_job: "ok w \<Longrightarrow> aj_DeleteJob redis i w = (r, w') \<Longrightarrow>
      ok w' \<and> changed_at (is_ok r) i None (jobs w) (jobs w')"
    and update: "ok w \<Longrightarrow> time_ok t \<Longrightarrow> status_ok st \<Longrightarrow> aj_UpdateJobResult redis t i st ref e w = (r, w') \<Longrightarrow>
      ok w' \<and> (is_ok r \<longrightarrow> jobs w i \<noteq> None) \<and>
      changed_at (is_ok r) i
        (map_option (\<lambda>j. j\<lparr>job_Status := st, job_ResultRef := ref, job_Error := e, job_UpdatedAt := t\<rparr>) (jobs w i))
        (jobs w) (jobs w')"
    and listing: "ok w \<Longrightarrow> aj_ListJobsByConsumer redis c n m w = (l, w') \<Longrightarrow> ok w' \<and> jobs w' = jobs w"
    and job_id: "ok w \<Longrightarrow> jobs w i = Some j \<Longrightarrow> job_ID j = i \<and> job_ok j"

text \<open>The contract does not depend on what else is known of the state.\<close>

lemma job_records_and:
  assumes r: "job_records redis ok jobs"
  shows "job_records redis (\<lambda>w. ok w \<and> P) jobs"
proof
  fix w j res w'
  assume "ok w \<and> P" "job_ok j" "aj_SaveJob redis j w = (res, w')"
  then show "(ok w' \<and> P) \<and> changed_at (is_ok res) (job_ID j) (Some j) (jobs w) (jobs w')"
    using job_records.save [OF r] by blast
next
  fix w i g w'
  assume "ok w \<and> P" "aj_GetJob redis i w = (g, w')"
  then show "(ok w' \<and> P) \<and> jobs w' = jobs w \<and> (\<forall>j. g = Inr j \<longrightarrow> jobs w i = Some j)"
    using job_records.fetch [OF r, of w i g w'] by simp
next
  fix w i res w'
  assume "ok w \<and> P" "aj_DeleteJob redis i w = (res, w')"
  then show "(ok w' \<and> P) \<and> changed_at (is_ok res) i None (jobs w) (jobs w')"
    using job_records.drop_job [OF r] by blast
next
  fix w t st i ref e res w'
  assume "ok w \<and> P" "time_ok t" "status_ok st" "aj_UpdateJobResult redis t i st ref e w = (res, w')"
  then show "(ok w' \<and> P) \<and> (is_ok res \<longrightarrow> jobs w i \<noteq> None) \<and>
      changed_at (is_ok res) i
        (map_option (\<lambda>j. j\<lparr>job_Status := st, job_ResultRef := ref, job_Error := e, job_UpdatedAt := t\<rparr>) (jobs w i))
        (jobs w) (jobs w')"
    using job_records.update [OF r, of w t st i ref e res w'] by simp
next
  fix w c n m l w'
  assume "ok w \<and> P" "aj_ListJobsByConsumer redis c n m w = (l, w')"
  then show "(ok w' \<and> P) \<and> jobs w' = jobs w"
    using job_records.listing [OF r, of w c n m l w'] by simp
next
  fix w i j
  assume "ok w \<and> P" "jobs w i = Some j"
  then show "job_ID j = i \<and> job_ok j"
    using job_records.job_id [OF r, of w i j] by simp
qed

text \<open>The three stores of the asynchronous handler on one state, none disturbing the others.\<close>

locale job_backend = object_store store ok obj + job_records redis ok jobs
  for store :: "'w s3Store" and redis :: "'w asyncJobStore" and producer :: "'w eventProducer"
    and ok :: "'w \<Rightarrow> bool" and obj :: "'w \<Rightarrow> string \<Rightarrow> string option"
    and jobs :: "'w \<Rightarrow> string \<Rightarrow> Job option" and log :: "'w \<Rightarrow> (string \<times> string \<times> string) list" +
  assumes publish: "ok w \<Longrightarrow> ep_PublishInputEvent producer topic ev w = (r, w') \<Longrightarrow>
      ok w' \<and> obj w' = obj w \<and> jobs w' = jobs w \<and>
      appended (is_ok r) (topic, ie_JobID ev, marshal_input_event ev) (log w) (log w')"
    and upload_frame: "ok w \<Longrightarrow> st_Upload store k rd n ct w = (r, w') \<Longrightarrow> jobs w' = jobs w \<and> log w' = log w"
    and get_frame: "ok w \<Longrightarrow> st_GetObject store k w = (g, w') \<Longrightarrow> jobs w' = jobs w \<and> log w' = log w"
    and remove_frame: "ok w \<Longrightarrow> st_DeleteObject store k w = (r, w') \<Longrightarrow> jobs w' = jobs w \<and> log w' = log w"
    and save_frame: "ok w \<Longrightarrow> aj_SaveJob redis j w = (r, w') \<Longrightarrow> obj w' = obj w \<and> log w' = log w"
    and fetch_frame: "ok w \<Longrightarrow> aj_GetJob redis i w = (gj, w') \<Longrightarrow> obj w' = obj w \<and> log w' = log w"
    and drop_frame: "ok w \<Longrightarrow> aj_DeleteJob redis i w = (r, w') \<Longrightarrow> obj w' = obj w \<and> log w' = log w"
    and update_frame: "ok w \<Longrightarrow> aj_UpdateJobResult redis t i st ref e w = (r, w') \<Longrightarrow>
      obj w' = obj w \<and> log w' = log w"
    and listing_frame: "ok w \<Longrightarrow> aj_ListJobsByConsumer redis c n m w = (l, w') \<Longrightarrow>
      obj w' = obj w \<and> log w' = log w"

end
