(* ===== verification/Jobs.thy ===== *)
theory Jobs
  imports Http Interfaces
begin

text \<open>
  internal/handler/jobs.go: submission of asynchronous jobs, their status and their listing.  The
  handler works on the interface values of Interfaces, so on a state of any type.  An operation
  answers the response, the state, and the work of the goroutines it leaves behind, a function of
  the state that runs at some later time.  The job ID and the time are inputs.
\<close>

record 'w JobHandler =
  jh_registry :: Registry
  jh_store :: "'w s3Store"
  jh_redis :: "'w asyncJobStore"
  jh_producer :: "'w eventProducer"
  jh_priorityHeader :: string
  jh_consumerHeader :: string

definition NewJobHandler ::
    "Registry \<Rightarrow> 'w s3Store \<Rightarrow> 'w asyncJobStore \<Rightarrow> 'w eventProducer \<Rightarrow> string \<Rightarrow> string \<Rightarrow> 'w JobHandler" where
  "NewJobHandler registry store redis producer priorityHeader consumerHeader =
     \<lparr>jh_registry = registry, jh_store = store, jh_redis = redis, jh_producer = producer,
      jh_priorityHeader = priorityHeader, jh_consumerHeader = consumerHeader\<rparr>"

definition reservedJobFields :: "string list" where
  "reservedJobFields = [''model'', ''file'', ''callback_url'', ''operation'']"

section \<open>Submission\<close>

text \<open>What a request that passes all checks asks for.\<close>

record Submission =
  sub_def :: Def
  sub_file :: FileHeader
  sub_inferenceURL :: string
  sub_callbackURL :: string
  sub_consumerName :: string
  sub_params :: "(string, string) gomap"

text \<open>The checks, in the order of the code, up to the first external call.\<close>

definition submit_check :: "'w JobHandler \<Rightarrow> Request \<Rightarrow> string \<Rightarrow> (int \<times> string) + Submission" where
  "submit_check h r serviceType =
     (case MaxFileSizeForType (jh_registry h) serviceType of
        Inl e \<Rightarrow> Inl (404, route_error_text e)
      | Inr maxSize \<Rightarrow>
     (case parse_form (Some (i64 (maxSize * 2 ^ 20))) r of
        Inl e \<Rightarrow> Inl (400, ''invalid multipart form: '' @ e)
      | Inr form \<Rightarrow>
     (case RouteAsync (jh_registry h) serviceType (form_value r form ''model'') of
        Inl e \<Rightarrow> Inl (400, route_error_text e)
      | Inr d \<Rightarrow>
     (if def_InputTopic d = [] then
        Inl (405, ''service '' @ go_quote (def_Model d) @ '' only supports sync requests (POST /v1/*)'')
      else
     (case form_file form ''file'' of
        None \<Rightarrow> Inl (400, ''field 'file' is required'')
      | Some file \<Rightarrow>
     (case ValidateFileDef d (fh_Filename file) of
        Inl e \<Rightarrow> Inl (400, route_error_text e)
      | Inr _ \<Rightarrow>
     (case OperationPath d (form_value r form ''operation'') of
        Inl e \<Rightarrow> Inl (400, route_error_text e)
      | Inr inferenceURL \<Rightarrow>
          Inr \<lparr>sub_def = d, sub_file = file, sub_inferenceURL = inferenceURL,
            sub_callbackURL = form_value r form ''callback_url'',
            sub_consumerName = (if jh_consumerHeader h \<noteq> [] then header_get r (jh_consumerHeader h) else []),
            sub_params = collect_params reservedJobFields (fm_Value form)\<rparr>)))))))"

definition input_ref :: "string \<Rightarrow> string \<Rightarrow> string" where
  "input_ref jobID filename = jobID @ ''/input'' @ file_ext filename"

definition new_job :: "string \<Rightarrow> Submission \<Rightarrow> string \<Rightarrow> time \<Rightarrow> Job" where
  "new_job serviceType s jobID now =
     \<lparr>job_ID = jobID, job_ServiceType = serviceType, job_Model = def_Model (sub_def s), job_Status = Pending,
      job_InputRef = input_ref jobID (fh_Filename (sub_file s)), job_ResultRef = [],
      job_CallbackURL = sub_callbackURL s, job_ConsumerName = sub_consumerName s, job_Error = [],
      job_CreatedAt = now, job_UpdatedAt = now\<rparr>"

definition new_event :: "string \<Rightarrow> Submission \<Rightarrow> string \<Rightarrow> time \<Rightarrow> InputEvent" where
  "new_event serviceType s jobID now =
     \<lparr>ie_JobID = jobID, ie_ServiceType = serviceType, ie_Model = def_Model (sub_def s),
      ie_InputRef = input_ref jobID (fh_Filename (sub_file s)), ie_InferenceURL = sub_inferenceURL s,
      ie_Params = sub_params s, ie_CreatedAt = now\<rparr>"

text \<open>The topic: the priority topic when the priority header is present and the service has one.\<close>

definition submit_topic :: "'w JobHandler \<Rightarrow> Request \<Rightarrow> Def \<Rightarrow> string" where
  "submit_topic h r d =
     (if jh_priorityHeader h \<noteq> [] \<and> header_get r (jh_priorityHeader h) \<noteq> [] \<and> def_PriorityTopic d \<noteq> []
      then def_PriorityTopic d else def_InputTopic d)"

definition submit_response :: "string \<Rightarrow> string \<Rightarrow> string \<Rightarrow> Response" where
  "submit_response jobID serviceType model =
     encode_json (Some (JObj [(''job_id'', JStr jobID), (''service_type'', JStr serviceType),
         (''model'', JStr model), (''status'', JStr (status_text Pending))]))
       (WriteHeader 202 (content_type_json new_response))"

text \<open>The three steps: the file, the record, the event; with the compensation when the event cannot
  be published.\<close>

definition submit_run ::
    "'w JobHandler \<Rightarrow> Request \<Rightarrow> string \<Rightarrow> Submission \<Rightarrow> string \<Rightarrow> time \<Rightarrow> 'w \<Rightarrow> Response \<times> 'w \<times> ('w \<Rightarrow> 'w)" where
  "submit_run h r serviceType s jobID now w =
     (let file = sub_file s; inputRef = input_ref jobID (fh_Filename file)
      in (case st_Upload (jh_store h) inputRef (fh_Data file, None) (int (length (fh_Data file))) (fh_ContentType file) w of
            (Inl _, w1) \<Rightarrow> (writeError 500 ''failed to store file'' new_response, w1, id)
          | (Inr _, w1) \<Rightarrow>
         (case aj_SaveJob (jh_redis h) (new_job serviceType s jobID now) w1 of
            (Inl _, w2) \<Rightarrow> (writeError 500 ''failed to save job'' new_response, w2, id)
          | (Inr _, w2) \<Rightarrow>
         (case ep_PublishInputEvent (jh_producer h) (submit_topic h r (sub_def s)) (new_event serviceType s jobID now) w2 of
            (Inl _, w3) \<Rightarrow>
              (writeError 500 ''failed to enqueue job, please retry'' new_response,
               snd (aj_UpdateJobResult (jh_redis h) now jobID Failed [] ''failed to enqueue'' w3),
               \<lambda>w. snd (st_DeleteObject (jh_store h) inputRef w))
          | (Inr _, w3) \<Rightarrow> (submit_response jobID serviceType (def_Model (sub_def s)), w3, id)))))"

definition Submit ::
    "'w JobHandler \<Rightarrow> Request \<Rightarrow> string \<Rightarrow> string \<Rightarrow> time \<Rightarrow> 'w \<Rightarrow> Response \<times> 'w \<times> ('w \<Rightarrow> 'w)" where
  "Submit h r serviceType jobID now w =
     (case submit_check h r serviceType of
        Inl (code, msg) \<Rightarrow> (writeError code msg new_response, w, id)
      | Inr s \<Rightarrow> submit_run h r serviceType s jobID now w)"

section \<open>Status\<close>

definition not_found :: "string \<Rightarrow> Response" where
  "not_found jobid = writeError 404 (''job '' @ go_quote jobid @ '' not found'') new_response"

text \<open>None when the result is not JSON, for which the encoder fails.\<close>

definition status_json :: "Job \<Rightarrow> string \<Rightarrow> json option" where
  "status_json job result =
     map_option (\<lambda>res. JObj (
        [(''job_id'', JStr (job_ID job)), (''service_type'', JStr (job_ServiceType job)),
         (''model'', JStr (job_Model job)), (''status'', JStr (status_text (job_Status job)))] @
        res @ omitempty ''error'' (job_Error job) @
        [(''created_at'', JStr (job_CreatedAt job)), (''updated_at'', JStr (job_UpdatedAt job))]))
       (if result = [] then Some [] else map_option (\<lambda>v. [(''result'', v)]) (raw_message result))"

definition has_result :: "Job \<Rightarrow> bool" where
  "has_result job \<longleftrightarrow> job_Status job = Completed \<and> job_ResultRef job \<noteq> []"

definition GetStatus :: "'w JobHandler \<Rightarrow> Request \<Rightarrow> string \<Rightarrow> string \<Rightarrow> 'w \<Rightarrow> Response \<times> 'w \<times> ('w \<Rightarrow> 'w)" where
  "GetStatus h r serviceType jobid w =
     (case aj_GetJob (jh_redis h) jobid w of
        (Inl _, w1) \<Rightarrow> (not_found jobid, w1, id)
      | (Inr job, w1) \<Rightarrow>
          if job_ServiceType job \<noteq> serviceType then (not_found jobid, w1, id)
          else if jh_consumerHeader h \<noteq> [] \<and> header_get r (jh_consumerHeader h) \<noteq> [] \<and>
                  job_ConsumerName job \<noteq> header_get r (jh_consumerHeader h) then (not_found jobid, w1, id)
          else
            (let (result, w2) =
                   (if has_result job then
                      (case st_GetObject (jh_store h) (job_ResultRef job) w1 of
                         (Inl _, w2) \<Rightarrow> ([], w2)
                       | (Inr data, w2) \<Rightarrow> (data, w2))
                    else ([], w1));
                 resp = encode_json (status_json job result) (content_type_json new_response)
             in (resp, w2,
                 if has_result job then
                   (\<lambda>w. snd (aj_DeleteJob (jh_redis h) (job_ID job)
                          (snd (st_DeleteObject (jh_store h) (job_ResultRef job) w))))
                 else id)))"

section \<open>Listing\<close>

definition summary_json :: "Job \<Rightarrow> json" where
  "summary_json j = JObj (
     [(''job_id'', JStr (job_ID j)), (''service_type'', JStr (job_ServiceType j)), (''model'', JStr (job_Model j)),
      (''status'', JStr (status_text (job_Status j)))] @ omitempty ''error'' (job_Error j) @
     [(''created_at'', JStr (job_CreatedAt j)), (''updated_at'', JStr (job_UpdatedAt j))])"

definition list_limit :: "string \<Rightarrow> int" where
  "list_limit v =
     (if v \<noteq> [] then (case parse_int64 v of Some n \<Rightarrow> if n > 0 then (if n > 100 then 100 else n) else 20 | None \<Rightarrow> 20)
      else 20)"

definition list_offset :: "string \<Rightarrow> int" where
  "list_offset v =
     (if v \<noteq> [] then (case parse_int64 v of Some n \<Rightarrow> if n \<ge> 0 then n else 0 | None \<Rightarrow> 0) else 0)"

definition list_json :: "string \<Rightarrow> int \<Rightarrow> int \<Rightarrow> int \<Rightarrow> Job list \<Rightarrow> json" where
  "list_json consumer tot limit offset jobs =
     JObj [(''consumer'', JStr consumer), (''total'', JNum (int_text tot)), (''limit'', JNum (int_text limit)),
       (''offset'', JNum (int_text offset)), (''jobs'', JArr (map summary_json jobs))]"

definition ListJobs :: "'w JobHandler \<Rightarrow> Request \<Rightarrow> 'w \<Rightarrow> Response \<times> 'w" where
  "ListJobs h r w =
     (if jh_consumerHeader h = [] then
        (writeError 501 ''GET /jobs requires consumer_header to be configured'' new_response, w)
      else
        (let consumer = header_get r (jh_consumerHeader h)
         in if consumer = [] then
              (writeError 400 (''header '' @ go_quote (jh_consumerHeader h) @ '' is required'') new_response, w)
            else
              (let limit = list_limit (first_value (rq_Query r) ''limit'');
                   offset = list_offset (first_value (rq_Query r) ''offset'')
               in (case aj_ListJobsByConsumer (jh_redis h) consumer limit offset w of
                     (Inl _, w1) \<Rightarrow> (writeError 500 ''failed to list jobs'' new_response, w1)
                   | (Inr (jobs, tot), w1) \<Rightarrow>
                       (encode_json (Some (list_json consumer tot limit offset jobs)) (content_type_json new_response), w1)))))"

end
