(* ===== verification/World_Facts.thy ===== *)
theory World_Facts
  imports Interfaces
begin

text \<open>
  The clients of World seen through their abstraction functions: the well-formedness of the stores
  that every operation keeps, the laws of the interfaces, and their interpretations.
\<close>

section \<open>Calls\<close>

definition tick :: "World \<Rightarrow> World" where
  "tick w = w\<lparr>w_outcomes := tl (w_outcomes w)\<rparr>"

lemma next_outcome_eq: "next_outcome w = (case w_outcomes w of [] \<Rightarrow> Done | c # _ \<Rightarrow> c, tick w)"
  by (cases "w_outcomes w") (simp_all add: next_outcome_def tick_def)

lemma tick_simps [simp, frame]:
  "w_objects (tick w) = w_objects w" "w_redis (tick w) = w_redis w" "w_published (tick w) = w_published w"
  "w_topics (tick w) = w_topics w" "w_writers (tick w) = w_writers w"
  "w_relay_writers (tick w) = w_relay_writers w" "w_answers (tick w) = w_answers w"
  "w_requests (tick w) = w_requests w"
  by (simp_all add: tick_def)

lemma next_outcome_snd: "next_outcome w = (c, w') \<Longrightarrow> w' = tick w"
  by (simp add: next_outcome_eq)

lemma attempt_cases:
  assumes "attempt eff w = (acked, w')"
  obtains "w' = eff (tick w)" | "\<not> acked" "w' = tick w"
  using assms by (auto simp: attempt_def next_outcome_eq split: outcome.splits)

lemma next_rand_simps:
  assumes "next_rand w = (s, w')"
  shows "length s = noncePrefixLen" and "w_objects w' = w_objects w" and "w_redis w' = w_redis w"
    and "w_topics w' = w_topics w" and "w_writers w' = w_writers w" and "w_published w' = w_published w"
    and "w_relay_writers w' = w_relay_writers w" and "w_answers w' = w_answers w" and "w_requests w' = w_requests w"
  using assms by (auto simp: next_rand_def noncePrefixLen_def split: list.splits)

section \<open>Views\<close>

definition object_at :: "S3Client \<Rightarrow> World \<Rightarrow> string \<Rightarrow> string option" where
  "object_at c w k =
     (case map_of (w_objects w) (s3_bucket c, k) of
        None \<Rightarrow> None
      | Some ob \<Rightarrow> (case Decrypt (s3_encKey c) (so_Body ob, None) of (d, None) \<Rightarrow> Some d | _ \<Rightarrow> None))"

definition job_at :: "World \<Rightarrow> string \<Rightarrow> Job option" where
  "job_at w i = do { data \<leftarrow> redis_str w (jobKey i); unmarshal_job data }"

text \<open>The text of a job record: an object whose keys are distinct and in lower case, so that Lua and
  the Go decoder, which ignores case, read the same fields.\<close>

definition plain_object :: "(string \<times> json) list \<Rightarrow> bool" where
  "plain_object kvs \<longleftrightarrow> distinct (map fst kvs) \<and> (\<forall>k \<in> fst ` set kvs. to_lower k = k) \<and> json_wf (JObj kvs)"

definition record_text :: "string \<Rightarrow> string \<Rightarrow> bool" where
  "record_text i data \<longleftrightarrow> (\<exists>kvs j. json_parse data = Some (JObj kvs) \<and> plain_object kvs \<and>
     job_of_json (JObj kvs) = Some j \<and> job_ID j = i)"

definition record_ok :: "string \<Rightarrow> RedisValue \<Rightarrow> bool" where
  "record_ok i v = (case v of RString data \<Rightarrow> record_text i data | RZset _ \<Rightarrow> False)"

definition writers_ok :: "(string, KafkaWriter) gomap \<Rightarrow> bool" where
  "writers_ok ws \<longleftrightarrow> (\<forall>t kw. map_of ws t = Some kw \<longrightarrow> kw_Topic kw = t)"

definition world_ok :: "World \<Rightarrow> bool" where
  "world_ok w \<longleftrightarrow> writers_ok (w_writers w) \<and> writers_ok (w_relay_writers w) \<and>
     (\<forall>i v t. map_of (w_redis w) (jobKey i) = Some (v, t) \<longrightarrow> record_ok i v) \<and>
     (\<forall>c. \<not> is_string_key w (consumerKey c))"

lemma keys_distinct [simp]: "jobKey i \<noteq> consumerKey c" "consumerKey c \<noteq> jobKey i"
  "jobKey i = jobKey j \<longleftrightarrow> i = j" "consumerKey c = consumerKey d \<longleftrightarrow> c = d"
  by (simp_all add: jobKey_def consumerKey_def)

section \<open>The object store\<close>

lemma object_at_frame: "w_objects w' = w_objects w \<Longrightarrow> object_at c w' = object_at c w"
  by (simp add: object_at_def fun_eq_iff)

lemma job_at_frame: "w_redis w' = w_redis w \<Longrightarrow> job_at w' = job_at w"
  by (simp add: job_at_def fun_eq_iff redis_str_def)

lemma world_ok_frame:
  "w_redis w' = w_redis w \<Longrightarrow> w_writers w' = w_writers w \<Longrightarrow> w_relay_writers w' = w_relay_writers w \<Longrightarrow>
   world_ok w' = world_ok w"
  by (simp add: world_ok_def is_string_key_def)

lemma world_ok_tick [simp]: "world_ok (tick w) = world_ok w"
  by (rule world_ok_frame) simp_all

lemma put_object_simps [simp, frame]:
  "w_redis (put_object c k ob w) = w_redis w" "w_topics (put_object c k ob w) = w_topics w"
  "w_writers (put_object c k ob w) = w_writers w" "w_published (put_object c k ob w) = w_published w"
  "w_relay_writers (put_object c k ob w) = w_relay_writers w"
  "w_answers (put_object c k ob w) = w_answers w" "w_requests (put_object c k ob w) = w_requests w"
  by (simp_all add: put_object_def)

lemma object_at_put:
  "object_at c (put_object c k ob w) =
    (object_at c w)(k := (case Decrypt (s3_encKey c) (so_Body ob, None) of (d, None) \<Rightarrow> Some d | _ \<Rightarrow> None))"
  by (auto simp: object_at_def put_object_def fun_eq_iff)

lemma s3_Upload_frame:
  assumes "s3_Upload c k rd n ct w = (r, w')"
  shows "w_redis w' = w_redis w" and "w_topics w' = w_topics w" and "w_writers w' = w_writers w"
    and "w_relay_writers w' = w_relay_writers w" and "w_published w' = w_published w"
    and "w_answers w' = w_answers w" and "w_requests w' = w_requests w"
  using assms
  by (auto simp: s3_Upload_def Let_def next_rand_simps split: prod.splits option.splits if_splits
      elim!: attempt_cases)

lemma s3_Upload_object:
  assumes "key_usable (s3_encKey c)" and "s3_Upload c k (data, None) n ct w = (r, w')"
  shows "changed_at (is_ok r) k (Some data) (object_at c w) (object_at c w')"
proof -
  obtain rnd w1 where r: "(if s3_encKey c = None then ([], w) else next_rand w) = (rnd, w1)"
    by fastforce
  then have o1: "w_objects w1 = w_objects w" and len: "s3_encKey c \<noteq> None \<Longrightarrow> length rnd = noncePrefixLen"
    by (auto split: if_splits dest: next_rand_simps)
  obtain eb ee where e: "Encrypt (s3_encKey c) (Some rnd) (data, None) = (eb, ee)" by fastforce
  have dec: "Decrypt (s3_encKey c) (Encrypt (s3_encKey c) (Some rnd) (data, None)) = (data, None)"
  proof (cases "s3_encKey c")
    case None
    then show ?thesis by (simp add: Encrypt_def Decrypt_def)
  next
    case (Some key)
    then show ?thesis using Decrypt_Encrypt [OF assms(1), of rnd data] len by simp
  qed
  show ?thesis
  proof (cases ee)
    case (Some x)
    then have "is_ok r = False" "w' = w1"
      using assms(2) r e by (auto simp: s3_Upload_def)
    then show ?thesis using object_at_frame [OF o1] by (simp add: changed_at_def)
  next
    case None
    then obtain acked where a: "attempt (put_object c k \<lparr>so_Body = eb, so_ContentType = ct\<rparr>) w1 = (acked, w')"
        and ok: "is_ok r = acked"
      using assms(2) r e by (auto simp: s3_Upload_def split: prod.splits if_splits)
    from a show ?thesis
    proof (cases rule: attempt_cases)
      case 1
      have "object_at c w' = (object_at c w)(k := Some data)"
        using 1 dec e None object_at_frame [OF o1] object_at_frame [OF tick_simps(1)]
        by (simp add: object_at_put)
      then show ?thesis by (simp add: changed_at_def)
    next
      case 2
      then show ?thesis using ok object_at_frame [OF o1] object_at_frame [OF tick_simps(1)] by (simp add: changed_at_def)
    qed
  qed
qed

lemma s3_stream_world: "s3_stream c k w = (r, w') \<Longrightarrow> w' = tick w"
  by (auto simp: s3_stream_def next_outcome_eq split: outcome.splits option.splits)

lemma s3_GetObject_world: "s3_GetObject c k w = (r, w') \<Longrightarrow> w' = tick w"
  by (auto simp: s3_GetObject_def dest: s3_stream_world split: sum.splits prod.splits option.splits)

lemma s3_GetObject_data: "s3_GetObject c k w = (Inr d, w') \<Longrightarrow> object_at c w k = Some d"
  by (auto simp: s3_GetObject_def s3_stream_def object_at_def next_outcome_eq
      split: sum.splits prod.splits option.splits outcome.splits)

lemma s3_DeleteObject_frame:
  assumes "s3_DeleteObject c k w = (r, w')"
  shows "w_redis w' = w_redis w" and "w_topics w' = w_topics w" and "w_writers w' = w_writers w"
    and "w_relay_writers w' = w_relay_writers w" and "w_published w' = w_published w"
    and "w_answers w' = w_answers w" and "w_requests w' = w_requests w"
  using assms by (auto simp: s3_DeleteObject_def split: prod.splits elim!: attempt_cases)

lemma s3_DeleteObject_object:
  assumes "s3_DeleteObject c k w = (r, w')"
  shows "changed_at (is_ok r) k None (object_at c w) (object_at c w')"
  using assms
  by (auto simp: s3_DeleteObject_def changed_at_def object_at_def fun_eq_iff split: prod.splits if_splits
      elim!: attempt_cases)


section \<open>The job records\<close>

lemma redis_str_set [simp]:
  "redis_str (redis_set k v ttl w) k' = (if k' = k then Some v else redis_str w k')"
  by (simp add: redis_str_def redis_set_def)

lemma map_of_redis_set:
  "map_of (w_redis (redis_set k v ttl w)) k' =
    (if k' = k then Some (RString v, if ttl > 0 then ttl else 0) else map_of (w_redis w) k')"
  by (simp add: redis_set_def)

lemma map_of_put_zset: "k' \<noteq> k \<Longrightarrow> map_of (w_redis (redis_put_zset k z w)) k' = map_of (w_redis w) k'"
  by (simp add: redis_put_zset_def redis_del_def)

lemma map_of_expire: "k' \<noteq> k \<Longrightarrow> map_of (w_redis (redis_expire k ttl w)) k' = map_of (w_redis w) k'"
  by (auto simp: redis_expire_def redis_del_def Let_def split: option.split)

lemma string_key_put_zset [simp]: "is_string_key (redis_put_zset k z w) k' = is_string_key w k'"
  by (auto simp: redis_put_zset_def redis_del_def is_string_key_def split: option.splits RedisValue.splits)

lemma string_key_expire: "is_string_key (redis_expire k ttl w) k' \<Longrightarrow> is_string_key w k'"
  by (auto simp: redis_expire_def redis_del_def is_string_key_def Let_def split: option.splits RedisValue.splits if_splits)

lemma string_key_set: "is_string_key (redis_set k v ttl w) k' \<Longrightarrow> k' \<noteq> k \<Longrightarrow> is_string_key w k'"
  by (simp add: redis_set_def is_string_key_def)

lemma string_key_del: "is_string_key (redis_del k w) k' \<Longrightarrow> is_string_key w k'"
  by (auto simp: redis_del_def is_string_key_def split: if_splits)

text \<open>Everything but the Redis key space is left alone by the Redis effects.\<close>

definition redis_only :: "World \<Rightarrow> World \<Rightarrow> bool" where
  "redis_only w w' \<longleftrightarrow> w_objects w' = w_objects w \<and> w_topics w' = w_topics w \<and> w_writers w' = w_writers w \<and>
     w_relay_writers w' = w_relay_writers w \<and> w_published w' = w_published w \<and>
     w_answers w' = w_answers w \<and> w_requests w' = w_requests w"

lemma redis_only_simps:
  assumes "redis_only w w'"
  shows "w_objects w' = w_objects w" and "w_topics w' = w_topics w" and "w_writers w' = w_writers w"
    and "w_relay_writers w' = w_relay_writers w" and "w_published w' = w_published w"
    and "w_answers w' = w_answers w" and "w_requests w' = w_requests w"
  using assms by (simp_all add: redis_only_def)

lemma redis_only_refl [simp]: "redis_only w w"
  by (simp add: redis_only_def)

lemma redis_only_trans: "redis_only w w1 \<Longrightarrow> redis_only w1 w2 \<Longrightarrow> redis_only w w2"
  by (simp add: redis_only_def)

lemma redis_only_effects [simp]:
  "redis_only w (redis_set k v ttl w)" "redis_only w (redis_del k w)" "redis_only w (redis_put_zset k z w)"
  "redis_only w (redis_expire k ttl w)"
  by (auto simp: redis_only_def redis_set_def redis_del_def redis_put_zset_def redis_expire_def Let_def split: option.split)

lemma redis_only_save: "redis_only w (save_effect ttl j w)"
  unfolding save_effect_def Let_def redis_zadd_def
  by (auto intro!: redis_only_effects intro: redis_only_trans [OF redis_only_trans])

lemma redis_only_delete: "redis_only w (delete_effect i w)"
  by (auto simp: delete_effect_def Let_def redis_zrem_def intro: redis_only_trans redis_only_effects split: option.split)

lemma redis_only_update: "update_effect i st ref e t ttl w = Inr w' \<Longrightarrow> redis_only w w'"
  by (auto simp: update_effect_def split: option.splits)

subsection \<open>Saving\<close>

lemma marshal_job_record: "job_ok j \<Longrightarrow> record_text (job_ID j) (marshal_job j)"
proof -
  assume j: "job_ok j"
  obtain kvs where kvs: "job_json j = JObj kvs" by (simp add: job_json_def)
  have "plain_object kvs"
    using kvs json_wf_job [of j] by (auto simp: plain_object_def job_json_def omitempty_def split: if_splits)
  then show ?thesis
    using kvs job_of_job_json [OF j] json_parse_text [OF json_wf_job, of True j]
    by (auto simp: record_text_def marshal_job_def)
qed

lemma save_effect_lookup:
  "map_of (w_redis (save_effect ttl j w)) (jobKey i) =
    (if i = job_ID j then Some (RString (marshal_job j), if ttl > 0 then ttl else 0) else map_of (w_redis w) (jobKey i))"
  by (simp add: save_effect_def Let_def redis_zadd_def map_of_expire map_of_put_zset map_of_redis_set)

lemma save_effect_string_key: "is_string_key (save_effect ttl j w) (consumerKey c) \<Longrightarrow> is_string_key w (consumerKey c)"
  by (auto simp: save_effect_def Let_def redis_zadd_def split: if_splits dest!: string_key_expire string_key_set)

lemma job_at_save: "job_ok j \<Longrightarrow> job_at (save_effect ttl j w) = (job_at w)(job_ID j := Some j)"
  by (auto simp: fun_eq_iff job_at_def redis_str_def save_effect_lookup unmarshal_marshal_job)

lemma world_ok_save: "world_ok w \<Longrightarrow> job_ok j \<Longrightarrow> world_ok (save_effect ttl j w)"
  using redis_only_simps [OF redis_only_save [of w ttl j]] save_effect_string_key [of ttl j w]
  by (auto simp: world_ok_def save_effect_lookup record_ok_def marshal_job_record split: if_splits)

subsection \<open>Deleting\<close>

lemma delete_effect_lookup:
  "map_of (w_redis (delete_effect i w)) (jobKey k) = (if k = i then None else map_of (w_redis w) (jobKey k))"
  by (auto simp: delete_effect_def redis_del_def Let_def redis_zrem_def map_of_put_zset split: option.split)

lemma job_at_delete: "job_at (delete_effect i w) = (job_at w)(i := None)"
  by (auto simp: fun_eq_iff job_at_def redis_str_def delete_effect_lookup)

lemma world_ok_delete: "world_ok w \<Longrightarrow> world_ok (delete_effect i w)"
proof -
  assume ok: "world_ok w"
  have "is_string_key (delete_effect i w) (consumerKey c) \<Longrightarrow> is_string_key w (consumerKey c)" for c
    by (auto simp: delete_effect_def Let_def redis_zrem_def split: option.splits if_splits dest!: string_key_del)
  then show ?thesis
    using ok redis_only_simps [OF redis_only_delete [of w i]]
    by (auto simp: world_ok_def delete_effect_lookup split: if_splits)
qed

subsection \<open>Updating\<close>

lemma plain_field_vals:
  assumes "plain_object kvs"
  shows "field_vals n kvs = (case map_of kvs n of None \<Rightarrow> [] | Some v \<Rightarrow> [v])"
  using assms
proof (induction kvs)
  case (Cons kv kvs)
  have "plain_object kvs" using Cons.prems by (simp add: plain_object_def)
  note IH = Cons.IH [OF this]
  have l: "to_lower (fst kv) = fst kv" and f: "fst kv \<notin> fst ` set kvs"
    using Cons.prems by (simp_all add: plain_object_def)
  show ?case
  proof (cases "fst kv = n")
    case True
    then have "map_of kvs n = None" using f by (simp add: map_of_eq_None_iff)
    then show ?thesis using True IH l by (cases kv) simp
  next
    case False
    then show ?thesis using IH l by (cases kv) simp
  qed
qed simp

lemma set_gm_update: "set (AList.update k v m) \<subseteq> insert (k, v) (set m)"
  by (induction m) auto

lemma plain_object_update:
  assumes "plain_object kvs" and "to_lower k = k"
  shows "plain_object (AList.update k (JStr s) kvs)"
proof -
  have "fst ` set (AList.update k (JStr s) kvs) = insert k (fst ` set kvs)"
    using dom_update [of k "JStr s" kvs] by simp
  moreover have "json_wf (JObj (AList.update k (JStr s) kvs))"
    using set_gm_update [of k "JStr s" kvs] assms(1) by (auto simp: plain_object_def list_all_iff)
  ultimately show ?thesis
    using assms by (simp add: plain_object_def distinct_update)
qed

lemma plain_object_patch: "plain_object kvs \<Longrightarrow> plain_object (lua_patch st ref e t kvs)"
  by (simp add: lua_patch_def plain_object_update)

lemma job_of_patched:
  assumes p: "plain_object kvs" and j: "job_of_json (JObj kvs) = Some j" and "time_ok t"
  shows "job_of_json (JObj (lua_patch st ref e t kvs)) =
    Some (j\<lparr>job_Status := status_of st, job_ResultRef := ref, job_Error := e, job_UpdatedAt := t\<rparr>)"
proof -
  have m: "map_of (lua_patch st ref e t kvs) n =
      (if n = ''updated_at'' then Some (JStr t) else if n = ''error'' then Some (JStr e)
       else if n = ''result_ref'' then Some (JStr ref) else if n = ''status'' then Some (JStr st) else map_of kvs n)" for n
    by (simp add: lua_patch_def)
  have fv: "field_vals n (lua_patch st ref e t kvs) =
      (if n = ''updated_at'' then [JStr t] else if n = ''error'' then [JStr e]
       else if n = ''result_ref'' then [JStr ref] else if n = ''status'' then [JStr st] else field_vals n kvs)" for n
    by (simp add: plain_field_vals [OF p] plain_field_vals [OF plain_object_patch [OF p]] m)
  show ?thesis
    using j assms(3) by (auto simp: job_of_json_def fv split: bind_splits)
qed

lemma world_ok_record:
  assumes "world_ok w" and "redis_str w (jobKey i) = Some data"
  shows "record_text i data"
proof -
  obtain n where "map_of (w_redis w) (jobKey i) = Some (RString data, n)"
    using assms(2) by (auto simp: redis_str_def split: option.splits RedisValue.splits)
  then have "record_ok i (RString data)" using assms(1) unfolding world_ok_def by blast
  then show ?thesis by (simp add: record_ok_def)
qed

lemma record_text_cases:
  assumes "record_text i data"
  obtains kvs j where "json_parse data = Some (JObj kvs)" "plain_object kvs" "job_of_json (JObj kvs) = Some j"
    "job_ID j = i" "lua_table data = Some kvs" "unmarshal_job data = Some j" "job_ok j"
proof -
  obtain kvs j where k: "json_parse data = Some (JObj kvs)" "plain_object kvs"
      "job_of_json (JObj kvs) = Some j" "job_ID j = i"
    using assms by (auto simp: record_text_def)
  moreover have "put_all [] kvs = kvs" using put_all_distinct [of "[]" kvs] k(2) by (simp add: plain_object_def)
  moreover have u: "unmarshal_job data = Some j" using k by (simp add: unmarshal_job_def)
  ultimately show ?thesis using that unmarshal_job_ok [OF u] by (simp add: lua_table_def)
qed

lemma update_effect_job:
  assumes "world_ok w" and "time_ok t" and "update_effect i st ref e t ttl w = Inr w'"
  shows "job_at w i \<noteq> None" and "world_ok w'"
    and "job_at w' = (job_at w)(i := map_option (\<lambda>j. j\<lparr>job_Status := status_of st, job_ResultRef := ref,
      job_Error := e, job_UpdatedAt := t\<rparr>) (job_at w i))"
proof -
  obtain data where data: "redis_str w (jobKey i) = Some data"
    using assms(3) by (auto simp: update_effect_def split: option.splits)
  obtain kvs j where k: "json_parse data = Some (JObj kvs)" "plain_object kvs" "job_of_json (JObj kvs) = Some j"
      "job_ID j = i" "lua_table data = Some kvs" "unmarshal_job data = Some j"
    using world_ok_record [OF assms(1) data] by (rule record_text_cases)
  let ?kvs = "lua_patch st ref e t kvs"
  let ?j = "j\<lparr>job_Status := status_of st, job_ResultRef := ref, job_Error := e, job_UpdatedAt := t\<rparr>"
  have w': "w' = redis_set (jobKey i) (json_text False (JObj ?kvs)) (ttl * second) w"
    using assms(3) data k(5) by (simp add: update_effect_def)
  have pp: "plain_object ?kvs" by (rule plain_object_patch [OF k(2)])
  then have parse: "json_parse (json_text False (JObj ?kvs)) = Some (JObj ?kvs)"
    by (intro json_parse_text) (simp only: plain_object_def)
  note dec = job_of_patched [OF k(2,3) assms(2), of st ref e]
  have old: "job_at w i = Some j" using data k(6) by (simp add: job_at_def)
  then show "job_at w i \<noteq> None" by simp
  show "job_at w' = (job_at w)(i := map_option (\<lambda>j. j\<lparr>job_Status := status_of st, job_ResultRef := ref,
      job_Error := e, job_UpdatedAt := t\<rparr>) (job_at w i))"
    using old parse dec by (auto simp: fun_eq_iff job_at_def w' unmarshal_job_def)
  have "record_text i (json_text False (JObj ?kvs))"
    using parse pp dec k(4) by (auto simp: record_text_def)
  then show "world_ok w'"
    using assms(1) string_key_set [of "jobKey i" _ _ w]
    by (auto simp: world_ok_def w' map_of_redis_set record_ok_def redis_set_def is_string_key_def split: if_splits)
qed

section \<open>The calls of the Redis client\<close>

lemma SaveJob_cases:
  assumes "SaveJob r j w = (res, w')"
  obtains "w' = save_effect (rd_jobTTL r) j (tick w)" | "\<not> is_ok res" "w' = tick w"
  using assms by (auto simp: SaveJob_def split: prod.splits if_splits elim!: attempt_cases)

lemma DeleteJob_cases:
  assumes "DeleteJob r i w = (res, w')"
  obtains "w' = delete_effect i (tick w)" | "\<not> is_ok res" "w' = tick w"
  using assms by (auto simp: DeleteJob_def split: prod.splits if_splits elim!: attempt_cases)

lemma UpdateJobResult_cases:
  assumes "UpdateJobResult r t i st ref e w = (res, w')"
  obtains "update_effect i (status_text st) ref e t (update_ttl r) (tick w) = Inr w'" | "\<not> is_ok res" "w' = tick w"
  using assms by (auto simp: UpdateJobResult_def Let_def next_outcome_eq split: outcome.splits sum.splits)

lemma GetJob_world: "GetJob r i w = (res, w') \<Longrightarrow> w' = tick w"
  by (auto simp: GetJob_def next_outcome_eq split: outcome.splits option.splits RedisValue.splits)

lemma GetJob_job: "GetJob r i w = (Inr j, w') \<Longrightarrow> job_at w i = Some j"
  by (auto simp: GetJob_def job_at_def redis_str_def next_outcome_eq
      split: outcome.splits option.splits RedisValue.splits)

lemma ListJobs_frame:
  assumes "ListJobsByConsumer r c n m w = (res, w')"
  shows "w_redis w' = w_redis w" and "w_objects w' = w_objects w" and "w_topics w' = w_topics w"
    and "w_writers w' = w_writers w" and "w_relay_writers w' = w_relay_writers w"
proof -
  have "w' = tick w \<or> w' = tick (tick w) \<or> w' = tick (tick (tick w))"
    using assms by (auto simp: ListJobsByConsumer_def next_outcome_eq Let_def split: outcome.splits if_splits)
  then show "w_redis w' = w_redis w" "w_objects w' = w_objects w" "w_topics w' = w_topics w"
    "w_writers w' = w_writers w" "w_relay_writers w' = w_relay_writers w" by auto
qed

section \<open>The producers\<close>

lemma writerFor_ok:
  assumes "writers_ok ws" and "writerFor brokers topic ws = (kw, ws')"
  shows "kw_Topic kw = topic" and "writers_ok ws'"
  using assms by (auto simp: writerFor_def writers_ok_def Let_def split: option.splits if_splits)

lemma PublishInputEvent_spec:
  assumes ok: "world_ok w" and p: "PublishInputEvent brokers topic ev w = (r, w')"
  shows "world_ok w'" and "w_objects w' = w_objects w" and "w_redis w' = w_redis w"
    and "appended (is_ok r) (topic, ie_JobID ev, marshal_input_event ev) (w_topics w) (w_topics w')"
proof -
  obtain kw ws where kw: "writerFor brokers topic (w_writers w) = (kw, ws)" by fastforce
  have "writers_ok (w_writers w)" using ok by (simp add: world_ok_def)
  note kt = writerFor_ok [OF this kw]
  let ?w = "w\<lparr>w_writers := ws\<rparr>"
  obtain acked where a: "attempt (\<lambda>w. w\<lparr>w_topics := w_topics w @ [(kw_Topic kw, ie_JobID ev, marshal_input_event ev)]\<rparr>) ?w = (acked, w')"
      and r: "is_ok r = acked"
    using p kw by (auto simp: PublishInputEvent_def WriteMessages_def Let_def split: prod.splits if_splits)
  have ok': "world_ok ?w" using ok kt(2) by (simp add: world_ok_def is_string_key_def)
  from a show "world_ok w'" "w_objects w' = w_objects w" "w_redis w' = w_redis w"
    by (cases rule: attempt_cases; use ok' in \<open>simp add: world_ok_def is_string_key_def\<close>)+
  from a show "appended (is_ok r) (topic, ie_JobID ev, marshal_input_event ev) (w_topics w) (w_topics w')"
    by (cases rule: attempt_cases) (simp_all add: appended_def kt(1) r)
qed

lemma PublishResultEvent_spec:
  assumes ok: "world_ok w" and p: "PublishResultEvent brokers topic ev w = (r, w')"
  shows "world_ok w'" and "w_objects w' = w_objects w" and "w_redis w' = w_redis w"
    and "appended (is_ok r) (topic, re_JobID ev, marshal_result_event ev) (w_topics w) (w_topics w')"
    and "w_requests w' = w_requests w" and "w_answers w' = w_answers w" and "w_published w' = w_published w"
proof -
  obtain kw ws where kw: "writerFor brokers topic (w_relay_writers w) = (kw, ws)" by fastforce
  have "writers_ok (w_relay_writers w)" using ok by (simp add: world_ok_def)
  note kt = writerFor_ok [OF this kw]
  let ?w = "w\<lparr>w_relay_writers := ws\<rparr>"
  obtain acked where a: "attempt (\<lambda>w. w\<lparr>w_topics := w_topics w @ [(kw_Topic kw, re_JobID ev, marshal_result_event ev)]\<rparr>) ?w = (acked, w')"
      and r: "is_ok r = acked"
    using p kw by (auto simp: PublishResultEvent_def WriteMessages_def Let_def split: prod.splits if_splits)
  have ok': "world_ok ?w" using ok kt(2) by (simp add: world_ok_def is_string_key_def)
  from a show "world_ok w'" "w_objects w' = w_objects w" "w_redis w' = w_redis w"
    "w_requests w' = w_requests w" "w_answers w' = w_answers w" "w_published w' = w_published w"
    by (cases rule: attempt_cases; use ok' in \<open>simp add: world_ok_def is_string_key_def\<close>)+
  from a show "appended (is_ok r) (topic, re_JobID ev, marshal_result_event ev) (w_topics w) (w_topics w')"
    by (cases rule: attempt_cases) (simp_all add: appended_def kt(1) r)
qed

section \<open>Interpretations\<close>

text \<open>The interface values the gateway builds in cmd/gateway/main.go.\<close>

definition s3_store :: "S3Client \<Rightarrow> World s3Store" where
  "s3_store c = \<lparr>st_Upload = s3_Upload c, st_GetObject = s3_GetObject c, st_DeleteObject = s3_DeleteObject c\<rparr>"

definition redis_async :: "RedisClient \<Rightarrow> World asyncJobStore" where
  "redis_async r = \<lparr>aj_SaveJob = SaveJob r, aj_GetJob = GetJob r, aj_DeleteJob = DeleteJob r,
     aj_UpdateJobResult = UpdateJobResult r, aj_ListJobsByConsumer = ListJobsByConsumer r\<rparr>"

definition redis_sync :: "RedisClient \<Rightarrow> World jobStore" where
  "redis_sync r = \<lparr>js_SaveJob = SaveJob r, js_GetJob = GetJob r, js_DeleteJob = DeleteJob r,
     js_SubscribeJobDone = SubscribeJobDone r\<rparr>"

definition kafka_producer :: "string list \<Rightarrow> World eventProducer" where
  "kafka_producer brokers = \<lparr>ep_PublishInputEvent = PublishInputEvent brokers\<rparr>"

lemmas interface_defs = s3_store_def redis_async_def redis_sync_def kafka_producer_def

text \<open>The stores are well formed, and the key is one that NewS3Client has accepted.\<close>

definition gateway_ok :: "S3Client \<Rightarrow> World \<Rightarrow> bool" where
  "gateway_ok c w \<longleftrightarrow> world_ok w \<and> key_usable (s3_encKey c)"

lemma NewS3Client_key: "NewS3Client cfg keyHex = Inr c \<Longrightarrow> key_usable (s3_encKey c)"
  by (auto simp: NewS3Client_def ParseKey_def key_usable_def split: if_splits option.splits)

lemma gateway_ok_tick [simp]: "gateway_ok c (tick w) = gateway_ok c w"
  by (simp add: gateway_ok_def)

interpretation s3: object_store "s3_store c" "gateway_ok c" "object_at c" for c
proof
  fix w k data n ct r w'
  assume ok: "gateway_ok c w" and "st_Upload (s3_store c) k (data, None) n ct w = (r, w')"
  then have u: "s3_Upload c k (data, None) n ct w = (r, w')" by (simp add: s3_store_def)
  show "gateway_ok c w' \<and> changed_at (is_ok r) k (Some data) (object_at c w) (object_at c w')"
    using ok s3_Upload_object [OF _ u] world_ok_frame [OF s3_Upload_frame(1,3,4) [OF u]]
    by (simp add: gateway_ok_def)
next
  fix w k g w'
  assume ok: "gateway_ok c w" and "st_GetObject (s3_store c) k w = (g, w')"
  then have u: "s3_GetObject c k w = (g, w')" by (simp add: s3_store_def)
  show "gateway_ok c w' \<and> object_at c w' = object_at c w \<and> (\<forall>d. g = Inr d \<longrightarrow> object_at c w k = Some d)"
    using ok s3_GetObject_world [OF u] object_at_frame [OF tick_simps(1)] s3_GetObject_data u by auto
next
  fix w k r w'
  assume ok: "gateway_ok c w" and "st_DeleteObject (s3_store c) k w = (r, w')"
  then have u: "s3_DeleteObject c k w = (r, w')" by (simp add: s3_store_def)
  show "gateway_ok c w' \<and> changed_at (is_ok r) k None (object_at c w) (object_at c w')"
    using ok s3_DeleteObject_object [OF u] world_ok_frame [OF s3_DeleteObject_frame(1,3,4) [OF u]]
    by (simp add: gateway_ok_def)
qed

lemma job_at_tick [simp]: "job_at (tick w) = job_at w"
  by (rule job_at_frame) simp

lemma object_at_tick [simp]: "object_at c (tick w) = object_at c w"
  by (rule object_at_frame) simp

lemma job_at_record:
  assumes "world_ok w" and "job_at w i = Some j"
  shows "job_ID j = i \<and> job_ok j"
proof -
  obtain data where d: "redis_str w (jobKey i) = Some data" "unmarshal_job data = Some j"
    using assms(2) by (auto simp: job_at_def split: bind_splits)
  from record_text_cases [OF world_ok_record [OF assms(1) d(1)]] d(2) show ?thesis by (metis option.inject)
qed

interpretation rd: job_records "redis_async r" world_ok job_at for r
proof
  fix w j res w'
  assume ok: "world_ok w" and j: "job_ok j" and "aj_SaveJob (redis_async r) j w = (res, w')"
  then have s: "SaveJob r j w = (res, w')" by (simp add: redis_async_def)
  then show "world_ok w' \<and> changed_at (is_ok res) (job_ID j) (Some j) (job_at w) (job_at w')"
    by (cases rule: SaveJob_cases) (simp_all add: ok j world_ok_save job_at_save changed_at_def)
next
  fix w i g w'
  assume ok: "world_ok w" and "aj_GetJob (redis_async r) i w = (g, w')"
  then have s: "GetJob r i w = (g, w')" by (simp add: redis_async_def)
  show "world_ok w' \<and> job_at w' = job_at w \<and> (\<forall>j. g = Inr j \<longrightarrow> job_at w i = Some j)"
    using ok GetJob_world [OF s] GetJob_job s by auto
next
  fix w i res w'
  assume ok: "world_ok w" and "aj_DeleteJob (redis_async r) i w = (res, w')"
  then have s: "DeleteJob r i w = (res, w')" by (simp add: redis_async_def)
  then show "world_ok w' \<and> changed_at (is_ok res) i None (job_at w) (job_at w')"
    by (cases rule: DeleteJob_cases) (simp_all add: ok world_ok_delete job_at_delete changed_at_def)
next
  fix w t st i ref e res w'
  assume ok: "world_ok w" and t: "time_ok t" and st: "status_ok st"
    and "aj_UpdateJobResult (redis_async r) t i st ref e w = (res, w')"
  then have s: "UpdateJobResult r t i st ref e w = (res, w')" by (simp add: redis_async_def)
  have ok': "world_ok (tick w)" using ok by simp
  from s show "world_ok w' \<and> (is_ok res \<longrightarrow> job_at w i \<noteq> None) \<and>
      changed_at (is_ok res) i
        (map_option (\<lambda>j. j\<lparr>job_Status := st, job_ResultRef := ref, job_Error := e, job_UpdatedAt := t\<rparr>) (job_at w i))
        (job_at w) (job_at w')"
  proof (cases rule: UpdateJobResult_cases)
    case 1
    show ?thesis
      using update_effect_job [OF ok' t 1] st by (simp add: changed_at_def)
  next
    case 2
    then show ?thesis using ok by (simp add: changed_at_def)
  qed
next
  fix w c n m l w'
  assume ok: "world_ok w" and "aj_ListJobsByConsumer (redis_async r) c n m w = (l, w')"
  then have s: "ListJobsByConsumer r c n m w = (l, w')" by (simp add: redis_async_def)
  show "world_ok w' \<and> job_at w' = job_at w"
    using ok world_ok_frame [OF ListJobs_frame(1,4,5) [OF s]] job_at_frame [OF ListJobs_frame(1) [OF s]] by simp
next
  fix w i j
  assume "world_ok w" and "job_at w i = Some j"
  then show "job_ID j = i \<and> job_ok j" by (rule job_at_record)
qed

lemma SaveJob_redis_only: "SaveJob r j w = (res, w') \<Longrightarrow> redis_only w w'"
  by (erule SaveJob_cases) (use redis_only_save [of "tick w"] in \<open>auto simp: redis_only_def\<close>)

lemma DeleteJob_redis_only: "DeleteJob r i w = (res, w') \<Longrightarrow> redis_only w w'"
  by (erule DeleteJob_cases) (use redis_only_delete [of "tick w"] in \<open>auto simp: redis_only_def\<close>)

lemma UpdateJobResult_redis_only: "UpdateJobResult r t i st ref e w = (res, w') \<Longrightarrow> redis_only w w'"
  by (erule UpdateJobResult_cases) (auto simp: redis_only_def dest!: redis_only_update)

lemma redis_only_views: "redis_only w w' \<Longrightarrow> object_at c w' = object_at c w \<and> w_topics w' = w_topics w"
  using object_at_frame [of w' w c] by (simp add: redis_only_def)

interpretation gw: job_backend "s3_store c" "redis_async r" "kafka_producer b" "gateway_ok c" "object_at c" job_at
    w_topics for c r b
proof (intro job_backend.intro job_backend_axioms.intro)
  show "object_store (s3_store c) (gateway_ok c) (object_at c)" by (rule s3.object_store_axioms)
  show "job_records (redis_async r) (gateway_ok c) job_at"
    unfolding gateway_ok_def by (rule job_records_and [OF rd.job_records_axioms])
next
  fix w topic ev res w'
  assume ok: "gateway_ok c w" and "ep_PublishInputEvent (kafka_producer b) topic ev w = (res, w')"
  then have p: "PublishInputEvent b topic ev w = (res, w')" by (simp add: kafka_producer_def)
  have wok: "world_ok w" using ok by (simp add: gateway_ok_def)
  show "gateway_ok c w' \<and> object_at c w' = object_at c w \<and> job_at w' = job_at w \<and>
      appended (is_ok res) (topic, ie_JobID ev, marshal_input_event ev) (w_topics w) (w_topics w')"
    using ok PublishInputEvent_spec(1,4) [OF wok p] object_at_frame [OF PublishInputEvent_spec(2) [OF wok p]]
      job_at_frame [OF PublishInputEvent_spec(3) [OF wok p]] by (simp add: gateway_ok_def)
next
  fix w k rdr n ct res w'
  assume "st_Upload (s3_store c) k rdr n ct w = (res, w')"
  then have u: "s3_Upload c k rdr n ct w = (res, w')" by (simp add: s3_store_def)
  show "job_at w' = job_at w \<and> w_topics w' = w_topics w"
    using s3_Upload_frame(2) [OF u] job_at_frame [OF s3_Upload_frame(1) [OF u]] by simp
next
  fix w k g w'
  assume "st_GetObject (s3_store c) k w = (g, w')"
  then have "s3_GetObject c k w = (g, w')" by (simp add: s3_store_def)
  then show "job_at w' = job_at w \<and> w_topics w' = w_topics w" by (auto dest: s3_GetObject_world)
next
  fix w k res w'
  assume "st_DeleteObject (s3_store c) k w = (res, w')"
  then have u: "s3_DeleteObject c k w = (res, w')" by (simp add: s3_store_def)
  show "job_at w' = job_at w \<and> w_topics w' = w_topics w"
    using s3_DeleteObject_frame(2) [OF u] job_at_frame [OF s3_DeleteObject_frame(1) [OF u]] by simp
next
  fix w j res w'
  assume "aj_SaveJob (redis_async r) j w = (res, w')"
  then have "redis_only w w'" by (auto simp: redis_async_def dest: SaveJob_redis_only)
  then show "object_at c w' = object_at c w \<and> w_topics w' = w_topics w"
    by (rule redis_only_views)
next
  fix w i g w'
  assume "aj_GetJob (redis_async r) i w = (g, w')"
  then have "GetJob r i w = (g, w')" by (simp add: redis_async_def)
  then show "object_at c w' = object_at c w \<and> w_topics w' = w_topics w" by (auto dest: GetJob_world)
next
  fix w i res w'
  assume "aj_DeleteJob (redis_async r) i w = (res, w')"
  then have "redis_only w w'" by (auto simp: redis_async_def dest: DeleteJob_redis_only)
  then show "object_at c w' = object_at c w \<and> w_topics w' = w_topics w"
    by (rule redis_only_views)
next
  fix w t i st ref e res w'
  assume "aj_UpdateJobResult (redis_async r) t i st ref e w = (res, w')"
  then have "redis_only w w'" by (auto simp: redis_async_def dest: UpdateJobResult_redis_only)
  then show "object_at c w' = object_at c w \<and> w_topics w' = w_topics w"
    by (rule redis_only_views)
next
  fix w cn n m l w'
  assume "aj_ListJobsByConsumer (redis_async r) cn n m w = (l, w')"
  then have s: "ListJobsByConsumer r cn n m w = (l, w')" by (simp add: redis_async_def)
  show "object_at c w' = object_at c w \<and> w_topics w' = w_topics w"
    using ListJobs_frame(3) [OF s] object_at_frame [OF ListJobs_frame(2) [OF s]] by simp
qed

end
