(* ===== verification/Jobs_Facts.thy ===== *)
theory Jobs_Facts
  imports Jobs World_Facts
begin

text \<open>
  What the asynchronous handler guarantees, proved once for any stores that keep the contract of
  \<open>job_backend\<close>, and stated for the stores of the gateway through its interpretation.
\<close>

section \<open>Submission, for any backend\<close>

lemma new_job_ok: "time_ok now \<Longrightarrow> job_ok (new_job serviceType s jobID now)"
  by (simp add: new_job_def job_ok_def)

lemma new_job_ID [simp]: "job_ID (new_job serviceType s jobID now) = jobID"
  by (simp add: new_job_def)

lemma new_event_JobID [simp]: "ie_JobID (new_event serviceType s jobID now) = jobID"
  by (simp add: new_event_def)

lemma NewJobHandler_simps [simp]:
  "jh_registry (NewJobHandler reg st rd pr ph ch) = reg" "jh_store (NewJobHandler reg st rd pr ph ch) = st"
  "jh_redis (NewJobHandler reg st rd pr ph ch) = rd" "jh_producer (NewJobHandler reg st rd pr ph ch) = pr"
  "jh_priorityHeader (NewJobHandler reg st rd pr ph ch) = ph"
  "jh_consumerHeader (NewJobHandler reg st rd pr ph ch) = ch"
  by (simp_all add: NewJobHandler_def)

lemma submit_response_status [simp]: "rs_Status (submit_response i st m) = Some 202"
  by (simp add: submit_response_def)

lemma submit_check_code: "submit_check h r st = Inl (code, msg) \<Longrightarrow> code \<in> {400, 404, 405}"
  by (auto simp: submit_check_def split: sum.splits if_splits option.splits)

lemma submit_check_params: "submit_check h r st = Inr s \<Longrightarrow> gm_wf (sub_params s)"
  by (auto simp: submit_check_def collect_params_wf split: sum.splits if_splits option.splits)

lemma new_event_ok:
  "submit_check h r st = Inr s \<Longrightarrow> time_ok now \<Longrightarrow> input_event_ok (new_event st s i now)"
  by (auto simp: input_event_ok_def new_event_def dest: submit_check_params)

lemma is_ok_simps [simp]: "is_ok (Inl e) = False" "is_ok (Inr a) = True"
  by simp_all

context job_backend
begin

text \<open>What submit_run did when it answered 202.\<close>

lemma submit_run_accepted:
  assumes ok: "ok w" and t: "time_ok now"
    and run: "submit_run (NewJobHandler reg store redis producer ph ch) r st s i now w = (resp, w', bg)"
    and a: "final_status resp = 202"
  shows "ok w' \<and> obj w' = (obj w)(input_ref i (fh_Filename (sub_file s)) \<mapsto> fh_Data (sub_file s)) \<and>
    jobs w' = (jobs w)(i \<mapsto> new_job st s i now) \<and> bg = id \<and>
    log w' = log w @ [(submit_topic (NewJobHandler reg store redis producer ph ch) r (sub_def s), i,
      marshal_input_event (new_event st s i now))]"
proof -
  let ?h = "NewJobHandler reg store redis producer ph ch"
  let ?ref = "input_ref i (fh_Filename (sub_file s))" and ?data = "fh_Data (sub_file s)"
  obtain r1 w1 where u: "st_Upload store ?ref (?data, None) (int (length ?data)) (fh_ContentType (sub_file s)) w = (r1, w1)"
    by fastforce
  obtain r2 w2 where sv: "aj_SaveJob redis (new_job st s i now) w1 = (r2, w2)" by fastforce
  obtain r3 w3 where p: "ep_PublishInputEvent producer (submit_topic ?h r (sub_def s)) (new_event st s i now) w2 = (r3, w3)"
    by fastforce
  have rs: "r1 = Inr ()" "r2 = Inr ()" "r3 = Inr ()" "w' = w3" "bg = id"
    using run a u sv p by (auto simp: submit_run_def final_status_def split: sum.splits)
  note U = upload [OF ok u] upload_frame [OF ok u]
  have ok1: "ok w1" using U by simp
  note S = save [OF ok1 new_job_ok [OF t] sv] save_frame [OF ok1 sv]
  have ok2: "ok w2" using S by simp
  note P = publish [OF ok2 p]
  show ?thesis using U S P rs by simp
qed

text \<open>Whatever it answered: nothing but this job's entries has changed, and at most its event was
  published.\<close>

lemma submit_run_frame:
  assumes ok: "ok w" and t: "time_ok now"
    and run: "submit_run (NewJobHandler reg store redis producer ph ch) r st s i now w = (resp, w', bg)"
  shows "ok w' \<and> (\<forall>k. k \<noteq> input_ref i (fh_Filename (sub_file s)) \<longrightarrow> obj w' k = obj w k) \<and>
    (\<forall>i'. i' \<noteq> i \<longrightarrow> jobs w' i' = jobs w i') \<and>
    (log w' = log w \<or> log w' = log w @ [(submit_topic (NewJobHandler reg store redis producer ph ch) r (sub_def s), i,
      marshal_input_event (new_event st s i now))])"
proof -
  let ?h = "NewJobHandler reg store redis producer ph ch"
  let ?ref = "input_ref i (fh_Filename (sub_file s))" and ?data = "fh_Data (sub_file s)"
  let ?ev = "(submit_topic ?h r (sub_def s), i, marshal_input_event (new_event st s i now))"
  obtain r1 w1 where u: "st_Upload store ?ref (?data, None) (int (length ?data)) (fh_ContentType (sub_file s)) w = (r1, w1)"
    by fastforce
  obtain r2 w2 where sv: "aj_SaveJob redis (new_job st s i now) w1 = (r2, w2)" by fastforce
  obtain r3 w3 where p: "ep_PublishInputEvent producer (submit_topic ?h r (sub_def s)) (new_event st s i now) w2 = (r3, w3)"
    by fastforce
  obtain r4 w4 where up: "aj_UpdateJobResult redis now i Failed [] ''failed to enqueue'' w3 = (r4, w4)" by fastforce
  note U = upload [OF ok u] upload_frame [OF ok u]
  have ok1: "ok w1" using U by simp
  note S = save [OF ok1 new_job_ok [OF t] sv] save_frame [OF ok1 sv]
  have ok2: "ok w2" using S by simp
  note P = publish [OF ok2 p]
  have ok3: "ok w3" using P by simp
  note R = update [OF ok3 t _ up] update_frame [OF ok3 up]
  have w': "w' = (if \<not> is_ok r1 then w1 else if \<not> is_ok r2 then w2 else if is_ok r3 then w3 else w4)"
    using run u sv p up by (auto simp: submit_run_def split: sum.splits)
  have o1: "\<forall>k. k \<noteq> ?ref \<longrightarrow> obj w1 k = obj w k" "jobs w1 = jobs w" "log w1 = log w"
    using U by (auto dest: changed_at_other)
  have o2: "obj w2 = obj w1" "\<forall>i'. i' \<noteq> i \<longrightarrow> jobs w2 i' = jobs w1 i'" "log w2 = log w1"
    using S by (auto dest: changed_at_other)
  have o3: "obj w3 = obj w2" "jobs w3 = jobs w2" "log w3 = log w2 \<or> log w3 = log w2 @ [?ev]"
    using P by (auto simp: appended_def)
  have o4: "ok w4" "obj w4 = obj w3" "\<forall>i'. i' \<noteq> i \<longrightarrow> jobs w4 i' = jobs w3 i'" "log w4 = log w3"
    using R by (auto dest: changed_at_other)
  show ?thesis
    unfolding w' using ok1 ok2 ok3 o1 o2 o3 o4 by (simp split: if_split)
qed

text \<open>A job whose event could not be published and whose record could be updated is failed.\<close>

lemma submit_run_enqueue_failure:
  assumes ok: "ok w" and t: "time_ok now"
    and run: "submit_run (NewJobHandler reg store redis producer ph ch) r st s i now w = (resp, w', bg)"
    and e: "log w' = log w" and a: "final_status resp \<noteq> 202"
  shows "jobs w' i = jobs w i \<or> jobs w' i = Some (new_job st s i now) \<or>
    jobs w' i = Some ((new_job st s i now)\<lparr>job_Status := Failed, job_Error := ''failed to enqueue''\<rparr>)"
proof -
  let ?h = "NewJobHandler reg store redis producer ph ch"
  let ?ref = "input_ref i (fh_Filename (sub_file s))" and ?data = "fh_Data (sub_file s)"
  obtain r1 w1 where u: "st_Upload store ?ref (?data, None) (int (length ?data)) (fh_ContentType (sub_file s)) w = (r1, w1)"
    by fastforce
  obtain r2 w2 where sv: "aj_SaveJob redis (new_job st s i now) w1 = (r2, w2)" by fastforce
  obtain r3 w3 where p: "ep_PublishInputEvent producer (submit_topic ?h r (sub_def s)) (new_event st s i now) w2 = (r3, w3)"
    by fastforce
  obtain r4 w4 where up: "aj_UpdateJobResult redis now i Failed [] ''failed to enqueue'' w3 = (r4, w4)" by fastforce
  note U = upload [OF ok u] upload_frame [OF ok u]
  have ok1: "ok w1" using U by simp
  note S = save [OF ok1 new_job_ok [OF t] sv]
  have ok2: "ok w2" using S by simp
  note P = publish [OF ok2 p]
  have ok3: "ok w3" using P by simp
  note R = update [OF ok3 t _ up]
  have w': "w' = (if \<not> is_ok r1 then w1 else if \<not> is_ok r2 then w2 else if is_ok r3 then w3 else w4)"
    using run u sv p up by (auto simp: submit_run_def split: sum.splits)
  have j1: "jobs w1 = jobs w" using U by simp
  have j2: "jobs w2 = (jobs w1)(i \<mapsto> new_job st s i now) \<or> \<not> is_ok r2 \<and> jobs w2 = jobs w1"
    using S by (auto simp: changed_at_def)
  have j3: "jobs w3 = jobs w2" using P by simp
  have "jobs w4 i = jobs w3 i \<or> jobs w4 i = map_option (\<lambda>j. j\<lparr>job_Status := Failed, job_ResultRef := [],
      job_Error := ''failed to enqueue'', job_UpdatedAt := now\<rparr>) (jobs w3 i)"
    using R by (auto simp: changed_at_def)
  then show ?thesis
    unfolding w' using j1 j2 j3 by (auto simp: new_job_def)
qed

section \<open>Status, for any backend\<close>

lemma GetStatus_frame:
  assumes ok: "ok w" and g: "GetStatus (NewJobHandler reg store redis producer ph ch) r st i w = (resp, w', bg)"
  shows "ok w' \<and> obj w' = obj w \<and> jobs w' = jobs w \<and> log w' = log w"
proof -
  obtain gj w1 where f: "aj_GetJob redis i w = (gj, w1)" by fastforce
  note F = fetch [OF ok f] fetch_frame [OF ok f]
  have ok1: "ok w1" using F by simp
  show ?thesis
  proof (cases "\<exists>(job :: Job) g2 w2. gj = Inr job \<and> st_GetObject store (job_ResultRef job) w1 = (g2, w2) \<and> w' = w2")
    case True
    then obtain job :: Job and g2 w2 where o: "st_GetObject store (job_ResultRef job) w1 = (g2, w2)" "w' = w2" by auto
    show ?thesis using get [OF ok1 o(1)] get_frame [OF ok1 o(1)] F o(2) by simp
  next
    case False
    then have "w' = w1"
      using g f by (auto simp: GetStatus_def Let_def split: sum.splits if_splits prod.splits)
    then show ?thesis using F by simp
  qed
qed

text \<open>The job of another consumer is not seen.\<close>

lemma GetStatus_isolated:
  assumes ok: "ok w" and g: "GetStatus (NewJobHandler reg store redis producer ph ch) r st i w = (resp, w', bg)"
    and "ch \<noteq> []" and "header_get r ch \<noteq> []"
    and "\<forall>j. jobs w i = Some j \<longrightarrow> job_ConsumerName j \<noteq> header_get r ch"
  shows "resp = not_found i \<and> bg = id"
proof -
  obtain gj w1 where f: "aj_GetJob redis i w = (gj, w1)" by fastforce
  have "\<forall>j. gj = Inr j \<longrightarrow> jobs w i = Some j" using fetch [OF ok f] by simp
  then show ?thesis using g f assms(3-5) by (auto simp: GetStatus_def split: sum.splits if_splits)
qed

text \<open>What a status request leaves behind deletes the delivered result and its job, and nothing else.\<close>

lemma GetStatus_cleanup:
  assumes ok: "ok w" and g: "GetStatus (NewJobHandler reg store redis producer ph ch) r st i w = (resp, w', bg)"
    and okv: "ok v" and b: "bg v = v'"
  shows "ok v' \<and> log v' = log v \<and> (\<forall>i'. i' \<noteq> i \<longrightarrow> jobs v' i' = jobs v i') \<and>
    (\<forall>k. (\<forall>j. jobs w i = Some j \<longrightarrow> k \<noteq> job_ResultRef j) \<longrightarrow> obj v' k = obj v k) \<and>
    ((\<nexists>j. jobs w i = Some j \<and> has_result j) \<longrightarrow> v' = v)"
proof -
  obtain gj w1 where f: "aj_GetJob redis i w = (gj, w1)" by fastforce
  have F: "\<forall>j. gj = Inr j \<longrightarrow> jobs w i = Some j" using fetch [OF ok f] by simp
  show ?thesis
  proof (cases "bg = id")
    case True
    then show ?thesis using okv b by simp
  next
    case False
    then obtain job where job: "gj = Inr job" "has_result job"
        "bg = (\<lambda>w. snd (aj_DeleteJob redis (job_ID job) (snd (st_DeleteObject store (job_ResultRef job) w))))"
      using g f by (auto simp: GetStatus_def Let_def split: sum.splits if_splits prod.splits)
    have j: "jobs w i = Some job" "job_ID job = i" using F job job_id [OF ok] by auto
    obtain r1 v1 where d: "st_DeleteObject store (job_ResultRef job) v = (r1, v1)" by fastforce
    obtain r2 v2 where dj: "aj_DeleteJob redis i v1 = (r2, v2)" by fastforce
    have v': "v' = v2" using b job(3) d dj j(2) by simp
    note D = remove [OF okv d] remove_frame [OF okv d]
    have ok1: "ok v1" using D by simp
    note E = drop_job [OF ok1 dj] drop_frame [OF ok1 dj]
    show ?thesis using D E v' j job(2) by (auto dest: changed_at_other)
  qed
qed

end

section \<open>The gateway's handler\<close>

definition gateway_jobs ::
    "Registry \<Rightarrow> S3Client \<Rightarrow> RedisClient \<Rightarrow> string list \<Rightarrow> string \<Rightarrow> string \<Rightarrow> World JobHandler" where
  "gateway_jobs reg c rc brokers ph ch =
     NewJobHandler reg (s3_store c) (redis_async rc) (kafka_producer brokers) ph ch"

lemma Submit_accepted_facts:
  assumes "gateway_ok c w" and "time_ok now"
    and "Submit (gateway_jobs reg c rc brokers ph ch) r st i now w = (resp, w', bg)" and "final_status resp = 202"
  shows "\<exists>s payload e. submit_check (gateway_jobs reg c rc brokers ph ch) r st = Inr s \<and>
    object_at c w' = (object_at c w)(input_ref i (fh_Filename (sub_file s)) \<mapsto> fh_Data (sub_file s)) \<and>
    job_at w' = (job_at w)(i \<mapsto> new_job st s i now) \<and>
    w_topics w' = w_topics w @ [(submit_topic (gateway_jobs reg c rc brokers ph ch) r (sub_def s), i, payload)] \<and>
    unmarshal_input_event payload = Some e \<and> ie_JobID e = i \<and> ie_InferenceURL e = sub_inferenceURL s \<and>
    ie_InputRef e = input_ref i (fh_Filename (sub_file s)) \<and> map_of (ie_Params e) = map_of (sub_params s)"
proof (cases "submit_check (gateway_jobs reg c rc brokers ph ch) r st")
  case (Inl ce)
  then show ?thesis
    using assms(3,4) submit_check_code [of "gateway_jobs reg c rc brokers ph ch" r st "fst ce" "snd ce"]
    by (auto simp: Submit_def final_status_def split: prod.splits)
next
  case (Inr s)
  then have run: "submit_run (gateway_jobs reg c rc brokers ph ch) r st s i now w = (resp, w', bg)"
    using assms(3) by (simp add: Submit_def)
  note A = gw.submit_run_accepted [OF assms(1,2) run [unfolded gateway_jobs_def] assms(4), folded gateway_jobs_def]
  have e: "input_event_ok (new_event st s i now)" by (rule new_event_ok [OF Inr assms(2)])
  show ?thesis
    using A Inr unmarshal_marshal_input_event [OF e] sorted_params_same [of "new_event st s i now"] e
    by (auto simp: new_event_def input_event_ok_def)
qed

text \<open>C5: a submission answered with 202 is complete: the uploaded file is stored under the job's input
  reference and reads back, decrypted, as it was sent; the job record is there, pending, with the
  consumer and the callback of the request; and exactly one event was added to the topics, on the
  topic the priority rules select, keyed by the job, which the relay decodes to this job, this
  input and the form fields that are not reserved.  Nothing else of the stores has changed.\<close>

theorem Submit_accepted:
  assumes "gateway_ok c w" and "time_ok now"
    and "Submit (gateway_jobs reg c rc brokers ph ch) r st i now w = (resp, w', bg)" and "final_status resp = 202"
  shows "\<exists>s payload e. submit_check (gateway_jobs reg c rc brokers ph ch) r st = Inr s \<and>
    object_at c w' = (object_at c w)(input_ref i (fh_Filename (sub_file s)) \<mapsto> fh_Data (sub_file s)) \<and>
    job_at w' = (job_at w)(i \<mapsto> new_job st s i now) \<and>
    w_topics w' = w_topics w @ [(submit_topic (gateway_jobs reg c rc brokers ph ch) r (sub_def s), i, payload)] \<and>
    unmarshal_input_event payload = Some e \<and> ie_JobID e = i \<and> ie_InferenceURL e = sub_inferenceURL s \<and>
    ie_InputRef e = input_ref i (fh_Filename (sub_file s)) \<and> map_of (ie_Params e) = map_of (sub_params s)"
  by (rule Submit_accepted_facts [OF assms])

text \<open>C6: a submission that is not accepted, for whatever reason, checks failing before any call or a
  call failing at any point with or without effect, touches nothing but its own job: all other
  objects and records are as before and at most the job's own event was published; a request the
  checks refuse changes nothing at all and leaves no background work.\<close>

theorem Submit_frame:
  assumes "gateway_ok c w" and "time_ok now"
    and "Submit (gateway_jobs reg c rc brokers ph ch) r st i now w = (resp, w', bg)"
  shows "(\<forall>code msg. submit_check (gateway_jobs reg c rc brokers ph ch) r st = Inl (code, msg) \<longrightarrow>
      resp = writeError code msg new_response \<and> code \<in> {400, 404, 405} \<and> w' = w \<and> bg = id) \<and>
    (\<forall>s. submit_check (gateway_jobs reg c rc brokers ph ch) r st = Inr s \<longrightarrow>
      gateway_ok c w' \<and>
      (\<forall>k. k \<noteq> input_ref i (fh_Filename (sub_file s)) \<longrightarrow> object_at c w' k = object_at c w k) \<and>
      (\<forall>i'. i' \<noteq> i \<longrightarrow> job_at w' i' = job_at w i') \<and>
      (\<exists>evs. w_topics w' = w_topics w @ evs \<and> length evs \<le> 1 \<and> (\<forall>ev \<in> set evs. fst (snd ev) = i)))"
proof (intro conjI allI impI)
  fix code msg
  assume c: "submit_check (gateway_jobs reg c rc brokers ph ch) r st = Inl (code, msg)"
  then show "resp = writeError code msg new_response" "w' = w" "bg = id"
    using assms(3) by (simp_all add: Submit_def)
  show "code \<in> {400, 404, 405}" by (rule submit_check_code [OF c])
next
  fix s
  assume c: "submit_check (gateway_jobs reg c rc brokers ph ch) r st = Inr s"
  then have run: "submit_run (gateway_jobs reg c rc brokers ph ch) r st s i now w = (resp, w', bg)"
    using assms(3) by (simp add: Submit_def)
  note F = gw.submit_run_frame [OF assms(1,2) run [unfolded gateway_jobs_def]]
  then show "gateway_ok c w'" by simp
  show "\<And>k. k \<noteq> input_ref i (fh_Filename (sub_file s)) \<Longrightarrow> object_at c w' k = object_at c w k"
    and "\<And>i'. i' \<noteq> i \<Longrightarrow> job_at w' i' = job_at w i'"
    using F by blast+
  show "\<exists>evs. w_topics w' = w_topics w @ evs \<and> length evs \<le> 1 \<and> (\<forall>ev \<in> set evs. fst (snd ev) = i)"
    using F by (auto intro: exI [of _ "[]"])
qed


text \<open>A status request changes no job and no object while it answers, and the clean-up it leaves
  behind removes at most the requested job and the result that job refers to, whatever the state
  has become when it runs; for a job without a result it does nothing.\<close>

lemma GetStatus_cleanup_only_own:
  assumes "gateway_ok c w" and "GetStatus (gateway_jobs reg c rc brokers ph ch) r st i w = (resp, w', bg)"
    and "gateway_ok c v"
  shows "job_at w' = job_at w \<and> object_at c w' = object_at c w \<and> w_topics w' = w_topics w \<and>
    (\<forall>i'. i' \<noteq> i \<longrightarrow> job_at (bg v) i' = job_at v i') \<and>
    (\<forall>k. (\<forall>j. job_at w i = Some j \<longrightarrow> k \<noteq> job_ResultRef j) \<longrightarrow> object_at c (bg v) k = object_at c v k) \<and>
    ((\<nexists>j. job_at w i = Some j \<and> has_result j) \<longrightarrow> bg v = v)"
  using gw.GetStatus_frame [OF assms(1) assms(2) [unfolded gateway_jobs_def]]
    gw.GetStatus_cleanup [OF assms(1) assms(2) [unfolded gateway_jobs_def] assms(3) refl]
  by blast

section \<open>Delivery of results\<close>

definition deliverable :: "string \<Rightarrow> Request \<Rightarrow> string \<Rightarrow> Job \<Rightarrow> bool" where
  "deliverable ch r st j \<longleftrightarrow> job_ServiceType j = st \<and> has_result j \<and>
     (ch = [] \<or> header_get r ch = [] \<or> job_ConsumerName j = header_get r ch)"

lemma next_outcome_done: "w_outcomes w = [] \<or> hd (w_outcomes w) = Done \<Longrightarrow> next_outcome w = (Done, tick w)"
  by (cases "w_outcomes w") (auto simp: next_outcome_eq)

lemma GetJob_done:
  assumes "world_ok w" and "job_at w i = Some j" and "next_outcome w = (Done, tick w)"
  shows "GetJob r i w = (Inr j, tick w)"
  using assms by (auto simp: GetJob_def job_at_def redis_str_def split: option.splits RedisValue.splits bind_splits)

lemma s3_GetObject_done:
  assumes "object_at c w k = Some d" and "next_outcome w = (Done, tick w)"
  shows "s3_GetObject c k w = (Inr d, tick w)"
  using assms by (auto simp: s3_GetObject_def s3_stream_def object_at_def split: option.splits prod.splits)

lemma attempt_done: "next_outcome w = (Done, tick w) \<Longrightarrow> attempt eff w = (True, eff (tick w))"
  by (simp add: attempt_def)

lemma s3_DeleteObject_done:
  assumes "next_outcome w = (Done, tick w)" and "s3_DeleteObject c k w = (res, w')"
  shows "res = Inr ()"
  using assms attempt_done [OF assms(1)] by (auto simp: s3_DeleteObject_def)

lemma DeleteJob_done:
  assumes "next_outcome w = (Done, tick w)" and "DeleteJob r i w = (res, w')"
  shows "res = Inr ()"
  using assms attempt_done [OF assms(1)] by (auto simp: DeleteJob_def)

lemma s3_DeleteObject_outcomes:
  "s3_DeleteObject c k w = (res, w') \<Longrightarrow> w_outcomes w = [] \<Longrightarrow> w_outcomes w' = []"
  by (auto simp: s3_DeleteObject_def attempt_def next_outcome_def split: prod.splits)

text \<open>The state after the two deletions, when both are acknowledged.\<close>

lemma cleanup_done:
  assumes ok: "gateway_ok c v" and "w_outcomes v = []"
  shows "job_at (snd (DeleteJob rc i (snd (s3_DeleteObject c k v)))) i = None \<and>
    object_at c (snd (DeleteJob rc i (snd (s3_DeleteObject c k v)))) k = None"
proof -
  obtain r1 v1 where d: "s3_DeleteObject c k v = (r1, v1)" by fastforce
  obtain r2 v2 where e: "DeleteJob rc i v1 = (r2, v2)" by fastforce
  have r1: "r1 = Inr ()" by (rule s3_DeleteObject_done [OF next_outcome_done d]) (simp add: assms(2))
  have "w_outcomes v1 = []" by (rule s3_DeleteObject_outcomes [OF d assms(2)])
  then have r2: "r2 = Inr ()" by (intro DeleteJob_done [OF next_outcome_done e]) simp
  have o: "object_at c v1 k = None" using s3_DeleteObject_object [OF d] r1 by simp
  have w: "world_ok v1" using ok world_ok_frame [OF s3_DeleteObject_frame(1,3,4) [OF d]] by (simp add: gateway_ok_def)
  have j: "job_at v2 i = None"
    using rd.drop_job [of v1 rc i r2 v2] w e r2 by (simp add: redis_async_def)
  have "object_at c v2 = object_at c v1" using redis_only_views [OF DeleteJob_redis_only [OF e]] by blast
  with d e o j show ?thesis by simp
qed

lemma GetStatus_delivered:
  assumes "gateway_ok c w" and "w_outcomes w = []" and "job_at w i = Some j" and "deliverable ch r st j"
    and "object_at c w (job_ResultRef j) = Some data" and "json_parse data = Some v" and "data \<noteq> []"
    and "GetStatus (gateway_jobs reg c rc brokers ph ch) r st i w = (resp, w', bg)"
  shows "final_status resp = 200 \<and>
    (\<exists>rest. rs_Body resp = json_text False (JObj (
        [(''job_id'', JStr i), (''service_type'', JStr st), (''model'', JStr (job_Model j)),
         (''status'', JStr ''completed''), (''result'', v)] @ rest)) @ [CHR 0x0A]) \<and>
    job_at (bg w') i = None \<and> object_at c (bg w') (job_ResultRef j) = None"
proof -
  have n1: "next_outcome w = (Done, tick w)" using assms(2) by (intro next_outcome_done) simp
  have t1: "w_outcomes (tick w) = []" using assms(2) by (simp add: tick_def)
  then have n2: "next_outcome (tick w) = (Done, tick (tick w))" by (intro next_outcome_done) simp
  have wok: "world_ok w" using assms(1) by (simp add: gateway_ok_def)
  note gj = GetJob_done [OF wok assms(3) n1, of rc]
  have go: "s3_GetObject c (job_ResultRef j) (tick w) = (Inr data, tick (tick w))"
    by (rule s3_GetObject_done [OF _ n2]) (simp add: assms(5))
  have id: "job_ID j = i" using job_at_record [OF wok assms(3)] by blast
  have st: "job_Status j = Completed" "job_ServiceType j = st"
    using assms(4) by (simp_all add: deliverable_def has_result_def)
  obtain body where body: "status_json j data = Some (JObj body)"
      "\<exists>rest. body = [(''job_id'', JStr i), (''service_type'', JStr st), (''model'', JStr (job_Model j)),
         (''status'', JStr ''completed''), (''result'', v)] @ rest"
    using assms(6,7) id st by (simp add: status_json_def raw_message_def)
  have eq: "GetStatus (gateway_jobs reg c rc brokers ph ch) r st i w =
      (encode_json (status_json j data) (content_type_json new_response), tick (tick w),
       \<lambda>w. snd (DeleteJob rc i (snd (s3_DeleteObject c (job_ResultRef j) w))))"
    using gj go assms(4) id by (auto simp: GetStatus_def gateway_jobs_def interface_defs deliverable_def Let_def)
  have res: "resp = encode_json (Some (JObj body)) (content_type_json new_response)" "w' = tick (tick w)"
      "bg = (\<lambda>w. snd (DeleteJob rc i (snd (s3_DeleteObject c (job_ResultRef j) w))))"
    using assms(8) unfolding eq body(1) by simp_all
  have w': "gateway_ok c w'" using assms(1) res(2) by simp
  have e': "w_outcomes w' = []" using t1 res(2) by (simp add: tick_def)
  have "rs_Body resp = json_text False (JObj body) @ [CHR 0x0A]" "final_status resp = 200"
    unfolding res(1) by (simp_all add: encode_json_def final_status_def del: json_text.simps)
  with body(2) show ?thesis
    using cleanup_done [OF w' e', of rc i "job_ResultRef j"] res(3) by (auto simp del: json_text.simps)
qed


text \<open>C9: a completed job whose result could not be fetched, the one call that failed, is answered with
  200 and no result, and is deleted all the same with its result: the result is lost.\<close>

theorem GetStatus_loses_result:
  assumes "gateway_ok c w" and "w_outcomes w = [Done, Lost]" and "job_at w i = Some j" and "deliverable ch r st j"
    and "GetStatus (gateway_jobs reg c rc brokers ph ch) r st i w = (resp, w', bg)"
  shows "final_status resp = 200 \<and> status_json j [] \<noteq> None \<and>
    resp = encode_json (status_json j []) (content_type_json new_response) \<and>
    job_at (bg w') i = None \<and> object_at c (bg w') (job_ResultRef j) = None"
proof -
  have n1: "next_outcome w = (Done, tick w)" using assms(2) by (intro next_outcome_done) simp
  have wok: "world_ok w" using assms(1) by (simp add: gateway_ok_def)
  note gj = GetJob_done [OF wok assms(3) n1, of rc]
  have go: "s3_GetObject c (job_ResultRef j) (tick w) = (Inl Unavailable, tick (tick w))"
    using assms(2) by (simp add: s3_GetObject_def s3_stream_def next_outcome_eq tick_def)
  have id: "job_ID j = i" using job_at_record [OF wok assms(3)] by blast
  have eq: "GetStatus (gateway_jobs reg c rc brokers ph ch) r st i w =
      (encode_json (status_json j []) (content_type_json new_response), tick (tick w),
       \<lambda>w. snd (DeleteJob rc i (snd (s3_DeleteObject c (job_ResultRef j) w))))"
    using gj go assms(4) id by (auto simp: GetStatus_def gateway_jobs_def interface_defs deliverable_def Let_def)
  have res: "resp = encode_json (status_json j []) (content_type_json new_response)" "w' = tick (tick w)"
      "bg = (\<lambda>w. snd (DeleteJob rc i (snd (s3_DeleteObject c (job_ResultRef j) w))))"
    using assms(5) unfolding eq by simp_all
  have w': "gateway_ok c w'" using assms(1) res(2) by simp
  have e': "w_outcomes w' = []" using assms(2) res(2) by (simp add: tick_def)
  show ?thesis
    using cleanup_done [OF w' e', of rc i "job_ResultRef j"] res
    by (simp add: status_json_def final_status_def)
qed

section \<open>A concrete gateway\<close>

definition empty_world :: World where
  "empty_world = \<lparr>w_outcomes = [], w_rand = [], w_objects = [], w_redis = [], w_published = [], w_topics = [],
     w_writers = [], w_relay_writers = [], w_answers = [], w_requests = []\<rparr>"

definition demo_s3 :: S3Client where
  "demo_s3 = \<lparr>s3_bucket = ''b'', s3_encKey = None\<rparr>"

definition demo_redis :: RedisClient where
  "demo_redis = \<lparr>rd_jobTTL = 72 * 3600 * second\<rparr>"

definition demo_request :: Request where
  "demo_request = \<lparr>rq_Method = ''POST'', rq_Path = ''/jobs/audio'', rq_RawQuery = [], rq_Query = [],
     rq_Headers = [(''X-Consumer'', [''team''])], rq_Body = (''...'', None),
     rq_form = Inr \<lparr>fm_Value = [(''model'', [''whisper'']), (''lang'', [''fr''])],
       fm_File = [(''file'', [\<lparr>fh_Filename = ''a.wav'', fh_ContentType = ''audio/wav'', fh_Data = ''RIFF''\<rparr>])]\<rparr>\<rparr>"

definition demo_now :: time where
  "demo_now = ''2024-02-29T12:34:56.789Z''"

lemma world_ok_empty: "gateway_ok demo_s3 empty_world"
  by (simp add: gateway_ok_def world_ok_def empty_world_def writers_ok_def is_string_key_def demo_s3_def key_usable_def)

lemma demo_now_ok: "time_ok demo_now"
  by (simp add: demo_now_def demo_times)

abbreviation demo_jobs :: "World JobHandler" where
  "demo_jobs \<equiv> gateway_jobs (NewRegistry [demo_service\<lparr>sc_MaxFileSizeMB := 1\<rparr>]) demo_s3 demo_redis [] [] ''X-Consumer''"

lemma demo_submit_check: "is_ok (submit_check demo_jobs demo_request ''audio'')"
  by code_simp

lemma attempt_empty: "attempt eff empty_world = (True, eff empty_world)"
  by (simp add: attempt_def next_outcome_def empty_world_def)

lemma attempt_no_faults: "w_outcomes w = [] \<Longrightarrow> attempt eff w = (True, eff w)"
  by (simp add: attempt_def next_outcome_def)

lemma no_faults_submit:
  assumes "w_outcomes w = []" and "s3_encKey c = None" and "submit_check (gateway_jobs reg c rc brokers ph ch) r st = Inr s"
  shows "final_status (fst (Submit (gateway_jobs reg c rc brokers ph ch) r st i now w)) = 202"
proof -
  have "w_outcomes (put_object c k ob w) = w_outcomes w" for k ob by (simp add: put_object_def)
  moreover have "w_outcomes (save_effect n j v) = w_outcomes v" for n j v
    by (simp add: save_effect_def redis_set_def redis_expire_def redis_zadd_def redis_put_zset_def redis_del_def Let_def
        split: option.split)
  ultimately show ?thesis
    using assms
    by (simp add: Submit_def submit_run_def gateway_jobs_def interface_defs s3_Upload_def Encrypt_def attempt_no_faults
        SaveJob_def PublishInputEvent_def WriteMessages_def Let_def final_status_def split: prod.split)
qed

lemma demo_submit:
  obtains resp w' bg where "Submit demo_jobs demo_request ''audio'' ''j1'' demo_now empty_world = (resp, w', bg)"
    "final_status resp = 202"
proof -
  obtain s where "submit_check demo_jobs demo_request ''audio'' = Inr s"
    using demo_submit_check by (auto simp: is_ok_iff)
  then have "final_status (fst (Submit demo_jobs demo_request ''audio'' ''j1'' demo_now empty_world)) = 202"
    by (intro no_faults_submit) (simp_all add: empty_world_def demo_s3_def)
  then show ?thesis using that by (metis prod.collapse)
qed

lemma Submit_accepted_witness:
  "\<exists>resp w' bg. Submit demo_jobs demo_request ''audio'' ''j1'' demo_now empty_world = (resp, w', bg) \<and>
     final_status resp = 202 \<and> length (w_topics w') = 1 \<and> job_at w' ''j1'' \<noteq> None"
proof -
  obtain resp w' bg where s: "Submit demo_jobs demo_request ''audio'' ''j1'' demo_now empty_world = (resp, w', bg)"
      "final_status resp = 202" by (rule demo_submit)
  show ?thesis
    using Submit_accepted [OF world_ok_empty demo_now_ok s] s by (auto simp: empty_world_def)
qed

lemma Submit_frame_witness:
  "\<exists>resp w' bg. Submit demo_jobs demo_request ''audio'' ''j1'' demo_now empty_world = (resp, w', bg) \<and>
     job_at w' ''other'' = None"
proof -
  obtain resp w' bg where s: "Submit demo_jobs demo_request ''audio'' ''j1'' demo_now empty_world = (resp, w', bg)"
      "final_status resp = 202" by (rule demo_submit)
  obtain sub where "submit_check demo_jobs demo_request ''audio'' = Inr sub"
    using demo_submit_check by (auto simp: is_ok_iff)
  then have "job_at w' ''other'' = job_at empty_world ''other''"
    using Submit_frame [OF world_ok_empty demo_now_ok s(1)] by auto
  then show ?thesis using s by (simp add: job_at_def redis_str_def empty_world_def)
qed

definition demo_done_job :: Job where
  "demo_done_job = demo_job\<lparr>job_Status := Completed, job_ResultRef := ''j1/result.json''\<rparr>"

definition demo_world :: World where
  "demo_world = save_effect 0 demo_done_job
     (put_object demo_s3 ''j1/result.json'' \<lparr>so_Body = ''{}'', so_ContentType = ''application/json''\<rparr> empty_world)"

lemma demo_done_job_ok: "job_ok demo_done_job" "job_ID demo_done_job = ''j1''"
  using demo_ok(1) by (simp_all add: demo_done_job_def job_ok_def demo_job_def)

lemma demo_world_facts:
  "gateway_ok demo_s3 demo_world" "job_at demo_world ''j1'' = Some demo_done_job"
  "object_at demo_s3 demo_world ''j1/result.json'' = Some ''{}''" "w_outcomes demo_world = []"
proof -
  let ?w = "put_object demo_s3 ''j1/result.json'' \<lparr>so_Body = ''{}'', so_ContentType = ''application/json''\<rparr> empty_world"
  have "world_ok empty_world" "key_usable (s3_encKey demo_s3)" using world_ok_empty by (simp_all add: gateway_ok_def)
  then have "world_ok ?w" using world_ok_frame [of ?w empty_world] by simp
  then show "gateway_ok demo_s3 demo_world"
    using world_ok_save [of ?w demo_done_job 0] demo_done_job_ok \<open>key_usable _\<close> by (simp add: gateway_ok_def demo_world_def)
  show "job_at demo_world ''j1'' = Some demo_done_job"
    using demo_done_job_ok by (simp add: demo_world_def job_at_save)
  have "object_at demo_s3 demo_world = object_at demo_s3 ?w"
    unfolding demo_world_def using redis_only_views [OF redis_only_save] by blast
  then show "object_at demo_s3 demo_world ''j1/result.json'' = Some ''{}''"
    by (simp add: object_at_put Decrypt_def demo_s3_def)
  show "w_outcomes demo_world = []"
    by (simp add: demo_world_def save_effect_def redis_set_def redis_expire_def redis_zadd_def redis_put_zset_def
        redis_del_def Let_def put_object_def empty_world_def split: option.split)
qed

definition demo_status_request :: Request where
  "demo_status_request = demo_request\<lparr>rq_Method := ''GET''\<rparr>"

lemma demo_header [simp]: "header_get demo_status_request ''X-Consumer'' = ''team''"
  by code_simp

lemma demo_deliverable: "deliverable ''X-Consumer'' demo_status_request ''audio'' demo_done_job"
  by (simp add: deliverable_def has_result_def demo_done_job_def demo_job_def)


lemma GetStatus_loses_result_witness:
  "\<exists>resp w' bg. GetStatus demo_jobs demo_status_request ''audio'' ''j1'' (demo_world\<lparr>w_outcomes := [Done, Lost]\<rparr>) = (resp, w', bg) \<and>
     object_at demo_s3 demo_world ''j1/result.json'' = Some ''{}'' \<and>
     object_at demo_s3 (bg w') ''j1/result.json'' = None"
proof -
  let ?w = "demo_world\<lparr>w_outcomes := [Done, Lost]\<rparr>"
  obtain resp w' bg where g: "GetStatus demo_jobs demo_status_request ''audio'' ''j1'' ?w = (resp, w', bg)"
    by (metis prod.collapse)
  have "gateway_ok demo_s3 ?w" "job_at ?w ''j1'' = Some demo_done_job"
    using demo_world_facts world_ok_frame [of ?w demo_world] job_at_frame [of ?w demo_world] by (simp_all add: gateway_ok_def)
  from GetStatus_loses_result [OF this(1) _ this(2) demo_deliverable g] show ?thesis
    using g demo_world_facts(3) by (auto simp: demo_done_job_def)
qed


lemma GetStatus_cleanup_only_own_witness:
  "\<exists>resp w' bg. GetStatus demo_jobs demo_status_request ''audio'' ''j2'' demo_world = (resp, w', bg) \<and>
     job_at (bg demo_world) ''j1'' = Some demo_done_job"
proof -
  obtain resp w' bg where g: "GetStatus demo_jobs demo_status_request ''audio'' ''j2'' demo_world = (resp, w', bg)"
    by (metis prod.collapse)
  show ?thesis
    using GetStatus_cleanup_only_own [OF demo_world_facts(1) g demo_world_facts(1)] g demo_world_facts(2) by auto
qed

end
