(* ===== verification/Url.thy ===== *)
theory Url
  imports Http
begin

text \<open>
  Package net/url, as far as the gateway uses it: parsing a configured or client-given URL,
  replacing its path and query, and writing it out again.  User information is kept as part of the
  authority, and the host as it is written.
\<close>

record URL =
  url_Scheme :: string
  url_Opaque :: string
  url_Host :: string
  url_Path :: string
  url_RawQuery :: string
  url_Fragment :: string

definition is_letter :: "char \<Rightarrow> bool" where
  "is_letter c \<longleftrightarrow> (CHR ''a'' \<le> c \<and> c \<le> CHR ''z'') \<or> (CHR ''A'' \<le> c \<and> c \<le> CHR ''Z'')"

definition ctl_byte :: "char \<Rightarrow> bool" where
  "ctl_byte c \<longleftrightarrow> (of_char c :: nat) < 32 \<or> of_char c = (127 :: nat)"

text \<open>The scheme before the colon; None for a URL that starts with a colon.\<close>

fun get_scheme :: "string \<Rightarrow> string \<Rightarrow> (string \<times> string) option" where
  "get_scheme seen [] = Some ([], rev seen)"
| "get_scheme seen (c # r) =
     (if is_letter c then get_scheme (c # seen) r
      else if is_digit c \<or> c \<in> set ''+-.'' then
        (if seen = [] then Some ([], c # r) else get_scheme (c # seen) r)
      else if c = CHR '':'' then (if seen = [] then None else Some (rev seen, r))
      else Some ([], rev seen @ c # r))"

fun unescape :: "string \<Rightarrow> string option" where
  "unescape [] = Some []"
| "unescape (c # r) =
     (if c = CHR ''%'' then
        (case r of
           a # b # r' \<Rightarrow>
             (case (hex_val a, hex_val b) of
                (Some x, Some y) \<Rightarrow> map_option ((#) (char_of (16 * x + y))) (unescape r')
              | _ \<Rightarrow> None)
         | _ \<Rightarrow> None)
      else map_option ((#) c) (unescape r))"

definition cut_at :: "char \<Rightarrow> string \<Rightarrow> string \<times> string" where
  "cut_at c s = (takeWhile (\<lambda>x. x \<noteq> c) s, drop 1 (dropWhile (\<lambda>x. x \<noteq> c) s))"

text \<open>A port, when there is one, is made of digits.\<close>

definition port_ok :: "string \<Rightarrow> bool" where
  "port_ok authority =
     (let host = (case rev (split_on CHR ''@'' authority) of h # _ \<Rightarrow> h | [] \<Rightarrow> [])
      in if has_prefix host ''['' then CHR '']'' \<in> set host
         else (case rev (split_on CHR '':'' host) of
                 p # _ # _ \<Rightarrow> list_all is_digit p
               | _ \<Rightarrow> True))"

definition url_parse :: "string \<Rightarrow> URL option" where
  "url_parse raw =
     (let (u, frag) = cut_at CHR ''#'' raw
      in if list_ex ctl_byte u then None
         else
     (case get_scheme [] u of
        None \<Rightarrow> None
      | Some (sch, rest0) \<Rightarrow>
          (let (rest, query) = cut_at CHR ''?'' rest0
           in if \<not> has_prefix rest ''/'' \<and> sch \<noteq> [] then
                map_option (\<lambda>f. \<lparr>url_Scheme = to_lower sch, url_Opaque = rest, url_Host = [], url_Path = [],
                  url_RawQuery = query, url_Fragment = f\<rparr>) (unescape frag)
              else if \<not> has_prefix rest ''/'' \<and> CHR '':'' \<in> set (fst (cut_at CHR ''/'' rest)) then None
              else
                (let (authority, path) =
                       (if has_prefix rest ''//'' \<and> (sch \<noteq> [] \<or> \<not> has_prefix rest ''///'')
                        then (takeWhile (\<lambda>x. x \<noteq> CHR ''/'') (drop 2 rest), dropWhile (\<lambda>x. x \<noteq> CHR ''/'') (drop 2 rest))
                        else ([], rest))
                 in if \<not> port_ok authority then None
                    else (case (unescape path, unescape frag) of
                            (Some p, Some f) \<Rightarrow>
                              Some \<lparr>url_Scheme = to_lower sch, url_Opaque = [], url_Host = authority, url_Path = p,
                                url_RawQuery = query, url_Fragment = f\<rparr>
                          | _ \<Rightarrow> None)))))"

definition path_char :: "char \<Rightarrow> bool" where
  "path_char c \<longleftrightarrow> is_letter c \<or> is_digit c \<or> c \<in> set ''-_.~$&+,/:;=@''"

definition upper_hex :: "nat \<Rightarrow> char" where
  "upper_hex n = upper_char (hex_digit n)"

definition escape_path :: "string \<Rightarrow> string" where
  "escape_path p =
     concat (map (\<lambda>c. if path_char c then [c]
       else [CHR ''%'', upper_hex (of_char c div 16), upper_hex (of_char c mod 16)]) p)"

definition url_string :: "URL \<Rightarrow> string" where
  "url_string u =
     (if url_Scheme u \<noteq> [] then url_Scheme u @ '':'' else []) @
     (if url_Opaque u \<noteq> [] then url_Opaque u
      else (if (url_Scheme u \<noteq> [] \<or> url_Host u \<noteq> []) \<and> (url_Host u \<noteq> [] \<or> url_Path u \<noteq> []) then ''//'' @ url_Host u else []) @
           (let p = escape_path (url_Path u)
            in (if p \<noteq> [] \<and> hd p \<noteq> CHR ''/'' \<and> url_Host u \<noteq> [] then ''/'' else []) @ p)) @
     (if url_RawQuery u \<noteq> [] then ''?'' @ url_RawQuery u else []) @
     (if url_Fragment u \<noteq> [] then ''#'' @ escape_path (url_Fragment u) else [])"

lemma upper_hex_val: "n < 16 \<Longrightarrow> hex_val (upper_hex n) = Some n"
  by (auto simp: upper_hex_def hex_val_def hex_digit_def upper_char_def is_digit_def less_eq_char_def)

lemma unescape_escape: "unescape (escape_path p) = Some p"
proof (induction p)
  case Nil
  then show ?case by (simp add: escape_path_def)
next
  case (Cons c p)
  have IH: "unescape (escape_path p) = Some p" by (rule Cons.IH)
  have pc: "path_char (CHR ''%'') = False" by (simp add: path_char_def is_letter_def is_digit_def less_eq_char_def)
  have "of_char c < (256 :: nat)" by simp
  then have "of_char c div 16 < (16 :: nat)" "of_char c mod 16 < (16 :: nat)" by linarith+
  then have h: "hex_val (upper_hex (of_char c div 16)) = Some (of_char c div 16)"
      "hex_val (upper_hex (of_char c mod 16)) = Some (of_char c mod 16)"
    by (simp_all add: upper_hex_val)
  have s: "char_of (16 * (of_char c div 16) + of_char c mod 16 :: nat) = c"
    by simp
  show ?case
  proof (cases "path_char c")
    case True
    then have "c \<noteq> CHR ''%''" using pc by auto
    then show ?thesis using True IH by (simp add: escape_path_def)
  next
    case False
    then have "unescape (escape_path (c # p)) = map_option ((#) c) (unescape (escape_path p))"
      using h s by (simp add: escape_path_def)
    then show ?thesis using IH by simp
  qed
qed

end
