(* ===== verification/Consumer.thy ===== *)
theory Consumer
  imports Url World
begin

text \<open>
  internal/kafka/consumer.go: the consumers of the result topics.  A consumer goroutine is started
  and cancelled by the manager (\<open>Start\<close>, \<open>Reconcile\<close>), reads its topic message by message
  (\<open>consume\<close>), applies each result to the job record and wakes the waiting handler
  (\<open>handleResult\<close>), and leaves webhook deliveries to goroutines of their own (\<open>sendWebhook\<close>).
\<close>

section \<open>Handling one result\<close>

record ConsumerManager =
  cm_ConsumerGroup :: string
  cm_redis :: RedisClient
  cm_s3 :: S3Client

datatype handle_error = BadEvent | UpdateFailed store_error | FetchFailed store_error

text \<open>The third component is the job a webhook goroutine is started for, if any.\<close>

definition handleResult ::
    "ConsumerManager \<Rightarrow> time \<Rightarrow> string \<Rightarrow> World \<Rightarrow> (handle_error + unit) \<times> World \<times> Job option" where
  "handleResult cm now raw w =
     (case unmarshal_result_event raw of
        None \<Rightarrow> (Inl BadEvent, w, None)
      | Some event \<Rightarrow>
         (case UpdateJobResult (cm_redis cm) now (re_JobID event) (re_Status event) (re_ResultRef event) (re_Error event) w of
            (Inl e, w1) \<Rightarrow> (Inl (UpdateFailed e), w1, None)
          | (Inr _, w1) \<Rightarrow>
             (case GetJob (cm_redis cm) (re_JobID event) w1 of
                (Inl e, w2) \<Rightarrow> (Inl (FetchFailed e), w2, None)
              | (Inr job, w2) \<Rightarrow>
                  (let w3 = NotifyJobDone (cm_redis cm) (re_JobID event) w2
                   in (Inr (), w3, if job_CallbackURL job \<noteq> [] then Some job else None)))))"

section \<open>The consumer loop\<close>

datatype fetched = FetchError | Message string time

text \<open>
  The loop over what FetchMessage delivers until the context is cancelled: \<open>pos\<close> is the offset of
  the next message, \<open>committed\<close> the offset the group resumes from.  Committing a message commits
  everything before it.  The answer is the committed offset, the state, and the jobs webhook
  goroutines were started for.
\<close>

fun consume :: "ConsumerManager \<Rightarrow> fetched list \<Rightarrow> nat \<Rightarrow> nat \<Rightarrow> World \<Rightarrow> nat \<times> World \<times> Job list" where
  "consume cm [] pos committed w = (committed, w, [])"
| "consume cm (FetchError # fs) pos committed w = consume cm fs pos committed w"
| "consume cm (Message raw now # fs) pos committed w =
     (case handleResult cm now raw w of
        (Inl e, w1, hook) \<Rightarrow> consume cm fs (pos + 1) committed w1
      | (Inr _, w1, hook) \<Rightarrow>
          (let (out, w2) = next_outcome w1;
               (c, w3, hooks) = consume cm fs (pos + 1) (if out = Lost then committed else pos + 1) w2
           in (c, w3, (case hook of Some j \<Rightarrow> j # hooks | None \<Rightarrow> hooks))))"

definition consumer_group :: "ConsumerManager \<Rightarrow> string \<Rightarrow> string" where
  "consumer_group cm serviceType = cm_ConsumerGroup cm @ ''-'' @ serviceType"

section \<open>Webhooks\<close>

definition webhookMaxRetries :: nat where "webhookMaxRetries = 3"
definition webhookInitialBackoff :: int where "webhookInitialBackoff = 2 * second"

definition webhook_json :: "Job \<Rightarrow> string \<Rightarrow> json option" where
  "webhook_json job result =
     map_option (\<lambda>res. JObj (
        [(''job_id'', JStr (job_ID job)), (''service_type'', JStr (job_ServiceType job)),
         (''status'', JStr (status_text (job_Status job)))] @
        res @ omitempty ''error'' (job_Error job) @ [(''completed_at'', JStr (job_UpdatedAt job))]))
       (if result = [] then Some [] else map_option (\<lambda>v. [(''result'', v)]) (json_parse result))"

text \<open>json.Marshal; its error is dropped, so the payload is then empty.\<close>

definition webhook_payload :: "Job \<Rightarrow> string \<Rightarrow> string" where
  "webhook_payload job result = (case webhook_json job result of Some j \<Rightarrow> json_text True j | None \<Rightarrow> [])"

definition webhook_request :: "Job \<Rightarrow> string \<Rightarrow> URL \<Rightarrow> HttpRequest" where
  "webhook_request job payload u =
     \<lparr>hq_Method = ''POST'', hq_URL = url_string u,
      hq_Headers = [(''Content-Type'', ''application/json''), (canonical_header ''X-Job-ID'', job_ID job)],
      hq_Body = (payload, None)\<rparr>"

text \<open>The attempts that are left, and the pauses taken between them.\<close>

fun webhook_loop :: "Job \<Rightarrow> string \<Rightarrow> nat \<Rightarrow> nat \<Rightarrow> int \<Rightarrow> World \<Rightarrow> World \<times> int list" where
  "webhook_loop job payload 0 att backoff w = (w, [])"
| "webhook_loop job payload (Suc left) att backoff w =
     (case url_parse (job_CallbackURL job) of
        None \<Rightarrow> (w, [])
      | Some u \<Rightarrow>
         (case http_do (webhook_request job payload u) w of
            (res, w1) \<Rightarrow>
              (if (case res of Inr resp \<Rightarrow> hr_Status resp < 500 | Inl _ \<Rightarrow> False) then (w1, [])
               else if att < webhookMaxRetries then
                 (let (w2, pauses) = webhook_loop job payload left (att + 1) (backoff * 2) w1
                  in (w2, backoff # pauses))
               else webhook_loop job payload left (att + 1) backoff w1)))"

definition sendWebhook :: "ConsumerManager \<Rightarrow> Job \<Rightarrow> World \<Rightarrow> World \<times> int list" where
  "sendWebhook cm job w =
     (let (result, w1) =
            (if job_Status job = Completed \<and> job_ResultRef job \<noteq> [] then
               (case s3_GetObject (cm_s3 cm) (job_ResultRef job) w of
                  (Inl _, w1) \<Rightarrow> ([], w1) | (Inr data, w1) \<Rightarrow> (data, w1))
             else ([], w))
      in webhook_loop job (webhook_payload job result) webhookMaxRetries 1 webhookInitialBackoff w1)"

section \<open>The set of consumers\<close>

text \<open>
  A goroutine is its context number, its topic and its service type; cancelling the context ends
  it.  \<open>cs_cancels\<close> is the map of cancel functions by topic.
\<close>

record Consumers =
  cs_next :: nat
  cs_cancels :: "(string, nat) gomap"
  cs_running :: "(nat \<times> string \<times> string) list"

definition no_consumers :: Consumers where
  "no_consumers = \<lparr>cs_next = 0, cs_cancels = [], cs_running = []\<rparr>"

definition startLocked :: "string \<Rightarrow> string \<Rightarrow> Consumers \<Rightarrow> Consumers" where
  "startLocked topic serviceType cs =
     \<lparr>cs_next = cs_next cs + 1, cs_cancels = AList.update topic (cs_next cs) (cs_cancels cs),
      cs_running = cs_running cs @ [(cs_next cs, topic, serviceType)]\<rparr>"

definition cancel :: "nat \<Rightarrow> Consumers \<Rightarrow> Consumers" where
  "cancel ctx cs = cs\<lparr>cs_running := filter (\<lambda>(n, _). n \<noteq> ctx) (cs_running cs)\<rparr>"

definition Start :: "Registry \<Rightarrow> Consumers \<Rightarrow> Consumers" where
  "Start reg cs = foldl (\<lambda>cs d. startLocked (def_ResultTopic d) (def_Type d) cs) cs (KafkaServices reg)"

definition result_services :: "Registry \<Rightarrow> (string, string) gomap" where
  "result_services reg = foldl (\<lambda>m d. AList.update (def_ResultTopic d) (def_Type d) m) [] (KafkaServices reg)"

definition stop_removed :: "(string, string) gomap \<Rightarrow> Consumers \<Rightarrow> Consumers" where
  "stop_removed services cs =
     foldl (\<lambda>cs (topic, ctx). if map_of services topic = None
              then (cancel ctx cs)\<lparr>cs_cancels := AList.delete topic (cs_cancels cs)\<rparr> else cs)
       cs (cs_cancels cs)"

definition start_added :: "(string, string) gomap \<Rightarrow> Consumers \<Rightarrow> Consumers" where
  "start_added services cs =
     foldl (\<lambda>cs (topic, serviceType). if map_of (cs_cancels cs) topic = None
              then startLocked topic serviceType cs else cs)
       cs services"

definition Reconcile :: "Registry \<Rightarrow> Consumers \<Rightarrow> Consumers" where
  "Reconcile newReg cs = (let services = result_services newReg in start_added services (stop_removed services cs))"

end
