(* ===== verification/Consumer_Facts.thy ===== *)
theory Consumer_Facts
  imports Consumer Jobs_Facts Registry_Facts
begin

text \<open>
  The result consumers: what one message does to the stores, what the loop commits, how often a
  webhook is tried, and which consumers run after the manager has started or reconciled them.
\<close>

section \<open>One message\<close>

lemma NotifyJobDone_cases:
  assumes "NotifyJobDone r i w = w'"
  obtains "w' = (tick w)\<lparr>w_published := w_published w @ [doneChannel i]\<rparr>" | "w' = tick w"
  using assms attempt_cases [of _ w "fst (attempt (\<lambda>w. w\<lparr>w_published := w_published w @ [doneChannel i]\<rparr>) w)" w']
  by (fastforce simp: NotifyJobDone_def)

lemma dec_status_ok: "unmarshal_result_event raw = Some e \<Longrightarrow> status_ok (re_Status e)"
  by (auto simp: unmarshal_result_event_def result_event_of_json_def split: bind_splits)

lemma UpdateJobResult_published:
  "UpdateJobResult r t i st ref e w = (res, w') \<Longrightarrow> w_published w' = w_published w"
  by (drule UpdateJobResult_redis_only) (simp add: redis_only_def)

definition apply_result :: "ResultEvent \<Rightarrow> time \<Rightarrow> Job \<Rightarrow> Job" where
  "apply_result e now j =
     j\<lparr>job_Status := re_Status e, job_ResultRef := re_ResultRef e, job_Error := re_Error e, job_UpdatedAt := now\<rparr>"

lemma apply_result_eq: "apply_result e now = (\<lambda>j. j\<lparr>job_Status := re_Status e, job_ResultRef := re_ResultRef e,
    job_Error := re_Error e, job_UpdatedAt := now\<rparr>)"
  by (rule ext) (simp add: apply_result_def)

lemma world_ok_published: "world_ok (w\<lparr>w_published := ps\<rparr>) = world_ok w"
  by (rule world_ok_frame) simp_all

lemma views_published [simp]:
  "job_at (w\<lparr>w_published := ps\<rparr>) = job_at w" "object_at c (w\<lparr>w_published := ps\<rparr>) = object_at c w"
  by (rule job_at_frame, simp, rule object_at_frame, simp)

text \<open>What handleResult did, when it returned no error.\<close>

lemma handleResult_ok:
  assumes ok: "world_ok w" and t: "time_ok now" and h: "handleResult cm now raw w = (Inr u, w', hook)"
  obtains e j where "unmarshal_result_event raw = Some e" "job_at w (re_JobID e) = Some j"
    "job_at w' = (job_at w)(re_JobID e \<mapsto> apply_result e now j)" "world_ok w'"
    "w_published w' = w_published w @ [doneChannel (re_JobID e)] \<or> w_published w' = w_published w"
    "hook = (if job_CallbackURL j \<noteq> [] then Some (apply_result e now j) else None)"
    "w_topics w' = w_topics w" "object_at c w' = object_at c w"
proof -
  obtain e where e: "unmarshal_result_event raw = Some e"
    using h by (auto simp: handleResult_def split: option.splits)
  let ?i = "re_JobID e"
  obtain r1 w1 where u: "UpdateJobResult (cm_redis cm) now ?i (re_Status e) (re_ResultRef e) (re_Error e) w = (r1, w1)"
    by fastforce
  have r1: "r1 = Inr ()" using h e u by (auto simp: handleResult_def split: sum.splits)
  note U = rd.update [OF ok t dec_status_ok [OF e], of "cm_redis cm" ?i "re_ResultRef e" "re_Error e" r1 w1]
  have U': "world_ok w1" "job_at w ?i \<noteq> None"
      "job_at w1 = (job_at w)(?i := map_option (apply_result e now) (job_at w ?i))"
    using U u r1 by (simp_all add: redis_async_def apply_result_eq)
  then obtain j where j: "job_at w ?i = Some j" by auto
  obtain r2 w2 where g: "GetJob (cm_redis cm) ?i w1 = (r2, w2)" by fastforce
  obtain job where job: "r2 = Inr job" using h e u r1 g by (auto simp: handleResult_def split: sum.splits)
  have job': "job = apply_result e now j" using GetJob_job g job U'(3) j by fastforce
  have w2: "w2 = tick w1" by (rule GetJob_world [OF g])
  have w': "w' = NotifyJobDone (cm_redis cm) ?i w2" "hook = (if job_CallbackURL job \<noteq> [] then Some job else None)"
    using h e u r1 g job by (auto simp: handleResult_def Let_def split: if_splits)
  have only: "redis_only w w1" by (rule UpdateJobResult_redis_only [OF u])
  have n: "w' = (tick w2)\<lparr>w_published := w_published w2 @ [doneChannel ?i]\<rparr> \<or> w' = tick w2"
    using NotifyJobDone_cases [OF w'(1) [symmetric]] by metis
  show ?thesis
  proof (rule that [OF e j])
    show "job_at w' = (job_at w)(?i \<mapsto> apply_result e now j)" using n U'(3) j w2 by auto
    show "world_ok w'" using n U'(1) w2 world_ok_published by auto
    show "w_published w' = w_published w @ [doneChannel ?i] \<or> w_published w' = w_published w"
      using n w2 only by (auto simp: redis_only_def)
    show "hook = (if job_CallbackURL j \<noteq> [] then Some (apply_result e now j) else None)"
      using w'(2) job' by (simp add: apply_result_def)
    show "w_topics w' = w_topics w" using n w2 only by (auto simp: redis_only_def)
    show "object_at c w' = object_at c w" using n w2 redis_only_views [OF only, of c] by auto
  qed
qed

text \<open>What it did, whatever it returned.\<close>

lemma handleResult_frame:
  assumes ok: "world_ok w" and t: "time_ok now" and h: "handleResult cm now raw w = (res, w', hook)"
  shows "world_ok w' \<and> w_topics w' = w_topics w \<and> object_at c w' = object_at c w \<and>
    (\<forall>i. (\<forall>e. unmarshal_result_event raw = Some e \<longrightarrow> i \<noteq> re_JobID e) \<longrightarrow> job_at w' i = job_at w i) \<and>
    (\<not> is_ok res \<longrightarrow> w_published w' = w_published w \<and> hook = None)"
proof (cases "is_ok res")
  case True
  then obtain u where "res = Inr u" by (auto simp: is_ok_iff)
  with h have h': "handleResult cm now raw w = (Inr u, w', hook)" by simp
  from handleResult_ok [OF ok t h', of c] show ?thesis
  proof cases
    case (1 e j)
    then show ?thesis using True by auto
  qed
next
  case False
  show ?thesis
  proof (cases "unmarshal_result_event raw")
    case None
    then show ?thesis using h False ok by (auto simp: handleResult_def)
  next
    case (Some e)
    obtain r1 w1 where u: "UpdateJobResult (cm_redis cm) now (re_JobID e) (re_Status e) (re_ResultRef e) (re_Error e) w = (r1, w1)"
      by fastforce
    obtain r2 w2 where g: "GetJob (cm_redis cm) (re_JobID e) w1 = (r2, w2)" by fastforce
    have w': "(w' = w1 \<or> w' = tick w1) \<and> hook = None"
      using h Some u g False GetJob_world [OF g] by (auto simp: handleResult_def Let_def split: sum.splits)
    have U: "world_ok w1" "changed_at (is_ok r1) (re_JobID e)
        (map_option (\<lambda>j. j\<lparr>job_Status := re_Status e, job_ResultRef := re_ResultRef e, job_Error := re_Error e,
          job_UpdatedAt := now\<rparr>) (job_at w (re_JobID e))) (job_at w) (job_at w1)"
      using rd.update [OF ok t dec_status_ok [OF Some], of "cm_redis cm" "re_JobID e" "re_ResultRef e" "re_Error e" r1 w1] u
      by (simp_all add: redis_async_def)
    have only: "redis_only w w1" by (rule UpdateJobResult_redis_only [OF u])
    show ?thesis
      using w' U only redis_only_views [OF only, of c] Some False changed_at_other [OF U(2)]
      by (auto simp: redis_only_def)
  qed
qed

lemma handleResult_applied:
  assumes "world_ok w" and "time_ok now" and "handleResult cm now raw w = (Inr u, w', hook)"
  shows "\<exists>e j. unmarshal_result_event raw = Some e \<and> job_at w (re_JobID e) = Some j \<and>
    job_at w' = (job_at w)(re_JobID e \<mapsto> apply_result e now j) \<and>
    hook = (if job_CallbackURL j \<noteq> [] then Some (apply_result e now j) else None) \<and>
    w_topics w' = w_topics w \<and> w_objects w' = w_objects w \<and> world_ok w'"
proof -
  have o: "w_objects w' = w_objects w"
    using assms(3) by (auto simp: handleResult_def NotifyJobDone_def Let_def
        dest!: UpdateJobResult_redis_only GetJob_world split: option.splits sum.splits prod.splits elim!: attempt_cases)
      (auto simp: redis_only_def attempt_def next_outcome_eq split: outcome.splits)
  show ?thesis
    by (rule handleResult_ok [OF assms, of undefined]) (use o in blast)
qed

text \<open>C10: a result message that is handled without error has been applied: the job it names existed and
  now has exactly the status, result reference and error of the event, everything else of the
  record, consumer, callback, input, kept; no other job, object or topic has changed; and the
  webhook goes out for the updated record exactly when the job has a callback URL.\<close>

theorem handleResult_applies:
  assumes "world_ok w" and "time_ok now" and "handleResult cm now raw w = (Inr u, w', hook)"
  shows "\<exists>e j. unmarshal_result_event raw = Some e \<and> job_at w (re_JobID e) = Some j \<and>
    job_at w' = (job_at w)(re_JobID e \<mapsto> apply_result e now j) \<and>
    hook = (if job_CallbackURL j \<noteq> [] then Some (apply_result e now j) else None) \<and>
    w_topics w' = w_topics w \<and> w_objects w' = w_objects w \<and> world_ok w'"
  by (rule handleResult_applied [OF assms])

text \<open>A waiter is woken only after the record it will read is up to date: if handling a message
  published anything, the channel is that of the job the message names, the message was handled
  without error and the record of that job carries the event's status.\<close>

lemma notify_after_update:
  assumes "world_ok w" and "time_ok now" and "handleResult cm now raw w = (res, w', hook)"
    and "w_published w' \<noteq> w_published w"
  shows "\<exists>e j. unmarshal_result_event raw = Some e \<and> is_ok res \<and>
    w_published w' = w_published w @ [doneChannel (re_JobID e)] \<and>
    job_at w' (re_JobID e) = Some j \<and> job_Status j = re_Status e \<and> job_ResultRef j = re_ResultRef e"
proof -
  have "is_ok res" using handleResult_frame [OF assms(1-3)] assms(4) by blast
  then obtain u where "res = Inr u" by (auto simp: is_ok_iff)
  with assms(3) have h: "handleResult cm now raw w = (Inr u, w', hook)" by simp
  show ?thesis
    by (rule handleResult_ok [OF assms(1,2) h, of undefined])
      (use assms(4) \<open>is_ok res\<close> in \<open>auto simp: apply_result_def\<close>)
qed

lemma UpdateJobResult_done:
  assumes ok: "world_ok w" and j: "job_at w i = Some j" and n: "w_outcomes w = []"
  obtains w' where "UpdateJobResult r t i st ref e w = (Inr (), w')" "w_outcomes w' = []"
proof -
  obtain data where d: "redis_str w (jobKey i) = Some data"
    using j by (auto simp: job_at_def split: bind_splits)
  obtain kvs where k: "lua_table data = Some kvs"
    using record_text_cases [OF world_ok_record [OF ok d]] by metis
  show ?thesis
    by (rule that [of "redis_set (jobKey i) (json_text False (JObj (lua_patch (status_text st) ref e t kvs))) (update_ttl r * second) w"])
      (use d k n in \<open>simp_all add: UpdateJobResult_def next_outcome_def update_effect_def redis_set_def\<close>)
qed

lemma handleResult_done:
  assumes "world_ok w" and "w_outcomes w = []" and "time_ok now"
    and "unmarshal_result_event raw = Some e" and "job_at w (re_JobID e) = Some j"
  shows "\<exists>w' hook. handleResult cm now raw w = (Inr (), w', hook) \<and>
    job_at w' (re_JobID e) = Some (apply_result e now j) \<and>
    w_published w' = w_published w @ [doneChannel (re_JobID e)] \<and> w_outcomes w' = []"
proof -
  let ?i = "re_JobID e"
  obtain w1 where u: "UpdateJobResult (cm_redis cm) now ?i (re_Status e) (re_ResultRef e) (re_Error e) w = (Inr (), w1)"
      "w_outcomes w1 = []"
    by (rule UpdateJobResult_done [OF assms(1,5,2)])
  have U: "world_ok w1" "job_at w1 ?i = Some (apply_result e now j)"
    using rd.update [OF assms(1,3) dec_status_ok [OF assms(4)], of "cm_redis cm" ?i "re_ResultRef e" "re_Error e" "Inr ()" w1]
      u assms(5) by (simp_all add: redis_async_def apply_result_eq)
  have g: "GetJob (cm_redis cm) ?i w1 = (Inr (apply_result e now j), tick w1)"
    using GetJob_done [OF U] u(2) by (simp add: next_outcome_eq)
  have t: "w_outcomes (tick w1) = []" using u(2) by (simp add: tick_def)
  let ?w = "(tick w1)\<lparr>w_published := w_published (tick w1) @ [doneChannel ?i]\<rparr>"
  have n: "NotifyJobDone (cm_redis cm) ?i (tick w1) = ?w"
    by (simp add: NotifyJobDone_def attempt_no_faults [OF t])
  have "job_at ?w ?i = Some (apply_result e now j)" using U by simp
  then show ?thesis
    using assms(4) u g n t UpdateJobResult_published [OF u(1)] by (simp add: handleResult_def)
qed

text \<open>A result is delivered: when no call fails, a result message that decodes and whose job exists is
  handled without error, its effect is on the record and the waiter of the job is woken.\<close>

lemma handleResult_completes:
  assumes "world_ok w" and "w_outcomes w = []" and "time_ok now"
    and "unmarshal_result_event raw = Some e" and "job_at w (re_JobID e) = Some j"
  shows "\<exists>w' hook. handleResult cm now raw w = (Inr (), w', hook) \<and>
    job_at w' (re_JobID e) = Some (apply_result e now j) \<and>
    w_published w' = w_published w @ [doneChannel (re_JobID e)] \<and> w_outcomes w' = []"
  by (rule handleResult_done [OF assms])

section \<open>Webhooks\<close>

lemma http_do_world:
  "http_do req w = (a, w') \<Longrightarrow> w_requests w' = w_requests w @ [req] \<and> w_redis w' = w_redis w \<and>
   w_objects w' = w_objects w \<and> w_topics w' = w_topics w \<and> w_published w' = w_published w \<and>
   w_writers w' = w_writers w \<and> w_relay_writers w' = w_relay_writers w \<and> w_outcomes w' = w_outcomes w"
  by (auto simp: http_do_def Let_def split: list.splits)

definition same_stores :: "World \<Rightarrow> World \<Rightarrow> bool" where
  "same_stores w w' \<longleftrightarrow> w_redis w' = w_redis w \<and> w_objects w' = w_objects w \<and> w_topics w' = w_topics w \<and>
     w_published w' = w_published w"

lemma same_stores_refl [simp]: "same_stores w w"
  by (simp add: same_stores_def)

lemma same_stores_trans: "same_stores w w1 \<Longrightarrow> same_stores w1 w2 \<Longrightarrow> same_stores w w2"
  by (simp add: same_stores_def)

lemma webhook_loop_requests:
  assumes "url_parse (job_CallbackURL job) = Some u"
  shows "\<exists>k. k \<le> n \<and> (n > 0 \<longrightarrow> k > 0) \<and>
    w_requests (fst (webhook_loop job payload n att backoff w)) = w_requests w @ replicate k (webhook_request job payload u) \<and>
    same_stores w (fst (webhook_loop job payload n att backoff w))"
proof (induction n arbitrary: att backoff w)
  case 0
  then show ?case by simp
next
  case (Suc n)
  obtain a w1 where d: "http_do (webhook_request job payload u) w = (a, w1)" by fastforce
  have r: "w_requests w1 = w_requests w @ [webhook_request job payload u]" "same_stores w w1"
    using http_do_world [OF d] by (simp_all add: same_stores_def)
  show ?case
  proof (cases "case a of Inr resp \<Rightarrow> hr_Status resp < 500 | Inl _ \<Rightarrow> False")
    case True
    then show ?thesis using d r assms by (auto intro: exI [of _ 1])
  next
    case False
    obtain k b where k: "k \<le> n" "w_requests (fst (webhook_loop job payload n (att + 1) b w1)) =
        w_requests w1 @ replicate k (webhook_request job payload u)"
      "same_stores w1 (fst (webhook_loop job payload n (att + 1) b w1))"
      "fst (webhook_loop job payload (Suc n) att backoff w) = fst (webhook_loop job payload n (att + 1) b w1)"
    proof (cases "att < webhookMaxRetries")
      case True
      then show thesis using that Suc.IH [of "att + 1" "backoff * 2" w1] d False assms by (auto split: prod.splits)
    next
      case no: False
      then show thesis using that Suc.IH [of "att + 1" backoff w1] d False assms by auto
    qed
    then show ?thesis using r same_stores_trans [OF r(2) k(3)] by (auto intro!: exI [of _ "Suc k"])
  qed
qed


section \<open>Committed offsets\<close>

text \<open>Which messages of a run were handled without error.\<close>

fun handled :: "ConsumerManager \<Rightarrow> fetched list \<Rightarrow> World \<Rightarrow> bool list" where
  "handled cm [] w = []"
| "handled cm (FetchError # fs) w = handled cm fs w"
| "handled cm (Message raw now # fs) w =
     (case handleResult cm now raw w of
        (res, w1, _) \<Rightarrow> is_ok res # handled cm fs (if is_ok res then snd (next_outcome w1) else w1))"

text \<open>An offset is committed only behind a message that was handled: after any run of the consumer
  loop the committed offset is the old one, or it is the offset after some message of the run that
  was handled without error.\<close>

lemma consume_commits_handled:
  assumes "consume cm fs pos committed w = (c, w', hooks)"
  shows "c = committed \<or> (\<exists>k < length (handled cm fs w). handled cm fs w ! k \<and> c = pos + k + 1)"
  using assms
proof (induction fs arbitrary: pos committed w c w' hooks)
  case (Cons f fs)
  show ?case
  proof (cases f)
    case FetchError
    then show ?thesis using Cons by simp
  next
    case (Message raw now)
    obtain res w1 hook where h: "handleResult cm now raw w = (res, w1, hook)" by (metis prod.collapse)
    obtain out w2 where o: "next_outcome w1 = (out, w2)" by fastforce
    let ?w = "if is_ok res then w2 else w1" and ?c = "if is_ok res \<and> out \<noteq> Lost then pos + 1 else committed"
    have H: "handled cm (f # fs) w = is_ok res # handled cm fs ?w" using Message h o by simp
    obtain w3 hooks3 where n: "consume cm fs (pos + 1) ?c ?w = (c, w3, hooks3)"
      using Cons.prems Message h o by (cases res) (auto simp: Let_def split: prod.splits if_splits)
    from Cons.IH [OF n] show ?thesis
    proof
      assume "c = ?c"
      then show ?thesis using H by (auto split: if_splits)
    next
      assume "\<exists>k < length (handled cm fs ?w). handled cm fs ?w ! k \<and> c = pos + 1 + k + 1"
      then obtain k where "k < length (handled cm fs ?w)" "handled cm fs ?w ! k" "c = pos + 1 + k + 1" by blast
      then show ?thesis unfolding H by (intro disjI2 exI [of _ "Suc k"]) simp
    qed
  qed
qed simp

text \<open>A message that failed is lost as soon as the next one is handled: its offset is then committed
  too, so no restart delivers it again.\<close>

theorem consume_skips_failed:
  assumes "handleResult cm t1 raw1 w = (Inl e, w1, h1)" and "handleResult cm t2 raw2 w1 = (Inr (), w2, h2)"
    and "w_outcomes w2 = []"
  shows "fst (consume cm [Message raw1 t1, Message raw2 t2] pos committed w) = pos + 2 \<and>
    handled cm [Message raw1 t1, Message raw2 t2] w = [False, True]"
  using assms by (simp add: next_outcome_def)

section \<open>The set of consumers\<close>

definition consumers_ok :: "Consumers \<Rightarrow> bool" where
  "consumers_ok cs \<longleftrightarrow> distinct (map fst (cs_running cs)) \<and>
     (\<forall>n t s. (n, t, s) \<in> set (cs_running cs) \<longrightarrow> map_of (cs_cancels cs) t = Some n \<and> n < cs_next cs) \<and>
     (\<forall>t n. map_of (cs_cancels cs) t = Some n \<longrightarrow> (\<exists>s. (n, t, s) \<in> set (cs_running cs))) \<and>
     gm_wf (cs_cancels cs)"

lemma consumers_okI:
  assumes "distinct (map fst (cs_running cs))" and "gm_wf (cs_cancels cs)"
    and "\<And>n t s. (n, t, s) \<in> set (cs_running cs) \<Longrightarrow> map_of (cs_cancels cs) t = Some n"
    and "\<And>n t s. (n, t, s) \<in> set (cs_running cs) \<Longrightarrow> n < cs_next cs"
    and "\<And>t n. map_of (cs_cancels cs) t = Some n \<Longrightarrow> \<exists>s. (n, t, s) \<in> set (cs_running cs)"
  shows "consumers_ok cs"
  using assms by (auto simp: consumers_ok_def)

lemma consumers_okD:
  assumes "consumers_ok cs"
  shows "distinct (map fst (cs_running cs))" and "gm_wf (cs_cancels cs)"
    and "(n, t, s) \<in> set (cs_running cs) \<Longrightarrow> map_of (cs_cancels cs) t = Some n"
    and "(n, t, s) \<in> set (cs_running cs) \<Longrightarrow> n < cs_next cs"
    and "map_of (cs_cancels cs) t = Some n \<Longrightarrow> \<exists>s. (n, t, s) \<in> set (cs_running cs)"
  using assms unfolding consumers_ok_def by blast+

lemma consumers_ok_none: "consumers_ok no_consumers"
  by (rule consumers_okI) (simp_all add: no_consumers_def)

text \<open>One consumer per topic follows.\<close>

lemma consumers_ok_topics:
  assumes ok: "consumers_ok cs" and a: "(n, t, s) \<in> set (cs_running cs)" and b: "(n', t, s') \<in> set (cs_running cs)"
  shows "n = n' \<and> s = s'"
proof -
  have n: "n = n'" using consumers_okD(3) [OF ok a] consumers_okD(3) [OF ok b] by simp
  moreover have "(t, s) = (t, s')" using eq_key_imp_eq_value [OF consumers_okD(1) [OF ok] a] b n by blast
  ultimately show ?thesis by simp
qed

lemma consumers_ok_start:
  assumes ok: "consumers_ok cs" and new: "map_of (cs_cancels cs) topic = None"
  shows "consumers_ok (startLocked topic serviceType cs)"
proof (rule consumers_okI)
  have other: "t \<noteq> topic" if "(m, t, s) \<in> set (cs_running cs)" for m t s
    using consumers_okD(3) [OF ok that] new by auto
  have "cs_next cs \<notin> fst ` set (cs_running cs)" using consumers_okD(4) [OF ok] by fastforce
  then show "distinct (map fst (cs_running (startLocked topic serviceType cs)))"
    using consumers_okD(1) [OF ok] by (simp add: startLocked_def)
  show "gm_wf (cs_cancels (startLocked topic serviceType cs))"
    using consumers_okD(2) [OF ok] by (simp add: startLocked_def)
  show "map_of (cs_cancels (startLocked topic serviceType cs)) t = Some n"
    if "(n, t, s) \<in> set (cs_running (startLocked topic serviceType cs))" for n t s
    using that other consumers_okD(3) [OF ok] by (auto simp: startLocked_def)
  show "n < cs_next (startLocked topic serviceType cs)"
    if "(n, t, s) \<in> set (cs_running (startLocked topic serviceType cs))" for n t s
    using that consumers_okD(4) [OF ok] by (auto simp: startLocked_def less_SucI)
  show "\<exists>s. (n, t, s) \<in> set (cs_running (startLocked topic serviceType cs))"
    if "map_of (cs_cancels (startLocked topic serviceType cs)) t = Some n" for t n
    using that consumers_okD(5) [OF ok, of t n] by (auto simp: startLocked_def split: if_splits)
qed

definition drop_consumer :: "string \<Rightarrow> nat \<Rightarrow> Consumers \<Rightarrow> Consumers" where
  "drop_consumer topic ctx cs = (cancel ctx cs)\<lparr>cs_cancels := AList.delete topic (cs_cancels cs)\<rparr>"

lemma drop_consumer_simps [simp]:
  "cs_next (drop_consumer topic ctx cs) = cs_next cs"
  "cs_cancels (drop_consumer topic ctx cs) = AList.delete topic (cs_cancels cs)"
  by (simp_all add: drop_consumer_def cancel_def)

lemma drop_consumer_running:
  assumes ok: "consumers_ok cs" and c: "map_of (cs_cancels cs) topic = Some ctx"
  shows "cs_running (drop_consumer topic ctx cs) = filter (\<lambda>(n, t, s). t \<noteq> topic) (cs_running cs)"
proof -
  obtain s0 where s0: "(ctx, topic, s0) \<in> set (cs_running cs)" using consumers_okD(5) [OF ok c] by blast
  have "n \<noteq> ctx \<longleftrightarrow> t \<noteq> topic" if r: "(n, t, s) \<in> set (cs_running cs)" for n t s
  proof -
    have "n = ctx \<Longrightarrow> t = topic"
      using eq_key_imp_eq_value [OF consumers_okD(1) [OF ok] s0] r by blast
    moreover have "t = topic \<Longrightarrow> n = ctx" using consumers_okD(3) [OF ok r] c by simp
    ultimately show ?thesis by blast
  qed
  then have "filter (\<lambda>(n, _). n \<noteq> ctx) (cs_running cs) = filter (\<lambda>(n, t, s). t \<noteq> topic) (cs_running cs)"
    by (intro filter_cong) auto
  then show ?thesis by (simp add: drop_consumer_def cancel_def)
qed

lemma consumers_ok_drop:
  assumes ok: "consumers_ok cs" and c: "map_of (cs_cancels cs) topic = Some ctx"
  shows "consumers_ok (drop_consumer topic ctx cs)"
proof (rule consumers_okI)
  note r = drop_consumer_running [OF ok c]
  show "distinct (map fst (cs_running (drop_consumer topic ctx cs)))"
    using consumers_okD(1) [OF ok] unfolding r by (rule distinct_map_filter)
  show "gm_wf (cs_cancels (drop_consumer topic ctx cs))" using consumers_okD(2) [OF ok] by simp
  show "map_of (cs_cancels (drop_consumer topic ctx cs)) t = Some n"
    if "(n, t, s) \<in> set (cs_running (drop_consumer topic ctx cs))" for n t s
    using that consumers_okD(3) [OF ok, of n t s] unfolding r by simp
  show "n < cs_next (drop_consumer topic ctx cs)"
    if "(n, t, s) \<in> set (cs_running (drop_consumer topic ctx cs))" for n t s
    using that consumers_okD(4) [OF ok, of n t s] unfolding r by simp
  show "\<exists>s. (n, t, s) \<in> set (cs_running (drop_consumer topic ctx cs))"
    if "map_of (cs_cancels (drop_consumer topic ctx cs)) t = Some n" for t n
    using that consumers_okD(5) [OF ok, of t n] unfolding r by (auto split: if_splits)
qed

text \<open>The first loop of Reconcile, over any part of the map of cancel functions.\<close>

abbreviation stop_step :: "(string, string) gomap \<Rightarrow> Consumers \<Rightarrow> string \<times> nat \<Rightarrow> Consumers" where
  "stop_step services cs y \<equiv> (case y of (t, n) \<Rightarrow> if map_of services t = None then drop_consumer t n cs else cs)"

lemma stop_step_ok:
  assumes ok: "consumers_ok cs" and c: "map_of (cs_cancels cs) t = Some n"
  shows "consumers_ok (stop_step services cs (t, n))"
    and "map_of (cs_cancels (stop_step services cs (t, n))) x =
      (if x = t \<and> map_of services t = None then None else map_of (cs_cancels cs) x)"
    and "set (cs_running (stop_step services cs (t, n))) =
      {r \<in> set (cs_running cs). \<not> (fst (snd r) = t \<and> map_of services t = None)}"
  using consumers_ok_drop [OF ok c] ok drop_consumer_running [OF ok c] by auto

lemma stop_fold:
  assumes "consumers_ok cs" and "distinct (map fst ys)" and "\<forall>(t, n) \<in> set ys. map_of (cs_cancels cs) t = Some n"
  shows "consumers_ok (foldl (stop_step services) cs ys) \<and>
    (\<forall>x. map_of (cs_cancels (foldl (stop_step services) cs ys)) x =
      (if x \<in> fst ` set ys \<and> map_of services x = None then None else map_of (cs_cancels cs) x)) \<and>
    set (cs_running (foldl (stop_step services) cs ys)) =
      {r \<in> set (cs_running cs). \<not> (fst (snd r) \<in> fst ` set ys \<and> map_of services (fst (snd r)) = None)}"
  using assms
proof (induction ys arbitrary: cs)
  case (Cons y ys)
  obtain t n where y: "y = (t, n)" by fastforce
  have c: "map_of (cs_cancels cs) t = Some n" using Cons.prems(3) y by simp
  let ?cs = "stop_step services cs (t, n)"
  note S = stop_step_ok [OF Cons.prems(1) c, of services]
  have t: "t \<notin> fst ` set ys" and d: "distinct (map fst ys)" using Cons.prems(2) y by simp_all
  have "map_of (cs_cancels ?cs) x = Some k" if "(x, k) \<in> set ys" for x k
  proof -
    have "x \<noteq> t" using that t by force
    then show ?thesis using S(2) [of x] Cons.prems(3) that by auto
  qed
  then have IH: "consumers_ok (foldl (stop_step services) ?cs ys)"
    "map_of (cs_cancels (foldl (stop_step services) ?cs ys)) x =
      (if x \<in> fst ` set ys \<and> map_of services x = None then None else map_of (cs_cancels ?cs) x)"
    "set (cs_running (foldl (stop_step services) ?cs ys)) =
      {r \<in> set (cs_running ?cs). \<not> (fst (snd r) \<in> fst ` set ys \<and> map_of services (fst (snd r)) = None)}" for x
    using Cons.IH [OF S(1) d] by (blast, blast, blast)
  have f: "foldl (stop_step services) cs (y # ys) = foldl (stop_step services) ?cs ys" unfolding y by simp
  show ?case
  proof (intro conjI allI)
    show "consumers_ok (foldl (stop_step services) cs (y # ys))" unfolding f by (rule IH(1))
    show "map_of (cs_cancels (foldl (stop_step services) cs (y # ys))) x =
        (if x \<in> fst ` set (y # ys) \<and> map_of services x = None then None else map_of (cs_cancels cs) x)" for x
      unfolding f IH(2) S(2) using y by auto
    show "set (cs_running (foldl (stop_step services) cs (y # ys))) =
        {r \<in> set (cs_running cs). \<not> (fst (snd r) \<in> fst ` set (y # ys) \<and> map_of services (fst (snd r)) = None)}"
      unfolding f IH(3) S(3) using y by auto
  qed
qed simp

lemma stop_removed_eq: "stop_removed services cs = foldl (stop_step services) cs (cs_cancels cs)"
  unfolding stop_removed_def drop_consumer_def by simp

lemma stop_removed_spec:
  assumes ok: "consumers_ok cs"
  shows "consumers_ok (stop_removed services cs)"
    and "map_of (cs_cancels (stop_removed services cs)) x =
      (if map_of services x = None then None else map_of (cs_cancels cs) x)"
    and "set (cs_running (stop_removed services cs)) =
      {r \<in> set (cs_running cs). map_of services (fst (snd r)) \<noteq> None}"
proof -
  have "distinct (map fst (cs_cancels cs))" using consumers_okD(2) [OF ok] by (simp add: gm_wf_def)
  then have "\<forall>(t, n) \<in> set (cs_cancels cs). map_of (cs_cancels cs) t = Some n" by simp
  note F = stop_fold [OF ok \<open>distinct _\<close> this, of services, folded stop_removed_eq]
  have keys: "x \<in> fst ` set (cs_cancels cs) \<longleftrightarrow> map_of (cs_cancels cs) x \<noteq> None" for x
    by (simp add: map_of_eq_None_iff)
  have run: "fst (snd r) \<in> fst ` set (cs_cancels cs)" if "r \<in> set (cs_running cs)" for r
    using consumers_okD(3) [OF ok, of "fst r" "fst (snd r)" "snd (snd r)"] that unfolding keys by simp
  show "consumers_ok (stop_removed services cs)" using F by blast
  show "map_of (cs_cancels (stop_removed services cs)) x =
      (if map_of services x = None then None else map_of (cs_cancels cs) x)"
    using F keys [of x] by auto
  show "set (cs_running (stop_removed services cs)) =
      {r \<in> set (cs_running cs). map_of services (fst (snd r)) \<noteq> None}"
    unfolding conjunct2 [OF conjunct2 [OF F]]
  proof (rule Collect_cong)
    fix r
    show "(r \<in> set (cs_running cs) \<and> \<not> (fst (snd r) \<in> fst ` set (cs_cancels cs) \<and> map_of services (fst (snd r)) = None)) =
        (r \<in> set (cs_running cs) \<and> map_of services (fst (snd r)) \<noteq> None)"
      by (cases "r \<in> set (cs_running cs)") (use run [of r] in simp_all)
  qed
qed

text \<open>The second loop.\<close>

abbreviation start_step :: "Consumers \<Rightarrow> string \<times> string \<Rightarrow> Consumers" where
  "start_step cs y \<equiv> (case y of (t, s) \<Rightarrow> if map_of (cs_cancels cs) t = None then startLocked t s cs else cs)"

lemma startLocked_simps [simp]:
  "map_of (cs_cancels (startLocked t s cs)) x = (if x = t then Some (cs_next cs) else map_of (cs_cancels cs) x)"
  "set (cs_running (startLocked t s cs)) = insert (cs_next cs, t, s) (set (cs_running cs))"
  by (simp_all add: startLocked_def)

lemma start_fold:
  assumes "consumers_ok cs" and "distinct (map fst ys)"
  shows "consumers_ok (foldl start_step cs ys) \<and> set (cs_running cs) \<subseteq> set (cs_running (foldl start_step cs ys)) \<and>
    snd ` set (cs_running (foldl start_step cs ys)) =
      snd ` set (cs_running cs) \<union> {(t, s) \<in> set ys. map_of (cs_cancels cs) t = None}"
  using assms
proof (induction ys arbitrary: cs)
  case (Cons y ys)
  obtain t s where y: "y = (t, s)" by fastforce
  let ?cs = "start_step cs (t, s)"
  have t: "t \<notin> fst ` set ys" and d: "distinct (map fst ys)" using Cons.prems(2) y by simp_all
  have ok: "consumers_ok ?cs" using consumers_ok_start [OF Cons.prems(1)] Cons.prems(1) by simp
  note IH = Cons.IH [OF ok d]
  have f: "foldl start_step cs (y # ys) = foldl start_step ?cs ys" unfolding y by simp
  have "{(t', s') \<in> set ys. map_of (cs_cancels ?cs) t' = None} = {(t', s') \<in> set ys. map_of (cs_cancels cs) t' = None}"
    using t by (auto simp: image_iff split: if_splits)
  moreover have "snd ` set (cs_running ?cs) = snd ` set (cs_running cs) \<union>
      {(t', s'). t' = t \<and> s' = s \<and> map_of (cs_cancels cs) t = None}" by auto
  moreover have "set (cs_running cs) \<subseteq> set (cs_running ?cs)" by auto
  ultimately show ?case unfolding f using IH y by auto
qed auto

lemma result_services_wf: "gm_wf (result_services reg)"
proof -
  have "gm_wf m \<Longrightarrow> gm_wf (foldl (\<lambda>m d. AList.update (def_ResultTopic d) (def_Type d) m) m ds)" for m and ds :: "Def list"
    by (induction ds arbitrary: m) simp_all
  then show ?thesis unfolding result_services_def by blast
qed

lemma Reconcile_spec:
  assumes "consumers_ok cs"
  shows "consumers_ok (Reconcile reg cs) \<and>
    {r \<in> set (cs_running cs). map_of (result_services reg) (fst (snd r)) \<noteq> None} \<subseteq> set (cs_running (Reconcile reg cs)) \<and>
    snd ` set (cs_running (Reconcile reg cs)) =
      {(t, s). map_of (result_services reg) t \<noteq> None \<and> (\<exists>n. (n, t, s) \<in> set (cs_running cs))} \<union>
      {(t, s). map_of (result_services reg) t = Some s \<and> (\<nexists>n s'. (n, t, s') \<in> set (cs_running cs))}"
proof -
  let ?sv = "result_services reg"
  note S = stop_removed_spec [OF assms, of ?sv]
  have d: "distinct (map fst ?sv)" using result_services_wf [of reg] by (simp add: gm_wf_def)
  have eq: "Reconcile reg cs = foldl start_step (stop_removed ?sv cs) ?sv"
    by (simp add: Reconcile_def start_added_def Let_def)
  note F = start_fold [OF S(1) d, folded eq]
  have running: "map_of (cs_cancels cs) t = None \<longleftrightarrow> (\<nexists>n s'. (n, t, s') \<in> set (cs_running cs))" for t
    using consumers_okD(3,5) [OF assms] by (metis option.exhaust option.distinct(1))
  have "{(t, s) \<in> set ?sv. map_of (cs_cancels (stop_removed ?sv cs)) t = None} =
      {(t, s). map_of ?sv t = Some s \<and> (\<nexists>n s'. (n, t, s') \<in> set (cs_running cs))}"
    by (auto simp: S(2) running map_of_wf_iff [OF result_services_wf [of reg], symmetric])
  moreover have "snd ` set (cs_running (stop_removed ?sv cs)) =
      {(t, s). map_of ?sv t \<noteq> None \<and> (\<exists>n. (n, t, s) \<in> set (cs_running cs))}"
    unfolding S(3) by (auto simp: image_iff)
  ultimately show ?thesis using F S(3) by auto
qed

text \<open>C24: a hot reload leaves exactly one consumer on every result topic of the new registry and none on
  any other: the set of consumers stays well formed, so each can still be cancelled; a consumer whose
  topic is kept goes on undisturbed; and a topic without one gets a consumer for its service.\<close>

theorem Reconcile_exact:
  assumes "consumers_ok cs"
  shows "consumers_ok (Reconcile reg cs) \<and>
    {r \<in> set (cs_running cs). map_of (result_services reg) (fst (snd r)) \<noteq> None} \<subseteq> set (cs_running (Reconcile reg cs)) \<and>
    snd ` set (cs_running (Reconcile reg cs)) =
      {(t, s). map_of (result_services reg) t \<noteq> None \<and> (\<exists>n. (n, t, s) \<in> set (cs_running cs))} \<union>
      {(t, s). map_of (result_services reg) t = Some s \<and> (\<nexists>n s'. (n, t, s') \<in> set (cs_running cs))}"
  using assms by (rule Reconcile_spec)

text \<open>At start every service that uses Kafka gets a consumer of its own on its result topic, and the
  set of consumers is well formed, provided no two services share a result topic.\<close>

theorem Start_consumers:
  assumes "distinct (map def_ResultTopic (KafkaServices reg))"
  shows "consumers_ok (Start reg no_consumers) \<and> snd ` set (cs_running (Start reg no_consumers)) =
    (\<lambda>d. (def_ResultTopic d, def_Type d)) ` set (KafkaServices reg)"
proof -
  have "consumers_ok (foldl (\<lambda>cs d. startLocked (def_ResultTopic d) (def_Type d) cs) cs ds) \<and>
      snd ` set (cs_running (foldl (\<lambda>cs d. startLocked (def_ResultTopic d) (def_Type d) cs) cs ds)) =
        snd ` set (cs_running cs) \<union> (\<lambda>d. (def_ResultTopic d, def_Type d)) ` set ds"
    if "distinct (map def_ResultTopic ds)" "\<forall>d \<in> set ds. map_of (cs_cancels cs) (def_ResultTopic d) = None"
      "consumers_ok cs" for ds cs
    using that
  proof (induction ds arbitrary: cs)
    case (Cons d ds)
    have "\<forall>d' \<in> set ds. map_of (cs_cancels (startLocked (def_ResultTopic d) (def_Type d) cs)) (def_ResultTopic d') = None"
      using Cons.prems(1,2) by (auto simp: image_iff)
    from Cons.IH [OF _ this] show ?case
      using Cons.prems consumers_ok_start [of cs "def_ResultTopic d" "def_Type d"] by simp
  qed simp
  from this [OF assms _ consumers_ok_none] show ?thesis
    by (simp add: Start_def no_consumers_def)
qed

text \<open>Two services that share a result topic get two consumers, of which only the second can be
  cancelled: after a reload to a registry without Kafka services the first one is still running.\<close>

theorem Start_shared_topic:
  assumes "KafkaServices reg = [d1, d2]" and "def_ResultTopic d1 = def_ResultTopic d2" and "KafkaServices reg' = []"
  shows "cs_running (Start reg no_consumers) =
      [(0, def_ResultTopic d1, def_Type d1), (1, def_ResultTopic d1, def_Type d2)] \<and>
    cs_running (Reconcile reg' (Start reg no_consumers)) = [(0, def_ResultTopic d1, def_Type d1)]"
  using assms
  by (simp add: Start_def startLocked_def no_consumers_def Reconcile_def result_services_def stop_removed_def
      start_added_def cancel_def)

section \<open>At work\<close>

abbreviation demo_manager :: ConsumerManager where
  "demo_manager \<equiv> \<lparr>cm_ConsumerGroup = ''gw'', cm_redis = demo_redis, cm_s3 = demo_s3\<rparr>"

abbreviation demo_result :: string where
  "demo_result \<equiv> marshal_result_event demo_result_event"

lemma demo_result_decodes: "unmarshal_result_event demo_result = Some demo_result_event" "re_JobID demo_result_event = ''j1''"
  using unmarshal_marshal_result_event [OF demo_ok(3)] by (simp_all add: demo_result_event_def)

lemma demo_world_ok: "world_ok demo_world"
  using demo_world_facts(1) by (simp add: gateway_ok_def)

lemma demo_handled:
  obtains w' hook where "handleResult demo_manager demo_now demo_result demo_world = (Inr (), w', hook)"
    "w_published w' = w_published demo_world @ [doneChannel ''j1'']" "w_outcomes w' = []"
  using handleResult_done [OF demo_world_ok demo_world_facts(4) demo_now_ok demo_result_decodes(1), of demo_done_job demo_manager]
    demo_world_facts(2) demo_result_decodes(2) that by auto

lemma handleResult_applies_witness:
  "\<exists>w' hook. handleResult demo_manager demo_now demo_result demo_world = (Inr (), w', hook) \<and> job_at w' ''j1'' \<noteq> None"
proof -
  obtain w' hook where h: "handleResult demo_manager demo_now demo_result demo_world = (Inr (), w', hook)"
    by (rule demo_handled)
  show ?thesis
    using handleResult_applies [OF demo_world_ok demo_now_ok h] h demo_result_decodes by auto
qed

lemma notify_after_update_witness:
  "\<exists>w' hook j. handleResult demo_manager demo_now demo_result demo_world = (Inr (), w', hook) \<and>
     job_at w' ''j1'' = Some j \<and> job_Status j = Completed"
proof -
  obtain w' hook where h: "handleResult demo_manager demo_now demo_result demo_world = (Inr (), w', hook)"
      "w_published w' = w_published demo_world @ [doneChannel ''j1'']"
    by (rule demo_handled)
  have "w_published w' \<noteq> w_published demo_world" using h(2) by simp
  from notify_after_update [OF demo_world_ok demo_now_ok h(1) this] show ?thesis
    using h demo_result_decodes by (auto simp: demo_result_event_def)
qed

lemma handleResult_completes_witness:
  "\<exists>w' hook. handleResult demo_manager demo_now demo_result demo_world = (Inr (), w', hook)"
  using handleResult_completes [OF demo_world_ok demo_world_facts(4) demo_now_ok demo_result_decodes(1), of demo_done_job demo_manager]
    demo_world_facts(2) demo_result_decodes(2) by auto

definition demo_hook_job :: Job where
  "demo_hook_job = demo_done_job\<lparr>job_CallbackURL := ''https://client/hook''\<rparr>"

lemma demo_hook_url: "\<not> Option.is_none (url_parse (job_CallbackURL demo_hook_job))"
  by code_simp


lemma demo_bad_message: "handleResult demo_manager demo_now ''x'' demo_world = (Inl BadEvent, demo_world, None)"
proof -
  have "Option.is_none (unmarshal_result_event ''x'')" by code_simp
  then show ?thesis by (simp add: handleResult_def Option.is_none_def)
qed

lemma consume_commits_handled_witness:
  "\<exists>c w' hooks. consume demo_manager [Message ''x'' demo_now] 0 0 demo_world = (c, w', hooks) \<and> c = 0"
proof -
  obtain c w' hooks where c: "consume demo_manager [Message ''x'' demo_now] 0 0 demo_world = (c, w', hooks)"
    by (metis prod.collapse)
  have "handled demo_manager [Message ''x'' demo_now] demo_world = [False]"
    using demo_bad_message by simp
  then show ?thesis using consume_commits_handled [OF c] c by auto
qed

lemma consume_skips_failed_witness:
  "fst (consume demo_manager [Message ''x'' demo_now, Message demo_result demo_now] 7 7 demo_world) = 9"
proof -
  obtain w' hook where h: "handleResult demo_manager demo_now demo_result demo_world = (Inr (), w', hook)"
      "w_outcomes w' = []"
    by (rule demo_handled)
  show ?thesis using consume_skips_failed [OF demo_bad_message h, of 7 7] by simp
qed

lemma Reconcile_exact_witness:
  "consumers_ok (Reconcile (NewRegistry [demo_service]) no_consumers)"
  using Reconcile_exact [OF consumers_ok_none] by blast

lemma Start_consumers_witness:
  "consumers_ok (Start (NewRegistry [demo_service]) no_consumers)"
proof -
  have "distinct (map def_ResultTopic (KafkaServices (NewRegistry [demo_service])))" by code_simp
  from Start_consumers [OF this] show ?thesis by blast
qed

lemma Start_shared_topic_witness:
  "\<exists>d1 d2. KafkaServices (NewRegistry [demo_service, demo_service\<lparr>sc_Type := ''other''\<rparr>]) = [d1, d2] \<and>
     cs_running (Reconcile (NewRegistry []) (Start (NewRegistry [demo_service, demo_service\<lparr>sc_Type := ''other''\<rparr>]) no_consumers)) =
       [(0, def_ResultTopic d1, def_Type d1)]"
proof -
  let ?reg = "NewRegistry [demo_service, demo_service\<lparr>sc_Type := ''other''\<rparr>]"
  have l: "length (KafkaServices ?reg) = 2" "length (remdups (map def_ResultTopic (KafkaServices ?reg))) = 1" by code_simp+
  then obtain d1 d2 where k: "KafkaServices ?reg = [d1, d2]" by (auto simp: length_Suc_conv numeral_2_eq_2)
  have e: "KafkaServices (NewRegistry []) = []" by code_simp
  have t: "def_ResultTopic d1 = def_ResultTopic d2" using l(2) k by (auto split: if_splits)
  show ?thesis using Start_shared_topic [OF k t e] k by blast
qed

end
