(* ===== verification/Wire.thy ===== *)
theory Wire
  imports Url World
begin

text \<open>
  What the handlers of both processes share of net/http, mime and mime/multipart beyond Http: bodies
  read up to a limit, the media type of a request, plain text errors, and multipart forms as text.
\<close>

section \<open>Bodies\<close>

text \<open>io.ReadAll of an io.LimitReader.\<close>

definition read_limited :: "nat \<Rightarrow> reader \<Rightarrow> io_error + string" where
  "read_limited n rd =
     (if n \<le> length (fst rd) then Inr (take n (fst rd))
      else (case snd rd of None \<Rightarrow> Inr (fst rd) | Some e \<Rightarrow> Inl e))"

text \<open>Error texts, of library errors without the library's detail.\<close>

fun io_error_text :: "io_error \<Rightarrow> string" where
  "io_error_text UnexpectedEOF = ''unexpected EOF''"
| "io_error_text (SourceError s) = s"
| "io_error_text (ChunkError n) = ''decrypting chunk '' @ nat_text n @ '': cipher: message authentication failed''"
| "io_error_text NoncePrefixError = ''reading nonce prefix: unexpected EOF''"
| "io_error_text RandomError = ''generating nonce''"
| "io_error_text (KeySizeError n) = ''crypto/aes: invalid key size '' @ nat_text n"

text \<open>http.Error.\<close>

definition http_error :: "int \<Rightarrow> string \<Rightarrow> Response \<Rightarrow> Response" where
  "http_error code msg rs =
     write_body (msg @ [CHR 0x0A])
       (WriteHeader code (set_header ''X-Content-Type-Options'' ''nosniff''
         (set_header ''Content-Type'' ''text/plain; charset=utf-8'' rs)))"

text \<open>req.Header.Set for each pair in turn.\<close>

definition set_headers :: "(string \<times> string) list \<Rightarrow> (string, string) gomap \<Rightarrow> (string, string) gomap" where
  "set_headers kvs hs = foldl (\<lambda>m (k, v). AList.update (canonical_header k) v m) hs kvs"

section \<open>Media types\<close>

text \<open>mime.ParseMediaType, the type only: empty when it is malformed.  A parameter given twice, which makes
  the type malformed too, is not looked for.\<close>

definition trim_space :: "string \<Rightarrow> string" where
  "trim_space s = rev (dropWhile is_ws (rev (dropWhile is_ws s)))"

definition media_type :: "string \<Rightarrow> string" where
  "media_type v =
     (let t = trim_space (to_lower (takeWhile (\<lambda>c. c \<noteq> CHR '';'') v))
      in (case split_on (CHR ''/'') t of
            [a] \<Rightarrow> if a \<noteq> [] \<and> list_all token_char a then t else []
          | [a, b] \<Rightarrow> if a \<noteq> [] \<and> b \<noteq> [] \<and> list_all token_char (a @ b) then t else []
          | _ \<Rightarrow> []))"

section \<open>Multipart forms\<close>

text \<open>mime/multipart.Writer: the boundary is 30 random bytes in hexadecimal, parts are separated by
  boundary lines, names and file names are quoted.\<close>

abbreviation crlf :: string where "crlf \<equiv> [CHR 0x0D, CHR 0x0A]"
abbreviation dquotes :: string where "dquotes \<equiv> [CHR 0x22]"

definition hex_text :: "string \<Rightarrow> string" where
  "hex_text s = concat (map (\<lambda>c. [hex_digit (of_char c div 16), hex_digit (of_char c mod 16)]) s)"

definition next_boundary :: "World \<Rightarrow> string \<times> World" where
  "next_boundary w =
     (case w_rand w of
        [] \<Rightarrow> (hex_text (replicate 30 (CHR 0x00)), w)
      | s # ss \<Rightarrow> (hex_text (take 30 (s @ replicate 30 (CHR 0x00))), w\<lparr>w_rand := ss\<rparr>))"

definition escape_quotes :: "string \<Rightarrow> string" where
  "escape_quotes s = concat (map (\<lambda>c. if c = CHR 0x5C \<or> c = CHR 0x22 then [CHR 0x5C, c] else [c]) s)"

definition field_part :: "string \<Rightarrow> string \<times> string \<Rightarrow> string" where
  "field_part boundary kv =
     ''--'' @ boundary @ crlf @ ''Content-Disposition: form-data; name='' @ dquotes @ escape_quotes (fst kv) @ dquotes @
     crlf @ crlf @ snd kv @ crlf"

definition file_part :: "string \<Rightarrow> string \<Rightarrow> string \<Rightarrow> string" where
  "file_part boundary name filename =
     ''--'' @ boundary @ crlf @ ''Content-Disposition: form-data; name='' @ dquotes @ escape_quotes name @ dquotes @
     ''; filename='' @ dquotes @ escape_quotes filename @ dquotes @ crlf @
     ''Content-Type: application/octet-stream'' @ crlf @ crlf"

text \<open>A form as text, in the order its maps are iterated.\<close>

definition form_parts :: "string \<Rightarrow> Form \<Rightarrow> string" where
  "form_parts boundary f =
     concat (map (\<lambda>(k, vs). concat (map (\<lambda>v. field_part boundary (k, v)) vs)) (fm_Value f)) @
     concat (map (\<lambda>(k, fhs). concat (map (\<lambda>fh. file_part boundary k (fh_Filename fh) @ fh_Data fh @ crlf) fhs)) (fm_File f))"

definition form_text :: "string \<Rightarrow> Form \<Rightarrow> string" where
  "form_text boundary f =
     (let parts = form_parts boundary f in (if parts = [] then crlf else parts) @ ''--'' @ boundary @ ''--'' @ crlf)"

definition form_content_type :: "string \<Rightarrow> string" where
  "form_content_type boundary = ''multipart/form-data; boundary='' @ boundary"

end
