(* ===== verification/Relay.thy ===== *)
theory Relay
  imports Wire
begin

text \<open>
  The relay, a sidecar of the inference model: relay/internal/relay (the dispatcher of the events
  Kafka delivers over HTTP), relay/internal/adapter (the multipart request to the model) and
  relay/internal/config.  The time of an event is an input; randomness is taken from the state.
\<close>

section \<open>relay/internal/config/config.go\<close>

record InferenceConfig =
  inf_BaseURL :: string
  inf_APIKey :: string
  inf_ExtraFields :: "(string, string) gomap"

text \<open>Unlike the gateway's, the relay's Kafka settings have no consumer group: it only writes.\<close>

record RelayKafkaConfig =
  rkc_Brokers :: "string list"
  rkc_SASL :: SASLConfig
  rkc_TLS :: TLSConfig

record RelayConfig =
  rcf_ResultTopic :: string
  rcf_Kafka :: RelayKafkaConfig
  rcf_S3 :: S3Config
  rcf_EncryptionKey :: string
  rcf_Inference :: InferenceConfig

text \<open>The service type in a result topic jobs.type.results.\<close>

definition ServiceType :: "string \<Rightarrow> string" where
  "ServiceType resultTopic =
     (case split_n3 resultTopic ''.'' of
        [a, b, c] \<Rightarrow> if a = ''jobs'' then b else resultTopic
      | _ \<Rightarrow> resultTopic)"

datatype relay_config_error = ResultTopicRequired | RelayBrokersRequired | RelayEndpointRequired
  | RelayRegionRequired | RelayBucketRequired | BaseURLRequired

definition relay_validate :: "RelayConfig \<Rightarrow> relay_config_error + unit" where
  "relay_validate c =
     (if rcf_ResultTopic c = [] then Inl ResultTopicRequired
      else if rkc_Brokers (rcf_Kafka c) = [] then Inl RelayBrokersRequired
      else if s3c_Endpoint (rcf_S3 c) = [] then Inl RelayEndpointRequired
      else if s3c_Region (rcf_S3 c) = [] then Inl RelayRegionRequired
      else if s3c_Bucket (rcf_S3 c) = [] then Inl RelayBucketRequired
      else if inf_BaseURL (rcf_Inference c) = [] then Inl BaseURLRequired
      else Inr ())"

datatype relay_load_error = RelayReadError | RelayParseError | RelayInvalid relay_config_error

definition relay_expandWithDefault :: "env \<Rightarrow> string \<Rightarrow> string" where
  "relay_expandWithDefault env key =
     (case str_index key '':-'' of
        Some i \<Rightarrow>
          (let varName = take i key; defaultVal = drop (i + 2) key
           in (case env varName of
                 Some v \<Rightarrow> if v \<noteq> [] then v else defaultVal
               | None \<Rightarrow> defaultVal))
      | None \<Rightarrow> os_getenv env key)"

text \<open>The file's content and the YAML decoder are arguments, as in the gateway's Load.\<close>

definition relay_Load :: "env \<Rightarrow> (string \<Rightarrow> RelayConfig option) \<Rightarrow> string option \<Rightarrow> relay_load_error + RelayConfig" where
  "relay_Load e yaml file =
     (case file of
        None \<Rightarrow> Inl RelayReadError
      | Some data \<Rightarrow>
          (case yaml (os_expand (relay_expandWithDefault e) data) of
             None \<Rightarrow> Inl RelayParseError
           | Some cfg \<Rightarrow> (case relay_validate cfg of Inl er \<Rightarrow> Inl (RelayInvalid er) | Inr _ \<Rightarrow> Inr cfg)))"

section \<open>relay/internal/adapter\<close>

record CallInput =
  ci_JobID :: string
  ci_Filename :: string
  ci_ContentType :: string
  ci_Size :: int
  ci_Body :: reader
  ci_Model :: string
  ci_InferenceURL :: string
  ci_Params :: "(string, string) gomap"

datatype call_error =
    NoEndpoint
  | BadEndpoint string
  | CallFailed string
  | ReadResponse io_error
  | ModelStatus int string

definition endpointURL :: "InferenceConfig \<Rightarrow> CallInput \<Rightarrow> string" where
  "endpointURL ic input = trim_right (CHR ''/'') (inf_BaseURL ic) @ ci_InferenceURL input"

text \<open>The fields in the order they are written: the model, then the configured fields and the
  parameters of the request, which take precedence, sorted by name, empty values left out.\<close>

definition merged_fields :: "InferenceConfig \<Rightarrow> CallInput \<Rightarrow> (string, string) gomap" where
  "merged_fields ic input = foldl (\<lambda>m (k, v). AList.update k v m) (inf_ExtraFields ic) (ci_Params input)"

definition form_fields :: "InferenceConfig \<Rightarrow> CallInput \<Rightarrow> (string \<times> string) list" where
  "form_fields ic input =
     (if ci_Model input \<noteq> [] then [(''model'', ci_Model input)] else []) @
     List.map_filter (\<lambda>k. case map_of (merged_fields ic input) k of
         Some v \<Rightarrow> if v \<noteq> [] then Some (k, v) else None | None \<Rightarrow> None)
       (sort (gm_keys (merged_fields ic input)))"

text \<open>What the pipe delivers: an error of the file's stream ends it.\<close>

definition multipart_body :: "string \<Rightarrow> (string \<times> string) list \<Rightarrow> string \<Rightarrow> reader \<Rightarrow> reader" where
  "multipart_body boundary parts filename body =
     (let text = concat (map (field_part boundary) parts) @ file_part boundary ''file'' filename @ fst body
      in (case snd body of
            Some e \<Rightarrow> (text, Some e)
          | None \<Rightarrow> (text @ crlf @ ''--'' @ boundary @ ''--'' @ crlf, None)))"

definition call_request :: "InferenceConfig \<Rightarrow> CallInput \<Rightarrow> string \<Rightarrow> URL \<Rightarrow> HttpRequest" where
  "call_request ic input boundary u =
     \<lparr>hq_Method = ''POST'', hq_URL = url_string u,
      hq_Headers = [(''Content-Type'', form_content_type boundary)] @
        (if inf_APIKey ic \<noteq> [] then [(''Authorization'', ''Bearer '' @ inf_APIKey ic)] else []),
      hq_Body = multipart_body boundary (form_fields ic input) (ci_Filename input) (ci_Body input)\<rparr>"

definition multipart_Call :: "InferenceConfig \<Rightarrow> CallInput \<Rightarrow> World \<Rightarrow> (call_error + string) \<times> World" where
  "multipart_Call ic input w =
     (let url = endpointURL ic input
      in if url = [] then (Inl NoEndpoint, w)
         else
           (let (boundary, w1) = next_boundary w
            in (case url_parse url of
                  None \<Rightarrow> (Inl (BadEndpoint url), w1)
                | Some u \<Rightarrow>
                    (case http_do (call_request ic input boundary u) w1 of
                       (Inl e, w2) \<Rightarrow> (Inl (CallFailed e), w2)
                     | (Inr resp, w2) \<Rightarrow>
                         (case snd (hr_Body resp) of
                            Some e \<Rightarrow> (Inl (ReadResponse e), w2)
                          | None \<Rightarrow>
                              if hr_Status resp < 200 \<or> 300 \<le> hr_Status resp
                              then (Inl (ModelStatus (hr_Status resp) (fst (hr_Body resp))), w2)
                              else (Inr (fst (hr_Body resp)), w2))))))"

text \<open>The adapter is a closure over the settings; its time limit is not modelled.\<close>

definition NewAdapter :: "RelayConfig \<Rightarrow> CallInput \<Rightarrow> World \<Rightarrow> (call_error + string) \<times> World" where
  "NewAdapter cfg = multipart_Call (rcf_Inference cfg)"

text \<open>The texts of the errors; those of library errors without the library's detail.\<close>

fun call_error_text :: "call_error \<Rightarrow> string" where
  "call_error_text NoEndpoint = ''cannot build endpoint URL: inference.base_url or InferenceURL is empty''"
| "call_error_text (BadEndpoint u) = ''creating request: parse '' @ go_quote u"
| "call_error_text (CallFailed e) = ''calling inference endpoint: '' @ e"
| "call_error_text (ReadResponse e) = ''reading response: '' @ io_error_text e"
| "call_error_text (ModelStatus c b) = ''inference endpoint returned '' @ int_text c @ '': '' @ b"

section \<open>relay/internal/relay\<close>

type_synonym Adapter = "CallInput \<Rightarrow> World \<Rightarrow> (call_error + string) \<times> World"

record Dispatcher =
  d_adapter :: Adapter
  d_s3 :: S3Client
  d_brokers :: "string list"
  d_resultTopic :: string

definition NewDispatcher :: "Adapter \<Rightarrow> S3Client \<Rightarrow> string list \<Rightarrow> string \<Rightarrow> Dispatcher" where
  "NewDispatcher adp s3 brokers resultTopic =
     \<lparr>d_adapter = adp, d_s3 = s3, d_brokers = brokers, d_resultTopic = resultTopic\<rparr>"

text \<open>filepath.Base.\<close>

definition file_base :: "string \<Rightarrow> string" where
  "file_base p =
     (if p = [] then ''.''
      else (let q = trim_right (CHR ''/'') p; b = rev (takeWhile (\<lambda>c. c \<noteq> CHR ''/'') (rev q))
            in if b = [] then ''/'' else b))"

text \<open>A structured CloudEvent nests the event in its data member.\<close>

definition decodeInputEvent :: "Request \<Rightarrow> InputEvent option" where
  "decodeInputEvent r = do {
     payload \<leftarrow> (case read_limited (2 ^ 20) (rq_Body r) of Inl _ \<Rightarrow> None | Inr payload \<Rightarrow> Some payload);
     v \<leftarrow> json_parse payload;
     (if has_prefix (header_get r ''Content-Type'') ''application/cloudevents+json''
      then do {
        f \<leftarrow> obj_fields v;
        (case rev (field_vals ''data'' f) of [] \<Rightarrow> None | d # _ \<Rightarrow> input_event_of_json d)
      }
      else input_event_of_json v)
   }"

definition failure_event :: "InputEvent \<Rightarrow> string \<Rightarrow> time \<Rightarrow> ResultEvent" where
  "failure_event event errMsg now =
     \<lparr>re_JobID = ie_JobID event, re_ServiceType = ie_ServiceType event, re_Status = Failed, re_ResultRef = [],
      re_Error = errMsg, re_CompletedAt = now\<rparr>"

definition publishFailure :: "Dispatcher \<Rightarrow> time \<Rightarrow> InputEvent \<Rightarrow> string \<Rightarrow> World \<Rightarrow> (store_error + unit) \<times> World" where
  "publishFailure d now event errMsg w =
     PublishResultEvent (d_brokers d) (d_resultTopic d) (failure_event event errMsg now) w"

definition result_key :: "InputEvent \<Rightarrow> string" where
  "result_key event = ie_JobID event @ ''/result.json''"

definition completed_event :: "InputEvent \<Rightarrow> time \<Rightarrow> ResultEvent" where
  "completed_event event now =
     \<lparr>re_JobID = ie_JobID event, re_ServiceType = ie_ServiceType event, re_Status = Completed,
      re_ResultRef = result_key event, re_Error = [], re_CompletedAt = now\<rparr>"

definition call_input :: "InputEvent \<Rightarrow> reader \<times> int \<times> string \<Rightarrow> CallInput" where
  "call_input event ob =
     \<lparr>ci_JobID = ie_JobID event, ci_Filename = file_base (ie_InputRef event), ci_ContentType = snd (snd ob),
      ci_Size = fst (snd ob), ci_Body = fst ob, ci_Model = ie_Model event, ci_InferenceURL = ie_InferenceURL event,
      ci_Params = ie_Params event\<rparr>"

datatype process_error = InputUnavailable store_error | FailureNotPublished store_error | ResultNotStored store_error

text \<open>The pipeline: an error is one Kafka should retry.  A failed inference is published and final; a
  result that is stored but not published is only logged.\<close>

definition process :: "Dispatcher \<Rightarrow> time \<Rightarrow> InputEvent \<Rightarrow> World \<Rightarrow> (process_error + unit) \<times> World" where
  "process d now event w =
     (case relay_GetObject (d_s3 d) (ie_InputRef event) w of
        (Inl e, w1) \<Rightarrow> (Inl (InputUnavailable e), w1)
      | (Inr ob, w1) \<Rightarrow>
          (case d_adapter d (call_input event ob) w1 of
             (Inl ce, w2) \<Rightarrow>
               (case publishFailure d now event (''inference: '' @ call_error_text ce) w2 of
                  (Inl e, w3) \<Rightarrow> (Inl (FailureNotPublished e), w3)
                | (Inr _, w3) \<Rightarrow> (Inr (), snd (relay_DeleteObject (d_s3 d) (ie_InputRef event) w3)))
           | (Inr result, w2) \<Rightarrow>
               (case relay_PutObject (d_s3 d) (result_key event) (result, None) (int (length result)) ''application/json'' w2 of
                  (Inl e, w3) \<Rightarrow> (Inl (ResultNotStored e), w3)
                | (Inr _, w3) \<Rightarrow>
                    (Inr (), snd (PublishResultEvent (d_brokers d) (d_resultTopic d) (completed_event event now) w3)))))"

text \<open>As in the gateway's handlers, the third component is the goroutine left behind.\<close>

definition serveHTTP :: "Dispatcher \<Rightarrow> time \<Rightarrow> Request \<Rightarrow> World \<Rightarrow> Response \<times> World \<times> (World \<Rightarrow> World)" where
  "serveHTTP d now r w =
     (if rq_Method r \<noteq> ''POST'' then (http_error 405 ''method not allowed'' new_response, w, id)
      else (case decodeInputEvent r of
              None \<Rightarrow> (http_error 400 ''bad request'' new_response, w, id)
            | Some event \<Rightarrow>
                if ie_JobID event = [] then (http_error 400 ''missing job_id'' new_response, w, id)
                else (case process d now event w of
                        (Inl _, w1) \<Rightarrow> (http_error 500 ''transient error'' new_response, w1, id)
                      | (Inr _, w1) \<Rightarrow>
                          (WriteHeader 200 new_response, w1,
                           \<lambda>w. snd (relay_DeleteObject (d_s3 d) (ie_InputRef event) w)))))"

text \<open>The counter of synchronous jobs in progress, an atomic.Int32.\<close>

definition sync_busy :: "32 word \<Rightarrow> bool" where
  "sync_busy syncPriority \<longleftrightarrow> sint syncPriority > 0"

definition ServeHTTP ::
    "Dispatcher \<Rightarrow> time \<Rightarrow> 32 word \<Rightarrow> Request \<Rightarrow> World \<Rightarrow> Response \<times> World \<times> (World \<Rightarrow> World)" where
  "ServeHTTP d now syncPriority r w =
     (if sync_busy syncPriority then (http_error 503 ''sync job in progress, retry later'' new_response, w, id)
      else serveHTTP d now r w)"

definition ServeHTTPSync ::
    "Dispatcher \<Rightarrow> time \<Rightarrow> 32 word \<Rightarrow> Request \<Rightarrow> World \<Rightarrow> 32 word \<times> Response \<times> World \<times> (World \<Rightarrow> World)" where
  "ServeHTTPSync d now syncPriority r w =
     (let during = syncPriority + 1; (resp, w1, bg) = serveHTTP d now r w in (during - 1, resp, w1, bg))"

end
