(* ===== verification/Relay_Facts.thy ===== *)
theory Relay_Facts
  imports Relay Jobs_Facts
begin

text \<open>
  What the dispatcher of the relay guarantees for any adapter that only talks HTTP: what a response
  code says of the stores, that a job to be retried still has its input, and where a result is lost.
\<close>

section \<open>The adapter's contract\<close>

definition http_only :: "World \<Rightarrow> World \<Rightarrow> bool" where
  "http_only w w' \<longleftrightarrow> w_redis w' = w_redis w \<and> w_objects w' = w_objects w \<and> w_topics w' = w_topics w \<and>
     w_published w' = w_published w \<and> w_writers w' = w_writers w \<and> w_relay_writers w' = w_relay_writers w \<and>
     w_outcomes w' = w_outcomes w"

lemma http_only_refl [simp]: "http_only w w"
  by (simp add: http_only_def)

lemma http_only_trans: "http_only w w1 \<Longrightarrow> http_only w1 w2 \<Longrightarrow> http_only w w2"
  by (simp add: http_only_def)

lemma http_only_views:
  assumes "http_only w w'"
  shows "object_at c w' = object_at c w" and "job_at w' = job_at w" and "gateway_ok c w' = gateway_ok c w"
    and "w_topics w' = w_topics w" and "w_outcomes w' = w_outcomes w"
proof -
  show "object_at c w' = object_at c w" using assms by (intro object_at_frame) (simp add: http_only_def)
  show "job_at w' = job_at w" using assms by (intro job_at_frame) (simp add: http_only_def)
  have "world_ok w' = world_ok w" using assms by (intro world_ok_frame) (simp_all add: http_only_def)
  then show "gateway_ok c w' = gateway_ok c w" by (simp add: gateway_ok_def)
qed (use assms in \<open>simp_all add: http_only_def\<close>)

locale model_adapter =
  fixes call :: Adapter
  assumes call_http: "call input w = (r, w') \<Longrightarrow> http_only w w'"

lemma http_do_only: "http_do q w = (a, w') \<Longrightarrow> http_only w w'"
  by (auto simp: http_do_def http_only_def Let_def split: list.splits)

lemma next_boundary_only: "next_boundary w = (b, w') \<Longrightarrow> http_only w w'"
  by (auto simp: next_boundary_def http_only_def split: list.splits)

interpretation mp: model_adapter "multipart_Call ic" for ic
proof
  fix input w r w'
  assume c: "multipart_Call ic input w = (r, w')"
  obtain b w1 where b: "next_boundary w = (b, w1)" by fastforce
  note o1 = next_boundary_only [OF b]
  show "http_only w w'"
  proof (cases "endpointURL ic input = []")
    case True
    then show ?thesis using c by (simp add: multipart_Call_def)
  next
    case False
    show ?thesis
    proof (cases "url_parse (endpointURL ic input)")
      case None
      then show ?thesis using c b False o1 by (simp add: multipart_Call_def)
    next
      case (Some u)
      obtain a w2 where a: "http_do (call_request ic input b u) w1 = (a, w2)" by fastforce
      have "w' = w2"
        using c b False Some a by (auto simp: multipart_Call_def split: sum.splits option.splits if_splits)
      then show ?thesis using http_only_trans [OF o1 http_do_only [OF a]] by simp
    qed
  qed
qed

section \<open>The calls of the pipeline\<close>

lemma relay_GetObject_world: "relay_GetObject c k w = (r, w') \<Longrightarrow> w' = tick w"
  by (auto simp: relay_GetObject_eq dest: s3_stream_world split: sum.splits prod.splits)

lemma PublishResultEvent_frame:
  assumes "gateway_ok c w" and "PublishResultEvent brokers topic ev w = (r, w')"
  shows "gateway_ok c w'" and "object_at c w' = object_at c w" and "job_at w' = job_at w"
    and "appended (is_ok r) (topic, re_JobID ev, marshal_result_event ev) (w_topics w) (w_topics w')"
proof -
  have ok: "world_ok w" using assms(1) by (simp add: gateway_ok_def)
  note P = PublishResultEvent_spec [OF ok assms(2)]
  show "gateway_ok c w'" using P(1) assms(1) by (simp add: gateway_ok_def)
  show "object_at c w' = object_at c w" by (rule object_at_frame [OF P(2)])
  show "job_at w' = job_at w" by (rule job_at_frame [OF P(3)])
  show "appended (is_ok r) (topic, re_JobID ev, marshal_result_event ev) (w_topics w) (w_topics w')" by (rule P(4))
qed

lemma relay_PutObject_frame:
  assumes "gateway_ok c w" and "relay_PutObject c k (data, None) n ct w = (r, w')"
  shows "gateway_ok c w'" and "changed_at (is_ok r) k (Some data) (object_at c w) (object_at c w')"
    and "job_at w' = job_at w" and "w_topics w' = w_topics w"
proof -
  have u: "s3_Upload c k (data, None) n ct w = (r, w')" using assms(2) by (simp add: relay_PutObject_eq)
  show "gateway_ok c w'" "changed_at (is_ok r) k (Some data) (object_at c w) (object_at c w')"
    using s3.upload [OF assms(1), of k data n ct r w'] u by (simp_all add: s3_store_def)
  show "job_at w' = job_at w" by (rule job_at_frame [OF s3_Upload_frame(1) [OF u]])
  show "w_topics w' = w_topics w" by (rule s3_Upload_frame(2) [OF u])
qed

lemma relay_DeleteObject_frame:
  assumes "gateway_ok c w" and "relay_DeleteObject c k w = (r, w')"
  shows "gateway_ok c w'" and "changed_at (is_ok r) k None (object_at c w) (object_at c w')"
    and "job_at w' = job_at w" and "w_topics w' = w_topics w"
proof -
  have u: "s3_DeleteObject c k w = (r, w')" using assms(2) by (simp add: relay_DeleteObject_eq)
  show "gateway_ok c w'" "changed_at (is_ok r) k None (object_at c w) (object_at c w')"
    using s3.remove [OF assms(1), of k r w'] u by (simp_all add: s3_store_def)
  show "job_at w' = job_at w" by (rule job_at_frame [OF s3_DeleteObject_frame(1) [OF u]])
  show "w_topics w' = w_topics w" by (rule s3_DeleteObject_frame(2) [OF u])
qed

text \<open>The calls that succeed.\<close>

lemma encryptStream_no_error:
  assumes "length key = 32"
  shows "snd (encryptStream key (Some pre) (data, None)) = None"
  using assms gcm.encrypt_no_error [of key pre 0 data]
  by (auto simp: encryptStream_def aes_key_ok_def Let_def split: prod.splits)

lemma s3_Upload_done:
  assumes "key_usable (s3_encKey c)" and "w_outcomes w = [] \<or> hd (w_outcomes w) = Done"
    and "s3_Upload c k (data, None) n ct w = (r, w')"
  shows "r = Inr ()" and "w_outcomes w' = tl (w_outcomes w)"
proof -
  obtain rnd w1 where r: "(if s3_encKey c = None then ([], w) else next_rand w) = (rnd, w1)" by fastforce
  have o1: "w_outcomes w1 = w_outcomes w" using r by (auto simp: next_rand_def split: if_splits list.splits)
  have n: "attempt eff w1 = (True, eff (tick w1))" for eff
    by (rule attempt_done [OF next_outcome_done]) (use assms(2) o1 in simp)
  have e: "snd (Encrypt (s3_encKey c) (Some rnd) (data, None)) = None"
    using assms(1) encryptStream_no_error
    by (cases "s3_encKey c") (simp_all add: Encrypt_def key_usable_def)
  show "r = Inr ()" "w_outcomes w' = tl (w_outcomes w)"
    using assms(3) r e n o1 by (auto simp: s3_Upload_def put_object_def tick_def)
qed

lemma PublishResultEvent_outcome:
  assumes "PublishResultEvent brokers topic ev w = (r, w')"
  shows "w_outcomes w = [] \<or> hd (w_outcomes w) = Done \<Longrightarrow> r = Inr ()"
    and "w_outcomes w = Lost # os \<Longrightarrow> w_topics w' = w_topics w \<and> w_outcomes w' = os"
    and "w_outcomes w' = tl (w_outcomes w)"
  using assms
  by (auto simp: PublishResultEvent_def WriteMessages_def Let_def attempt_def next_outcome_def
      split: prod.splits if_splits outcome.splits list.splits)

section \<open>The pipeline\<close>

text \<open>The two ways a job can end, and what an error leaves.\<close>

definition stored_result :: "Dispatcher \<Rightarrow> time \<Rightarrow> InputEvent \<Rightarrow> World \<Rightarrow> World \<Rightarrow> bool" where
  "stored_result d now event w w' \<longleftrightarrow>
     (\<exists>result. object_at (d_s3 d) w' = (object_at (d_s3 d) w)(result_key event \<mapsto> result)) \<and>
     appended False (d_resultTopic d, ie_JobID event, marshal_result_event (completed_event event now))
       (w_topics w) (w_topics w')"

definition published_failure :: "Dispatcher \<Rightarrow> time \<Rightarrow> InputEvent \<Rightarrow> World \<Rightarrow> World \<Rightarrow> bool" where
  "published_failure d now event w w' \<longleftrightarrow>
     (\<exists>msg. w_topics w' = w_topics w @
        [(d_resultTopic d, ie_JobID event, marshal_result_event (failure_event event msg now))]) \<and>
     changed_at False (ie_InputRef event) None (object_at (d_s3 d) w) (object_at (d_s3 d) w')"

definition left_for_retry :: "Dispatcher \<Rightarrow> time \<Rightarrow> InputEvent \<Rightarrow> World \<Rightarrow> World \<Rightarrow> bool" where
  "left_for_retry d now event w w' \<longleftrightarrow>
     (\<forall>k. k \<noteq> result_key event \<longrightarrow> object_at (d_s3 d) w' k = object_at (d_s3 d) w k) \<and>
     (\<exists>msg. appended False (d_resultTopic d, ie_JobID event, marshal_result_event (failure_event event msg now))
        (w_topics w) (w_topics w'))"

context model_adapter
begin

lemma process_cases:
  assumes ok: "gateway_ok c w" and p: "process (NewDispatcher call c brokers topic) now event w = (res, w')"
  shows "gateway_ok c w' \<and> job_at w' = job_at w \<and>
    (if is_ok res then stored_result (NewDispatcher call c brokers topic) now event w w' \<or>
         published_failure (NewDispatcher call c brokers topic) now event w w'
     else left_for_retry (NewDispatcher call c brokers topic) now event w w')"
proof -
  let ?d = "NewDispatcher call c brokers topic"
  have d: "d_s3 ?d = c" "d_adapter ?d = call" "d_resultTopic ?d = topic" "d_brokers ?d = brokers"
    by (simp_all add: NewDispatcher_def)
  obtain g w1 where g: "relay_GetObject c (ie_InputRef event) w = (g, w1)" by fastforce
  have w1: "w1 = tick w" by (rule relay_GetObject_world [OF g])
  have ok1: "gateway_ok c w1" using ok w1 by simp
  show ?thesis
  proof (cases g)
    case (Inl e)
    then have "res = Inl (InputUnavailable e)" "w' = w1" using p g d by (simp_all add: process_def)
    then show ?thesis using ok1 w1 d by (auto simp: left_for_retry_def appended_def)
  next
    case (Inr ob)
    obtain cr w2 where cr: "call (call_input event ob) w1 = (cr, w2)" by fastforce
    note H = http_only_views [OF call_http [OF cr]]
    have ok2: "gateway_ok c w2" using ok1 H(3) by simp
    have same: "object_at c w2 = object_at c w" "job_at w2 = job_at w" "w_topics w2 = w_topics w"
      using H w1 by simp_all
    show ?thesis
    proof (cases cr)
      case (Inl ce)
      let ?ev = "failure_event event (''inference: '' @ call_error_text ce) now"
      obtain pr w3 where pr: "PublishResultEvent brokers topic ?ev w2 = (pr, w3)" by fastforce
      note P = PublishResultEvent_frame [OF ok2 pr]
      have id: "re_JobID ?ev = ie_JobID event" by (simp add: failure_event_def)
      show ?thesis
      proof (cases pr)
        case (Inl e)
        then have "res = Inl (FailureNotPublished e)" "w' = w3"
          using p g d Inr cr \<open>cr = Inl ce\<close> pr by (simp_all add: process_def publishFailure_def)
        then show ?thesis
          using P same d Inl id by (auto simp: left_for_retry_def appended_def)
      next
        case (Inr u)
        obtain dr w4 where dr: "relay_DeleteObject c (ie_InputRef event) w3 = (dr, w4)" by fastforce
        have "res = Inr ()" "w' = w4"
          using p g d \<open>g = Inr ob\<close> cr \<open>cr = Inl ce\<close> pr Inr dr by (simp_all add: process_def publishFailure_def)
        then show ?thesis
          using P same d Inr id relay_DeleteObject_frame [OF P(1) dr]
          by (auto simp: published_failure_def changed_at_def)
      qed
    next
      case (Inr result)
      obtain ur w3 where ur: "relay_PutObject c (result_key event) (result, None) (int (length result)) ''application/json'' w2 = (ur, w3)"
        by fastforce
      note U = relay_PutObject_frame [OF ok2 ur]
      show ?thesis
      proof (cases ur)
        case (Inl e)
        then have "res = Inl (ResultNotStored e)" "w' = w3"
          using p g d \<open>g = Inr ob\<close> cr \<open>cr = Inr result\<close> ur by (simp_all add: process_def)
        then show ?thesis
          using U same d Inl by (auto simp: left_for_retry_def appended_def dest: changed_at_other)
      next
        case (Inr u)
        obtain pr w4 where pr: "PublishResultEvent brokers topic (completed_event event now) w3 = (pr, w4)" by fastforce
        note P = PublishResultEvent_frame [OF U(1) pr]
        have "res = Inr ()" "w' = w4"
          using p g d \<open>g = Inr ob\<close> cr \<open>cr = Inr result\<close> ur Inr pr by (simp_all add: process_def)
        moreover have "re_JobID (completed_event event now) = ie_JobID event" by (simp add: completed_event_def)
        ultimately show ?thesis
          using P U same d Inr by (auto simp: stored_result_def appended_def)
      qed
    qed
  qed
qed

text \<open>When the first two calls of the pipeline succeed and the model answers.\<close>

lemma process_result:
  assumes ok: "gateway_ok c w" and o: "w_outcomes w = [] \<or> (\<exists>os. w_outcomes w = Done # Done # os)"
    and g: "relay_GetObject c (ie_InputRef event) w = (Inr ob, tick w)"
    and m: "call (call_input event ob) (tick w) = (Inr result, w2)"
  obtains w3 where "gateway_ok c w3" "object_at c w3 = (object_at c w)(result_key event \<mapsto> result)"
    "job_at w3 = job_at w" "w_topics w3 = w_topics w" "w_outcomes w3 = tl (tl (w_outcomes w))"
    "process (NewDispatcher call c brokers topic) now event w =
       (Inr (), snd (PublishResultEvent brokers topic (completed_event event now) w3))"
proof -
  note H = http_only_views [OF call_http [OF m]]
  have ok2: "gateway_ok c w2" using ok H(3) by simp
  have o2: "w_outcomes w2 = tl (w_outcomes w)" using H(5) by (simp add: tick_def)
  obtain ur w3 where ur: "relay_PutObject c (result_key event) (result, None) (int (length result)) ''application/json'' w2 = (ur, w3)"
    by fastforce
  have u: "s3_Upload c (result_key event) (result, None) (int (length result)) ''application/json'' w2 = (ur, w3)"
    using ur by (simp add: relay_PutObject_eq)
  have k: "key_usable (s3_encKey c)" using ok by (simp add: gateway_ok_def)
  have "w_outcomes w2 = [] \<or> hd (w_outcomes w2) = Done" using o o2 by auto
  note D = s3_Upload_done [OF k this u]
  note U = relay_PutObject_frame [OF ok2 ur]
  show ?thesis
  proof (rule that)
    show "gateway_ok c w3" by (rule U(1))
    show "object_at c w3 = (object_at c w)(result_key event \<mapsto> result)" using U(2) D(1) H(1) by simp
    show "job_at w3 = job_at w" using U(3) H(2) by simp
    show "w_topics w3 = w_topics w" using U(4) H(4) by simp
    show "w_outcomes w3 = tl (tl (w_outcomes w))" using D(2) o2 by simp
    show "process (NewDispatcher call c brokers topic) now event w =
       (Inr (), snd (PublishResultEvent brokers topic (completed_event event now) w3))"
      using g m ur D(1) by (simp add: process_def NewDispatcher_def)
  qed
qed

end

section \<open>Requests\<close>

lemma http_error_status [simp]: "rs_Status (http_error code msg new_response) = Some code"
  by (simp add: http_error_def)

lemma multipart_Call_answer:
  assumes "endpointURL ic input \<noteq> []" and "url_parse (endpointURL ic input) = Some u" and "w_answers w = Inr resp # as"
    and "snd (hr_Body resp) = None" and "200 \<le> hr_Status resp" and "hr_Status resp < 300"
  shows "fst (multipart_Call ic input w) = Inr (fst (hr_Body resp))"
proof -
  obtain b w1 where b: "next_boundary w = (b, w1)" by fastforce
  have a: "w_answers w1 = Inr resp # as" using b assms(3) by (auto simp: next_boundary_def split: list.splits)
  show ?thesis using assms b a by (simp add: multipart_Call_def http_do_def Let_def)
qed

abbreviation relay_dispatcher :: "InferenceConfig \<Rightarrow> S3Client \<Rightarrow> string list \<Rightarrow> string \<Rightarrow> Dispatcher" where
  "relay_dispatcher ic c brokers topic \<equiv> NewDispatcher (multipart_Call ic) c brokers topic"


text \<open>C12: any other answer leaves the job to be tried again: on 500, which Kafka retries, every object but
  possibly the job's own result is as before, so the input is still there, and no record has
  changed; on 400 and 405 nothing has happened at all; and no goroutine is left that deletes
  anything.\<close>

theorem serveHTTP_retry:
  assumes "gateway_ok c w" and "serveHTTP (relay_dispatcher ic c brokers topic) now r w = (resp, w', bg)"
    and "final_status resp \<noteq> 200"
  shows "bg = id \<and> job_at w' = job_at w \<and>
    (final_status resp \<in> {400, 405} \<and> w' = w \<or>
     final_status resp = 500 \<and> (\<exists>event. decodeInputEvent r = Some event \<and>
       left_for_retry (relay_dispatcher ic c brokers topic) now event w w'))"
proof (cases "\<exists>event. rq_Method r = ''POST'' \<and> decodeInputEvent r = Some event \<and> ie_JobID event \<noteq> []")
  case False
  then show ?thesis using assms(2) by (auto simp: serveHTTP_def final_status_def split: if_splits option.splits)
next
  case True
  then obtain event where e: "rq_Method r = ''POST''" "decodeInputEvent r = Some event" "ie_JobID event \<noteq> []" by blast
  obtain res w1 where p: "process (relay_dispatcher ic c brokers topic) now event w = (res, w1)" by fastforce
  have s: "serveHTTP (relay_dispatcher ic c brokers topic) now r w =
      (case res of Inl _ \<Rightarrow> (http_error 500 ''transient error'' new_response, w1, id)
       | Inr _ \<Rightarrow> (WriteHeader 200 new_response, w1,
           \<lambda>w. snd (relay_DeleteObject (d_s3 (relay_dispatcher ic c brokers topic)) (ie_InputRef event) w)))"
    using e p by (simp add: serveHTTP_def split: sum.split)
  have "\<not> is_ok res"
  proof (cases res)
    case (Inr u)
    then have "final_status resp = 200" using s assms(2) by (auto simp: final_status_def)
    then show ?thesis using assms(3) by simp
  qed simp
  then obtain pe where "res = Inl pe" by (cases res) auto
  with s assms(2) have "resp = http_error 500 ''transient error'' new_response" "w' = w1" "bg = id" by auto
  then show ?thesis
    using mp.process_cases [OF assms(1) p] \<open>\<not> is_ok res\<close> e(2) by (auto simp: final_status_def)
qed

text \<open>A result whose announcement is lost is lost to the client: the relay answers 200, so Kafka does
  not deliver the event again, nothing has been published, the job record has not changed, and the
  input is deleted; only the result object, of which nobody knows, is left.\<close>

theorem relay_drops_result:
  assumes "gateway_ok c w" and "w_outcomes w = [Done, Done, Lost]"
    and "rq_Method r = ''POST''" and "decodeInputEvent r = Some event" and "ie_JobID event \<noteq> []"
    and "relay_GetObject c (ie_InputRef event) w = (Inr ob, tick w)"
    and "fst (multipart_Call ic (call_input event ob) (tick w)) = Inr result"
    and "serveHTTP (relay_dispatcher ic c brokers topic) now r w = (resp, w', bg)"
    and "ie_InputRef event \<noteq> result_key event"
  shows "final_status resp = 200 \<and> w_topics (bg w') = w_topics w \<and> job_at (bg w') = job_at w \<and>
    object_at c (bg w') = (object_at c w)(result_key event \<mapsto> result, ie_InputRef event := None)"
proof -
  obtain w2 where m: "multipart_Call ic (call_input event ob) (tick w) = (Inr result, w2)"
    using assms(7) by (metis prod.collapse)
  have o: "w_outcomes w = [] \<or> (\<exists>os. w_outcomes w = Done # Done # os)" using assms(2) by simp
  obtain w3 where w3: "gateway_ok c w3" "object_at c w3 = (object_at c w)(result_key event \<mapsto> result)"
    "job_at w3 = job_at w" "w_topics w3 = w_topics w" "w_outcomes w3 = tl (tl (w_outcomes w))"
    "process (relay_dispatcher ic c brokers topic) now event w =
       (Inr (), snd (PublishResultEvent brokers topic (completed_event event now) w3))"
    by (rule mp.process_result [OF assms(1) o assms(6) m])
  obtain pr w4 where pr: "PublishResultEvent brokers topic (completed_event event now) w3 = (pr, w4)" by fastforce
  note P = PublishResultEvent_frame [OF w3(1) pr]
  have l: "w_topics w4 = w_topics w \<and> w_outcomes w4 = []"
    using PublishResultEvent_outcome(2) [OF pr, of "[]"] w3(4,5) assms(2) by simp
  have s: "resp = WriteHeader 200 new_response" "w' = w4"
      "bg = (\<lambda>w. snd (relay_DeleteObject c (ie_InputRef event) w))"
    using assms(3,4,5,8) w3(6) pr by (auto simp: serveHTTP_def NewDispatcher_def)
  obtain dr w5 where d: "relay_DeleteObject c (ie_InputRef event) w4 = (dr, w5)" by fastforce
  have "dr = Inr ()"
    using s3_DeleteObject_done [OF next_outcome_done, of w4 c "ie_InputRef event" dr w5] l d
    by (simp add: relay_DeleteObject_eq)
  then show ?thesis
    using relay_DeleteObject_frame [OF P(1) d] P l w3 s d by (simp add: final_status_def)
qed

text \<open>An event that is delivered again after its input was deleted is never accepted: the relay
  answers 500 each time, so Kafka keeps delivering it.\<close>

theorem relay_redelivery:
  assumes "rq_Method r = ''POST''" and "decodeInputEvent r = Some event" and "ie_JobID event \<noteq> []"
    and "map_of (w_objects w) (s3_bucket c, ie_InputRef event) = None"
  shows "\<exists>w'. serveHTTP (relay_dispatcher ic c brokers topic) now r w =
      (http_error 500 ''transient error'' new_response, w', id) \<and> w_objects w' = w_objects w"
proof -
  obtain e where "relay_GetObject c (ie_InputRef event) w = (Inl e, tick w)"
    using assms(4) by (cases "case w_outcomes w of [] \<Rightarrow> Done | c # _ \<Rightarrow> c")
      (auto simp: relay_GetObject_eq s3_stream_def next_outcome_eq)
  then show ?thesis using assms(1-3) by (simp add: serveHTTP_def process_def NewDispatcher_def)
qed

section \<open>At work\<close>

text \<open>The request Kafka's HTTP source delivers a message with.\<close>

definition kafka_request :: "string \<Rightarrow> Request" where
  "kafka_request payload = \<lparr>rq_Method = ''POST'', rq_Path = ''/'', rq_RawQuery = [], rq_Query = [],
     rq_Headers = [(''Content-Type'', [''application/json''])], rq_Body = (payload, None), rq_form = Inl []\<rparr>"

lemma canonical_content_type: "canonical_header ''Content-Type'' = ''Content-Type''"
  by code_simp

lemma decode_kafka_request:
  assumes "length payload \<le> 2 ^ 20"
  shows "decodeInputEvent (kafka_request payload) = unmarshal_input_event payload"
proof -
  have "read_limited (2 ^ 20) (payload, None) = Inr payload"
    using assms by (auto simp: read_limited_def)
  moreover have "\<not> has_prefix (header_get (kafka_request payload) ''Content-Type'') ''application/cloudevents+json''"
    by (simp add: header_get_def canonical_content_type kafka_request_def first_value_def has_prefix_def)
  ultimately show ?thesis
    by (simp add: decodeInputEvent_def unmarshal_input_event_def kafka_request_def)
qed

definition demo_model :: InferenceConfig where
  "demo_model = \<lparr>inf_BaseURL = ''http://127.0.0.1:9000/'', inf_APIKey = [], inf_ExtraFields = [(''beam'', ''1'')]\<rparr>"

definition demo_delivery :: Request where
  "demo_delivery = kafka_request (marshal_input_event demo_input_event)"

definition demo_event :: InputEvent where
  "demo_event = sorted_params demo_input_event"

lemma demo_delivery_decodes: "rq_Method demo_delivery = ''POST''" "decodeInputEvent demo_delivery = Some demo_event"
  "ie_JobID demo_event = ''j1''" "ie_InputRef demo_event = ''j1/input.wav''"
proof -
  have "length (marshal_input_event demo_input_event) \<le> 300" by code_simp
  then have "length (marshal_input_event demo_input_event) \<le> 2 ^ 20" by simp
  then show "decodeInputEvent demo_delivery = Some demo_event"
    unfolding demo_delivery_def demo_event_def
    using decode_kafka_request unmarshal_marshal_input_event [OF demo_ok(2)] by metis
  show "rq_Method demo_delivery = ''POST''" by (simp add: demo_delivery_def kafka_request_def)
  show "ie_JobID demo_event = ''j1''" "ie_InputRef demo_event = ''j1/input.wav''"
    unfolding demo_event_def sorted_params_simps by (simp_all add: demo_input_event_def)
qed

text \<open>A stored input, a pending job and a model that answers.\<close>

definition demo_pending :: "outcome list \<Rightarrow> World" where
  "demo_pending os = (save_effect 0 demo_job
     (put_object demo_s3 ''j1/input.wav'' \<lparr>so_Body = ''RIFF'', so_ContentType = ''audio/wav''\<rparr> empty_world))
     \<lparr>w_outcomes := os, w_answers := [Inr \<lparr>hr_Status = 200, hr_Headers = [], hr_Body = (''{}'', None)\<rparr>]\<rparr>"

lemma save_effect_objects: "w_objects (save_effect ttl j w) = w_objects w"
  using redis_only_save by (simp add: redis_only_def)

lemma demo_pending_facts:
  "gateway_ok demo_s3 (demo_pending os)" "w_outcomes (demo_pending os) = os"
  "map_of (w_objects (demo_pending os)) (''b'', ''j1/input.wav'') = Some \<lparr>so_Body = ''RIFF'', so_ContentType = ''audio/wav''\<rparr>"
  "job_at (demo_pending os) ''j1'' = Some demo_job"
  "w_answers (demo_pending os) = [Inr \<lparr>hr_Status = 200, hr_Headers = [], hr_Body = (''{}'', None)\<rparr>]"
proof -
  let ?w = "put_object demo_s3 ''j1/input.wav'' \<lparr>so_Body = ''RIFF'', so_ContentType = ''audio/wav''\<rparr> empty_world"
  let ?v = "save_effect 0 demo_job ?w"
  have k: "world_ok empty_world" "key_usable (s3_encKey demo_s3)" using world_ok_empty by (simp_all add: gateway_ok_def)
  then have "world_ok ?w" using world_ok_frame [of ?w empty_world] by simp
  then have v: "world_ok ?v" by (rule world_ok_save) (rule demo_ok(1))
  have "world_ok (demo_pending os) = world_ok ?v" by (rule world_ok_frame) (simp_all add: demo_pending_def)
  then show "gateway_ok demo_s3 (demo_pending os)" using v k by (simp add: gateway_ok_def)
  have "job_at (demo_pending os) = job_at ?v" by (rule job_at_frame) (simp add: demo_pending_def)
  then show "job_at (demo_pending os) ''j1'' = Some demo_job"
    using job_at_save [OF demo_ok(1)] by (simp add: demo_job_def)
  show "map_of (w_objects (demo_pending os)) (''b'', ''j1/input.wav'') = Some \<lparr>so_Body = ''RIFF'', so_ContentType = ''audio/wav''\<rparr>"
    by (simp add: demo_pending_def save_effect_objects put_object_def demo_s3_def)
qed (simp_all add: demo_pending_def)

lemma demo_pending_input:
  assumes "os = [] \<or> hd os = Done"
  shows "relay_GetObject demo_s3 (ie_InputRef demo_event) (demo_pending os) =
    (Inr ((''RIFF'', None), - 1, ''audio/wav''), tick (demo_pending os))"
proof -
  have "next_outcome (demo_pending os) = (Done, tick (demo_pending os))"
    using assms by (intro next_outcome_done) (simp add: demo_pending_facts)
  moreover have "s3_bucket demo_s3 = ''b''" "s3_encKey demo_s3 = None" by (simp_all add: demo_s3_def)
  ultimately show ?thesis
    by (simp add: relay_GetObject_eq s3_stream_def demo_delivery_decodes demo_pending_facts Decrypt_def)
qed

lemma demo_pending_model:
  "fst (multipart_Call demo_model (call_input demo_event ob) (tick (demo_pending os))) = Inr ''{}''"
proof -
  have e: "endpointURL demo_model (call_input demo_event ob) = ''http://127.0.0.1:9000/v1/audio''"
    by (simp add: endpointURL_def demo_model_def call_input_def demo_event_def demo_input_event_def trim_right_def)
  have "\<not> Option.is_none (url_parse ''http://127.0.0.1:9000/v1/audio'')" by code_simp
  then obtain u where u: "url_parse (endpointURL demo_model (call_input demo_event ob)) = Some u"
    unfolding e by (auto simp: Option.is_none_def)
  show ?thesis
    using multipart_Call_answer [OF _ u, of "tick (demo_pending os)" "\<lparr>hr_Status = 200, hr_Headers = [], hr_Body = (''{}'', None)\<rparr>" "[]"]
    by (simp add: e demo_pending_facts)
qed

lemma demo_run:
  assumes "os = [] \<or> os = [Done, Done, Lost]"
  obtains resp w' bg where
    "serveHTTP (relay_dispatcher demo_model demo_s3 [] ''t'') demo_now demo_delivery (demo_pending os) = (resp, w', bg)"
    "final_status resp = 200"
proof -
  obtain w2 where m: "multipart_Call demo_model (call_input demo_event ((''RIFF'', None), - 1, ''audio/wav''))
      (tick (demo_pending os)) = (Inr ''{}'', w2)"
    using demo_pending_model by (metis prod.collapse)
  have o: "w_outcomes (demo_pending os) = [] \<or> (\<exists>ss. w_outcomes (demo_pending os) = Done # Done # ss)"
    using assms by (auto simp: demo_pending_facts)
  have h: "os = [] \<or> hd os = Done" using assms by auto
  obtain w3 where "process (relay_dispatcher demo_model demo_s3 [] ''t'') demo_now demo_event (demo_pending os) =
       (Inr (), snd (PublishResultEvent [] ''t'' (completed_event demo_event demo_now) w3))"
    by (rule mp.process_result [OF demo_pending_facts(1) o demo_pending_input [OF h] m])
  then show ?thesis
    using that demo_delivery_decodes by (simp add: serveHTTP_def final_status_def)
qed


lemma serveHTTP_retry_witness:
  "\<exists>resp w' bg. serveHTTP (relay_dispatcher demo_model demo_s3 [] ''t'') demo_now demo_delivery (demo_pending [Lost]) = (resp, w', bg) \<and>
     bg = id"
proof -
  obtain resp w' bg where r:
    "serveHTTP (relay_dispatcher demo_model demo_s3 [] ''t'') demo_now demo_delivery (demo_pending [Lost]) = (resp, w', bg)"
    by (metis prod.collapse)
  have "final_status resp \<noteq> 200"
    using r demo_delivery_decodes demo_pending_facts
    by (auto simp: serveHTTP_def process_def NewDispatcher_def relay_GetObject_eq s3_stream_def next_outcome_eq final_status_def)
  then show ?thesis using serveHTTP_retry [OF demo_pending_facts(1) r] r by blast
qed

lemma relay_drops_result_witness:
  "\<exists>resp w' bg. serveHTTP (relay_dispatcher demo_model demo_s3 [] ''t'') demo_now demo_delivery (demo_pending [Done, Done, Lost]) = (resp, w', bg) \<and>
     final_status resp = 200 \<and> job_at (bg w') ''j1'' = Some demo_job"
proof -
  obtain resp w' bg where r:
    "serveHTTP (relay_dispatcher demo_model demo_s3 [] ''t'') demo_now demo_delivery (demo_pending [Done, Done, Lost]) = (resp, w', bg)"
    by (metis prod.collapse)
  have "ie_JobID demo_event \<noteq> []" "ie_InputRef demo_event \<noteq> result_key demo_event"
    by (simp_all add: demo_delivery_decodes result_key_def)
  from relay_drops_result [OF demo_pending_facts(1,2) demo_delivery_decodes(1,2) this(1) demo_pending_input demo_pending_model r this(2)]
  show ?thesis using r by (auto simp: demo_pending_facts)
qed

lemma relay_redelivery_witness:
  "\<exists>w'. serveHTTP (relay_dispatcher demo_model demo_s3 [] ''t'') demo_now demo_delivery empty_world =
      (http_error 500 ''transient error'' new_response, w', id)"
proof -
  have "ie_JobID demo_event \<noteq> []" by (simp add: demo_delivery_decodes)
  from relay_redelivery [OF demo_delivery_decodes(1,2) this, of empty_world demo_s3 demo_model "[]" "''t''" demo_now] show ?thesis
    by (auto simp: empty_world_def)
qed

end
