(* ===== verification/Pod.thy ===== *)
theory Pod
  imports Relay_Facts
begin

text \<open>
  The handlers of one relay process run concurrently and share the counter of synchronous jobs.  A
  step is one atomic access to it: ServeHTTPSync adds one when it starts and subtracts one when it
  returns, ServeHTTP loads it once to decide whether to go on.  Between its steps a handler does
  what serveHTTP does, which does not touch the counter.
\<close>

section \<open>Steps\<close>

record Pod =
  pod_sync :: "32 word"
  pod_sync_jobs :: "nat list"
  pod_async_jobs :: "nat list"

datatype pod_event = SyncBegin nat | SyncEnd nat | AsyncBegin nat | AsyncDefer | AsyncEnd nat

definition fresh_pod :: Pod where
  "fresh_pod = \<lparr>pod_sync = 0, pod_sync_jobs = [], pod_async_jobs = []\<rparr>"

inductive pod_step :: "Pod \<Rightarrow> pod_event \<Rightarrow> Pod \<Rightarrow> bool" where
  sync_begin: "i \<notin> set (pod_sync_jobs p) \<Longrightarrow>
     pod_step p (SyncBegin i) (p\<lparr>pod_sync := pod_sync p + 1, pod_sync_jobs := i # pod_sync_jobs p\<rparr>)"
| sync_end: "i \<in> set (pod_sync_jobs p) \<Longrightarrow>
     pod_step p (SyncEnd i) (p\<lparr>pod_sync := pod_sync p - 1, pod_sync_jobs := remove1 i (pod_sync_jobs p)\<rparr>)"
| async_begin: "\<not> sync_busy (pod_sync p) \<Longrightarrow> i \<notin> set (pod_async_jobs p) \<Longrightarrow>
     pod_step p (AsyncBegin i) (p\<lparr>pod_async_jobs := i # pod_async_jobs p\<rparr>)"
| async_defer: "sync_busy (pod_sync p) \<Longrightarrow> pod_step p AsyncDefer p"
| async_end: "i \<in> set (pod_async_jobs p) \<Longrightarrow>
     pod_step p (AsyncEnd i) (p\<lparr>pod_async_jobs := remove1 i (pod_async_jobs p)\<rparr>)"

inductive_cases AsyncBeginE: "pod_step p (AsyncBegin i) p'"

inductive_simps AsyncDefer_iff: "pod_step p AsyncDefer p'"

inductive pod_reachable :: "Pod \<Rightarrow> bool" where
  pod_start: "pod_reachable fresh_pod"
| pod_next: "pod_reachable p \<Longrightarrow> pod_step p e p' \<Longrightarrow> pod_reachable p'"

section \<open>The counter\<close>

text \<open>The counter is the number of synchronous jobs in progress, on the 32 bits it has.\<close>

definition pod_inv :: "Pod \<Rightarrow> bool" where
  "pod_inv p \<longleftrightarrow> pod_sync p = of_nat (length (pod_sync_jobs p)) \<and> distinct (pod_sync_jobs p) \<and> distinct (pod_async_jobs p)"

lemma pod_inv_step: "pod_step p e p' \<Longrightarrow> pod_inv p \<Longrightarrow> pod_inv p'"
proof (induction rule: pod_step.induct)
  case (sync_end i p)
  then obtain n where n: "length (pod_sync_jobs p) = Suc n" by (cases "pod_sync_jobs p") auto
  then show ?case using sync_end by (simp add: pod_inv_def length_remove1 distinct_remove1)
qed (simp_all add: pod_inv_def distinct_remove1)

lemma pod_inv_reachable: "pod_reachable p \<Longrightarrow> pod_inv p"
  by (induction rule: pod_reachable.induct) (simp add: pod_inv_def fresh_pod_def, rule pod_inv_step)

lemma sync_busy_count:
  assumes "n < 2 ^ 31"
  shows "sync_busy (of_nat n) \<longleftrightarrow> n > 0"
proof -
  have "uint (of_nat n :: 32 word) = int n" using assms by (simp add: uint_nat unat_of_nat)
  then have "sint (of_nat n :: 32 word) = int n"
    using assms by (simp add: sint_uint signed_take_bit_int_eq_self)
  then show ?thesis by (simp add: sync_busy_def)
qed

lemma serveHTTP_status:
  "serveHTTP d now r w = (resp, w', bg) \<Longrightarrow> final_status resp \<in> {200, 400, 405, 500}"
  by (auto simp: serveHTTP_def final_status_def split: if_splits option.splits prod.splits sum.splits)

text \<open>C13: in every state the handlers of a relay can reach the counter of synchronous jobs is exact, and
  with fewer than 2^31 of them an asynchronous event is deferred with 503, without an effect,
  exactly when a synchronous job is in progress.\<close>

theorem sync_priority:
  assumes "pod_reachable p" and "length (pod_sync_jobs p) < 2 ^ 31"
  shows "(final_status (fst (ServeHTTP d now (pod_sync p) r w)) = 503) = (pod_sync_jobs p \<noteq> []) \<and>
    (pod_sync_jobs p \<noteq> [] \<longrightarrow> snd (ServeHTTP d now (pod_sync p) r w) = (w, id)) \<and>
    (pod_sync_jobs p = [] \<longrightarrow> ServeHTTP d now (pod_sync p) r w = serveHTTP d now r w)"
proof -
  have c: "pod_sync p = of_nat (length (pod_sync_jobs p))"
    using pod_inv_reachable [OF assms(1)] by (simp add: pod_inv_def)
  have b: "sync_busy (pod_sync p) \<longleftrightarrow> pod_sync_jobs p \<noteq> []"
    using sync_busy_count [OF assms(2)] unfolding c by auto
  obtain resp w' bg where s: "serveHTTP d now r w = (resp, w', bg)" by (metis prod.collapse)
  show ?thesis
    using b serveHTTP_status [OF s] s by (auto simp: ServeHTTP_def final_status_def)
qed

text \<open>No asynchronous job is admitted beside a synchronous one, and none is put off without one.\<close>

lemma async_admitted:
  assumes "pod_reachable p" and "length (pod_sync_jobs p) < 2 ^ 31"
  shows "pod_step p (AsyncBegin i) p' \<Longrightarrow> pod_sync_jobs p = []" and "pod_step p AsyncDefer p \<longleftrightarrow> pod_sync_jobs p \<noteq> []"
proof -
  have "sync_busy (pod_sync p) \<longleftrightarrow> pod_sync_jobs p \<noteq> []"
    using sync_busy_count [OF assms(2)] pod_inv_reachable [OF assms(1)] by (auto simp: pod_inv_def)
  then show "pod_step p (AsyncBegin i) p' \<Longrightarrow> pod_sync_jobs p = []" "pod_step p AsyncDefer p \<longleftrightarrow> pod_sync_jobs p \<noteq> []"
    by (auto simp: AsyncDefer_iff elim: AsyncBeginE)
qed

text \<open>The counter is back where it was after a synchronous job, whatever it answered.\<close>

lemma ServeHTTPSync_counter: "fst (ServeHTTPSync d now n r w) = n"
  by (simp add: ServeHTTPSync_def Let_def split: prod.split)

lemma sync_priority_witness:
  "fst (snd (ServeHTTP (relay_dispatcher demo_model demo_s3 [] ''t'') demo_now 1 demo_delivery empty_world)) = empty_world"
proof -
  let ?p = "fresh_pod\<lparr>pod_sync := 1, pod_sync_jobs := [7]\<rparr>"
  have "pod_step fresh_pod (SyncBegin 7) ?p"
    using sync_begin [of 7 fresh_pod] by (simp add: fresh_pod_def)
  then have "pod_reachable ?p" by (rule pod_next [OF pod_start])
  from sync_priority [OF this, of "relay_dispatcher demo_model demo_s3 [] ''t''" demo_now demo_delivery empty_world]
  show ?thesis by simp
qed

end
