(* ===== verification/Sync.thy ===== *)
theory Sync
  imports Wire Interfaces Jobs
begin

text \<open>
  internal/handler/sync.go: the OpenAI compatible endpoints.  A multipart request to a service with
  a sync topic goes over Kafka: the handler submits a job, waits for its result with the connection
  open, and answers it.  Every other request is passed on to the inference backend, JSON requests
  for LLM services through the LLM proxy.

  The wait is a list of events: a tick of the keepalive timer, or the return of the subscription's
  Wait, whose argument tells whether it was notified.  What the other processes do meanwhile is a
  function of the state.
\<close>

definition reservedSyncFields :: "string list" where
  "reservedSyncFields = [''model'', ''file'']"

text \<open>As for every handler, the answer comes with the goroutine left behind.\<close>

type_synonym llm_handler = "Request \<Rightarrow> Def \<Rightarrow> string \<Rightarrow> string \<Rightarrow> World \<Rightarrow> Response \<times> World \<times> (World \<Rightarrow> World)"

record SyncHandler =
  sh_registry :: Registry
  sh_s3 :: "World s3Store"
  sh_redis :: "World jobStore"
  sh_producer :: "World eventProducer"
  sh_consumerHeader :: string
  sh_llm :: "llm_handler option"

definition NewSyncHandler ::
    "Registry \<Rightarrow> World s3Store \<Rightarrow> World jobStore \<Rightarrow> World eventProducer \<Rightarrow> string \<Rightarrow> llm_handler option \<Rightarrow> SyncHandler" where
  "NewSyncHandler registry s3 redis producer consumerHeader llm =
     \<lparr>sh_registry = registry, sh_s3 = s3, sh_redis = redis, sh_producer = producer,
      sh_consumerHeader = consumerHeader, sh_llm = llm\<rparr>"

section \<open>Direct proxy\<close>

text \<open>The upstream's headers are added to the response; of a body that breaks off, what came is written.\<close>

definition copy_response :: "HttpResponse \<Rightarrow> Response \<Rightarrow> Response" where
  "copy_response resp rs =
     write_body (fst (hr_Body resp))
       (WriteHeader (hr_Status resp)
         (foldl (\<lambda>rs (key, values). foldl (\<lambda>rs v. add_header key v rs) rs values) rs (hr_Headers resp)))"

definition upstream_request :: "Request \<Rightarrow> Def \<Rightarrow> reader \<Rightarrow> string \<Rightarrow> URL \<Rightarrow> HttpRequest" where
  "upstream_request r d body contentType u =
     \<lparr>hq_Method = ''POST'', hq_URL = url_string u,
      hq_Headers =
        set_headers (def_InferenceHeaders d)
          ((''Content-Type'', contentType) #
           (if header_get r ''Authorization'' \<noteq> [] then [(''Authorization'', header_get r ''Authorization'')] else [])),
      hq_Body = body\<rparr>"

definition proxyToInference :: "Request \<Rightarrow> Def \<Rightarrow> reader \<Rightarrow> string \<Rightarrow> World \<Rightarrow> Response \<times> World" where
  "proxyToInference r d body contentType w =
     (case url_parse (def_InferenceURL d) of
        None \<Rightarrow> (writeError 500 ''invalid inference_url configuration'' new_response, w)
      | Some base \<Rightarrow>
          (let target = base\<lparr>url_Path := rq_Path r, url_RawQuery := rq_RawQuery r\<rparr>
           in (case url_parse (url_string target) of
                 None \<Rightarrow> (writeError 500 ''failed to build upstream request'' new_response, w)
               | Some u \<Rightarrow>
                   (case http_do (upstream_request r d body contentType u) w of
                      (Inl e, w1) \<Rightarrow> (writeError 502 (''upstream error: '' @ e) new_response, w1)
                    | (Inr resp, w1) \<Rightarrow> (copy_response resp new_response, w1)))))"

definition reconstructMultipart :: "Form \<Rightarrow> World \<Rightarrow> (reader \<times> string) \<times> World" where
  "reconstructMultipart f w =
     (let (boundary, w1) = next_boundary w in (((form_text boundary f, None), form_content_type boundary), w1))"

section \<open>Over Kafka\<close>

definition sync_check :: "SyncHandler \<Rightarrow> Request \<Rightarrow> Form \<Rightarrow> Def \<Rightarrow> (int \<times> string) + FileHeader" where
  "sync_check h r f d =
     (case form_file f ''file'' of
        None \<Rightarrow> Inl (400, ''field 'file' is required'')
      | Some header \<Rightarrow>
          (case ValidateFileDef d (fh_Filename header) of
             Inl e \<Rightarrow> Inl (400, route_error_text e)
           | Inr _ \<Rightarrow> Inr header))"

definition sync_job :: "SyncHandler \<Rightarrow> Request \<Rightarrow> Def \<Rightarrow> string \<Rightarrow> string \<Rightarrow> time \<Rightarrow> Job" where
  "sync_job h r d jobID inputRef now =
     \<lparr>job_ID = jobID, job_ServiceType = def_Type d, job_Model = def_Model d, job_Status = Pending,
      job_InputRef = inputRef, job_ResultRef = [], job_CallbackURL = [],
      job_ConsumerName = (if sh_consumerHeader h \<noteq> [] then header_get r (sh_consumerHeader h) else []),
      job_Error = [], job_CreatedAt = now, job_UpdatedAt = now\<rparr>"

definition sync_event :: "Request \<Rightarrow> Form \<Rightarrow> Def \<Rightarrow> string \<Rightarrow> string \<Rightarrow> time \<Rightarrow> InputEvent" where
  "sync_event r f d jobID inputRef now =
     \<lparr>ie_JobID = jobID, ie_ServiceType = def_Type d, ie_Model = def_Model d, ie_InputRef = inputRef,
      ie_InferenceURL = rq_Path r, ie_Params = collect_params reservedSyncFields (fm_Value f), ie_CreatedAt = now\<rparr>"

text \<open>Up to the wait: an answer with the goroutine it leaves, or the subscription.\<close>

definition sync_enqueue ::
    "SyncHandler \<Rightarrow> Request \<Rightarrow> Form \<Rightarrow> Def \<Rightarrow> string \<Rightarrow> time \<Rightarrow> World \<Rightarrow>
     (Response \<times> (World \<Rightarrow> World) + JobDoneSub) \<times> World" where
  "sync_enqueue h r f d jobID now w =
     (case sync_check h r f d of
        Inl (code, msg) \<Rightarrow> (Inl (writeError code msg new_response, id), w)
      | Inr header \<Rightarrow>
          (let inputRef = input_ref jobID (fh_Filename header)
           in (case st_Upload (sh_s3 h) inputRef (fh_Data header, None) (int (length (fh_Data header))) (fh_ContentType header) w of
                 (Inl _, w1) \<Rightarrow> (Inl (writeError 500 ''failed to store file'' new_response, id), w1)
               | (Inr _, w1) \<Rightarrow>
                   (case js_SaveJob (sh_redis h) (sync_job h r d jobID inputRef now) w1 of
                      (Inl _, w2) \<Rightarrow> (Inl (writeError 500 ''failed to save job'' new_response, id), w2)
                    | (Inr _, w2) \<Rightarrow>
                        (let sub = js_SubscribeJobDone (sh_redis h) jobID w2
                         in (case ep_PublishInputEvent (sh_producer h) (def_SyncTopic d) (sync_event r f d jobID inputRef now) w2 of
                               (Inl _, w3) \<Rightarrow>
                                 (Inl (writeError 500 ''failed to enqueue job'' new_response,
                                    \<lambda>w. snd (js_DeleteJob (sh_redis h) jobID (snd (st_DeleteObject (sh_s3 h) inputRef w)))), w3)
                             | (Inr _, w3) \<Rightarrow> (Inr sub, w3)))))))"

datatype wait_event = Keepalive | WaitDone bool

definition commit :: "Response \<Rightarrow> Response" where
  "commit rs = (if rs_Status rs = None then WriteHeader 200 (content_type_json rs) else rs)"

definition keep_alive :: "Response \<Rightarrow> Response" where
  "keep_alive rs = write_body [CHR 0x0A] (commit rs)"

text \<open>The select loop: the response as far as it is written, and whether the job was announced done.  The
  events that are left when it stops play no part.\<close>

fun wait_loop :: "wait_event list \<Rightarrow> Response \<Rightarrow> Response \<times> bool option" where
  "wait_loop [] rs = (rs, None)"
| "wait_loop (WaitDone notified # es) rs =
     (if notified then (rs, Some True) else (writeError 504 ''timed out waiting for result'' rs, Some False))"
| "wait_loop (Keepalive # es) rs = wait_loop es (keep_alive rs)"

text \<open>After the wait.\<close>

definition sync_cleanup :: "SyncHandler \<Rightarrow> string \<Rightarrow> Job \<Rightarrow> World \<Rightarrow> World" where
  "sync_cleanup h jobID job w =
     (let w1 = (if job_ResultRef job \<noteq> [] then snd (st_DeleteObject (sh_s3 h) (job_ResultRef job) w) else w)
      in snd (js_DeleteJob (sh_redis h) jobID w1))"

definition sync_finish :: "SyncHandler \<Rightarrow> string \<Rightarrow> Response \<Rightarrow> World \<Rightarrow> Response \<times> World \<times> (World \<Rightarrow> World)" where
  "sync_finish h jobID rs w =
     (case js_GetJob (sh_redis h) jobID w of
        (Inl _, w1) \<Rightarrow> (writeError 500 ''failed to retrieve job'' rs, w1, id)
      | (Inr job, w1) \<Rightarrow>
          (if job_Status job = Failed then (writeError 422 (job_Error job) rs, w1, sync_cleanup h jobID job)
           else (case st_GetObject (sh_s3 h) (job_ResultRef job) w1 of
                   (Inl _, w2) \<Rightarrow> (writeError 500 ''failed to retrieve result'' rs, w2, sync_cleanup h jobID job)
                 | (Inr result, w2) \<Rightarrow> (write_body result (commit rs), w2, sync_cleanup h jobID job))))"

text \<open>With no event that ends the wait the handler does not return.\<close>

definition handleMultipartViaKafka ::
    "SyncHandler \<Rightarrow> Request \<Rightarrow> Form \<Rightarrow> Def \<Rightarrow> string \<Rightarrow> time \<Rightarrow> wait_event list \<Rightarrow> (World \<Rightarrow> World) \<Rightarrow> World \<Rightarrow>
     (Response \<times> World \<times> (World \<Rightarrow> World)) option" where
  "handleMultipartViaKafka h r f d jobID now events env w =
     (case sync_enqueue h r f d jobID now w of
        (Inl (resp, bg), w1) \<Rightarrow> Some (resp, w1, bg)
      | (Inr sub, w1) \<Rightarrow>
          (case wait_loop events new_response of
             (rs, None) \<Rightarrow> None
           | (rs, Some False) \<Rightarrow> Some (rs, env w1, id)
           | (rs, Some True) \<Rightarrow> Some (sync_finish h jobID rs (env w1))))"

section \<open>Requests\<close>

text \<open>The model member of a JSON body.\<close>

definition body_model :: "string \<Rightarrow> string option" where
  "body_model raw = (if raw = [] then Some [] else do { v \<leftarrow> json_parse raw; f \<leftarrow> obj_fields v; str_field ''model'' f })"

definition handleJSON :: "SyncHandler \<Rightarrow> Request \<Rightarrow> World \<Rightarrow> Response \<times> World \<times> (World \<Rightarrow> World)" where
  "handleJSON h r w =
     (case read_limited (2 ^ 20) (rq_Body r) of
        Inl e \<Rightarrow> (writeError 400 (''failed to read body: '' @ io_error_text e) new_response, w, id)
      | Inr raw \<Rightarrow>
          (case body_model raw of
             None \<Rightarrow> (writeError 400 ''invalid JSON body'' new_response, w, id)
           | Some model \<Rightarrow>
               (case RouteSync (sh_registry h) (rq_Path r) model of
                  Inl e \<Rightarrow> (writeError 400 (route_error_text e) new_response, w, id)
                | Inr d \<Rightarrow>
                    (let proxied = (let (resp, w1) = proxyToInference r d (raw, None) (header_get r ''Content-Type'') w
                                    in (resp, w1, id))
                     in (case sh_llm h of
                           Some llm \<Rightarrow>
                             if IsLLM d then
                               llm r d raw (if sh_consumerHeader h \<noteq> [] then header_get r (sh_consumerHeader h) else []) w
                             else proxied
                         | None \<Rightarrow> proxied)))))"

definition handleMultipart ::
    "SyncHandler \<Rightarrow> Request \<Rightarrow> string \<Rightarrow> time \<Rightarrow> wait_event list \<Rightarrow> (World \<Rightarrow> World) \<Rightarrow> World \<Rightarrow>
     (Response \<times> World \<times> (World \<Rightarrow> World)) option" where
  "handleMultipart h r jobID now events env w =
     (case parse_form None r of
        Inl e \<Rightarrow> Some (writeError 400 (''invalid multipart form: '' @ e) new_response, w, id)
      | Inr f \<Rightarrow>
          (case RouteSync (sh_registry h) (rq_Path r) (form_value r f ''model'') of
             Inl e \<Rightarrow> Some (writeError 400 (route_error_text e) new_response, w, id)
           | Inr d \<Rightarrow>
               if def_SyncTopic d \<noteq> [] then handleMultipartViaKafka h r f d jobID now events env w
               else (let ((body, contentType), w1) = reconstructMultipart f w;
                         (resp, w2) = proxyToInference r d body contentType w1
                     in Some (resp, w2, id))))"

definition Sync_ServeHTTP ::
    "SyncHandler \<Rightarrow> Request \<Rightarrow> string \<Rightarrow> time \<Rightarrow> wait_event list \<Rightarrow> (World \<Rightarrow> World) \<Rightarrow> World \<Rightarrow>
     (Response \<times> World \<times> (World \<Rightarrow> World)) option" where
  "Sync_ServeHTTP h r jobID now events env w =
     (if rq_Method r \<noteq> ''POST'' then Some (writeError 405 ''method not allowed'' new_response, w, id)
      else (let ct = media_type (header_get r ''Content-Type'')
            in if has_prefix ct ''multipart/form-data'' then handleMultipart h r jobID now events env w
               else if ct = ''application/json'' then Some (handleJSON h r w)
               else Some (writeError 415 ''Content-Type must be multipart/form-data or application/json'' new_response, w, id)))"

end
