(* ===== verification/Sync_Facts.thy ===== *)
theory Sync_Facts
  imports Sync Consumer_Facts Relay_Facts
begin

text \<open>
  The synchronous handler: what it has stored and published before it waits, that the announcement
  of its result cannot be missed, and what it answers after the wait.
\<close>

section \<open>The job store of the synchronous handler\<close>

text \<open>The contract of the interface jobStore, which any store that keeps that of asyncJobStore fulfils.\<close>

locale waiting_jobs =
  fixes js :: "'w jobStore"
    and ok :: "'w \<Rightarrow> bool"
    and jobs :: "'w \<Rightarrow> string \<Rightarrow> Job option"
  assumes js_save: "ok w \<Longrightarrow> job_ok j \<Longrightarrow> js_SaveJob js j w = (r, w') \<Longrightarrow>
      ok w' \<and> changed_at (is_ok r) (job_ID j) (Some j) (jobs w) (jobs w')"
    and js_fetch: "ok w \<Longrightarrow> js_GetJob js i w = (g, w') \<Longrightarrow>
      ok w' \<and> jobs w' = jobs w \<and> (\<forall>j. g = Inr j \<longrightarrow> jobs w i = Some j)"
    and js_drop: "ok w \<Longrightarrow> js_DeleteJob js i w = (r, w') \<Longrightarrow>
      ok w' \<and> changed_at (is_ok r) i None (jobs w) (jobs w')"

definition as_jobStore :: "'w asyncJobStore \<Rightarrow> (string \<Rightarrow> 'w \<Rightarrow> JobDoneSub) \<Rightarrow> 'w jobStore" where
  "as_jobStore redis sub = \<lparr>js_SaveJob = aj_SaveJob redis, js_GetJob = aj_GetJob redis,
     js_DeleteJob = aj_DeleteJob redis, js_SubscribeJobDone = sub\<rparr>"

sublocale job_records \<subseteq> wait: waiting_jobs "as_jobStore redis sub" ok jobs for sub
proof
  fix w j r w'
  assume "ok w" "job_ok j" "js_SaveJob (as_jobStore redis sub) j w = (r, w')"
  then show "ok w' \<and> changed_at (is_ok r) (job_ID j) (Some j) (jobs w) (jobs w')"
    using save [of w j r w'] by (simp add: as_jobStore_def)
next
  fix w i g w'
  assume "ok w" "js_GetJob (as_jobStore redis sub) i w = (g, w')"
  then show "ok w' \<and> jobs w' = jobs w \<and> (\<forall>j. g = Inr j \<longrightarrow> jobs w i = Some j)"
    using fetch [of w i g w'] by (simp add: as_jobStore_def)
next
  fix w i r w'
  assume "ok w" "js_DeleteJob (as_jobStore redis sub) i w = (r, w')"
  then show "ok w' \<and> changed_at (is_ok r) i None (jobs w) (jobs w')"
    using drop_job [of w i r w'] by (simp add: as_jobStore_def)
qed

lemma redis_sync_as: "redis_sync r = as_jobStore (redis_async r) (SubscribeJobDone r)"
  by (simp add: redis_sync_def redis_async_def as_jobStore_def)

interpretation rs: waiting_jobs "redis_sync r" world_ok job_at for r
  unfolding redis_sync_as by (rule rd.wait.waiting_jobs_axioms)

definition gateway_sync ::
    "Registry \<Rightarrow> S3Client \<Rightarrow> RedisClient \<Rightarrow> string list \<Rightarrow> string \<Rightarrow> llm_handler option \<Rightarrow> SyncHandler" where
  "gateway_sync reg c rc brokers ch llm =
     NewSyncHandler reg (s3_store c) (redis_sync rc) (kafka_producer brokers) ch llm"

lemma gateway_sync_simps [simp]:
  "sh_registry (gateway_sync reg c rc brokers ch llm) = reg" "sh_s3 (gateway_sync reg c rc brokers ch llm) = s3_store c"
  "sh_redis (gateway_sync reg c rc brokers ch llm) = redis_sync rc"
  "sh_producer (gateway_sync reg c rc brokers ch llm) = kafka_producer brokers"
  "sh_consumerHeader (gateway_sync reg c rc brokers ch llm) = ch" "sh_llm (gateway_sync reg c rc brokers ch llm) = llm"
  by (simp_all add: gateway_sync_def NewSyncHandler_def)

section \<open>Before the wait\<close>

lemma sync_job_ok: "time_ok now \<Longrightarrow> job_ok (sync_job h r d i ref now)" "job_ID (sync_job h r d i ref now) = i"
  by (simp_all add: sync_job_def job_ok_def)

lemma sync_event_simps [simp]:
  "ie_JobID (sync_event r f d i ref now) = i" "ie_InputRef (sync_event r f d i ref now) = ref"
  "ie_InferenceURL (sync_event r f d i ref now) = rq_Path r"
  by (simp_all add: sync_event_def)

lemma sync_event_ok: "time_ok now \<Longrightarrow> input_event_ok (sync_event r f d i ref now)" "ie_JobID (sync_event r f d i ref now) = i"
  by (simp_all add: sync_event_def input_event_ok_def collect_params_wf)

lemma PublishInputEvent_published:
  "PublishInputEvent brokers topic ev w = (r, w') \<Longrightarrow> w_published w' = w_published w"
  by (auto simp: PublishInputEvent_def WriteMessages_def Let_def split: prod.splits if_splits elim!: attempt_cases)

text \<open>The calls a successful enqueue made.\<close>

lemma sync_enqueue_calls:
  assumes "sync_enqueue (gateway_sync reg c rc brokers ch llm) r f d i now w = (Inr sub, w')"
  obtains fh w1 w2 where "form_file f ''file'' = Some fh" "ValidateFileDef d (fh_Filename fh) = Inr ()"
    "s3_Upload c (input_ref i (fh_Filename fh)) (fh_Data fh, None) (int (length (fh_Data fh))) (fh_ContentType fh) w = (Inr (), w1)"
    "SaveJob rc (sync_job (gateway_sync reg c rc brokers ch llm) r d i (input_ref i (fh_Filename fh)) now) w1 = (Inr (), w2)"
    "sub = SubscribeJobDone rc i w2"
    "PublishInputEvent brokers (def_SyncTopic d) (sync_event r f d i (input_ref i (fh_Filename fh)) now) w2 = (Inr (), w')"
  using assms
  by (auto simp: sync_enqueue_def sync_check_def interface_defs Let_def split: sum.splits option.splits prod.splits)

lemma sync_enqueue_sub:
  assumes "sync_enqueue (gateway_sync reg c rc brokers ch llm) r f d i now w = (Inr sub, w')"
  shows "\<exists>v. sub = SubscribeJobDone rc i v \<and> w_published w' = w_published v"
  by (rule sync_enqueue_calls [OF assms]) (use PublishInputEvent_published in blast)

text \<open>When the synchronous handler begins to wait everything is in place: the uploaded file is stored
  and reads back as it was sent, the pending job record is there for the consumer of the request,
  exactly one event has been published, on the service's sync topic, which the relay decodes to
  this job, input and path, and the subscription to the job's channel is older than the event.\<close>

theorem sync_enqueued:
  assumes "gateway_ok c w" and "time_ok now"
    and "sync_enqueue (gateway_sync reg c rc brokers ch llm) r f d i now w = (Inr sub, w')"
  shows "\<exists>fh payload e. form_file f ''file'' = Some fh \<and>
    object_at c w' = (object_at c w)(input_ref i (fh_Filename fh) \<mapsto> fh_Data fh) \<and>
    job_at w' = (job_at w)(i \<mapsto> sync_job (gateway_sync reg c rc brokers ch llm) r d i (input_ref i (fh_Filename fh)) now) \<and>
    w_topics w' = w_topics w @ [(def_SyncTopic d, i, payload)] \<and> unmarshal_input_event payload = Some e \<and>
    ie_JobID e = i \<and> ie_InputRef e = input_ref i (fh_Filename fh) \<and> ie_InferenceURL e = rq_Path r \<and>
    w_published w' = w_published w \<and> sub = \<lparr>sub_channel = doneChannel i, sub_from = length (w_published w)\<rparr>"
proof -
  obtain fh w1 w2 where fh: "form_file f ''file'' = Some fh"
    and u: "s3_Upload c (input_ref i (fh_Filename fh)) (fh_Data fh, None) (int (length (fh_Data fh))) (fh_ContentType fh) w = (Inr (), w1)"
    and s: "SaveJob rc (sync_job (gateway_sync reg c rc brokers ch llm) r d i (input_ref i (fh_Filename fh)) now) w1 = (Inr (), w2)"
    and sub: "sub = SubscribeJobDone rc i w2"
    and p: "PublishInputEvent brokers (def_SyncTopic d) (sync_event r f d i (input_ref i (fh_Filename fh)) now) w2 = (Inr (), w')"
    by (rule sync_enqueue_calls [OF assms(3)])
  let ?job = "sync_job (gateway_sync reg c rc brokers ch llm) r d i (input_ref i (fh_Filename fh)) now"
  let ?ev = "sync_event r f d i (input_ref i (fh_Filename fh)) now"
  have u': "st_Upload (s3_store c) (input_ref i (fh_Filename fh)) (fh_Data fh, None) (int (length (fh_Data fh))) (fh_ContentType fh) w = (Inr (), w1)"
    using u by (simp add: s3_store_def)
  note U = s3.upload [OF assms(1) u'] gw.upload_frame [OF assms(1) u']
  have ok1: "gateway_ok c w1" using U(1) by simp
  then have wk1: "world_ok w1" "key_usable (s3_encKey c)" by (simp_all add: gateway_ok_def)
  have "js_SaveJob (redis_sync rc) ?job w1 = (Inr (), w2)" using s by (simp add: redis_sync_def)
  note S = rs.js_save [OF wk1(1) sync_job_ok(1) [OF assms(2)] this]
  note only = SaveJob_redis_only [OF s]
  have ok2: "gateway_ok c w2" using S wk1 by (simp add: gateway_ok_def)
  have p': "ep_PublishInputEvent (kafka_producer brokers) (def_SyncTopic d) ?ev w2 = (Inr (), w')"
    using p by (simp add: kafka_producer_def)
  note P = gw.publish [OF ok2 p']
  have ev: "unmarshal_input_event (marshal_input_event ?ev) = Some (sorted_params ?ev)"
    by (rule unmarshal_marshal_input_event [OF sync_event_ok(1) [OF assms(2)]])
  have pub: "w_published w2 = w_published w" "w_published w' = w_published w"
    using only s3_Upload_frame(5) [OF u] PublishInputEvent_published [OF p] by (simp_all add: redis_only_def)
  show ?thesis
  proof (intro exI conjI)
    show "object_at c w' = (object_at c w)(input_ref i (fh_Filename fh) \<mapsto> fh_Data fh)"
      using U P redis_only_views [OF only, of c] by simp
    show "job_at w' = (job_at w)(i \<mapsto> ?job)" using U S P sync_job_ok(2) by simp
    show "w_topics w' = w_topics w @ [(def_SyncTopic d, i, marshal_input_event ?ev)]"
      using U P redis_only_views [OF only, of c] sync_event_ok(2) by simp
    show "unmarshal_input_event (marshal_input_event ?ev) = Some (sorted_params ?ev)" by (rule ev)
    show "sub = \<lparr>sub_channel = doneChannel i, sub_from = length (w_published w)\<rparr>"
      using sub pub(1) by (simp add: SubscribeJobDone_def)
  qed (use fh pub in simp_all)
qed


section \<open>After the wait\<close>

lemma wait_loop_ticks:
  "wait_loop (replicate k Keepalive @ WaitDone notified # es) rs =
    (let rs1 = (keep_alive ^^ k) rs
     in (if notified then (rs1, Some True) else (writeError 504 ''timed out waiting for result'' rs1, Some False)))"
  by (induction k arbitrary: rs) (simp_all add: Let_def funpow_swap1)

lemma commit_simps [simp]:
  "rs_Status (commit rs) = Some (case rs_Status rs of None \<Rightarrow> 200 | Some c \<Rightarrow> c)" "rs_Body (commit rs) = rs_Body rs"
  by (simp_all add: commit_def split: option.split)

lemma ticks_response:
  "rs_Status ((keep_alive ^^ k) new_response) = (if k = 0 then None else Some 200)"
  "rs_Body ((keep_alive ^^ k) new_response) = replicate k (CHR 0x0A)"
  by (induction k) (simp_all add: keep_alive_def replicate_append_same)

text \<open>The wait ends with the first event that ends it, and only then.\<close>

lemma wait_loop_ends: "snd (wait_loop es rs) = None \<longleftrightarrow> set es \<subseteq> {Keepalive}"
  by (induction es rs rule: wait_loop.induct) auto

lemma wait_loop_more:
  "wait_loop es rs = (rs', Some b) \<Longrightarrow> wait_loop (es @ es') rs = (rs', Some b)"
  by (induction es rs rule: wait_loop.induct) (auto split: if_splits)

text \<open>The requests that come as far as the wait.\<close>

definition waits :: "SyncHandler \<Rightarrow> Request \<Rightarrow> string \<Rightarrow> time \<Rightarrow> World \<Rightarrow> bool" where
  "waits h r i now w \<longleftrightarrow> rq_Method r = ''POST'' \<and>
     has_prefix (media_type (header_get r ''Content-Type'')) ''multipart/form-data'' \<and>
     (\<exists>f d sub w1. parse_form None r = Inr f \<and> RouteSync (sh_registry h) (rq_Path r) (form_value r f ''model'') = Inr d \<and>
        def_SyncTopic d \<noteq> [] \<and> sync_enqueue h r f d i now w = (Inr sub, w1))"

lemma handleMultipartViaKafka_returns:
  "(handleMultipartViaKafka h r f d i now events env w = None \<longleftrightarrow>
     (\<exists>sub w1. sync_enqueue h r f d i now w = (Inr sub, w1)) \<and> set events \<subseteq> {Keepalive}) \<and>
   (\<forall>x es. handleMultipartViaKafka h r f d i now events env w = Some x \<longrightarrow>
      handleMultipartViaKafka h r f d i now (events @ es) env w = Some x)"
proof -
  obtain out w1 where e: "sync_enqueue h r f d i now w = (out, w1)" by fastforce
  obtain rs res where l: "wait_loop events new_response = (rs, res)" by fastforce
  show ?thesis
  proof (cases out)
    case (Inr sub)
    show ?thesis
    proof (cases res)
      case None
      then show ?thesis using e Inr l wait_loop_ends [of events new_response] by (simp add: handleMultipartViaKafka_def)
    next
      case (Some b)
      then show ?thesis
        using e Inr l wait_loop_ends [of events new_response] wait_loop_more [of events new_response rs b]
        by (cases b) (simp_all add: handleMultipartViaKafka_def)
    qed
  qed (use e in \<open>auto simp: handleMultipartViaKafka_def\<close>)
qed


text \<open>C20: a waiting request is answered with its result: after any number of keepalives, when the job is
  completed and the calls succeed, the client gets 200 and the keepalive newlines followed by
  exactly the stored result, and afterwards record and result are deleted.\<close>

theorem sync_delivers:
  assumes "gateway_ok c v" and "w_outcomes v = []" and "job_at v i = Some j" and "job_Status j = Completed"
    and "job_ResultRef j \<noteq> []" and "object_at c v (job_ResultRef j) = Some data"
    and "wait_loop (replicate k Keepalive @ [WaitDone True]) new_response = (rs, res)"
    and "sync_finish (gateway_sync reg c rc brokers ch llm) i rs v = (resp, v', bg)"
  shows "res = Some True \<and> final_status resp = 200 \<and> rs_Body resp = replicate k (CHR 0x0A) @ data \<and>
    job_at (bg v') i = None \<and> object_at c (bg v') (job_ResultRef j) = None"
proof -
  have wok: "world_ok v" using assms(1) by (simp add: gateway_ok_def)
  have n1: "next_outcome v = (Done, tick v)" using assms(2) by (intro next_outcome_done) simp
  have t1: "w_outcomes (tick v) = []" using assms(2) by (simp add: tick_def)
  then have n2: "next_outcome (tick v) = (Done, tick (tick v))" by (intro next_outcome_done) simp
  note gj = GetJob_done [OF wok assms(3) n1, of rc]
  have go: "s3_GetObject c (job_ResultRef j) (tick v) = (Inr data, tick (tick v))"
    by (rule s3_GetObject_done [OF _ n2]) (simp add: assms(6))
  have rs: "res = Some True" "rs_Status rs = (if k = 0 then None else Some 200)" "rs_Body rs = replicate k (CHR 0x0A)"
    using assms(7) wait_loop_ticks [of k True "[]" new_response] ticks_response [of k] by (simp_all add: Let_def)
  have r: "resp = write_body data (commit rs)" "v' = tick (tick v)"
      "bg = (\<lambda>w. snd (DeleteJob rc i (snd (s3_DeleteObject c (job_ResultRef j) w))))"
    using assms(4,5,8) gj go by (simp_all add: sync_finish_def interface_defs sync_cleanup_def fun_eq_iff Let_def)
  have v': "gateway_ok c v'" using assms(1) unfolding r(2) gateway_ok_tick .
  have o': "w_outcomes v' = []" using r(2) t1 by (simp add: tick_def)
  show ?thesis
    using cleanup_done [OF v' o', of rc i "job_ResultRef j"] r rs by (simp add: final_status_def split: option.split)
qed

text \<open>C21: a failed job is answered with 422 and the error of its record only while the wait was shorter
  than the first keepalive; after one keepalive the same failure is answered with 200, the error in
  the body behind the newlines.\<close>

theorem sync_failure_status:
  assumes "gateway_ok c v" and "w_outcomes v = []" and "job_at v i = Some j" and "job_Status j = Failed"
    and "wait_loop (replicate k Keepalive @ [WaitDone True]) new_response = (rs, res)"
    and "sync_finish (gateway_sync reg c rc brokers ch llm) i rs v = (resp, v', bg)"
  shows "final_status resp = (if k = 0 then 422 else 200) \<and>
    rs_Body resp = replicate k (CHR 0x0A) @ json_text False (JObj [(''error'', JStr (job_Error j))]) @ [CHR 0x0A]"
proof -
  have wok: "world_ok v" using assms(1) by (simp add: gateway_ok_def)
  have n1: "next_outcome v = (Done, tick v)" using assms(2) by (intro next_outcome_done) simp
  note gj = GetJob_done [OF wok assms(3) n1, of rc]
  have rs: "rs_Status rs = (if k = 0 then None else Some 200)" "rs_Body rs = replicate k (CHR 0x0A)"
    using assms(5) wait_loop_ticks [of k True "[]" new_response] ticks_response [of k] by (simp_all add: Let_def)
  have "resp = writeError 422 (job_Error j) rs"
    using assms(4,6) gj by (simp add: sync_finish_def interface_defs)
  then show ?thesis using rs by (simp add: final_status_def del: json_text.simps)
qed

section \<open>At work\<close>

definition demo_sync_def :: Def where
  "demo_sync_def = \<lparr>def_Type = ''audio'', def_Model = ''whisper'', def_InputTopic = [], def_ResultTopic = ''r'',
     def_AcceptedExts = [], def_MaxFileSizeMB = 1, def_InferenceURL = ''http://m'', def_Operations = [],
     def_SyncTopic = ''s'', def_PriorityTopic = [], def_InferenceHeaders = [], def_Provider = [],
     def_BackendModel = [], def_ResponseCacheTTL = 0\<rparr>"

definition demo_form :: Form where
  "demo_form = \<lparr>fm_Value = [(''lang'', [''fr''])],
     fm_File = [(''file'', [\<lparr>fh_Filename = ''a.wav'', fh_ContentType = ''audio/wav'', fh_Data = ''RIFF''\<rparr>])]\<rparr>"

abbreviation demo_sync :: SyncHandler where
  "demo_sync \<equiv> gateway_sync (NewRegistry []) demo_s3 demo_redis [] ''X-Consumer'' None"

lemma demo_enqueue:
  obtains sub w' where
    "sync_enqueue demo_sync demo_request demo_form demo_sync_def ''j1'' demo_now empty_world = (Inr sub, w')"
proof -
  have n: "w_outcomes (put_object c k ob w) = w_outcomes w" "w_outcomes (save_effect m j v) = w_outcomes v" for c k ob w m j v
    by (simp_all add: put_object_def save_effect_def redis_set_def redis_expire_def redis_zadd_def redis_put_zset_def
        redis_del_def Let_def split: option.split)
  have e: "w_outcomes empty_world = []" by (simp add: empty_world_def)
  have "is_ok (fst (sync_enqueue demo_sync demo_request demo_form demo_sync_def ''j1'' demo_now empty_world))"
    by (simp add: sync_enqueue_def sync_check_def demo_form_def form_file_def ValidateFileDef_def demo_sync_def_def
        interface_defs s3_Upload_def Encrypt_def demo_s3_def SaveJob_def PublishInputEvent_def WriteMessages_def Let_def
        attempt_no_faults n e split: prod.split)
  then show ?thesis using that by (metis is_ok_iff prod.collapse)
qed

lemma sync_enqueued_witness:
  "\<exists>sub w'. sync_enqueue demo_sync demo_request demo_form demo_sync_def ''j1'' demo_now empty_world = (Inr sub, w') \<and>
     length (w_topics w') = 1 \<and> sub_from sub = 0"
proof -
  obtain sub w' where s: "sync_enqueue demo_sync demo_request demo_form demo_sync_def ''j1'' demo_now empty_world = (Inr sub, w')"
    by (rule demo_enqueue)
  show ?thesis using sync_enqueued [OF world_ok_empty demo_now_ok s] s by (auto simp: empty_world_def)
qed


lemma sync_delivers_witness:
  "\<exists>resp v' bg. sync_finish demo_sync ''j1'' new_response demo_world = (resp, v', bg) \<and> rs_Body resp = ''{}''"
proof -
  obtain resp v' bg where f: "sync_finish demo_sync ''j1'' new_response demo_world = (resp, v', bg)" by (metis prod.collapse)
  have w: "wait_loop (replicate 0 Keepalive @ [WaitDone True]) new_response = (new_response, Some True)" by simp
  have j: "job_Status demo_done_job = Completed" "job_ResultRef demo_done_job \<noteq> []"
      "object_at demo_s3 demo_world (job_ResultRef demo_done_job) = Some ''{}''"
    using demo_world_facts(3) by (simp_all add: demo_done_job_def)
  show ?thesis using sync_delivers [OF demo_world_facts(1,4,2) j w f] f by auto
qed

lemma sync_failure_status_witness:
  "\<exists>v rs resp v' bg. wait_loop [Keepalive, WaitDone True] new_response = (rs, Some True) \<and>
     sync_finish demo_sync ''j1'' rs v = (resp, v', bg) \<and> final_status resp = 200"
proof -
  let ?j = "demo_job\<lparr>job_Status := Failed, job_Error := ''inference''\<rparr>"
  let ?v = "save_effect 0 ?j empty_world"
  have jok: "job_ok ?j" "job_ID ?j = ''j1''" using demo_ok(1) by (simp_all add: job_ok_def demo_job_def)
  have e: "world_ok empty_world" "key_usable (s3_encKey demo_s3)" using world_ok_empty by (simp_all add: gateway_ok_def)
  have v: "gateway_ok demo_s3 ?v" using world_ok_save [OF e(1) jok(1), of 0] e(2) by (simp add: gateway_ok_def)
  have o: "w_outcomes ?v = []"
    by (simp add: save_effect_def redis_set_def redis_expire_def redis_zadd_def redis_put_zset_def
        redis_del_def Let_def empty_world_def split: option.split)
  have a: "job_at ?v ''j1'' = Some ?j" using job_at_save [OF jok(1), of 0 empty_world] jok(2) by simp
  have w: "wait_loop (replicate 1 Keepalive @ [WaitDone True]) new_response = (keep_alive new_response, Some True)" by simp
  obtain resp v' bg where f: "sync_finish demo_sync ''j1'' (keep_alive new_response) ?v = (resp, v', bg)"
    by (metis prod.collapse)
  have "job_Status ?j = Failed" by simp
  from sync_failure_status [OF v o a this w f] show ?thesis using w f by auto
qed


end
