(* ===== verification/Sha256.thy ===== *)
theory Sha256
  imports Prelude
begin

text \<open>
  SHA-256 (FIPS 180-4) on byte strings: what the gateway calls as sha256.Sum256 of the Go library.
\<close>

unbundle bit_operations_syntax

definition rotr :: "nat \<Rightarrow> 32 word \<Rightarrow> 32 word" where
  "rotr n x = or (drop_bit n x) (push_bit (32 - n) x)"

definition choose_bits :: "32 word \<Rightarrow> 32 word \<Rightarrow> 32 word \<Rightarrow> 32 word" where
  "choose_bits x y z = xor (and x y) (and (not x) z)"

definition majority :: "32 word \<Rightarrow> 32 word \<Rightarrow> 32 word \<Rightarrow> 32 word" where
  "majority x y z = xor (and x y) (xor (and x z) (and y z))"

definition big_sigma0 :: "32 word \<Rightarrow> 32 word" where
  "big_sigma0 x = xor (rotr 2 x) (xor (rotr 13 x) (rotr 22 x))"

definition big_sigma1 :: "32 word \<Rightarrow> 32 word" where
  "big_sigma1 x = xor (rotr 6 x) (xor (rotr 11 x) (rotr 25 x))"

definition small_sigma0 :: "32 word \<Rightarrow> 32 word" where
  "small_sigma0 x = xor (rotr 7 x) (xor (rotr 18 x) (drop_bit 3 x))"

definition small_sigma1 :: "32 word \<Rightarrow> 32 word" where
  "small_sigma1 x = xor (rotr 17 x) (xor (rotr 19 x) (drop_bit 10 x))"

text \<open>The constants of the standard, in decimal.\<close>

definition round_constants :: "32 word list" where
  "round_constants = [
    1116352408, 1899447441, 3049323471, 3921009573, 961987163, 1508970993, 2453635748, 2870763221,
    3624381080, 310598401, 607225278, 1426881987, 1925078388, 2162078206, 2614888103, 3248222580,
    3835390401, 4022224774, 264347078, 604807628, 770255983, 1249150122, 1555081692, 1996064986,
    2554220882, 2821834349, 2952996808, 3210313671, 3336571891, 3584528711, 113926993, 338241895,
    666307205, 773529912, 1294757372, 1396182291, 1695183700, 1986661051, 2177026350, 2456956037,
    2730485921, 2820302411, 3259730800, 3345764771, 3516065817, 3600352804, 4094571909, 275423344,
    430227734, 506948616, 659060556, 883997877, 958139571, 1322822218, 1537002063, 1747873779,
    1955562222, 2024104815, 2227730452, 2361852424, 2428436474, 2756734187, 3204031479, 3329325298]"

definition initial_hash :: "32 word list" where
  "initial_hash = [1779033703, 3144134277, 1013904242, 2773480762, 1359893119, 2600822924, 528734635, 1541459225]"

text \<open>The message schedule: sixteen words, then each from the four words 16, 15, 7 and 2 places before
  it.  The list is kept with its last word first.\<close>

fun schedule :: "nat \<Rightarrow> 32 word list \<Rightarrow> 32 word list" where
  "schedule 0 ws = rev ws"
| "schedule (Suc n) ws =
     schedule n ((small_sigma1 (ws ! 1) + ws ! 6 + small_sigma0 (ws ! 14) + ws ! 15) # ws)"

fun rounds :: "(32 word \<times> 32 word) list \<Rightarrow> 32 word list \<Rightarrow> 32 word list" where
  "rounds ((k, w) # kws) [a, b, c, d, e, f, g, h] =
     (let t1 = h + big_sigma1 e + choose_bits e f g + k + w; t2 = big_sigma0 a + majority a b c
      in rounds kws [t1 + t2, a, b, c, d + t1, e, f, g])"
| "rounds _ hs = hs"

definition word32 :: "string \<Rightarrow> 32 word" where
  "word32 bs = foldl (\<lambda>n c. push_bit 8 n + of_char c) 0 bs"

fun words_of :: "string \<Rightarrow> 32 word list" where
  "words_of (a # b # c # d # r) = word32 [a, b, c, d] # words_of r"
| "words_of _ = []"

definition compress :: "32 word list \<Rightarrow> string \<Rightarrow> 32 word list" where
  "compress hs block = map2 (+) hs (rounds (zip round_constants (schedule 48 (rev (words_of block)))) hs)"

definition bytes_of :: "nat \<Rightarrow> 'a::len word \<Rightarrow> string" where
  "bytes_of k w = map (\<lambda>i. char_of (unat (take_bit 8 (drop_bit (8 * (k - 1 - i)) w)))) [0..<k]"

definition sha_pad :: "string \<Rightarrow> string" where
  "sha_pad m = m @ CHR 0x80 # replicate ((119 - length m mod 64) mod 64) (CHR 0x00) @ bytes_of 8 (of_nat (8 * length m) :: 64 word)"

fun blocks64 :: "nat \<Rightarrow> string \<Rightarrow> string list" where
  "blocks64 0 s = []"
| "blocks64 (Suc n) s = take 64 s # blocks64 n (drop 64 s)"

definition sha256 :: "string \<Rightarrow> string" where
  "sha256 m =
     (let p = sha_pad m
      in concat (map (\<lambda>h. bytes_of 4 h) (foldl compress initial_hash (blocks64 (length p div 64) p))))"

text \<open>The digest is 32 bytes, for every message.\<close>

lemma length_rounds: "length hs = 8 \<Longrightarrow> length (rounds kws hs) = 8"
  by (induction kws hs rule: rounds.induct) (simp_all add: Let_def)

lemma length_compress: "length hs = 8 \<Longrightarrow> length (compress hs b) = 8"
  by (simp add: compress_def length_rounds)

lemma length_sha256: "length (sha256 m) = 32"
proof -
  have "length hs = 8 \<Longrightarrow> length (foldl compress hs bs) = 8" for hs bs
    by (induction bs arbitrary: hs) (simp_all add: length_compress)
  then have "length (foldl compress initial_hash bs) = 8" for bs by (simp add: initial_hash_def)
  moreover have "length (concat (map (\<lambda>h. bytes_of 4 h) hs)) = 4 * length hs" for hs :: "32 word list"
    by (induction hs) (simp_all add: bytes_of_def)
  ultimately show ?thesis by (simp add: sha256_def Let_def del: length_concat)
qed

end
