(* ===== verification/Cache.thy ===== *)
theory Cache
  imports Wire Json_Facts Sha256
begin

text \<open>
  internal/cache: the key of an LLM request, and the cache of responses in Redis under that key.

  The request is decoded into Go's any, where a number becomes a float64: \<open>fl\<close> takes a literal to
  the literal Marshal writes for its float64 (strconv), as in Json.
\<close>

section \<open>internal/cache/key.go\<close>

definition cacheableFields :: "string list" where
  "cacheableFields = [''model'', ''messages'', ''temperature'', ''top_p'', ''top_k'', ''max_tokens'',
     ''max_completion_tokens'', ''response_format'', ''tools'', ''tool_choice'', ''seed'', ''stop'',
     ''presence_penalty'', ''frequency_penalty'', ''n'', ''logit_bias'', ''system'']"

fun sortedValue :: "json \<Rightarrow> json" where
  "sortedValue (JObj kvs) = JObj (gm_of_pairs (sort_key fst (map (\<lambda>kv. (fst kv, sortedValue (snd kv))) kvs)))"
| "sortedValue (JArr vs) = JArr (map sortedValue vs)"
| "sortedValue v = v"

definition canonicalize :: "json \<Rightarrow> string" where
  "canonicalize v = json_text True (sort_members (sortedValue v))"

text \<open>The assignment to the nil map of a null body panics.\<close>

datatype key_result = KeyPanic | NotCacheable | KeyFailed | Cacheable string

definition filtered_fields :: "string \<Rightarrow> (string \<times> json) list \<Rightarrow> (string \<times> json) list" where
  "filtered_fields model raw = filter (\<lambda>kv. fst kv \<in> set cacheableFields) (AList.update ''model'' (JStr model) raw)"

definition key_text :: "string \<Rightarrow> string \<Rightarrow> (string \<times> json) list \<Rightarrow> string" where
  "key_text provider model raw = provider @ '':'' @ canonicalize (JObj (filtered_fields model raw))"

definition Key :: "(string \<Rightarrow> string option) \<Rightarrow> string \<Rightarrow> string \<Rightarrow> string \<Rightarrow> key_result" where
  "Key fl provider model body =
     (if body = [] then NotCacheable
      else (case json_parse body of
              None \<Rightarrow> KeyFailed
            | Some v \<Rightarrow>
                (case any_of fl v of
                   Some (JObj raw) \<Rightarrow>
                     if map_of raw ''stream'' = Some (JBool True) then NotCacheable
                     else Cacheable (''llm:cache:'' @ hex_text (sha256 (key_text provider model raw)))
                 | Some JNull \<Rightarrow> KeyPanic
                 | _ \<Rightarrow> KeyFailed)))"

section \<open>internal/cache/cache.go, redis.go and noop.go\<close>

record Entry =
  en_Body :: string
  en_ContentType :: string
  en_StatusCode :: int

text \<open>encoding/base64, as Marshal writes a byte slice.\<close>

definition b64_char :: "nat \<Rightarrow> char" where
  "b64_char n =
     (if n < 26 then char_of (65 + n) else if n < 52 then char_of (71 + n)
      else if n < 62 then char_of (n - 4) else if n = 62 then CHR ''+'' else CHR ''/'')"

definition b64_val :: "char \<Rightarrow> nat option" where
  "b64_val c =
     (let n = of_char c :: nat
      in if 65 \<le> n \<and> n \<le> 90 then Some (n - 65) else if 97 \<le> n \<and> n \<le> 122 then Some (n - 71)
         else if 48 \<le> n \<and> n \<le> 57 then Some (n + 4) else if n = 43 then Some 62 else if n = 47 then Some 63 else None)"

fun b64_encode :: "string \<Rightarrow> string" where
  "b64_encode [] = []"
| "b64_encode [a] =
     (let n = of_char a * 65536 :: nat in [b64_char (n div 262144), b64_char (n div 4096 mod 64), CHR ''='', CHR ''=''])"
| "b64_encode [a, b] =
     (let n = of_char a * 65536 + of_char b * 256 :: nat
      in [b64_char (n div 262144), b64_char (n div 4096 mod 64), b64_char (n div 64 mod 64), CHR ''=''])"
| "b64_encode (a # b # c # r) =
     (let n = of_char a * 65536 + of_char b * 256 + of_char c :: nat
      in [b64_char (n div 262144), b64_char (n div 4096 mod 64), b64_char (n div 64 mod 64), b64_char (n mod 64)] @
         b64_encode r)"

fun b64_decode :: "string \<Rightarrow> string option" where
  "b64_decode [] = Some []"
| "b64_decode (a # b # c # d # r) =
     (case (b64_val a, b64_val b) of
        (Some x, Some y) \<Rightarrow>
          (if c = CHR ''='' then
             (if d = CHR ''='' \<and> r = [] then Some [char_of ((x * 262144 + y * 4096) div 65536)] else None)
           else (case b64_val c of
                   None \<Rightarrow> None
                 | Some z \<Rightarrow>
                     if d = CHR ''='' then
                       (if r = [] then
                          (let n = x * 262144 + y * 4096 + z * 64 in Some [char_of (n div 65536), char_of (n div 256 mod 256)])
                        else None)
                     else (case (b64_val d, b64_decode r) of
                             (Some u, Some bs) \<Rightarrow>
                               (let n = x * 262144 + y * 4096 + z * 64 + u
                                in Some (char_of (n div 65536) # char_of (n div 256 mod 256) # char_of (n mod 256) # bs))
                           | _ \<Rightarrow> None)))
      | _ \<Rightarrow> None)"
| "b64_decode _ = None"

fun d_bytes :: "json \<Rightarrow> string option" where
  "d_bytes (JStr s) = b64_decode s"
| "d_bytes _ = None"

definition entry_json :: "Entry \<Rightarrow> json" where
  "entry_json e = JObj [(''body'', JStr (b64_encode (en_Body e))), (''content_type'', JStr (en_ContentType e)),
     (''status_code'', JNum (int_text (en_StatusCode e)))]"

definition entry_of_json :: "json \<Rightarrow> Entry option" where
  "entry_of_json v = do {
     f \<leftarrow> obj_fields v;
     b \<leftarrow> dec_ptr d_bytes None (field_vals ''body'' f);
     c \<leftarrow> dec_field d_str [] (field_vals ''content_type'' f);
     s \<leftarrow> dec_field d_int 0 (field_vals ''status_code'' f);
     Some \<lparr>en_Body = (case b of None \<Rightarrow> [] | Some bs \<Rightarrow> bs), en_ContentType = c, en_StatusCode = s\<rparr>
   }"

datatype cache_error = CacheUnavailable | CacheDecode

record 'w Cache =
  ca_Get :: "string \<Rightarrow> 'w \<Rightarrow> (cache_error + Entry option) \<times> 'w"
  ca_Set :: "string \<Rightarrow> Entry \<Rightarrow> int \<Rightarrow> 'w \<Rightarrow> (cache_error + unit) \<times> 'w"

definition redis_cache_get :: "string \<Rightarrow> World \<Rightarrow> (cache_error + Entry option) \<times> World" where
  "redis_cache_get key w =
     (case next_outcome w of
        (Done, w1) \<Rightarrow>
          (case map_of (w_redis w1) key of
             None \<Rightarrow> (Inr None, w1)
           | Some (RZset _, _) \<Rightarrow> (Inl CacheUnavailable, w1)
           | Some (RString data, _) \<Rightarrow>
               (case do { v \<leftarrow> json_parse data; entry_of_json v } of
                  None \<Rightarrow> (Inl CacheDecode, w1)
                | Some entry \<Rightarrow> (Inr (Some entry), w1)))
      | (_, w1) \<Rightarrow> (Inl CacheUnavailable, w1))"

definition redis_cache_set :: "string \<Rightarrow> Entry \<Rightarrow> int \<Rightarrow> World \<Rightarrow> (cache_error + unit) \<times> World" where
  "redis_cache_set key entry ttl w =
     (let (acked, w1) = attempt (redis_set key (json_text True (entry_json entry)) ttl) w
      in (if acked then Inr () else Inl CacheUnavailable, w1))"

definition NewRedisCache :: "World Cache" where
  "NewRedisCache = \<lparr>ca_Get = redis_cache_get, ca_Set = redis_cache_set\<rparr>"

definition NewNoop :: "'w Cache" where
  "NewNoop = \<lparr>ca_Get = \<lambda>_ w. (Inr None, w), ca_Set = \<lambda>_ _ _ w. (Inr (), w)\<rparr>"

end
