(* ===== verification/Cache_Facts.thy ===== *)
theory Cache_Facts
  imports Cache World_Facts
begin

text \<open>
  The response cache: an entry read back is the entry written, for both implementations of the
  interface, and a key stands for exactly the cacheable fields of a request, unless SHA-256
  collides.
\<close>

section \<open>Base64\<close>

lemma b64_val_char: "n < 64 \<Longrightarrow> b64_val (b64_char n) = Some n"
  by (auto simp: b64_val_def b64_char_def Let_def)

lemma b64_char_pad: "n < 64 \<Longrightarrow> b64_char n \<noteq> CHR ''=''"
  using b64_val_char [of n] by (auto simp: b64_val_def)

lemma sextets:
  fixes n :: nat
  assumes "n < 16777216"
  shows "n div 262144 < 64" and "n div 4096 mod 64 < 64"
    and "n div 262144 * 262144 + n div 4096 mod 64 * 4096 + n div 64 mod 64 * 64 + n mod 64 = n"
proof -
  show "n div 262144 < 64" using assms by simp
  show "n div 4096 mod 64 < 64" by simp
  have "n div 4096 = n div 262144 * 64 + n div 4096 mod 64"
    using div_mult_mod_eq [of "n div 4096" 64] by (simp add: div_mult2_eq [symmetric])
  moreover have "n div 64 = n div 4096 * 64 + n div 64 mod 64"
    using div_mult_mod_eq [of "n div 64" 64] by (simp add: div_mult2_eq [symmetric])
  moreover have "n = n div 64 * 64 + n mod 64" by simp
  ultimately show "n div 262144 * 262144 + n div 4096 mod 64 * 4096 + n div 64 mod 64 * 64 + n mod 64 = n"
    by linarith
qed

lemma low_octet: "(c :: nat) < 256 \<Longrightarrow> (256 * k + c) mod 256 = c"
  by simp

lemma octets:
  fixes a b c :: char
  defines "n \<equiv> of_char a * 65536 + of_char b * 256 + of_char c :: nat"
  shows "n < 16777216" and "char_of (n div 65536) = a" and "char_of (n div 256 mod 256) = b" and "char_of (n mod 256) = c"
proof -
  have l: "(of_char a :: nat) < 256" "(of_char b :: nat) < 256" "(of_char c :: nat) < 256" by simp_all
  show "n < 16777216" unfolding n_def using l by linarith
  have e: "n = 256 * (256 * of_char a + of_char b) + of_char c" by (simp add: n_def)
  have "n div 65536 = of_char a" unfolding n_def using l by linarith
  then show "char_of (n div 65536) = a" by simp
  have "n div 256 = 256 * of_char a + of_char b" unfolding n_def using l by linarith
  then show "char_of (n div 256 mod 256) = b" by simp
  have "n mod 256 = of_char c" unfolding e by (rule low_octet [OF l(3)])
  then show "char_of (n mod 256) = c" by simp
qed

lemma two_chars: "char_of (256 * of_char a + of_char b :: nat) = b"
proof -
  have "(of_char b :: nat) < 256" by simp
  then have "(256 * of_char a + of_char b) mod 256 = (of_char b :: nat)" by simp
  then show ?thesis by (metis char_of_mod_256 char_of_char)
qed

lemma b64_step:
  assumes "x < 64" and "y < 64" and "z < 64" and "u < 64" and "b64_decode t = Some bs"
  shows "b64_decode (b64_char x # b64_char y # b64_char z # b64_char u # t) =
    (let n = x * 262144 + y * 4096 + z * 64 + u
     in Some (char_of (n div 65536) # char_of (n div 256 mod 256) # char_of (n mod 256) # bs))"
  using assms b64_char_pad by (simp add: b64_val_char)

lemma b64_round: "b64_decode (b64_encode s) = Some s"
proof (induction s rule: b64_encode.induct)
  case (2 a)
  let ?n = "of_char a * 65536 + of_char (CHR 0x00) * 256 + of_char (CHR 0x00) :: nat"
  note O = octets [of a "CHR 0x00" "CHR 0x00"]
  have n: "?n = of_char a * 65536" by simp
  note S = sextets [OF O(1), unfolded n]
  have e: "of_char a * 65536 = 64 * (64 * (of_char a * 16) :: nat)" by simp
  have "of_char a * 65536 div 64 mod 64 = (0 :: nat)" "of_char a * 65536 mod 64 = (0 :: nat)"
    unfolding e by simp_all
  then have "of_char a * 65536 div 262144 * 262144 + of_char a * 65536 div 4096 mod 64 * 4096 = (of_char a * 65536 :: nat)"
    using S(3) by simp
  then show ?case using S(1,2) O(2) by (simp add: Let_def b64_val_char del: div_mult2_eq)
next
  case (3 a b)
  let ?n = "of_char a * 65536 + of_char b * 256 + of_char (CHR 0x00) :: nat"
  note O = octets [of a b "CHR 0x00"]
  have n: "?n = of_char a * 65536 + of_char b * 256" by simp
  note S = sextets [OF O(1), unfolded n]
  have e: "of_char a * 65536 + of_char b * 256 = 64 * (of_char a * 1024 + of_char b * 4 :: nat)" by simp
  have "(of_char a * 65536 + of_char b * 256) mod 64 = (0 :: nat)" unfolding e by simp
  then show ?case using S O(2,3) b64_char_pad two_chars [of a b] by (simp add: Let_def b64_val_char n)
next
  case (4 a b c r)
  note O = octets [of a b c]
  note S = sextets [OF O(1)]
  let ?n = "of_char a * 65536 + of_char b * 256 + of_char c :: nat"
  have m: "?n div 64 mod 64 < 64" "?n mod 64 < 64" by simp_all
  have "b64_decode (b64_encode (a # b # c # r)) = (let n = ?n div 262144 * 262144 + ?n div 4096 mod 64 * 4096 + ?n div 64 mod 64 * 64 + ?n mod 64
      in Some (char_of (n div 65536) # char_of (n div 256 mod 256) # char_of (n mod 256) # r))"
    unfolding b64_encode.simps(4) Let_def append_Cons append_Nil
    by (rule b64_step [OF S(1,2) m, unfolded Let_def]) (use 4 in \<open>simp add: Let_def\<close>)
  then show ?case unfolding S(3) Let_def O(2,3,4) .
qed simp

section \<open>Entries\<close>

lemma entry_json_wf: "json_wf (entry_json e)"
  by (simp add: entry_json_def)

lemma entry_round:
  assumes "- (2 ^ 63) \<le> en_StatusCode e" and "en_StatusCode e < 2 ^ 63"
  shows "entry_of_json (entry_json e) = Some e"
  using assms
  by (simp add: entry_of_json_def entry_json_def field_vals_def to_lower_def lower_char_def less_eq_char_def
      b64_round parse_int64_text)

text \<open>The interface Cache: what a hit returns was once stored under its key.\<close>

locale response_cache =
  fixes cache :: "'w Cache"
    and ok :: "'w \<Rightarrow> bool"
    and entries :: "'w \<Rightarrow> string \<Rightarrow> Entry option"
  assumes cache_get: "ok w \<Longrightarrow> ca_Get cache k w = (g, w') \<Longrightarrow>
      ok w' \<and> entries w' = entries w \<and> (\<forall>e. g = Inr (Some e) \<longrightarrow> entries w k = Some e)"
    and cache_set: "ok w \<Longrightarrow> has_prefix k ''llm:cache:'' \<Longrightarrow> - (2 ^ 63) \<le> en_StatusCode e \<Longrightarrow> en_StatusCode e < 2 ^ 63 \<Longrightarrow>
      ca_Set cache k e ttl w = (r, w') \<Longrightarrow> ok w' \<and> changed_at False k (Some e) (entries w) (entries w')"

definition entry_at :: "World \<Rightarrow> string \<Rightarrow> Entry option" where
  "entry_at w k = do { data \<leftarrow> redis_str w k; v \<leftarrow> json_parse data; entry_of_json v }"

lemma entry_at_tick [simp]: "entry_at (tick w) = entry_at w"
  by (simp add: entry_at_def redis_str_def fun_eq_iff)

lemma redis_cache_get_world: "redis_cache_get k w = (g, w') \<Longrightarrow> w' = tick w"
  by (auto simp: redis_cache_get_def next_outcome_eq Let_def split: outcome.splits option.splits prod.splits RedisValue.splits)

lemma redis_cache_get_entry: "redis_cache_get k w = (Inr (Some e), w') \<Longrightarrow> entry_at w k = Some e"
  by (auto simp: redis_cache_get_def next_outcome_eq Let_def entry_at_def redis_str_def
      split: outcome.splits option.splits prod.splits RedisValue.splits)

lemma cache_key_other: "has_prefix k ''llm:cache:'' \<Longrightarrow> k \<noteq> jobKey i \<and> k \<noteq> consumerKey c"
  by (auto simp: has_prefix_iff jobKey_def consumerKey_def)

lemma world_ok_cache_set:
  assumes "world_ok w" and "has_prefix k ''llm:cache:''"
  shows "world_ok (redis_set k v ttl w)"
  using assms cache_key_other [OF assms(2)]
  by (auto simp: world_ok_def map_of_redis_set redis_set_def is_string_key_def split: if_splits)

interpretation rc: response_cache NewRedisCache world_ok entry_at
proof
  fix w k g w'
  assume ok: "world_ok w" and "ca_Get NewRedisCache k w = (g, w')"
  then have g: "redis_cache_get k w = (g, w')" by (simp add: NewRedisCache_def)
  show "world_ok w' \<and> entry_at w' = entry_at w \<and> (\<forall>e. g = Inr (Some e) \<longrightarrow> entry_at w k = Some e)"
    using ok redis_cache_get_world [OF g] redis_cache_get_entry g by auto
next
  fix w k e ttl r w'
  assume ok: "world_ok w" and k: "has_prefix k ''llm:cache:''" and s: "- (2 ^ 63) \<le> en_StatusCode e" "en_StatusCode e < 2 ^ 63"
    and "ca_Set NewRedisCache k e ttl w = (r, w')"
  then obtain acked where a: "attempt (redis_set k (json_text True (entry_json e)) ttl) w = (acked, w')"
    by (auto simp: NewRedisCache_def redis_cache_set_def Let_def split: prod.splits)
  have "json_parse (json_text True (entry_json e)) = Some (entry_json e)" by (rule json_parse_text [OF entry_json_wf])
  then have "entry_at (redis_set k (json_text True (entry_json e)) ttl v) = (entry_at v)(k \<mapsto> e)" for v
    using entry_round [OF s] by (simp add: entry_at_def fun_eq_iff)
  with a show "world_ok w' \<and> changed_at False k (Some e) (entry_at w) (entry_at w')"
    by (cases rule: attempt_cases) (simp_all add: ok k world_ok_cache_set changed_at_def)
qed

interpretation nc: response_cache NewNoop "\<lambda>_. True" "\<lambda>_ _. None"
  by unfold_locales (simp_all add: NewNoop_def changed_at_def)

section \<open>Keys\<close>

definition fl_ok :: "(string \<Rightarrow> string option) \<Rightarrow> bool" where
  "fl_ok fl \<longleftrightarrow> (\<forall>l l'. fl l = Some l' \<longrightarrow> num_ok l')"

lemma those_map: "those (map f xs) = Some ys \<Longrightarrow> y \<in> set ys \<Longrightarrow> \<exists>x \<in> set xs. f x = Some y"
proof (induction xs arbitrary: ys)
  case (Cons x xs)
  then show ?case by (auto split: option.splits)
qed simp

lemma gm_of_pairs_wf: "gm_wf (gm_of_pairs kvs)"
proof -
  have "gm_wf m \<Longrightarrow> gm_wf (foldl (\<lambda>m kv. AList.update (fst kv) (snd kv) m) m kvs)" for m
    by (induction kvs arbitrary: m) auto
  then show ?thesis by (simp add: gm_of_pairs_def)
qed

lemma gm_of_pairs_set: "set (gm_of_pairs kvs) \<subseteq> set kvs"
proof -
  have "set (foldl (\<lambda>m kv. AList.update (fst kv) (snd kv) m) m kvs) \<subseteq> set m \<union> set kvs" for m
  proof (induction kvs arbitrary: m)
    case (Cons kv kvs)
    then show ?case using set_gm_update [of "fst kv" "snd kv" m] by fastforce
  qed simp
  from this [of "[]"] show ?thesis by (simp add: gm_of_pairs_def)
qed

lemma gm_of_pairs_distinct: "distinct (map fst kvs) \<Longrightarrow> gm_of_pairs kvs = kvs"
proof -
  have "distinct (map fst (m @ kvs)) \<Longrightarrow> foldl (\<lambda>m kv. AList.update (fst kv) (snd kv) m) m kvs = m @ kvs" for m
  proof (induction kvs arbitrary: m)
    case (Cons kv kvs)
    then have "AList.update (fst kv) (snd kv) m = m @ [kv]" by (subst gm_update_fresh) auto
    with Cons show ?case by simp
  qed simp
  from this [of "[]"] show "distinct (map fst kvs) \<Longrightarrow> gm_of_pairs kvs = kvs" by (simp add: gm_of_pairs_def)
qed

lemma any_of_object: "any_of fl v = Some (JObj raw) \<Longrightarrow> gm_wf raw"
  by (cases v) (auto simp: gm_of_pairs_wf)

lemma list_all_subset: "list_all P xs \<Longrightarrow> set ys \<subseteq> set xs \<Longrightarrow> list_all P ys"
  by (auto simp: list_all_iff)

lemma any_of_wf: "any_of fl v = Some u \<Longrightarrow> fl_ok fl \<Longrightarrow> json_wf u"
proof (induction fl v arbitrary: u rule: any_of.induct)
  case (1 fl l)
  then show ?case by (auto simp: fl_ok_def)
next
  case (2 fl vs)
  then obtain us where us: "those (map (any_of fl) vs) = Some us" "u = JArr us" by auto
  have "json_wf y" if "y \<in> set us" for y
    using those_map [OF us(1) that] 2(1,3) by blast
  then show ?case using us(2) by (simp add: list_all_iff)
next
  case (3 fl kvs)
  then obtain us where us: "those (map (\<lambda>kv. any_of fl (snd kv)) kvs) = Some us"
      "u = JObj (gm_of_pairs (zip (map fst kvs) us))" by auto
  have "json_wf y" if "y \<in> set us" for y
    using those_map [OF us(1) that] 3(1,3) by blast
  then have "list_all (\<lambda>kv. json_wf (snd kv)) (zip (map fst kvs) us)"
    by (auto simp: list_all_iff dest: set_zip_rightD)
  then show ?case using us(2) list_all_subset [OF _ gm_of_pairs_set] by simp
qed auto

text \<open>The normal form of a value: what two values that differ only in the order of members share.\<close>

definition norm :: "json \<Rightarrow> json" where
  "norm v = sort_members (sortedValue v)"

lemma sort_members_wf: "json_wf v \<Longrightarrow> json_wf (sort_members v)"
  by (induction v rule: sort_members.induct) (auto simp: list_all_iff)

lemma sortedValue_wf: "json_wf v \<Longrightarrow> json_wf (sortedValue v)"
proof (induction v rule: sortedValue.induct)
  case (1 kvs)
  then have "list_all (\<lambda>kv. json_wf (snd kv)) (sort_key fst (map (\<lambda>kv. (fst kv, sortedValue (snd kv))) kvs))"
    by (auto simp: list_all_iff)
  then show ?case using list_all_subset [OF _ gm_of_pairs_set] by simp
qed (auto simp: list_all_iff)

lemma norm_wf: "json_wf v \<Longrightarrow> json_wf (norm v)"
  by (simp add: norm_def sort_members_wf sortedValue_wf)

lemma map_of_snd: "map_of (map (\<lambda>kv. (fst kv, g (snd kv))) kvs) x = map_option g (map_of kvs x)"
  by (induction kvs) auto

lemma map_of_sort_key:
  assumes "distinct (map fst kvs)"
  shows "map_of (sort_key fst kvs) x = map_of kvs x"
proof -
  have "distinct (map fst (sort_key fst kvs))" using assms sort_key_wf [of kvs] by (simp add: gm_wf_def)
  then show ?thesis using gm_keys_perm_lookup [of "sort_key fst kvs" kvs] assms by (simp add: gm_wf_def)
qed

lemma norm_object:
  assumes "gm_wf kvs"
  shows "\<exists>ms. norm (JObj kvs) = JObj ms \<and> (\<forall>x. map_of ms x = map_option norm (map_of kvs x))"
proof -
  let ?a = "sort_key fst (map (\<lambda>kv. (fst kv, sortedValue (snd kv))) kvs)"
  have d0: "distinct (map fst (map (\<lambda>kv. (fst kv, sortedValue (snd kv))) kvs))" using assms by (simp add: gm_wf_def comp_def)
  then have d: "distinct (map fst ?a)" using sort_key_wf [of "map (\<lambda>kv. (fst kv, sortedValue (snd kv))) kvs"]
    unfolding gm_wf_def by blast
  let ?b = "map (\<lambda>kv. (fst kv, sort_members (snd kv))) ?a"
  have db: "distinct (map fst ?b)" using d by (simp add: comp_def)
  have "norm (JObj kvs) = JObj (sort_key fst ?b)"
    using gm_of_pairs_distinct [OF d] by (simp add: norm_def)
  moreover have "map_of (sort_key fst ?b) x = map_option norm (map_of kvs x)" for x
    unfolding map_of_sort_key [OF db] map_of_snd map_of_sort_key [OF d0]
    by (cases "map_of kvs x") (simp_all add: norm_def)
  ultimately show ?thesis by blast
qed

lemma sort_key_same:
  assumes "gm_wf xs" and "gm_wf ys" and "set xs = set ys"
  shows "sort_key fst xs = sort_key fst ys"
proof (rule map_sorted_distinct_set_unique)
  show "inj_on fst (set (sort_key fst xs) \<union> set (sort_key fst ys))"
    using assms by (simp add: gm_wf_def distinct_map)
  show "distinct (map fst (sort_key fst xs))" "distinct (map fst (sort_key fst ys))"
    using sort_key_wf [OF assms(1)] sort_key_wf [OF assms(2)] by simp_all
qed (simp_all add: assms)

lemma gm_set_eq: "gm_wf xs \<Longrightarrow> gm_wf ys \<Longrightarrow> map_of xs = map_of ys \<Longrightarrow> set xs = set ys"
  by (simp add: gm_wf_def map_of_inject_set)

lemma canonicalize_same:
  assumes "gm_wf xs" and "gm_wf ys" and "map_of xs = map_of ys"
  shows "canonicalize (JObj xs) = canonicalize (JObj ys)"
proof -
  have "set (map (\<lambda>kv. (fst kv, sortedValue (snd kv))) xs) = set (map (\<lambda>kv. (fst kv, sortedValue (snd kv))) ys)"
    using gm_set_eq [OF assms] by simp
  then have "sort_key fst (map (\<lambda>kv. (fst kv, sortedValue (snd kv))) xs) =
      sort_key fst (map (\<lambda>kv. (fst kv, sortedValue (snd kv))) ys)"
    using assms(1,2) by (intro sort_key_same) (simp_all add: gm_wf_def comp_def)
  then show ?thesis by (simp add: canonicalize_def)
qed

lemma filtered_fields_wf: "gm_wf raw \<Longrightarrow> gm_wf (filtered_fields model raw)"
  using gm_wf_update [of raw "''model''" "JStr model"] by (simp add: filtered_fields_def gm_wf_def distinct_map_filter)

lemma map_of_filter_fst: "map_of (filter (\<lambda>kv. fst kv \<in> A) m) x = (if x \<in> A then map_of m x else None)"
  by (induction m) auto

lemma model_cacheable: "''model'' \<in> set cacheableFields"
  by (simp add: cacheableFields_def)

lemma map_of_filtered_fields:
  "map_of (filtered_fields model raw) x =
    (if x = ''model'' then Some (JStr model) else if x \<in> set cacheableFields then map_of raw x else None)"
  using model_cacheable by (simp add: filtered_fields_def map_of_filter_fst)

lemma filtered_fields_json_wf:
  assumes "json_wf (JObj raw)"
  shows "json_wf (JObj (filtered_fields model raw))"
proof -
  have "list_all (\<lambda>kv. json_wf (snd kv)) ((''model'', JStr model) # raw)" using assms by simp
  then have "list_all (\<lambda>kv. json_wf (snd kv)) (AList.update ''model'' (JStr model) raw)"
    by (rule list_all_subset) (use set_gm_update [of "''model''" "JStr model" raw] in simp)
  then show ?thesis by (auto simp: filtered_fields_def list_all_iff)
qed

lemma Key_cases:
  assumes "Key fl provider model body = Cacheable k"
  obtains v raw where "json_parse body = Some v" "any_of fl v = Some (JObj raw)" "map_of raw ''stream'' \<noteq> Some (JBool True)"
    "k = ''llm:cache:'' @ hex_text (sha256 (key_text provider model raw))" "gm_wf raw"
  using assms any_of_object by (fastforce simp: Key_def split: if_splits option.splits json.splits)

text \<open>C22: the key of a request depends on nothing but the provider, the configured model and the values of
  the other cacheable members: two bodies that agree on these, in whatever order, with whatever
  other members and whatever model they name, have the same key.\<close>

theorem Key_congruent:
  assumes "json_parse b1 = Some v1" and "any_of fl v1 = Some (JObj r1)" and "map_of r1 ''stream'' \<noteq> Some (JBool True)"
    and "json_parse b2 = Some v2" and "any_of fl v2 = Some (JObj r2)" and "map_of r2 ''stream'' \<noteq> Some (JBool True)"
    and "\<forall>x \<in> set cacheableFields. x \<noteq> ''model'' \<longrightarrow> map_of r1 x = map_of r2 x"
  shows "Key fl provider model b1 = Key fl provider model b2"
proof -
  have ne: "b1 \<noteq> []" "b2 \<noteq> []" using assms(1,4) by (auto simp: json_parse_def)
  have "map_of (filtered_fields model r1) = map_of (filtered_fields model r2)"
    using assms(7) by (auto simp: map_of_filtered_fields fun_eq_iff)
  then have "key_text provider model r1 = key_text provider model r2"
    unfolding key_text_def
    using canonicalize_same filtered_fields_wf any_of_object assms(2,5) by metis
  then show ?thesis using assms ne by (simp add: Key_def)
qed

lemma hex_text_inj: "length s = length t \<Longrightarrow> hex_text s = hex_text t \<Longrightarrow> s = t"
proof (induction s arbitrary: t)
  case (Cons c s)
  then obtain d t' where t: "t = d # t'" by (cases t) auto
  have h: "hex_digit (of_char c div 16) = hex_digit (of_char d div 16)"
      "hex_digit (of_char c mod 16) = hex_digit (of_char d mod 16)" "hex_text s = hex_text t'"
    using Cons.prems(2) t by (simp_all add: hex_text_def)
  have "(of_char c :: nat) < 256" "(of_char d :: nat) < 256" by simp_all
  then have l: "of_char c div 16 < (16 :: nat)" "of_char d div 16 < (16 :: nat)" by linarith+
  have "of_char c div 16 = (of_char d div 16 :: nat)" using h(1) hex_val_digit l by (metis option.inject)
  moreover have "of_char c mod 16 = (of_char d mod 16 :: nat)" using h(2) hex_val_digit by (metis mod_less_divisor option.inject zero_less_numeral)
  ultimately have "of_char c = (of_char d :: nat)" by (metis div_mult_mod_eq)
  then show ?case using Cons h(3) t by simp
qed simp

lemma canonicalize_norm:
  assumes "json_wf a" and "json_wf b" and "canonicalize a = canonicalize b"
  shows "norm a = norm b"
proof -
  have "canonicalize v = json_text True (norm v)" for v by (simp add: canonicalize_def norm_def)
  then show ?thesis
    using json_parse_text [OF norm_wf [OF assms(1)], of True] json_parse_text [OF norm_wf [OF assms(2)], of True] assms(3)
    by (metis option.inject)
qed

lemma colon_split: "p @ '':'' @ s = q @ '':'' @ t \<Longrightarrow> CHR '':'' \<notin> set p \<Longrightarrow> CHR '':'' \<notin> set q \<Longrightarrow> p = q \<and> s = t"
proof (induction p arbitrary: q)
  case Nil
  then show ?case by (cases q) auto
next
  case (Cons c p)
  then show ?case by (cases q) auto
qed

text \<open>C23: no two different requests share a cached answer: when two requests have one key, then their
  providers and configured models are the same and every cacheable member has the same value up to
  the order of members inside it; or their canonical texts, the inputs of the hash, are different
  texts with one SHA-256.\<close>

theorem Key_separates:
  assumes "fl_ok fl" and "Key fl p m b = Cacheable k" and "Key fl p' m' b' = Cacheable k"
    and "CHR '':'' \<notin> set p" and "CHR '':'' \<notin> set p'"
  shows "\<exists>v v' raw raw'. json_parse b = Some v \<and> any_of fl v = Some (JObj raw) \<and>
    json_parse b' = Some v' \<and> any_of fl v' = Some (JObj raw') \<and>
    (p = p' \<and> m = m' \<and>
       (\<forall>x \<in> set cacheableFields - {''model''}. map_option norm (map_of raw x) = map_option norm (map_of raw' x)) \<or>
     key_text p m raw \<noteq> key_text p' m' raw' \<and> sha256 (key_text p m raw) = sha256 (key_text p' m' raw'))"
proof -
  obtain v raw where r: "json_parse b = Some v" "any_of fl v = Some (JObj raw)"
      "k = ''llm:cache:'' @ hex_text (sha256 (key_text p m raw))" "gm_wf raw"
    by (rule Key_cases [OF assms(2)])
  obtain v' raw' where r': "json_parse b' = Some v'" "any_of fl v' = Some (JObj raw')"
      "k = ''llm:cache:'' @ hex_text (sha256 (key_text p' m' raw'))" "gm_wf raw'"
    by (rule Key_cases [OF assms(3)])
  have "hex_text (sha256 (key_text p m raw)) = hex_text (sha256 (key_text p' m' raw'))"
    using r(3) r'(3) by (metis same_append_eq)
  then have "sha256 (key_text p m raw) = sha256 (key_text p' m' raw')"
    by (rule hex_text_inj [rotated]) (simp only: length_sha256)
  show ?thesis
  proof (cases "key_text p m raw = key_text p' m' raw'")
    case False
    then show ?thesis using \<open>sha256 _ = sha256 _\<close> r(1,2) r'(1,2) by blast
  next
    case True
    then have pp: "p = p'" and c: "canonicalize (JObj (filtered_fields m raw)) = canonicalize (JObj (filtered_fields m' raw'))"
      using colon_split [OF _ assms(4,5)] by (auto simp: key_text_def)
    have n: "norm (JObj (filtered_fields m raw)) = norm (JObj (filtered_fields m' raw'))"
      by (rule canonicalize_norm [OF _ _ c]) (use filtered_fields_json_wf any_of_wf r(2) r'(2) assms(1) in blast)+
    have e: "map_option norm (map_of (filtered_fields m raw) x) = map_option norm (map_of (filtered_fields m' raw') x)" for x
      using norm_object [OF filtered_fields_wf [OF r(4)], of m] norm_object [OF filtered_fields_wf [OF r'(4)], of m'] n
      by (metis json.inject(5))
    have "norm (JStr m) = norm (JStr m')" using e [of "''model''"] by (simp add: map_of_filtered_fields)
    then have "m = m'" by (simp add: norm_def)
    moreover have "map_option norm (map_of raw x) = map_option norm (map_of raw' x)"
      if "x \<in> set cacheableFields - {''model''}" for x
      using e [of x] that by (simp add: map_of_filtered_fields)
    ultimately show ?thesis using pp r(1,2) r'(1,2) by blast
  qed
qed

section \<open>At work\<close>

definition demo_fl :: "string \<Rightarrow> string option" where
  "demo_fl l = (if num_ok l then Some l else None)"

definition demo_embedding :: "string \<Rightarrow> string" where
  "demo_embedding txt = json_text True (JObj [(''model'', JStr ''m''), (''input'', JStr txt)])"

lemma demo_embedding_any:
  "json_parse (demo_embedding txt) = Some (JObj [(''model'', JStr ''m''), (''input'', JStr txt)])"
  "any_of demo_fl (JObj [(''model'', JStr ''m''), (''input'', JStr txt)]) = Some (JObj [(''model'', JStr ''m''), (''input'', JStr txt)])"
  unfolding demo_embedding_def by (rule json_parse_text, simp, simp add: gm_of_pairs_def)

text \<open>Two embedding requests for different texts.\<close>

lemma Key_congruent_witness:
  "Key demo_fl ''openai'' ''m'' (demo_embedding ''cat'') = Key demo_fl ''openai'' ''m'' (demo_embedding ''dog'') \<and>
   demo_embedding ''cat'' \<noteq> demo_embedding ''dog''"
proof -
  have i: "''input'' \<notin> set cacheableFields" by (simp add: cacheableFields_def)
  have "\<forall>x \<in> set cacheableFields. x \<noteq> ''model'' \<longrightarrow>
      map_of [(''model'', JStr ''m''), (''input'', JStr ''cat'')] x = map_of [(''model'', JStr ''m''), (''input'', JStr ''dog'')] x"
    using i by auto
  from Key_congruent [OF demo_embedding_any(1,2) _ demo_embedding_any(1,2) _ this]
  have "Key demo_fl ''openai'' ''m'' (demo_embedding ''cat'') = Key demo_fl ''openai'' ''m'' (demo_embedding ''dog'')" by simp
  moreover have "demo_embedding ''cat'' \<noteq> demo_embedding ''dog''"
  proof
    assume "demo_embedding ''cat'' = demo_embedding ''dog''"
    then have "json_parse (demo_embedding ''cat'') = json_parse (demo_embedding ''dog'')" by (rule arg_cong)
    then show False unfolding demo_embedding_any(1) by simp
  qed
  ultimately show ?thesis by blast
qed

lemma Key_separates_witness:
  "\<exists>k. Key demo_fl ''openai'' ''m'' (demo_embedding ''cat'') = Cacheable k \<and>
    (\<exists>v raw. json_parse (demo_embedding ''cat'') = Some v \<and> any_of demo_fl v = Some (JObj raw))"
proof -
  have f: "fl_ok demo_fl" by (simp add: fl_ok_def demo_fl_def)
  have ne: "demo_embedding ''cat'' \<noteq> []" by (simp add: demo_embedding_def)
  obtain k where k: "Key demo_fl ''openai'' ''m'' (demo_embedding ''cat'') = Cacheable k"
    using demo_embedding_any [of "''cat''"] ne by (simp add: Key_def)
  have "CHR '':'' \<notin> set ''openai''" by simp
  from Key_separates [OF f k k this this] k show ?thesis by blast
qed

end
