(* ===== verification/Provider.thy ===== *)
theory Provider
  imports Wire
begin

text \<open>
  internal/llmproxy/provider: the adapters between the gateway's OpenAI format and the backends.
  A request is built from the service definition, the body and the path; a response is translated
  back together with the token counts it reports.  The literal Marshal writes for a float64 is the
  parameter \<open>fl\<close>, as in Json.
\<close>

record Usage =
  us_PromptTokens :: int
  us_CompletionTokens :: int

text \<open>Error texts are those of the code, of library errors without the library's detail.\<close>

record Provider =
  pv_Name :: string
  pv_BuildRequest :: "Def \<Rightarrow> string \<Rightarrow> string \<Rightarrow> string + HttpRequest"
  pv_TranslateResponse ::
    "int \<Rightarrow> (string, string list) gomap \<Rightarrow> string \<Rightarrow> string + (int \<times> string \<times> Usage option)"

section \<open>openai.go, ollama.go and passthrough.go\<close>

text \<open>http.NewRequestWithContext with the headers set on it: None when the URL does not parse.\<close>

definition post_request :: "string \<Rightarrow> (string \<times> string) list \<Rightarrow> string \<Rightarrow> HttpRequest option" where
  "post_request url headers body =
     map_option (\<lambda>u. \<lparr>hq_Method = ''POST'', hq_URL = url_string u, hq_Headers = set_headers headers [], hq_Body = (body, None)\<rparr>)
       (url_parse url)"

definition json_type :: "string \<times> string" where
  "json_type = (''Content-Type'', ''application/json'')"

definition or_default :: "string \<Rightarrow> string \<Rightarrow> string" where
  "or_default s z = (if s = [] then z else s)"

definition openai_BuildRequest :: "Def \<Rightarrow> string \<Rightarrow> string \<Rightarrow> string + HttpRequest" where
  "openai_BuildRequest d body urlPath =
     (let url = or_default (def_InferenceURL d) ''https://api.openai.com'' @ urlPath
      in (case post_request url (json_type # def_InferenceHeaders d) body of
            None \<Rightarrow> Inl (''openai: build request: parse '' @ go_quote url)
          | Some req \<Rightarrow> Inr req))"

text \<open>The members of a struct inside a struct, decoded one after the other when it occurs repeatedly.\<close>

definition sub_fields :: "json list \<Rightarrow> (string \<times> json) list option" where
  "sub_fields vs = map_option concat (those (map obj_fields vs))"

definition parseOpenAIUsage :: "string \<Rightarrow> Usage option" where
  "parseOpenAIUsage body = do {
     v \<leftarrow> json_parse body;
     f \<leftarrow> obj_fields v;
     u \<leftarrow> sub_fields (field_vals ''usage'' f);
     p \<leftarrow> dec_field d_int 0 (field_vals ''prompt_tokens'' u);
     c \<leftarrow> dec_field d_int 0 (field_vals ''completion_tokens'' u);
     Some \<lparr>us_PromptTokens = p, us_CompletionTokens = c\<rparr>
   }"

definition openai_TranslateResponse ::
    "int \<Rightarrow> (string, string list) gomap \<Rightarrow> string \<Rightarrow> string + (int \<times> string \<times> Usage option)" where
  "openai_TranslateResponse status headers body = Inr (status, body, parseOpenAIUsage body)"

definition openAIProvider :: Provider where
  "openAIProvider = \<lparr>pv_Name = ''openai'', pv_BuildRequest = openai_BuildRequest,
     pv_TranslateResponse = openai_TranslateResponse\<rparr>"

definition ollama_BuildRequest :: "Def \<Rightarrow> string \<Rightarrow> string \<Rightarrow> string + HttpRequest" where
  "ollama_BuildRequest d body urlPath =
     (let url = or_default (def_InferenceURL d) ''http://localhost:11434'' @ urlPath
      in (case post_request url (json_type # def_InferenceHeaders d) body of
            None \<Rightarrow> Inl (''ollama: build request: parse '' @ go_quote url)
          | Some req \<Rightarrow> Inr req))"

definition ollama_TranslateResponse ::
    "int \<Rightarrow> (string, string list) gomap \<Rightarrow> string \<Rightarrow> string + (int \<times> string \<times> Usage option)" where
  "ollama_TranslateResponse status headers body = Inr (status, body, parseOpenAIUsage body)"

definition ollamaProvider :: Provider where
  "ollamaProvider = \<lparr>pv_Name = ''ollama'', pv_BuildRequest = ollama_BuildRequest,
     pv_TranslateResponse = ollama_TranslateResponse\<rparr>"

definition passthrough_BuildRequest :: "Def \<Rightarrow> string \<Rightarrow> string \<Rightarrow> string + HttpRequest" where
  "passthrough_BuildRequest d body urlPath =
     (let target = def_InferenceURL d @ urlPath
      in (case post_request target (json_type # def_InferenceHeaders d) body of
            None \<Rightarrow> Inl (''passthrough: build request: parse '' @ go_quote target)
          | Some req \<Rightarrow> Inr req))"

definition passthrough_TranslateResponse ::
    "int \<Rightarrow> (string, string list) gomap \<Rightarrow> string \<Rightarrow> string + (int \<times> string \<times> Usage option)" where
  "passthrough_TranslateResponse status headers body = Inr (status, body, parseOpenAIUsage body)"

definition passthroughProvider :: Provider where
  "passthroughProvider = \<lparr>pv_Name = ''passthrough'', pv_BuildRequest = passthrough_BuildRequest,
     pv_TranslateResponse = passthrough_TranslateResponse\<rparr>"

section \<open>anthropic.go: requests\<close>

record OpenAIMessage =
  om_Role :: string
  om_Content :: json

record OpenAIRequest =
  or_Model :: string
  or_Messages :: "OpenAIMessage list"
  or_MaxTokens :: "int option"
  or_MaxCompTokens :: "int option"
  or_Temperature :: "string option"
  or_TopP :: "string option"
  or_Stop :: json
  or_Stream :: bool
  or_Tools :: "json list"
  or_ToolChoice :: json

fun d_float :: "(string \<Rightarrow> string option) \<Rightarrow> json \<Rightarrow> string option" where
  "d_float fl (JNum l) = fl l"
| "d_float fl _ = None"

text \<open>A slice; a member that is given twice is taken from its last occurrence.\<close>

fun d_list :: "(json \<Rightarrow> 'a option) \<Rightarrow> json \<Rightarrow> 'a list option" where
  "d_list d (JArr vs) = those (map d vs)"
| "d_list d _ = None"

definition dec_list :: "(json \<Rightarrow> 'a option) \<Rightarrow> json list \<Rightarrow> 'a list option" where
  "dec_list d vs = map_option (\<lambda>r. case r of None \<Rightarrow> [] | Some xs \<Rightarrow> xs) (dec_ptr (d_list d) None vs)"

definition dec_any :: "(string \<Rightarrow> string option) \<Rightarrow> json list \<Rightarrow> json option" where
  "dec_any fl vs = map_option (\<lambda>r. case r of None \<Rightarrow> JNull | Some v \<Rightarrow> v) (dec_ptr (any_of fl) None vs)"

definition message_of_json :: "(string \<Rightarrow> string option) \<Rightarrow> json \<Rightarrow> OpenAIMessage option" where
  "message_of_json fl v = do {
     f \<leftarrow> obj_fields v;
     a \<leftarrow> str_field ''role'' f;
     b \<leftarrow> dec_any fl (field_vals ''content'' f);
     Some \<lparr>om_Role = a, om_Content = b\<rparr>
   }"

definition request_of_json :: "(string \<Rightarrow> string option) \<Rightarrow> json \<Rightarrow> OpenAIRequest option" where
  "request_of_json fl v = do {
     f \<leftarrow> obj_fields v;
     a \<leftarrow> str_field ''model'' f;
     b \<leftarrow> dec_list (message_of_json fl) (field_vals ''messages'' f);
     c \<leftarrow> dec_ptr d_int None (field_vals ''max_tokens'' f);
     d \<leftarrow> dec_ptr d_int None (field_vals ''max_completion_tokens'' f);
     e \<leftarrow> dec_ptr (d_float fl) None (field_vals ''temperature'' f);
     g \<leftarrow> dec_ptr (d_float fl) None (field_vals ''top_p'' f);
     h \<leftarrow> dec_any fl (field_vals ''stop'' f);
     i \<leftarrow> dec_field d_bool False (field_vals ''stream'' f);
     j \<leftarrow> dec_list (any_of fl) (field_vals ''tools'' f);
     k \<leftarrow> dec_any fl (field_vals ''tool_choice'' f);
     Some \<lparr>or_Model = a, or_Messages = b, or_MaxTokens = c, or_MaxCompTokens = d, or_Temperature = e,
       or_TopP = g, or_Stop = h, or_Stream = i, or_Tools = j, or_ToolChoice = k\<rparr>
   }"

text \<open>A part of a content list counts with its text when it is an object that has one.\<close>

fun part_text :: "json \<Rightarrow> string" where
  "part_text (JObj m) = (case map_of m ''text'' of Some (JStr t) \<Rightarrow> t | _ \<Rightarrow> [])"
| "part_text _ = []"

fun contentToString :: "json \<Rightarrow> string" where
  "contentToString (JStr s) = s"
| "contentToString (JArr parts) = concat (map part_text parts)"
| "contentToString _ = []"

definition anthropic_message :: "string \<times> (string \<times> string) list \<Rightarrow> OpenAIMessage \<Rightarrow> string \<times> (string \<times> string) list" where
  "anthropic_message acc m =
     (let (system, msgs) = acc; content = contentToString (om_Content m)
      in if om_Role m = ''system'' then ((if system \<noteq> [] then system @ [CHR 0x0A] else system) @ content, msgs)
         else (let role = (if om_Role m \<noteq> ''user'' \<and> om_Role m \<noteq> ''assistant'' then ''user'' else om_Role m)
               in (system, msgs @ [(role, content)])))"

fun stop_sequences :: "json \<Rightarrow> string list" where
  "stop_sequences (JStr v) = (if v \<noteq> [] then [v] else [])"
| "stop_sequences (JArr vs) = List.map_filter d_str vs"
| "stop_sequences _ = []"

definition anthropic_max_tokens :: "OpenAIRequest \<Rightarrow> int" where
  "anthropic_max_tokens req =
     (case or_MaxTokens req of
        Some n \<Rightarrow> n
      | None \<Rightarrow> (case or_MaxCompTokens req of Some n \<Rightarrow> n | None \<Rightarrow> 4096))"

definition message_json :: "string \<times> string \<Rightarrow> json" where
  "message_json m = JObj [(''role'', JStr (fst m)), (''content'', JStr (snd m))]"

definition anthropic_json :: "OpenAIRequest \<Rightarrow> json" where
  "anthropic_json req =
     (let (system, msgs) = foldl anthropic_message ([], []) (or_Messages req);
          stopSeqs = stop_sequences (or_Stop req)
      in JObj (
        [(''model'', JStr (or_Model req)),
         (''messages'', if msgs = [] then JNull else JArr (map message_json msgs))] @
        omitempty ''system'' system @
        [(''max_tokens'', JNum (int_text (anthropic_max_tokens req)))] @
        (case or_Temperature req of None \<Rightarrow> [] | Some l \<Rightarrow> [(''temperature'', JNum l)]) @
        (case or_TopP req of None \<Rightarrow> [] | Some l \<Rightarrow> [(''top_p'', JNum l)]) @
        (if stopSeqs = [] then [] else [(''stop_sequences'', JArr (map JStr stopSeqs))]) @
        (if or_Stream req then [(''stream'', JBool True)] else [])))"

definition openAIToAnthropic :: "(string \<Rightarrow> string option) \<Rightarrow> string \<Rightarrow> string option" where
  "openAIToAnthropic fl body = do {
     v \<leftarrow> json_parse body;
     req \<leftarrow> request_of_json fl v;
     Some (json_text True (anthropic_json req))
   }"

definition anthropic_BuildRequest :: "(string \<Rightarrow> string option) \<Rightarrow> Def \<Rightarrow> string \<Rightarrow> string \<Rightarrow> string + HttpRequest" where
  "anthropic_BuildRequest fl d body urlPath =
     (case openAIToAnthropic fl body of
        None \<Rightarrow> Inl ''anthropic: translate request''
      | Some translated \<Rightarrow>
          (let url = or_default (def_InferenceURL d) ''https://api.anthropic.com'' @ ''/v1/messages''
           in (case post_request url (json_type # (''anthropic-version'', ''2023-06-01'') # def_InferenceHeaders d) translated of
                 None \<Rightarrow> Inl (''anthropic: build request: parse '' @ go_quote url)
               | Some req \<Rightarrow> Inr req)))"

section \<open>anthropic.go: responses\<close>

record AnthropicResponse =
  ar_ID :: string
  ar_Model :: string
  ar_Type :: string
  ar_Content :: "(string \<times> string) list"
  ar_StopReason :: string
  ar_InputTokens :: int
  ar_OutputTokens :: int

definition block_of_json :: "json \<Rightarrow> (string \<times> string) option" where
  "block_of_json v = do {
     f \<leftarrow> obj_fields v;
     a \<leftarrow> str_field ''type'' f;
     b \<leftarrow> str_field ''text'' f;
     Some (a, b)
   }"

definition response_of_json :: "json \<Rightarrow> AnthropicResponse option" where
  "response_of_json v = do {
     f \<leftarrow> obj_fields v;
     a \<leftarrow> str_field ''id'' f;
     b \<leftarrow> str_field ''model'' f;
     c \<leftarrow> str_field ''type'' f;
     d \<leftarrow> dec_list block_of_json (field_vals ''content'' f);
     e \<leftarrow> str_field ''stop_reason'' f;
     u \<leftarrow> sub_fields (field_vals ''usage'' f);
     g \<leftarrow> dec_field d_int 0 (field_vals ''input_tokens'' u);
     h \<leftarrow> dec_field d_int 0 (field_vals ''output_tokens'' u);
     Some \<lparr>ar_ID = a, ar_Model = b, ar_Type = c, ar_Content = d, ar_StopReason = e, ar_InputTokens = g,
       ar_OutputTokens = h\<rparr>
   }"

definition anthropicFinishReason :: "string \<Rightarrow> string" where
  "anthropicFinishReason stopReason =
     (if stopReason = ''end_turn'' then ''stop''
      else if stopReason = ''max_tokens'' then ''length''
      else if stopReason = ''stop_sequence'' then ''stop''
      else if stopReason = ''tool_use'' then ''tool_calls''
      else stopReason)"

definition response_text :: "AnthropicResponse \<Rightarrow> string" where
  "response_text resp = concat (map (\<lambda>(ty, text). if ty = ''text'' then text else []) (ar_Content resp))"

definition openai_json :: "AnthropicResponse \<Rightarrow> json" where
  "openai_json resp = JObj
     [(''id'', JStr (ar_ID resp)), (''object'', JStr ''chat.completion''), (''model'', JStr (ar_Model resp)),
      (''choices'', JArr [JObj
        [(''index'', JNum (int_text 0)),
         (''message'', JObj [(''content'', JStr (response_text resp)), (''role'', JStr ''assistant'')]),
         (''finish_reason'', JStr (anthropicFinishReason (ar_StopReason resp)))]]),
      (''usage'', JObj
        [(''prompt_tokens'', JNum (int_text (ar_InputTokens resp))),
         (''completion_tokens'', JNum (int_text (ar_OutputTokens resp))),
         (''total_tokens'', JNum (int_text (i64 (ar_InputTokens resp + ar_OutputTokens resp))))])]"

definition anthropicToOpenAI :: "string \<Rightarrow> (string \<times> Usage) option" where
  "anthropicToOpenAI body = do {
     v \<leftarrow> json_parse body;
     resp \<leftarrow> response_of_json v;
     Some (json_text True (openai_json resp),
       \<lparr>us_PromptTokens = ar_InputTokens resp, us_CompletionTokens = ar_OutputTokens resp\<rparr>)
   }"

definition anthropic_TranslateResponse ::
    "int \<Rightarrow> (string, string list) gomap \<Rightarrow> string \<Rightarrow> string + (int \<times> string \<times> Usage option)" where
  "anthropic_TranslateResponse status headers body =
     (if status \<noteq> 200 then Inr (status, body, None)
      else (case anthropicToOpenAI body of
              None \<Rightarrow> Inl ''anthropic: translate response''
            | Some (translated, usage) \<Rightarrow> Inr (status, translated, Some usage)))"

definition anthropicProvider :: "(string \<Rightarrow> string option) \<Rightarrow> Provider" where
  "anthropicProvider fl = \<lparr>pv_Name = ''anthropic'', pv_BuildRequest = anthropic_BuildRequest fl,
     pv_TranslateResponse = anthropic_TranslateResponse\<rparr>"

section \<open>provider.go\<close>

type_synonym Providers = "(string, Provider) gomap"

definition NewProviders :: "(string \<Rightarrow> string option) \<Rightarrow> Providers" where
  "NewProviders fl =
     foldl (\<lambda>m p. AList.update (pv_Name p) p m) []
       [openAIProvider, anthropicProvider fl, ollamaProvider, passthroughProvider]"

definition Providers_Get :: "Providers \<Rightarrow> string \<Rightarrow> string + Provider" where
  "Providers_Get ps name =
     (case map_of ps name of None \<Rightarrow> Inl (''unknown provider '' @ go_quote name) | Some p \<Rightarrow> Inr p)"

end
