(* ===== verification/Tracker.thy ===== *)
theory Tracker
  imports World
begin

text \<open>
  internal/metrics/consumer_tracker.go: the tokens of every consumer, summed up in Redis sorted sets,
  and the gauge of the consumers with the most tokens.  A score is a float64, which is exact for the
  integers up to 2^53; it is an integer here.
\<close>

record 'w ConsumerTracker =
  tr_Track :: "string \<Rightarrow> string \<Rightarrow> string \<Rightarrow> int \<Rightarrow> 'w \<Rightarrow> 'w"

definition tokens_key :: "string \<Rightarrow> string \<Rightarrow> string" where
  "tokens_key userType tokenType = ''llm:consumer:tokens:'' @ userType @ '':'' @ tokenType"

definition redis_Track :: "string \<Rightarrow> string \<Rightarrow> string \<Rightarrow> int \<Rightarrow> World \<Rightarrow> World" where
  "redis_Track consumerID userType tokenType count w =
     (if consumerID = [] \<or> count = 0 then w
      else snd (attempt (redis_zincrby (tokens_key userType tokenType) consumerID count) w))"

definition NewRedisTracker :: "World ConsumerTracker" where
  "NewRedisTracker = \<lparr>tr_Track = redis_Track\<rparr>"

definition NoopTracker :: "'w ConsumerTracker" where
  "NoopTracker = \<lparr>tr_Track = \<lambda>_ _ _ _ w. w\<rparr>"

text \<open>The gauge, by consumer, user type and token type.\<close>

type_synonym TopGauge = "(string \<times> string \<times> string, int) gomap"

definition zrev_entries :: "(string, int) gomap \<Rightarrow> (string \<times> int) list" where
  "zrev_entries z = rev (sort_key snd (sort_key fst z))"

definition gauge_labels :: "(string \<times> string) list" where
  "gauge_labels = [(''sa'', ''prompt''), (''sa'', ''completion''), (''user'', ''prompt''), (''user'', ''completion'')]"

definition set_gauges :: "string \<times> string \<Rightarrow> (string \<times> int) list \<Rightarrow> TopGauge \<Rightarrow> TopGauge" where
  "set_gauges l zs g = foldl (\<lambda>g (consumer, score). AList.update (consumer, fst l, snd l) score g) g zs"

definition refresh_label :: "int \<Rightarrow> TopGauge \<times> World \<Rightarrow> string \<times> string \<Rightarrow> TopGauge \<times> World" where
  "refresh_label topN gw l =
     (let (g, w) = gw; key = tokens_key (fst l) (snd l)
      in (case next_outcome w of
            (Done, w1) \<Rightarrow>
              (if is_string_key w1 key then (g, w1)
               else (set_gauges l (redis_range 0 (i64 (topN - 1)) (zrev_entries (redis_zset w1 key))) g, w1))
          | (_, w1) \<Rightarrow> (g, w1)))"

definition refreshTopN :: "int \<Rightarrow> World \<Rightarrow> TopGauge \<times> World" where
  "refreshTopN topN w = foldl (refresh_label topN) ([], w) gauge_labels"

text \<open>The goroutine: a refresh at the start and one per tick; between two of them the other processes run.\<close>

definition StartTopNRefresh :: "int \<Rightarrow> (World \<Rightarrow> World) list \<Rightarrow> TopGauge \<Rightarrow> World \<Rightarrow> TopGauge \<times> World" where
  "StartTopNRefresh topN envs g w =
     (if topN \<le> 0 then (g, w)
      else foldl (\<lambda>(g, w) env. refreshTopN topN (env w)) (refreshTopN topN w) envs)"

end
