(* ===== verification/LlmProxy.thy ===== *)
theory LlmProxy
  imports Provider Cache Tracker
begin

text \<open>
  internal/llmproxy/handler.go: a JSON request to an LLM service is answered from the cache or
  forwarded to its provider, the answer translated, its tokens counted, and the cache filled in the
  background.  The collectors of Prometheus are in Metrics; here they matter where one panics.
\<close>

record Handler =
  lh_cache :: "World Cache"
  lh_providers :: Providers
  lh_userTypeHeader :: string
  lh_tracker :: "World ConsumerTracker"
  lh_fl :: "string \<Rightarrow> string option"

text \<open>New, with the number format of the JSON library.\<close>

definition NewHandler ::
    "(string \<Rightarrow> string option) \<Rightarrow> World Cache \<Rightarrow> Providers \<Rightarrow> string \<Rightarrow> World ConsumerTracker \<Rightarrow> Handler" where
  "NewHandler fl c p userTypeHeader tracker =
     \<lparr>lh_cache = c, lh_providers = p, lh_userTypeHeader = userTypeHeader, lh_tracker = tracker, lh_fl = fl\<rparr>"

definition llm_error_json :: "int \<Rightarrow> string \<Rightarrow> json" where
  "llm_error_json status msg =
     JObj [(''error'', JObj [(''message'', JStr msg), (''type'', JStr (''http_'' @ int_text status))])]"

definition llm_writeError :: "int \<Rightarrow> string \<Rightarrow> Response \<Rightarrow> Response" where
  "llm_writeError status msg rs =
     write_body (json_text True (llm_error_json status msg)) (WriteHeader status (content_type_json rs))"

text \<open>A body null leaves the map nil, and the assignment panics.\<close>

datatype rewrite_result = RewritePanic | RewriteFailed string | Rewritten string

definition rewriteBodyModel :: "(string \<Rightarrow> string option) \<Rightarrow> string \<Rightarrow> string \<Rightarrow> rewrite_result" where
  "rewriteBodyModel fl body newModel =
     (case do { v \<leftarrow> json_parse body; any_of fl v } of
        Some (JObj raw) \<Rightarrow> Rewritten (json_text True (sort_members (JObj (AList.update ''model'' (JStr newModel) raw))))
      | Some JNull \<Rightarrow> RewritePanic
      | _ \<Rightarrow> RewriteFailed ''rewrite model: unmarshal'')"

text \<open>The token counts of a cached body.\<close>

definition emitTokenMetrics :: "string \<Rightarrow> Usage option" where
  "emitTokenMetrics body = do {
     v \<leftarrow> json_parse body;
     f \<leftarrow> obj_fields v;
     u \<leftarrow> sub_fields (field_vals ''usage'' f);
     p \<leftarrow> dec_field d_int 0 (field_vals ''prompt_tokens'' u);
     c \<leftarrow> dec_field d_int 0 (field_vals ''completion_tokens'' u);
     Some \<lparr>us_PromptTokens = p, us_CompletionTokens = c\<rparr>
   }"

definition track_usage :: "Handler \<Rightarrow> string \<Rightarrow> string \<Rightarrow> Usage option \<Rightarrow> World \<Rightarrow> World" where
  "track_usage h consumer userType usage w =
     (case usage of
        None \<Rightarrow> w
      | Some u \<Rightarrow>
          if consumer = [] then w
          else tr_Track (lh_tracker h) consumer userType ''completion'' (us_CompletionTokens u)
                 (tr_Track (lh_tracker h) consumer userType ''prompt'' (us_PromptTokens u) w))"

section \<open>ServeJSON\<close>

text \<open>The key under which the request may be cached; None is an error that panics.\<close>

definition cache_key :: "Handler \<Rightarrow> Request \<Rightarrow> Def \<Rightarrow> string \<Rightarrow> string option option" where
  "cache_key h r d body =
     (if str_contains (header_get r ''Cache-Control'') ''no-cache'' \<or> def_ResponseCacheTTL d \<le> 0 then Some None
      else (case Key (lh_fl h) (def_Provider d) (def_Model d) body of
              KeyPanic \<Rightarrow> None
            | Cacheable k \<Rightarrow> Some (Some k)
            | _ \<Rightarrow> Some None))"

definition hit_response :: "Entry \<Rightarrow> Response" where
  "hit_response entry =
     write_body (en_Body entry)
       (WriteHeader (en_StatusCode entry)
         (set_header ''X-Cache'' ''HIT'' (set_header ''Content-Type'' (en_ContentType entry) new_response)))"

definition miss_response :: "HttpResponse \<Rightarrow> int \<Rightarrow> string \<Rightarrow> Response" where
  "miss_response resp finalStatus finalBody =
     write_body finalBody
       (WriteHeader finalStatus
         (set_header ''X-Cache'' ''MISS''
           (set_header ''Content-Type'' (or_default (first_value (hr_Headers resp) ''Content-Type'') ''application/json'')
             new_response)))"

definition cache_fill :: "Handler \<Rightarrow> Def \<Rightarrow> string option \<Rightarrow> int \<Rightarrow> string \<Rightarrow> World \<Rightarrow> World" where
  "cache_fill h d key finalStatus finalBody =
     (case key of
        None \<Rightarrow> id
      | Some k \<Rightarrow>
          if k \<noteq> [] \<and> finalStatus = 200 then
            (\<lambda>w. snd (ca_Set (lh_cache h) k
               \<lparr>en_Body = finalBody, en_ContentType = ''application/json'', en_StatusCode = finalStatus\<rparr>
               (def_ResponseCacheTTL d) w))
          else id)"

text \<open>A handler that panics before it has written is answered 500 by the recovering middleware.\<close>

definition panic_response :: Response where
  "panic_response = WriteHeader 500 new_response"

definition upstream_body :: "Handler \<Rightarrow> Def \<Rightarrow> string \<Rightarrow> rewrite_result" where
  "upstream_body h d body =
     (if def_BackendModel d \<noteq> [] then rewriteBodyModel (lh_fl h) body (def_BackendModel d) else Rewritten body)"

text \<open>A Prometheus counter panics when it is to go down: the token counts a provider reports are added to one
  before the answer is written, without a look at their sign.\<close>

definition usage_negative :: "Usage option \<Rightarrow> bool" where
  "usage_negative usage \<longleftrightarrow>
     (case usage of None \<Rightarrow> False | Some u \<Rightarrow> us_PromptTokens u < 0 \<or> us_CompletionTokens u < 0)"

definition serve_upstream ::
    "Handler \<Rightarrow> Request \<Rightarrow> Def \<Rightarrow> Provider \<Rightarrow> string \<Rightarrow> string \<Rightarrow> string option \<Rightarrow> World \<Rightarrow>
     Response \<times> World \<times> (World \<Rightarrow> World)" where
  "serve_upstream h r d prov body consumer key w =
     (let userType = (if lh_userTypeHeader h \<noteq> [] then header_get r (lh_userTypeHeader h) else [])
      in (case upstream_body h d body of
            RewritePanic \<Rightarrow> (panic_response, w, id)
          | RewriteFailed e \<Rightarrow> (llm_writeError 500 (''failed to rewrite model field: '' @ e) new_response, w, id)
          | Rewritten upstreamBody \<Rightarrow>
              (case pv_BuildRequest prov d upstreamBody (rq_Path r) of
                 Inl e \<Rightarrow> (llm_writeError 500 (''failed to build upstream request: '' @ e) new_response, w, id)
               | Inr req \<Rightarrow>
                   (case http_do req w of
                      (Inl e, w1) \<Rightarrow> (llm_writeError 502 (''upstream error: '' @ e) new_response, w1, id)
                    | (Inr resp, w1) \<Rightarrow>
                        (case snd (hr_Body resp) of
                           Some _ \<Rightarrow> (llm_writeError 502 ''failed to read upstream response'' new_response, w1, id)
                         | None \<Rightarrow>
                             (case pv_TranslateResponse prov (hr_Status resp) (hr_Headers resp) (fst (hr_Body resp)) of
                                Inl _ \<Rightarrow> (llm_writeError 500 ''failed to translate provider response'' new_response, w1, id)
                              | Inr (finalStatus, finalBody, usage) \<Rightarrow>
                                  if usage_negative usage then (panic_response, w1, id)
                                  else (miss_response resp finalStatus finalBody,
                                        track_usage h consumer userType usage w1,
                                        cache_fill h d key finalStatus finalBody)))))))"

definition ServeJSON ::
    "Handler \<Rightarrow> Request \<Rightarrow> Def \<Rightarrow> string \<Rightarrow> string \<Rightarrow> World \<Rightarrow> Response \<times> World \<times> (World \<Rightarrow> World)" where
  "ServeJSON h r d body consumer w =
     (let userType = (if lh_userTypeHeader h \<noteq> [] then header_get r (lh_userTypeHeader h) else [])
      in (case Providers_Get (lh_providers h) (def_Provider d) of
            Inl _ \<Rightarrow> (llm_writeError 500 (''unknown provider: '' @ def_Provider d) new_response, w, id)
          | Inr prov \<Rightarrow>
              (case cache_key h r d body of
                 None \<Rightarrow> (panic_response, w, id)
               | Some None \<Rightarrow> serve_upstream h r d prov body consumer None w
               | Some (Some k) \<Rightarrow>
                   if k = [] then serve_upstream h r d prov body consumer (Some k) w
                   else (case ca_Get (lh_cache h) k w of
                           (Inr (Some entry), w1) \<Rightarrow>
                             (hit_response entry, track_usage h consumer userType (emitTokenMetrics (en_Body entry)) w1, id)
                         | (_, w1) \<Rightarrow> serve_upstream h r d prov body consumer (Some k) w1))))"

end
