(* ===== verification/Provider_Facts.thy ===== *)
theory Provider_Facts
  imports Provider Cache_Facts
begin

text \<open>
  The providers: what the translation to and from the Anthropic format keeps, and the contract of a
  provider that the LLM proxy relies on, discharged for each of the four.
\<close>

section \<open>Token counts\<close>

lemma dec_int_range:
  "dec_field d_int z vs = Some n \<Longrightarrow> - (2 ^ 63) \<le> z \<and> z < 2 ^ 63 \<Longrightarrow> - (2 ^ 63) \<le> n \<and> n < 2 ^ 63"
proof (induction vs arbitrary: z)
  case (Cons v vs)
  show ?case
  proof (cases "v = JNull")
    case True
    then show ?thesis using Cons by simp
  next
    case False
    then obtain a where a: "d_int v = Some a" "dec_field d_int a vs = Some n"
      using Cons.prems(1) by (auto split: option.splits)
    then have "- (2 ^ 63) \<le> a \<and> a < 2 ^ 63" using parse_int64_range by (cases v) auto
    then show ?thesis using Cons.IH [OF a(2)] by simp
  qed
qed simp

lemma response_of_json_range:
  assumes "response_of_json v = Some resp"
  shows "- (2 ^ 63) \<le> ar_InputTokens resp \<and> ar_InputTokens resp < 2 ^ 63"
    and "- (2 ^ 63) \<le> ar_OutputTokens resp \<and> ar_OutputTokens resp < 2 ^ 63"
proof -
  from assms obtain u where u: "dec_field d_int 0 (field_vals ''input_tokens'' u) = Some (ar_InputTokens resp)"
      "dec_field d_int 0 (field_vals ''output_tokens'' u) = Some (ar_OutputTokens resp)"
    by (auto simp: response_of_json_def split: bind_splits)
  show "- (2 ^ 63) \<le> ar_InputTokens resp \<and> ar_InputTokens resp < 2 ^ 63"
    by (rule dec_int_range [OF u(1)]) simp
  show "- (2 ^ 63) \<le> ar_OutputTokens resp \<and> ar_OutputTokens resp < 2 ^ 63"
    by (rule dec_int_range [OF u(2)]) simp
qed

lemma openai_json_wf: "json_wf (openai_json resp)"
  by (simp add: openai_json_def)

lemma openai_json_usage:
  assumes "- (2 ^ 63) \<le> ar_InputTokens resp" "ar_InputTokens resp < 2 ^ 63"
    and "- (2 ^ 63) \<le> ar_OutputTokens resp" "ar_OutputTokens resp < 2 ^ 63"
  shows "parseOpenAIUsage (json_text True (openai_json resp)) =
    Some \<lparr>us_PromptTokens = ar_InputTokens resp, us_CompletionTokens = ar_OutputTokens resp\<rparr>"
  using assms unfolding parseOpenAIUsage_def json_parse_text [OF openai_json_wf]
  by (simp add: openai_json_def sub_fields_def field_vals_def to_lower_def lower_char_def less_eq_char_def parse_int64_text)

text \<open>The interface of a provider: the usage it reports for a successful response is the usage the
  translated body carries, so that a body answered from the cache counts for what it counted for at
  first, and the status is the backend's.\<close>

locale token_counting =
  fixes p :: Provider
  assumes usage: "pv_TranslateResponse p status headers body = Inr (200, out, u) \<Longrightarrow> u = parseOpenAIUsage out"
    and status: "pv_TranslateResponse p status headers body = Inr (status', out, u) \<Longrightarrow> status' = status"

interpretation po: token_counting openAIProvider
  by unfold_locales (auto simp: openAIProvider_def openai_TranslateResponse_def)

interpretation pl: token_counting ollamaProvider
  by unfold_locales (auto simp: ollamaProvider_def ollama_TranslateResponse_def)

interpretation pp: token_counting passthroughProvider
  by unfold_locales (auto simp: passthroughProvider_def passthrough_TranslateResponse_def)

lemma anthropic_usage:
  assumes "anthropicToOpenAI body = Some (out, u)"
  shows "parseOpenAIUsage out = Some u"
  using assms openai_json_usage response_of_json_range by (fastforce simp: anthropicToOpenAI_def split: bind_splits)

interpretation pa: token_counting "anthropicProvider fl" for fl
proof
  fix status headers body out u
  assume "pv_TranslateResponse (anthropicProvider fl) status headers body = Inr (200, out, u)"
  then show "u = parseOpenAIUsage out"
    using anthropic_usage by (auto simp: anthropicProvider_def anthropic_TranslateResponse_def split: if_splits option.splits)
next
  fix status headers body status' out u
  assume "pv_TranslateResponse (anthropicProvider fl) status headers body = Inr (status', out, u)"
  then show "status' = status"
    by (auto simp: anthropicProvider_def anthropic_TranslateResponse_def split: if_splits option.splits)
qed

lemma provider_names [simp]:
  "pv_Name openAIProvider = ''openai''" "pv_Name (anthropicProvider fl) = ''anthropic''"
  "pv_Name ollamaProvider = ''ollama''" "pv_Name passthroughProvider = ''passthrough''"
  by (simp_all add: openAIProvider_def anthropicProvider_def ollamaProvider_def passthroughProvider_def)

lemma Providers_Get_cases:
  assumes "Providers_Get (NewProviders fl) name = Inr p"
  obtains "name = ''openai''" "p = openAIProvider" | "name = ''anthropic''" "p = anthropicProvider fl"
  | "name = ''ollama''" "p = ollamaProvider" | "name = ''passthrough''" "p = passthroughProvider"
  using assms by (auto simp: Providers_Get_def NewProviders_def split: if_splits)

lemma Providers_Get_counting: "Providers_Get (NewProviders fl) name = Inr p \<Longrightarrow> token_counting p"
  by (erule Providers_Get_cases) (auto intro: po.token_counting_axioms pa.token_counting_axioms
      pl.token_counting_axioms pp.token_counting_axioms)

section \<open>Requests to Anthropic\<close>

text \<open>The system prompt as one text, and the role a message is given.\<close>

definition system_prompt :: "string list \<Rightarrow> string" where
  "system_prompt cs = join_on (CHR 0x0A) (dropWhile (\<lambda>s. s = []) cs)"

definition role_of :: "string \<Rightarrow> string" where
  "role_of role = (if role \<noteq> ''user'' \<and> role \<noteq> ''assistant'' then ''user'' else role)"

abbreviation is_system :: "OpenAIMessage \<Rightarrow> bool" where "is_system m \<equiv> om_Role m = ''system''"

definition conversation :: "OpenAIMessage list \<Rightarrow> (string \<times> string) list" where
  "conversation ms = map (\<lambda>m. (role_of (om_Role m), contentToString (om_Content m))) (filter (\<lambda>m. \<not> is_system m) ms)"

definition prompts :: "OpenAIMessage list \<Rightarrow> string list" where
  "prompts ms = map (\<lambda>m. contentToString (om_Content m)) (filter is_system ms)"

lemma join_on_snoc: "xs \<noteq> [] \<Longrightarrow> join_on c (xs @ [x]) = join_on c xs @ c # x"
  by (induction xs rule: join_on.induct) auto

lemma join_on_Nil_iff: "join_on c xs = [] \<longleftrightarrow> xs = [] \<or> xs = [[]]"
  by (cases "(c, xs)" rule: join_on.cases) auto

lemma dropWhile_head: "dropWhile P xs = y # ys \<Longrightarrow> \<not> P y"
  by (metis hd_dropWhile list.distinct(1) list.sel(1))

lemma system_prompt_snoc:
  "system_prompt (cs @ [c]) = (if system_prompt cs \<noteq> [] then system_prompt cs @ [CHR 0x0A] else system_prompt cs) @ c"
proof (cases "dropWhile (\<lambda>s. s = []) cs")
  case Nil
  then have "dropWhile (\<lambda>s. s = []) (cs @ [c]) = (if c = [] then [] else [c])"
    by (simp add: dropWhile_append)
  then show ?thesis unfolding system_prompt_def Nil by (cases c) simp_all
next
  case (Cons x xs)
  then have x: "x \<noteq> []" by (rule dropWhile_head)
  have "(\<forall>s \<in> set cs. s = []) = False" unfolding dropWhile_eq_Nil_conv [symmetric] Cons by simp
  then have "dropWhile (\<lambda>s. s = []) (cs @ [c]) = (x # xs) @ [c]" by (simp only: dropWhile_append if_False Cons)
  then show ?thesis
    unfolding system_prompt_def Cons using x join_on_snoc [of "x # xs" "CHR 0x0A" c] join_on_Nil_iff [of "CHR 0x0A" "x # xs"]
    by simp
qed

lemma anthropic_messages:
  "foldl anthropic_message ([], []) ms = (system_prompt (prompts ms), conversation ms)"
proof (induction ms rule: rev_induct)
  case Nil
  then show ?case by (simp add: system_prompt_def prompts_def conversation_def)
next
  case (snoc m ms)
  have "is_system m \<Longrightarrow> prompts (ms @ [m]) = prompts ms @ [contentToString (om_Content m)] \<and> conversation (ms @ [m]) = conversation ms"
    and "\<not> is_system m \<Longrightarrow> prompts (ms @ [m]) = prompts ms \<and>
      conversation (ms @ [m]) = conversation ms @ [(role_of (om_Role m), contentToString (om_Content m))]"
    by (simp_all add: prompts_def conversation_def)
  then show ?case using snoc by (cases "is_system m") (simp_all add: anthropic_message_def system_prompt_snoc role_of_def Let_def)
qed

lemma dec_float_ok:
  "dec_ptr (d_float fl) z vs = Some (Some l) \<Longrightarrow> fl_ok fl \<Longrightarrow> (\<forall>l. z = Some l \<longrightarrow> num_ok l) \<Longrightarrow> num_ok l"
proof (induction vs arbitrary: z)
  case (Cons v vs)
  show ?case
  proof (cases "v = JNull")
    case True
    then show ?thesis using Cons.IH [of None] Cons.prems by simp
  next
    case False
    then obtain a where a: "d_float fl v = Some a" "dec_ptr (d_float fl) (Some a) vs = Some (Some l)"
      using Cons.prems(1) by (auto split: option.splits)
    then have "num_ok a" using Cons.prems(2) by (cases v) (auto simp: fl_ok_def)
    then show ?thesis using Cons.IH [of "Some a"] a Cons.prems(2) by simp
  qed
qed simp

lemma request_floats:
  assumes "request_of_json fl v = Some req" and "fl_ok fl"
  shows "or_Temperature req = Some l \<Longrightarrow> num_ok l" and "or_TopP req = Some l \<Longrightarrow> num_ok l"
  using assms dec_float_ok [of fl None] by (auto simp: request_of_json_def split: bind_splits)

lemma anthropic_json_members:
  "anthropic_json req = JObj (
     [(''model'', JStr (or_Model req)),
      (''messages'', if conversation (or_Messages req) = [] then JNull
         else JArr (map message_json (conversation (or_Messages req))))] @
     omitempty ''system'' (system_prompt (prompts (or_Messages req))) @
     [(''max_tokens'', JNum (int_text (anthropic_max_tokens req)))] @
     (case or_Temperature req of None \<Rightarrow> [] | Some l \<Rightarrow> [(''temperature'', JNum l)]) @
     (case or_TopP req of None \<Rightarrow> [] | Some l \<Rightarrow> [(''top_p'', JNum l)]) @
     (if stop_sequences (or_Stop req) = [] then [] else [(''stop_sequences'', JArr (map JStr (stop_sequences (or_Stop req))))]) @
     (if or_Stream req then [(''stream'', JBool True)] else []))"
  by (simp only: anthropic_json_def anthropic_messages Let_def prod.case)

lemma anthropic_json_wf:
  assumes "request_of_json fl v = Some req" and "fl_ok fl"
  shows "json_wf (anthropic_json req)"
  using request_floats [OF assms]
  by (auto simp: anthropic_json_members message_json_def omitempty_def list_all_iff split: option.splits)


definition demo_chat :: string where
  "demo_chat = json_text True (JObj [(''model'', JStr ''c''), (''messages'', JArr
     [JObj [(''role'', JStr ''system''), (''content'', JStr ''be brief'')],
      JObj [(''role'', JStr ''tool''), (''content'', JArr [JObj [(''type'', JStr ''text''), (''text'', JStr ''hi'')]])]])])"

lemma demo_chat_parse: "json_parse demo_chat = Some (JObj [(''model'', JStr ''c''), (''messages'', JArr
     [JObj [(''role'', JStr ''system''), (''content'', JStr ''be brief'')],
      JObj [(''role'', JStr ''tool''), (''content'', JArr [JObj [(''type'', JStr ''text''), (''text'', JStr ''hi'')]])]])])"
  unfolding demo_chat_def by (rule json_parse_text) simp


end
