(* ===== verification/Llm_Facts.thy ===== *)
theory Llm_Facts
  imports LlmProxy Provider_Facts
begin

text \<open>
  The LLM proxy: what the cache answers is what the provider answered, it counts the same tokens, and
  nothing but a successful answer is ever put there.
\<close>

section \<open>The tracker\<close>

text \<open>The interface of a tracker: it leaves everything but its counters alone, so the cache too.\<close>

locale usage_tracker =
  fixes t :: "World ConsumerTracker"
  assumes track_only: "redis_only w (tr_Track t c ut tt n w)"
    and track_cache: "has_prefix k ''llm:cache:'' \<Longrightarrow> entry_at (tr_Track t c ut tt n w) k = entry_at w k"
begin

lemma usage_tracked:
  assumes "lh_tracker h = t"
  shows "redis_only w (track_usage h c ut u w)"
    and "has_prefix k ''llm:cache:'' \<Longrightarrow> entry_at (track_usage h c ut u w) k = entry_at w k"
proof -
  show "redis_only w (track_usage h c ut u w)"
    using redis_only_trans [OF track_only track_only] by (auto simp: track_usage_def assms split: option.split)
  show "has_prefix k ''llm:cache:'' \<Longrightarrow> entry_at (track_usage h c ut u w) k = entry_at w k"
    by (auto simp: track_usage_def assms track_cache split: option.split)
qed

end

interpretation nt: usage_tracker NoopTracker
  by unfold_locales (simp_all add: NoopTracker_def)

lemma tokens_key_other: "has_prefix k ''llm:cache:'' \<Longrightarrow> k \<noteq> tokens_key ut tt"
  by (auto simp: has_prefix_iff tokens_key_def)

lemma redis_Track_cases:
  obtains "redis_Track c ut tt n w = w" | "redis_Track c ut tt n w = tick w"
  | "redis_Track c ut tt n w = redis_zincrby (tokens_key ut tt) c n (tick w)"
proof (cases "c = [] \<or> n = 0")
  case True
  then show thesis using that(1) by (auto simp: redis_Track_def)
next
  case False
  obtain acked w' where a: "attempt (redis_zincrby (tokens_key ut tt) c n) w = (acked, w')" by fastforce
  have "redis_Track c ut tt n w = w'" using False a by (simp add: redis_Track_def)
  with a that(2,3) show thesis by (cases rule: attempt_cases) auto
qed

interpretation rt: usage_tracker NewRedisTracker
proof
  fix w c ut tt n
  show "redis_only w (tr_Track NewRedisTracker c ut tt n w)"
    by (cases rule: redis_Track_cases [of c ut tt n w])
      (simp_all add: NewRedisTracker_def redis_zincrby_def redis_put_zset_def redis_only_def redis_del_def)
next
  fix k w c ut tt n
  assume "has_prefix k ''llm:cache:''"
  then have k: "k \<noteq> tokens_key ut tt" by (rule tokens_key_other)
  have "map_of (w_redis (tr_Track NewRedisTracker c ut tt n w)) k = map_of (w_redis w) k"
    using k map_of_put_zset [OF k]
    by (cases rule: redis_Track_cases [of c ut tt n w]) (simp_all add: NewRedisTracker_def redis_zincrby_def)
  then show "entry_at (tr_Track NewRedisTracker c ut tt n w) k = entry_at w k"
    by (simp add: entry_at_def redis_str_def)
qed

section \<open>One request\<close>

text \<open>What a request that asks its provider leads to.\<close>

definition user_type :: "Handler \<Rightarrow> Request \<Rightarrow> string" where
  "user_type h r = (if lh_userTypeHeader h \<noteq> [] then header_get r (lh_userTypeHeader h) else [])"

definition answered ::
    "Handler \<Rightarrow> Request \<Rightarrow> Def \<Rightarrow> Provider \<Rightarrow> string \<Rightarrow> string option \<Rightarrow> World \<Rightarrow> Response \<times> World \<times> (World \<Rightarrow> World) \<Rightarrow> bool" where
  "answered h r d prov consumer key w res \<longleftrightarrow>
     (\<exists>resp st out u w1. pv_TranslateResponse prov (hr_Status resp) (hr_Headers resp) (fst (hr_Body resp)) = Inr (st, out, u) \<and>
        w_redis w1 = w_redis w \<and> w_outcomes w1 = w_outcomes w \<and>
        res = (miss_response resp st out, track_usage h consumer (user_type h r) u w1, cache_fill h d key st out))"

lemma error_status:
  "rs_Status (llm_writeError code msg new_response) = Some code" "rs_Status panic_response = Some 500"
  by (simp_all add: llm_writeError_def panic_response_def)

lemma http_do_stores: "http_do q w = (a, w') \<Longrightarrow> w_redis w' = w_redis w \<and> w_outcomes w' = w_outcomes w"
  by (auto simp: http_do_def Let_def split: list.splits)

lemma answeredI:
  "pv_TranslateResponse prov (hr_Status resp) (hr_Headers resp) (fst (hr_Body resp)) = Inr (st, out, u) \<Longrightarrow>
   w_redis w1 = w_redis w \<Longrightarrow> w_outcomes w1 = w_outcomes w \<Longrightarrow>
   answered h r d prov consumer key w
     (miss_response resp st out, track_usage h consumer (user_type h r) u w1, cache_fill h d key st out)"
  unfolding answered_def by blast

lemma serve_upstream_cases:
  assumes "serve_upstream h r d prov body consumer key w = (rs, w', bg)"
  obtains "answered h r d prov consumer key w (rs, w', bg)" | "bg = id" "rs_Status rs \<in> {Some 500, Some 502}"
proof (cases "bg = id \<and> rs_Status rs \<in> {Some 500, Some 502}")
  case False
  then obtain ub where ub: "upstream_body h d body = Rewritten ub"
    using assms by (cases "upstream_body h d body") (auto simp: serve_upstream_def Let_def error_status)
  with False assms obtain req where req: "pv_BuildRequest prov d ub (rq_Path r) = Inr req"
    by (cases "pv_BuildRequest prov d ub (rq_Path r)") (auto simp: serve_upstream_def Let_def error_status)
  obtain a w1 where h: "http_do req w = (a, w1)" by fastforce
  with False assms ub req obtain resp where resp: "a = Inr resp"
    by (cases a) (auto simp: serve_upstream_def Let_def error_status)
  with False assms ub req h have b: "snd (hr_Body resp) = None"
    by (cases "snd (hr_Body resp)") (auto simp: serve_upstream_def Let_def error_status)
  with False assms ub req h resp obtain st out u where
    t: "pv_TranslateResponse prov (hr_Status resp) (hr_Headers resp) (fst (hr_Body resp)) = Inr (st, out, u)"
    by (cases "pv_TranslateResponse prov (hr_Status resp) (hr_Headers resp) (fst (hr_Body resp))")
      (auto simp: serve_upstream_def Let_def error_status)
  from False assms ub req h resp b t have "\<not> usage_negative u" by (auto simp: serve_upstream_def Let_def error_status)
  then have "(rs, w', bg) = (miss_response resp st out, track_usage h consumer (user_type h r) u w1, cache_fill h d key st out)"
    using assms ub req h resp b t by (auto simp: serve_upstream_def Let_def user_type_def)
  then show thesis using that(1) answeredI [OF t] http_do_stores [OF h] by simp
qed (use that(2) in blast)

lemma miss_simps [simp]:
  "rs_Status (miss_response resp st out) = Some st" "rs_Body (miss_response resp st out) = out"
  by (simp_all add: miss_response_def)

lemma hit_simps [simp]:
  "rs_Status (hit_response e) = Some (en_StatusCode e)" "rs_Body (hit_response e) = en_Body e"
  "map_of (rs_Sent (hit_response e)) ''X-Cache'' = Some [''HIT'']"
  by (simp_all add: hit_response_def) (simp add: WriteHeader_def set_header_def write_body_def Let_def new_response_def)

lemma cache_key_prefix:
  assumes "cache_key h r d body = Some (Some k)"
  shows "has_prefix k ''llm:cache:''" and "k \<noteq> []"
proof -
  from assms have "Key (lh_fl h) (def_Provider d) (def_Model d) body = Cacheable k"
    by (auto simp: cache_key_def split: if_splits key_result.splits)
  then obtain s where "k = ''llm:cache:'' @ s" by (auto elim!: Key_cases)
  then show "has_prefix k ''llm:cache:''" "k \<noteq> []" by (simp_all only: has_prefix_append) simp
qed

lemma emitTokenMetrics_usage: "emitTokenMetrics body = parseOpenAIUsage body"
  by (simp add: emitTokenMetrics_def parseOpenAIUsage_def)

section \<open>The cache\<close>

lemma tick_calm: "w_outcomes w = [] \<Longrightarrow> tick w = w"
  by (simp add: tick_def)

lemma redis_cache_set_done:
  assumes "w_outcomes w = []" and "- (2 ^ 63) \<le> en_StatusCode e" "en_StatusCode e < 2 ^ 63"
  shows "entry_at (snd (redis_cache_set k e ttl w)) k = Some e"
  using assms entry_round [OF assms(2,3)] json_parse_text [OF entry_json_wf, of True e]
  by (simp add: redis_cache_set_def attempt_def next_outcome_eq tick_calm entry_at_def)

lemma redis_cache_get_done:
  assumes "w_outcomes w = []" and "entry_at w k = Some e"
  shows "redis_cache_get k w = (Inr (Some e), w)"
proof -
  from assms(2) obtain data t where "map_of (w_redis w) k = Some (RString data, t)"
      "do { v \<leftarrow> json_parse data; entry_of_json v } = Some e"
    by (auto simp: entry_at_def redis_str_def split: bind_splits option.splits prod.splits RedisValue.splits)
  then show ?thesis using assms(1) by (simp add: redis_cache_get_def next_outcome_eq tick_calm)
qed

lemma ServeJSON_miss:
  assumes "ServeJSON h r d body c w = (rs, w', bg)" and "lh_cache h = NewRedisCache"
    and "Providers_Get (lh_providers h) (def_Provider d) = Inr prov"
    and "cache_key h r d body = Some (Some k)" and "entry_at w k = None"
  shows "serve_upstream h r d prov body c (Some k) (tick w) = (rs, w', bg)"
proof -
  obtain g w1 where g: "redis_cache_get k w = (g, w1)" by fastforce
  have "w1 = tick w" by (rule redis_cache_get_world [OF g])
  moreover have "g \<noteq> Inr (Some e)" for e using redis_cache_get_entry g assms(5) by fastforce
  ultimately show ?thesis
    using assms(1-4) g cache_key_prefix(2) [OF assms(4)]
    by (auto simp: ServeJSON_def NewRedisCache_def Let_def split: sum.splits option.splits)
qed

lemma ServeJSON_hit:
  assumes "lh_cache h = NewRedisCache" and "Providers_Get (lh_providers h) (def_Provider d) = Inr prov"
    and "cache_key h r d body = Some (Some k)" and "entry_at w k = Some e" and "w_outcomes w = []"
  shows "ServeJSON h r d body c w = (hit_response e, track_usage h c (user_type h r) (parseOpenAIUsage (en_Body e)) w, id)"
  using assms cache_key_prefix(2) [OF assms(3)] redis_cache_get_done [OF assms(5,4)]
  by (simp add: ServeJSON_def NewRedisCache_def user_type_def emitTokenMetrics_usage)

text \<open>C28: a cached answer is the answer: after a request that was answered 200 by its provider, and whose
  background write to Redis went through, a request with the same cache key is answered with the
  same status and body, without the backend being asked; it leaves nothing behind, and the tokens
  it counts for its consumer are those counted the first time.\<close>

theorem cache_replay:
  assumes "lh_cache h = NewRedisCache" and "lh_providers h = NewProviders fl"
    and "lh_tracker h = NoopTracker \<or> lh_tracker h = NewRedisTracker"
    and "ServeJSON h r d body c w = (resp, w1, bg)" and "rs_Status resp = Some 200"
    and "cache_key h r d body = Some (Some k)" and "entry_at w k = None" and "w_outcomes w1 = []"
    and "cache_key h r' d body' = Some (Some k)" and "entry_at w2 k = entry_at (bg w1) k" and "w_outcomes w2 = []"
    and "ServeJSON h r' d body' c' w2 = (resp', w3, bg')"
  shows "rs_Status resp' = Some 200 \<and> rs_Body resp' = rs_Body resp \<and> map_of (rs_Sent resp') ''X-Cache'' = Some [''HIT''] \<and>
    w_requests w3 = w_requests w2 \<and> bg' = id \<and>
    (\<exists>u v. w1 = track_usage h c (user_type h r) u v \<and> w3 = track_usage h c' (user_type h r') u w2)"
proof -
  obtain prov where p: "Providers_Get (lh_providers h) (def_Provider d) = Inr prov"
    using assms(4,5) by (cases "Providers_Get (lh_providers h) (def_Provider d)") (auto simp: ServeJSON_def Let_def error_status)
  note tc = Providers_Get_counting [OF p [unfolded assms(2)]]
  from ServeJSON_miss [OF assms(4,1) p assms(6,7)] obtain st out u v resp0 where
    a: "pv_TranslateResponse prov (hr_Status resp0) (hr_Headers resp0) (fst (hr_Body resp0)) = Inr (st, out, u)"
      "resp = miss_response resp0 st out" "w1 = track_usage h c (user_type h r) u v" "bg = cache_fill h d (Some k) st out"
    using assms(5) by (cases rule: serve_upstream_cases) (auto simp: answered_def)
  have st: "st = 200" using a(2) assms(5) by simp
  have u: "u = parseOpenAIUsage out" using token_counting.usage [OF tc] a(1) st by blast
  let ?e = "\<lparr>en_Body = out, en_ContentType = ''application/json'', en_StatusCode = 200\<rparr>"
  have "entry_at (bg w1) k = Some ?e"
    using redis_cache_set_done [OF assms(8), of ?e] cache_key_prefix(2) [OF assms(6)]
    by (simp add: a(4) st cache_fill_def assms(1) NewRedisCache_def)
  with assms(10) have e: "entry_at w2 k = Some ?e" by simp
  have hit: "resp' = hit_response ?e" "w3 = track_usage h c' (user_type h r') u w2" "bg' = id"
    using ServeJSON_hit [OF assms(1) p assms(9) e assms(11), of c'] assms(12) u by simp_all
  have "redis_only w2 w3" unfolding hit(2) using assms(3) nt.usage_tracked(1) rt.usage_tracked(1) by blast
  then have "w_requests w3 = w_requests w2" by (simp add: redis_only_def)
  then show ?thesis using hit a(2,3) st by auto
qed

text \<open>C29: nothing but a successful answer gets into the cache: a request leaves a cache write behind only
  when it was answered 200, was cacheable and was not asked to bypass the cache, and what it
  writes is the body it sent, under the key of the request, for the configured time.\<close>

theorem cache_fill_exact:
  assumes "ServeJSON h r d body c w = (resp, w1, bg)" and "bg \<noteq> id"
  shows "rs_Status resp = Some 200 \<and> \<not> str_contains (header_get r ''Cache-Control'') ''no-cache'' \<and> def_ResponseCacheTTL d > 0 \<and>
    (\<exists>k. Key (lh_fl h) (def_Provider d) (def_Model d) body = Cacheable k \<and>
      bg = (\<lambda>w. snd (ca_Set (lh_cache h) k
        \<lparr>en_Body = rs_Body resp, en_ContentType = ''application/json'', en_StatusCode = 200\<rparr> (def_ResponseCacheTTL d) w)))"
proof -
  obtain prov w2 key where s: "serve_upstream h r d prov body c key w2 = (resp, w1, bg)" "cache_key h r d body = Some key"
    using assms by (auto simp: ServeJSON_def Let_def split: sum.splits option.splits prod.splits if_splits)
  from s(1) assms(2) obtain st out u resp0 where
    a: "resp = miss_response resp0 st out" "bg = cache_fill h d key st out"
    by (cases rule: serve_upstream_cases) (auto simp: answered_def)
  from a(2) assms(2) obtain k where k: "key = Some k" "st = 200"
      "bg = (\<lambda>w. snd (ca_Set (lh_cache h) k
        \<lparr>en_Body = out, en_ContentType = ''application/json'', en_StatusCode = st\<rparr> (def_ResponseCacheTTL d) w))"
    by (auto simp: cache_fill_def split: option.splits if_splits)
  with s(2) have "Key (lh_fl h) (def_Provider d) (def_Model d) body = Cacheable k"
      "\<not> str_contains (header_get r ''Cache-Control'') ''no-cache''" "def_ResponseCacheTTL d > 0"
    by (auto simp: cache_key_def split: if_splits key_result.splits)
  then show ?thesis using a(1) k by auto
qed

section \<open>At work\<close>

definition demo_llm_service :: Def where
  "demo_llm_service = \<lparr>def_Type = ''llm'', def_Model = ''m'', def_InputTopic = [], def_ResultTopic = [], def_AcceptedExts = [],
     def_MaxFileSizeMB = 0, def_InferenceURL = ''http://vllm:8000'', def_Operations = [(''chat'', [''/v1/chat''])],
     def_SyncTopic = [], def_PriorityTopic = [], def_InferenceHeaders = [], def_Provider = ''passthrough'',
     def_BackendModel = [], def_ResponseCacheTTL = 60 * second\<rparr>"

definition demo_llm_request :: Request where
  "demo_llm_request = \<lparr>rq_Method = ''POST'', rq_Path = ''/v1/chat'', rq_RawQuery = [], rq_Query = [],
     rq_Headers = [(''Content-Type'', [''application/json''])], rq_Body = (demo_embedding ''cat'', None), rq_form = Inl []\<rparr>"

definition demo_llm_world :: World where
  "demo_llm_world = \<lparr>w_outcomes = [], w_rand = [], w_objects = [], w_redis = [], w_published = [], w_topics = [],
     w_writers = [], w_relay_writers = [], w_answers = [Inr \<lparr>hr_Status = 200, hr_Headers = [], hr_Body = (''{}'', None)\<rparr>],
     w_requests = []\<rparr>"

definition demo_llm :: Handler where
  "demo_llm = NewHandler demo_fl NewRedisCache (NewProviders demo_fl) [] NoopTracker"

lemma demo_llm_simps [simp]:
  "lh_cache demo_llm = NewRedisCache" "lh_providers demo_llm = NewProviders demo_fl" "lh_tracker demo_llm = NoopTracker"
  "lh_fl demo_llm = demo_fl"
  by (simp_all add: demo_llm_def NewHandler_def)

lemma demo_provider: "Providers_Get (NewProviders demo_fl) (def_Provider demo_llm_service) = Inr passthroughProvider"
  by (simp add: Providers_Get_def NewProviders_def demo_llm_service_def)

lemma demo_llm_key:
  obtains k where "cache_key demo_llm demo_llm_request demo_llm_service (demo_embedding ''cat'') = Some (Some k)"
    "Key demo_fl ''passthrough'' ''m'' (demo_embedding ''cat'') = Cacheable k"
proof -
  have "demo_embedding ''cat'' \<noteq> []" by (simp add: demo_embedding_def)
  then obtain k where k: "Key demo_fl ''passthrough'' ''m'' (demo_embedding ''cat'') = Cacheable k"
    using demo_embedding_any [of "''cat''"] by (simp add: Key_def)
  have "\<not> str_contains (header_get demo_llm_request ''Cache-Control'') ''no-cache''" by code_simp
  then show thesis using that k by (simp add: cache_key_def demo_llm_service_def second_def)
qed

lemma demo_llm_run:
  assumes "cache_key demo_llm demo_llm_request demo_llm_service (demo_embedding ''cat'') = Some (Some k)"
  obtains resp w1 where
    "ServeJSON demo_llm demo_llm_request demo_llm_service (demo_embedding ''cat'') [] demo_llm_world =
       (resp, w1, cache_fill demo_llm demo_llm_service (Some k) 200 ''{}'')"
    "rs_Status resp = Some 200" "rs_Body resp = ''{}''" "w_outcomes w1 = []"
proof -
  have "\<not> Option.is_none (url_parse ''http://vllm:8000/v1/chat'')" by code_simp
  then obtain u where u: "url_parse ''http://vllm:8000/v1/chat'' = Some u" by (auto simp: Option.is_none_def)
  have b: "pv_BuildRequest passthroughProvider demo_llm_service (demo_embedding ''cat'') (rq_Path demo_llm_request) \<noteq> Inl e" for e
    using u by (simp add: passthroughProvider_def passthrough_BuildRequest_def post_request_def demo_llm_service_def demo_llm_request_def)
  then obtain req where req:
      "pv_BuildRequest passthroughProvider demo_llm_service (demo_embedding ''cat'') (rq_Path demo_llm_request) = Inr req"
    by (metis sum.exhaust)
  have t: "pv_TranslateResponse passthroughProvider 200 [] ''{}'' = Inr (200, ''{}'', parseOpenAIUsage ''{}'')"
    by (simp add: passthroughProvider_def passthrough_TranslateResponse_def)
  have n: "\<not> usage_negative (parseOpenAIUsage ''{}'')" by code_simp
  have "redis_cache_get k demo_llm_world = (Inr None, demo_llm_world)"
    by (simp add: redis_cache_get_def next_outcome_eq tick_calm demo_llm_world_def)
  then have "ServeJSON demo_llm demo_llm_request demo_llm_service (demo_embedding ''cat'') [] demo_llm_world =
      serve_upstream demo_llm demo_llm_request demo_llm_service passthroughProvider (demo_embedding ''cat'') [] (Some k) demo_llm_world"
    using assms cache_key_prefix(2) [OF assms] demo_provider by (simp add: ServeJSON_def) (simp add: NewRedisCache_def)
  also have "\<dots> = (miss_response \<lparr>hr_Status = 200, hr_Headers = [], hr_Body = (''{}'', None)\<rparr> 200 ''{}'',
      demo_llm_world\<lparr>w_requests := [req], w_answers := []\<rparr>, cache_fill demo_llm demo_llm_service (Some k) 200 ''{}'')"
    using req t n by (simp add: serve_upstream_def upstream_body_def http_do_def track_usage_def Let_def demo_llm_world_def
        demo_llm_service_def demo_llm_def NewHandler_def split: option.split)
  finally show thesis by (rule that) (simp_all add: demo_llm_world_def)
qed

lemma cache_replay_witness:
  "\<exists>resp w1 bg. ServeJSON demo_llm demo_llm_request demo_llm_service (demo_embedding ''cat'') [] demo_llm_world = (resp, w1, bg) \<and>
     rs_Body (fst (ServeJSON demo_llm demo_llm_request demo_llm_service (demo_embedding ''cat'') [] (bg w1))) = ''{}'' \<and>
     w_requests (fst (snd (ServeJSON demo_llm demo_llm_request demo_llm_service (demo_embedding ''cat'') [] (bg w1)))) = w_requests (bg w1)"
proof -
  obtain k where k: "cache_key demo_llm demo_llm_request demo_llm_service (demo_embedding ''cat'') = Some (Some k)"
    by (rule demo_llm_key)
  obtain resp w1 where r: "ServeJSON demo_llm demo_llm_request demo_llm_service (demo_embedding ''cat'') [] demo_llm_world =
       (resp, w1, cache_fill demo_llm demo_llm_service (Some k) 200 ''{}'')"
      "rs_Status resp = Some 200" "rs_Body resp = ''{}''" "w_outcomes w1 = []"
    by (rule demo_llm_run [OF k])
  let ?w2 = "cache_fill demo_llm demo_llm_service (Some k) 200 ''{}'' w1"
  have c: "w_outcomes ?w2 = []"
    using r(4) cache_key_prefix(2) [OF k]
    by (simp add: cache_fill_def NewRedisCache_def redis_cache_set_def attempt_def next_outcome_eq tick_calm redis_set_def)
  have e: "entry_at demo_llm_world k = None" by (simp add: entry_at_def redis_str_def demo_llm_world_def)
  have t: "lh_tracker demo_llm = NoopTracker \<or> lh_tracker demo_llm = NewRedisTracker" by simp
  obtain resp' w3 bg' where s: "ServeJSON demo_llm demo_llm_request demo_llm_service (demo_embedding ''cat'') [] ?w2 = (resp', w3, bg')"
    by (metis prod.collapse)
  from cache_replay [OF demo_llm_simps(1,2) t r(1,2) k e r(4) k refl c s] r(1,3) s show ?thesis by simp
qed

lemma cache_fill_exact_witness:
  "\<exists>resp w1 bg. ServeJSON demo_llm demo_llm_request demo_llm_service (demo_embedding ''cat'') [] demo_llm_world = (resp, w1, bg) \<and>
     bg \<noteq> id \<and> rs_Status resp = Some 200"
proof -
  obtain k where k: "cache_key demo_llm demo_llm_request demo_llm_service (demo_embedding ''cat'') = Some (Some k)"
    by (rule demo_llm_key)
  obtain resp w1 where r: "ServeJSON demo_llm demo_llm_request demo_llm_service (demo_embedding ''cat'') [] demo_llm_world =
       (resp, w1, cache_fill demo_llm demo_llm_service (Some k) 200 ''{}'')"
    by (rule demo_llm_run [OF k])
  let ?e = "\<lparr>en_Body = ''{}'', en_ContentType = ''application/json'', en_StatusCode = 200\<rparr>"
  have "entry_at (cache_fill demo_llm demo_llm_service (Some k) 200 ''{}'' demo_llm_world) k = Some ?e"
    using redis_cache_set_done [of demo_llm_world ?e] cache_key_prefix(2) [OF k]
    by (simp add: cache_fill_def NewRedisCache_def demo_llm_world_def)
  moreover have "entry_at demo_llm_world k = None" by (simp add: entry_at_def redis_str_def demo_llm_world_def)
  ultimately have n: "cache_fill demo_llm demo_llm_service (Some k) 200 ''{}'' \<noteq> id" by auto
  from cache_fill_exact [OF r n] r n show ?thesis by blast
qed

end
