(* ===== verification/Docs.thy ===== *)
theory Docs
  imports Registry Json
begin

text \<open>
  internal/handler/docs.go: the OpenAPI description of the gateway, computed from the registry.  The
  code builds a tree of Go's any and hands it to a YAML encoder, which is a parameter; the tree is a
  json here, with the members of a map in the order the code sets them.
\<close>

section \<open>Helpers\<close>

definition appendUniq :: "string list \<Rightarrow> string \<Rightarrow> string list" where
  "appendUniq xs s = (if s \<in> set xs then xs else xs @ [s])"

definition uniqueSorted :: "string list \<Rightarrow> string list" where
  "uniqueSorted s = sort (foldl appendUniq [] s)"

text \<open>strings.Join.\<close>

fun join_with :: "string \<Rightarrow> string list \<Rightarrow> string" where
  "join_with sep [] = []"
| "join_with sep [x] = x"
| "join_with sep (x # y # ys) = x @ sep @ join_with sep (y # ys)"

abbreviation em_dash :: string where "em_dash \<equiv> [CHR 0xE2, CHR 0x80, CHR 0x94]"
abbreviation blank_line :: string where "blank_line \<equiv> [CHR 0x0A, CHR 0x0A]"

definition type_of :: "string \<Rightarrow> json" where
  "type_of t = JObj [(''type'', JStr t)]"

definition typed :: "string \<Rightarrow> (string \<times> json) list \<Rightarrow> json" where
  "typed t kvs = JObj ((''type'', JStr t) # kvs)"

definition ref_to :: "string \<Rightarrow> json" where
  "ref_to target = JObj [(''$ref'', JStr target)]"

definition strs :: "string list \<Rightarrow> json" where
  "strs xs = JArr (map JStr xs)"

definition json_content :: "json \<Rightarrow> json" where
  "json_content schema = JObj [(''application/json'', JObj [(''schema'', schema)])]"

definition response_with :: "string \<Rightarrow> json \<Rightarrow> json" where
  "response_with description schema = JObj [(''description'', JStr description), (''content'', json_content schema)]"

section \<open>Fixed path items\<close>

definition healthPathItem :: json where
  "healthPathItem = JObj [(''get'', JObj
     [(''summary'', JStr ''Health check''), (''operationId'', JStr ''healthCheck''), (''security'', JArr []),
      (''responses'', JObj [(''200'', response_with ''Service is healthy''
         (typed ''object'' [(''properties'', JObj [(''status'', typed ''string'' [(''example'', JStr ''ok'')])])]))])])]"

definition getJobPathItem :: "string list \<Rightarrow> json" where
  "getJobPathItem serviceTypes = JObj [(''get'', JObj
     [(''tags'', strs [''Jobs'']), (''summary'', JStr ''Get job status and result''), (''operationId'', JStr ''getJob''),
      (''description'', JStr (''Returns the current status of a job. When `completed`, the result is inlined.'' @ blank_line @
         ''**The result file is deleted after this call** '' @ em_dash @ '' subsequent calls return 404.'')),
      (''parameters'', JArr
         [JObj [(''name'', JStr ''service_type''), (''in'', JStr ''path''), (''required'', JBool True),
            (''schema'', typed ''string'' [(''enum'', strs serviceTypes)])],
          JObj [(''name'', JStr ''id''), (''in'', JStr ''path''), (''required'', JBool True),
            (''schema'', typed ''string'' [(''format'', JStr ''uuid'')]),
            (''example'', JStr ''550e8400-e29b-41d4-a716-446655440000'')]]),
      (''responses'', JObj
         [(''200'', response_with ''Job found'' (ref_to ''#/components/schemas/JobStatusResponse'')),
          (''404'', ref_to ''#/components/responses/NotFound'')])])]"

definition listModelsPathItem :: json where
  "listModelsPathItem = JObj [(''get'', JObj
     [(''tags'', strs [''Inference'']), (''summary'', JStr ''List available models''),
      (''description'', JStr ''Returns all configured models in OpenAI-compatible format.''),
      (''operationId'', JStr ''listModels''),
      (''responses'', JObj
         [(''200'', response_with ''List of models'' (ref_to ''#/components/schemas/ModelList''))])])]"

section \<open>The submission of a job\<close>

definition models_by_type :: "Registry \<Rightarrow> (string, string list) gomap" where
  "models_by_type reg =
     foldl (\<lambda>m d. if def_Model d \<noteq> []
              then AList.update (def_Type d)
                (uniqueSorted ((case map_of m (def_Type d) of Some ms \<Rightarrow> ms | None \<Rightarrow> []) @ [def_Model d])) m
              else m) [] (AllDefs reg)"

definition all_operations :: "Registry \<Rightarrow> string list" where
  "all_operations reg = sort (foldl (\<lambda>ops d. foldl appendUniq ops (gm_keys (def_Operations d))) [] (AllDefs reg))"

definition type_parts :: "string list \<Rightarrow> Registry \<Rightarrow> string list" where
  "type_parts serviceTypes reg =
     List.map_filter (\<lambda>t. case map_of (models_by_type reg) t of
         Some (m # ms) \<Rightarrow> Some (''**'' @ t @ ''**: '' @ join_with '', '' (m # ms)) | _ \<Rightarrow> None) serviceTypes"

definition submit_schema :: "string list \<Rightarrow> Registry \<Rightarrow> json" where
  "submit_schema serviceTypes reg = JObj (
     [(''file'', typed ''string'' [(''format'', JStr ''binary''), (''description'', JStr ''File to process'')]),
      (''model'', typed ''string'' [(''description'', JStr (
         ''Inference model. Required when multiple models are configured for the service type.'' @ blank_line @
         join_with blank_line (type_parts serviceTypes reg)))]),
      (''callback_url'', typed ''string'' [(''format'', JStr ''uri''),
         (''description'', JStr ''Webhook URL called when the job completes''),
         (''example'', JStr ''https://your-app.example.com/webhook'')])] @
     (if all_operations reg \<noteq> []
      then [(''operation'', typed ''string'' [(''enum'', strs (all_operations reg)),
              (''description'', JStr ''Operation to perform. Required when the model has multiple operations.'')])]
      else []))"

text \<open>The example is the first type: without one the code panics.\<close>

definition submitJobPathItem :: "string list \<Rightarrow> Registry \<Rightarrow> json option" where
  "submitJobPathItem serviceTypes reg =
     (case serviceTypes of
        [] \<Rightarrow> None
      | t # _ \<Rightarrow> Some (JObj [(''post'', JObj
          [(''tags'', strs [''Jobs'']), (''summary'', JStr ''Submit an async inference job''),
           (''operationId'', JStr ''submitJob''),
           (''parameters'', JArr
              [JObj [(''name'', JStr ''service_type''), (''in'', JStr ''path''), (''required'', JBool True),
                 (''schema'', typed ''string'' [(''enum'', strs serviceTypes)]), (''example'', JStr t)]]),
           (''requestBody'', JObj
              [(''required'', JBool True),
               (''content'', JObj [(''multipart/form-data'', JObj [(''schema'', typed ''object''
                  [(''required'', strs [''file'']), (''properties'', submit_schema serviceTypes reg)])])])]),
           (''responses'', JObj
              [(''202'', response_with ''Job accepted'' (ref_to ''#/components/schemas/JobSubmitResponse'')),
               (''400'', ref_to ''#/components/responses/BadRequest''),
               (''404'', ref_to ''#/components/responses/NotFound''),
               (''500'', ref_to ''#/components/responses/InternalError'')])])]))"

section \<open>Synchronous paths\<close>

record entry =
  e_serviceType :: string
  e_models :: "string list"
  e_opNames :: "string list"
  e_exts :: "string list"
  e_hasSyncTopic :: bool
  e_isPattern :: bool

definition new_entry :: "Def \<Rightarrow> string \<Rightarrow> entry" where
  "new_entry d p = \<lparr>e_serviceType = def_Type d, e_models = [], e_opNames = [], e_exts = [], e_hasSyncTopic = False,
     e_isPattern = str_contains p ''{model}''\<rparr>"

definition extend_entry :: "Def \<Rightarrow> string \<Rightarrow> entry \<Rightarrow> entry" where
  "extend_entry d opName e =
     e\<lparr>e_models := appendUniq (e_models e) (def_Model d), e_opNames := appendUniq (e_opNames e) opName,
       e_exts := foldl appendUniq (e_exts e) (gm_keys (def_AcceptedExts d)),
       e_hasSyncTopic := (if def_SyncTopic d \<noteq> [] then True else e_hasSyncTopic e)\<rparr>"

definition enter_path :: "Def \<Rightarrow> string \<Rightarrow> (string, entry) gomap \<Rightarrow> string \<Rightarrow> (string, entry) gomap" where
  "enter_path d opName m p =
     (if p = [] then m
      else AList.update p (extend_entry d opName (case map_of m p of Some e \<Rightarrow> e | None \<Rightarrow> new_entry d p)) m)"

definition enter_def :: "(string, entry) gomap \<Rightarrow> Def \<Rightarrow> (string, entry) gomap" where
  "enter_def m d =
     (if def_InferenceURL d = [] \<and> def_SyncTopic d = [] then m
      else foldl (\<lambda>m (opName, paths). foldl (enter_path d opName) m paths) m (def_Operations d))"

definition by_path :: "Registry \<Rightarrow> (string, entry) gomap" where
  "by_path reg = foldl enter_def [] (AllDefs reg)"

definition sorted_entry :: "entry \<Rightarrow> entry" where
  "sorted_entry e = e\<lparr>e_models := sort (e_models e), e_opNames := sort (e_opNames e), e_exts := sort (e_exts e)\<rparr>"

definition sync_schema :: "entry \<Rightarrow> json" where
  "sync_schema e =
     (let modelField = (if e_isPattern e then [] else [(''model'', typed ''string''
            (case e_models e of [] \<Rightarrow> [] | m # ms \<Rightarrow> [(''enum'', strs (m # ms)), (''example'', JStr m)]))]);
          operation = (if length (e_opNames e) > 1 then [(''operation'', typed ''string'' [(''enum'', strs (e_opNames e)),
            (''description'', JStr ''Operation to perform. Required when the model supports multiple operations.'')])] else []);
          fileField = [(''file'', typed ''string'' ((''format'', JStr ''binary'') #
            (if e_exts e \<noteq> [] then [(''description'', JStr (''Accepted formats: '' @ join_with '', '' (e_exts e)))] else [])))];
          required = (if \<not> e_isPattern e \<and> length (e_models e) > 1 then [''model''] else []) @ [''file'']
      in typed ''object'' [(''required'', strs required), (''properties'', JObj (modelField @ operation @ fileField))])"

definition sync_summary :: "entry \<Rightarrow> string" where
  "sync_summary e =
     (let summary = join_with '' / '' (e_opNames e)
      in if summary \<noteq> [] then to_upper (take 1 summary) @ drop 1 summary @ '' (sync)'' else ''Inference (sync)'')"

definition sync_description :: "entry \<Rightarrow> string" where
  "sync_description e =
     (if e_hasSyncTopic e
      then ''Sync-over-Kafka: processed via a priority Kafka topic; connection is held open until the result is ready.''
      else ''Direct proxy to the inference backend (`inference_url`).'')"

definition sync_item :: "entry \<Rightarrow> json" where
  "sync_item e0 =
     (let e = sorted_entry e0
      in JObj [(''post'', JObj (
        [(''tags'', strs [e_serviceType e]), (''summary'', JStr (sync_summary e)),
         (''description'', JStr (sync_description e)),
         (''requestBody'', JObj [(''required'', JBool True),
            (''content'', JObj [(''multipart/form-data'', JObj [(''schema'', sync_schema e)])])]),
         (''responses'', JObj
            [(''200'', response_with ''Inference result'' (type_of ''object'')),
             (''400'', ref_to ''#/components/responses/BadRequest''),
             (''422'', ref_to ''#/components/responses/UnprocessableEntity''),
             (''504'', ref_to ''#/components/responses/GatewayTimeout''),
             (''502'', ref_to ''#/components/responses/BadGateway'')])] @
        (if e_isPattern e
         then [(''parameters'', JArr [JObj [(''name'', JStr ''model''), (''in'', JStr ''path''), (''required'', JBool True),
                (''schema'', typed ''string'' [(''enum'', strs (e_models e))])]])]
         else [])))])"

definition syncPathItems :: "Registry \<Rightarrow> (string, json) gomap" where
  "syncPathItems reg = map (\<lambda>(p, e). (p, sync_item e)) (by_path reg)"

section \<open>Shared components\<close>

definition job_submit_schema :: json where
  "job_submit_schema = typed ''object'' [(''properties'', JObj
     [(''job_id'', typed ''string'' [(''format'', JStr ''uuid''), (''example'', JStr ''550e8400-e29b-41d4-a716-446655440000'')]),
      (''service_type'', typed ''string'' [(''example'', JStr ''audio'')]),
      (''model'', typed ''string'' [(''example'', JStr ''whisper-large-v3'')]),
      (''status'', typed ''string'' [(''example'', JStr ''pending'')])])]"

definition job_status_schema :: json where
  "job_status_schema = typed ''object'' [(''properties'', JObj
     [(''job_id'', typed ''string'' [(''format'', JStr ''uuid'')]),
      (''service_type'', type_of ''string''), (''model'', type_of ''string''),
      (''status'', ref_to ''#/components/schemas/JobStatus''),
      (''result'', typed ''object'' [(''description'', JStr (''Inline result payload '' @ em_dash @
         '' present only when status is `completed`''))]),
      (''error'', typed ''string'' [(''description'', JStr (''Error message '' @ em_dash @
         '' present only when status is `failed`''))]),
      (''created_at'', typed ''string'' [(''format'', JStr ''date-time'')]),
      (''updated_at'', typed ''string'' [(''format'', JStr ''date-time'')])])]"

definition model_schemas :: "(string \<times> json) list" where
  "model_schemas =
     [(''JobStatus'', typed ''string'' [(''enum'', strs [''pending'', ''processing'', ''completed'', ''failed'']),
         (''example'', JStr ''completed'')]),
      (''ModelList'', typed ''object'' [(''properties'', JObj
         [(''object'', typed ''string'' [(''example'', JStr ''list'')]),
          (''data'', typed ''array'' [(''items'', ref_to ''#/components/schemas/Model'')])])]),
      (''Model'', typed ''object'' [(''properties'', JObj
         [(''id'', typed ''string'' [(''example'', JStr ''whisper-large-v3'')]),
          (''object'', typed ''string'' [(''example'', JStr ''model'')]),
          (''owned_by'', typed ''string'' [(''example'', JStr ''kevent'')])])]),
      (''Error'', typed ''object'' [(''properties'', JObj
         [(''error'', typed ''string'' [(''example'', JStr ''field 'file' is required'')])])])]"

definition error_responses :: "(string \<times> json) list" where
  "error_responses = map (\<lambda>(name, description). (name, response_with description (ref_to ''#/components/schemas/Error'')))
     [(''BadRequest'', ''Invalid request''), (''NotFound'', ''Resource not found''),
      (''UnprocessableEntity'', ''Inference failed''), (''InternalError'', ''Internal server error''),
      (''GatewayTimeout'', ''Timed out waiting for inference result''),
      (''BadGateway'', ''Upstream inference backend error'')]"

definition specComponents :: json where
  "specComponents = JObj
     [(''securitySchemes'', JObj [(''ApiKeyAuth'',
         typed ''apiKey'' [(''in'', JStr ''header''), (''name'', JStr ''apikey'')])]),
      (''schemas'', JObj ([(''JobSubmitResponse'', job_submit_schema), (''JobStatusResponse'', job_status_schema)] @
         model_schemas)),
      (''responses'', JObj error_responses)]"

section \<open>The document\<close>

definition specTags :: "Registry \<Rightarrow> json list" where
  "specTags reg =
     JObj [(''name'', JStr ''Jobs''), (''description'', JStr ''Async job submission and status'')] #
     map (\<lambda>t. JObj [(''name'', JStr t), (''description'', JStr (''Synchronous inference '' @ em_dash @ '' '' @ t @ '' services''))])
       (filter (\<lambda>t. list_ex (\<lambda>d. def_Type d = t \<and> def_Operations d \<noteq> []) (AllDefs reg)) (sort (Types reg)))"

definition spec_paths :: "Registry \<Rightarrow> (string, json) gomap option" where
  "spec_paths reg =
     (let serviceTypes = sort (Types reg)
      in map_option (\<lambda>submit.
           (let fixed = [(''/health'', healthPathItem), (''/jobs/{service_type}'', submit),
                  (''/jobs/{service_type}/{id}'', getJobPathItem serviceTypes)]
            in if HasSyncServices reg
               then foldl (\<lambda>m (p, item). AList.update p item m) (AList.update ''/v1/models'' listModelsPathItem fixed)
                      (syncPathItems reg)
               else fixed)) (submitJobPathItem serviceTypes reg))"

definition spec_info :: "string \<Rightarrow> json" where
  "spec_info appVersion = JObj
     [(''title'', JStr ''Kevent Inference Gateway''), (''version'', JStr appVersion),
      (''description'', JStr (''Gateway for asynchronous and synchronous inference jobs.'' @ blank_line @
         ''**Async mode** '' @ em_dash @ '' submit a file, get a `job_id`, poll for result or receive a webhook.'' @ blank_line @
         ''**Sync mode** '' @ em_dash @ '' OpenAI-compatible endpoints, response held open until inference is done.''))]"

definition GenerateSpec :: "(json \<Rightarrow> string) \<Rightarrow> Registry \<Rightarrow> string \<Rightarrow> string option" where
  "GenerateSpec yaml reg appVersion =
     map_option (\<lambda>paths. yaml (JObj
       [(''openapi'', JStr ''3.0.3''), (''info'', spec_info appVersion),
        (''servers'', JArr [JObj [(''url'', JStr ''/'')]]), (''tags'', JArr (specTags reg)),
        (''security'', JArr [JObj [(''ApiKeyAuth'', JArr [])]]), (''paths'', JObj paths), (''components'', specComponents)]))
       (spec_paths reg)"

end
