(* ===== verification/Kafka_Auth.thy ===== *)
theory Kafka_Auth
  imports Http
begin

text \<open>
  internal/kafka/auth.go, with the constructor of the producer: which SASL
  mechanism and which TLS settings the connections to Kafka get.  The mechanism objects are
  kafka-go's: a plain one is its user and password, a SCRAM one its algorithm with them, and
  \<open>scram_ok\<close> tells which pairs the library accepts.  \<open>files\<close> is the file system as os.ReadFile sees it.
\<close>

datatype scram_algorithm = SHA256 | SHA512

datatype Mechanism = PlainMechanism string string | ScramMechanism scram_algorithm string string

datatype auth_error = UnsupportedMechanism string | ScramRefused | CertUnreadable string

text \<open>The certificates of a pool are what AppendCertsFromPEM finds in the text.\<close>

record TLSSettings =
  ts_RootCAs :: "string option"

record Transport =
  tp_SASL :: "Mechanism option"
  tp_TLS :: "TLSSettings option"

definition buildSASL :: "(string \<Rightarrow> string \<Rightarrow> bool) \<Rightarrow> SASLConfig \<Rightarrow> auth_error + Mechanism option" where
  "buildSASL scram_ok cfg =
     (let scram = (\<lambda>a. if scram_ok (sasl_Username cfg) (sasl_Password cfg)
            then Inr (Some (ScramMechanism a (sasl_Username cfg) (sasl_Password cfg))) else Inl ScramRefused)
      in if sasl_Mechanism cfg = [] then Inr None
         else if to_upper (sasl_Mechanism cfg) = ''PLAIN''
           then Inr (Some (PlainMechanism (sasl_Username cfg) (sasl_Password cfg)))
         else if to_upper (sasl_Mechanism cfg) = ''SCRAM-SHA-256'' then scram SHA256
         else if to_upper (sasl_Mechanism cfg) = ''SCRAM-SHA-512'' then scram SHA512
         else Inl (UnsupportedMechanism (sasl_Mechanism cfg)))"

definition buildTLS :: "(string \<Rightarrow> string option) \<Rightarrow> TLSConfig \<Rightarrow> auth_error + TLSSettings option" where
  "buildTLS files cfg =
     (if \<not> tls_Enabled cfg then Inr None
      else if tls_CACertPath cfg \<noteq> [] then
        (case files (tls_CACertPath cfg) of
           None \<Rightarrow> Inl (CertUnreadable (tls_CACertPath cfg))
         | Some pem \<Rightarrow> Inr (Some \<lparr>ts_RootCAs = Some pem\<rparr>))
      else Inr (Some \<lparr>ts_RootCAs = None\<rparr>))"

text \<open>None is the default transport, without either.\<close>

definition buildTransport ::
    "(string \<Rightarrow> string \<Rightarrow> bool) \<Rightarrow> (string \<Rightarrow> string option) \<Rightarrow> KafkaConfig \<Rightarrow> auth_error + Transport option" where
  "buildTransport scram_ok files cfg =
     (case buildSASL scram_ok (kc_SASL cfg) of
        Inl e \<Rightarrow> Inl e
      | Inr mechanism \<Rightarrow>
          (case buildTLS files (kc_TLS cfg) of
             Inl e \<Rightarrow> Inl e
           | Inr tlsCfg \<Rightarrow>
               if mechanism = None \<and> tlsCfg = None then Inr None
               else Inr (Some \<lparr>tp_SASL = mechanism, tp_TLS = tlsCfg\<rparr>)))"

text \<open>For readers the same settings make a dialer.\<close>

definition buildDialer ::
    "(string \<Rightarrow> string \<Rightarrow> bool) \<Rightarrow> (string \<Rightarrow> string option) \<Rightarrow> KafkaConfig \<Rightarrow> auth_error + Transport option" where
  "buildDialer scram_ok files cfg =
     (case buildSASL scram_ok (kc_SASL cfg) of
        Inl e \<Rightarrow> Inl e
      | Inr mechanism \<Rightarrow>
          (case buildTLS files (kc_TLS cfg) of
             Inl e \<Rightarrow> Inl e
           | Inr tlsCfg \<Rightarrow>
               if mechanism = None \<and> tlsCfg = None then Inr None
               else Inr (Some \<lparr>tp_SASL = mechanism, tp_TLS = tlsCfg\<rparr>)))"

text \<open>A producer before its first writer.\<close>

record Producer =
  pr_brokers :: "string list"
  pr_transport :: "Transport option"

definition NewProducer ::
    "(string \<Rightarrow> string \<Rightarrow> bool) \<Rightarrow> (string \<Rightarrow> string option) \<Rightarrow> KafkaConfig \<Rightarrow> auth_error + Producer" where
  "NewProducer scram_ok files cfg =
     (case buildTransport scram_ok files cfg of
        Inl e \<Rightarrow> Inl e
      | Inr transport \<Rightarrow> Inr \<lparr>pr_brokers = kc_Brokers cfg, pr_transport = transport\<rparr>)"

text \<open>Credentials that are configured are used: no connection falls back to an open one.\<close>

lemma buildTransport_secure:
  assumes "buildTransport scram_ok files cfg = Inr t"
  shows "(t = None) = (sasl_Mechanism (kc_SASL cfg) = [] \<and> \<not> tls_Enabled (kc_TLS cfg))"
  using assms by (auto simp: buildTransport_def buildSASL_def buildTLS_def Let_def split: if_splits option.splits)

lemma dialer_like_transport: "buildDialer scram_ok files cfg = buildTransport scram_ok files cfg"
  by (simp add: buildDialer_def buildTransport_def)

end
