(* ===== verification/Gateway.thy ===== *)
theory Gateway
  imports Docs Sync_Facts LlmProxy Kafka_Auth
begin

text \<open>
  cmd/gateway/main.go with the small handlers of internal/handler: what the process builds from its
  configuration when it starts and again on every reload, and the routes it serves.  The chi router is
  a list of routes; \<open>chi\<close> tells which patterns chi accepts (it panics on the others).
\<close>

section \<open>models.go, health.go and docs.go\<close>

definition model_object :: "Def \<Rightarrow> json" where
  "model_object d = JObj [(''id'', JStr (def_Model d)), (''object'', JStr ''model''), (''owned_by'', JStr ''kevent'')]"

definition ListModels :: "Registry \<Rightarrow> Response" where
  "ListModels reg =
     encode_json (Some (JObj [(''object'', JStr ''list''), (''data'', JArr (map model_object (sort_key def_Model (Models reg))))]))
       (content_type_json new_response)"

definition Health :: "time \<Rightarrow> Response" where
  "Health now =
     write_body (json_text True (JObj [(''status'', JStr ''ok''), (''time'', JStr now)]) @ [CHR 0x0A])
       (content_type_json new_response)"

definition NewDocsSpec :: "string \<Rightarrow> Response" where
  "NewDocsSpec spec = write_body spec (set_header ''Content-Type'' ''application/yaml'' new_response)"

section \<open>swagger.go\<close>

record SwaggerSpec =
  ss_Type :: string
  ss_Model :: string
  ss_Data :: string

definition swagger_key :: "SwaggerSpec \<Rightarrow> string" where
  "swagger_key s = ss_Type s @ ''/'' @ ss_Model s"

definition fetchSwaggerJSON :: "string \<Rightarrow> (string, string) gomap \<Rightarrow> World \<Rightarrow> string option \<times> World" where
  "fetchSwaggerJSON url headers w =
     (case url_parse url of
        None \<Rightarrow> (None, w)
      | Some u \<Rightarrow>
          (case http_do \<lparr>hq_Method = ''GET'', hq_URL = url_string u, hq_Headers = set_headers headers [], hq_Body = ([], None)\<rparr> w of
             (Inl _, w1) \<Rightarrow> (None, w1)
           | (Inr resp, w1) \<Rightarrow>
               (if hr_Status resp \<noteq> 200 then (None, w1)
                else (case read_limited (4 * 2 ^ 20) (hr_Body resp) of
                        Inl _ \<Rightarrow> (None, w1)
                      | Inr data \<Rightarrow> (if json_valid data then Some data else None, w1)))))"

fun FetchSwaggerSpecs :: "ServiceConfig list \<Rightarrow> World \<Rightarrow> SwaggerSpec list \<times> World" where
  "FetchSwaggerSpecs [] w = ([], w)"
| "FetchSwaggerSpecs (svc # cfgs) w =
     (if sc_SwaggerURL svc = [] then FetchSwaggerSpecs cfgs w
      else (case fetchSwaggerJSON (sc_SwaggerURL svc) (sc_SwaggerHeaders svc) w of
              (None, w1) \<Rightarrow> FetchSwaggerSpecs cfgs w1
            | (Some data, w1) \<Rightarrow>
                (let (specs, w2) = FetchSwaggerSpecs cfgs w1
                 in (\<lparr>ss_Type = sc_Type svc, ss_Model = sc_Model svc, ss_Data = data\<rparr> # specs, w2))))"

definition NewSwaggerHandler :: "SwaggerSpec list \<Rightarrow> string \<Rightarrow> string \<Rightarrow> Response" where
  "NewSwaggerHandler specs ty model =
     (case map_of (foldl (\<lambda>m s. AList.update (swagger_key s) (ss_Data s) m) [] specs) (ty @ ''/'' @ model) of
        None \<Rightarrow> http_error 404 ''404 page not found'' new_response
      | Some data \<Rightarrow> write_body data (content_type_json new_response))"

text \<open>The list of documents the Swagger UI page is given.\<close>

definition docs_urls :: "SwaggerSpec list \<Rightarrow> string" where
  "docs_urls specs = json_text True (JArr (
     JObj [(''name'', JStr ''Gateway (jobs async + sync)''), (''url'', JStr ''/openapi.yaml'')] #
     map (\<lambda>s. JObj [(''name'', JStr (ss_Type s @ '' / '' @ ss_Model s)),
       (''url'', JStr (''/docs/spec/'' @ ss_Type s @ ''/'' @ ss_Model s))]) specs))"

text \<open>The page of the Swagger UI, with that list in its script; a tilde stands for a double quote.\<close>

definition page_text :: "string list \<Rightarrow> string" where
  "page_text ls = map (\<lambda>c. if c = CHR ''~'' then CHR 0x22 else c) (join_on (CHR 0x0A) ls)"

definition DocsUI :: "SwaggerSpec list \<Rightarrow> Response" where
  "DocsUI specs =
     write_body
       (page_text
     [''<!DOCTYPE html>'',
      ''<html lang=~en~>'',
      ''<head>'',
      ''  <meta charset=~utf-8~ />'',
      ''  <meta name=~viewport~ content=~width=device-width, initial-scale=1~ />'',
      ''  <title>Kevent API</title>'',
      ''  <link rel=~stylesheet~ href=~https://unpkg.com/swagger-ui-dist/swagger-ui.css~ />'',
      ''</head>'',
      ''<body>'',
      ''  <div id=~swagger-ui~></div>'',
      ''  <script src=~https://unpkg.com/swagger-ui-dist/swagger-ui-bundle.js~></script>'',
      ''  <script src=~https://unpkg.com/swagger-ui-dist/swagger-ui-standalone-preset.js~></script>'',
      ''  <script>'',
      ''    SwaggerUIBundle({'',
      ''      urls: ''] @
        docs_urls specs @
        page_text
     ['','',
      ''      ~urls.primaryName~: ~Gateway (jobs async + sync)~,'',
      ''      dom_id: ~#swagger-ui~,'',
      ''      presets: [SwaggerUIBundle.presets.apis, SwaggerUIStandalonePreset],'',
      ''      layout: ~StandaloneLayout~,'',
      ''      deepLinking: true,'',
      ''    });'',
      ''  </script>'',
      ''</body>'',
      ''</html>''])
       (set_header ''Content-Type'' ''text/html; charset=utf-8'' new_response)"

section \<open>Routes\<close>

definition reservedGatewayPaths :: "string list" where
  "reservedGatewayPaths = [''/health'', ''/metrics'', ''/docs'', ''/openapi.yaml'', ''/jobs'', ''/-'']"

definition reservedGatewayPath :: "string \<Rightarrow> bool" where
  "reservedGatewayPath path \<longleftrightarrow> list_ex (\<lambda>prefix. path = prefix \<or> has_prefix path (prefix @ ''/'')) reservedGatewayPaths"

datatype route_target =
    HealthRoute | MetricsRoute | DocsRoute | OpenAPIRoute | SwaggerRoute | ListJobsRoute | SubmitRoute | StatusRoute
  | ReloadRoute | ModelsRoute | SyncRoute

type_synonym route = "string \<times> string \<times> route_target"

record Router =
  ro_registry :: Registry
  ro_priorityHeader :: string
  ro_consumerHeader :: string
  ro_spec :: string
  ro_swagger :: "SwaggerSpec list"
  ro_routes :: "route list"

definition fixed_routes :: "route list" where
  "fixed_routes =
     [(''GET'', ''/health'', HealthRoute), (''GET'', ''/metrics'', MetricsRoute), (''GET'', ''/docs'', DocsRoute),
      (''GET'', ''/openapi.yaml'', OpenAPIRoute), (''GET'', ''/docs/spec/{type}/{model}'', SwaggerRoute),
      (''GET'', ''/jobs'', ListJobsRoute), (''POST'', ''/jobs/{service_type}'', SubmitRoute),
      (''GET'', ''/jobs/{service_type}/{id}'', StatusRoute), (''POST'', ''/-/reload'', ReloadRoute)]"

definition sync_routes :: "Registry \<Rightarrow> route list" where
  "sync_routes reg =
     (if HasSyncServices reg
      then (''GET'', ''/v1/models'', ModelsRoute) #
        map (\<lambda>path. (''POST'', path, SyncRoute)) (filter (\<lambda>path. \<not> reservedGatewayPath path) (SyncPaths reg))
      else [])"

text \<open>None is a panic, of GenerateSpec or of chi.\<close>

definition buildRouter ::
    "(string \<Rightarrow> bool) \<Rightarrow> (json \<Rightarrow> string) \<Rightarrow> string \<Rightarrow> Config \<Rightarrow> Registry \<Rightarrow> World \<Rightarrow> Router option \<times> World" where
  "buildRouter chi yaml version cfg reg w =
     (case GenerateSpec yaml reg version of
        None \<Rightarrow> (None, w)
      | Some spec \<Rightarrow>
          (let (swaggerSpecs, w1) = FetchSwaggerSpecs (cfg_Services cfg) w
           in if list_all (\<lambda>(_, pattern, target). target = SyncRoute \<longrightarrow> chi pattern) (sync_routes reg)
              then (Some \<lparr>ro_registry = reg, ro_priorityHeader = srv_PriorityHeader (cfg_Server cfg),
                      ro_consumerHeader = srv_ConsumerHeader (cfg_Server cfg), ro_spec = spec, ro_swagger = swaggerSpecs,
                      ro_routes = fixed_routes @ sync_routes reg\<rparr>, w1)
              else (None, w1)))"

section \<open>The process\<close>

record Gateway =
  gw_router :: Router
  gw_s3 :: S3Client
  gw_redis :: RedisClient
  gw_producer :: "Producer option"
  gw_manager :: "ConsumerManager option"
  gw_consumers :: Consumers
  gw_llm :: Handler

text \<open>What the process finds around it: the environment, the configuration file and its decoder, the YAML
  encoder, the files, the libraries' judgements, and the version it was built with.\<close>

record Surroundings =
  su_env :: env
  su_decode :: "string \<Rightarrow> Config option"
  su_config :: "string option"
  su_yaml :: "json \<Rightarrow> string"
  su_files :: "string \<Rightarrow> string option"
  su_scram :: "string \<Rightarrow> string \<Rightarrow> bool"
  su_chi :: "string \<Rightarrow> bool"
  su_fl :: "string \<Rightarrow> string option"
  su_version :: string

datatype kafka_setup = KafkaFailed | NoKafka | KafkaReady Producer ConsumerManager

text \<open>consumer.go: a manager has no consumer yet.\<close>

definition NewConsumerManager ::
    "(string \<Rightarrow> string \<Rightarrow> bool) \<Rightarrow> (string \<Rightarrow> string option) \<Rightarrow> KafkaConfig \<Rightarrow> RedisClient \<Rightarrow> S3Client \<Rightarrow>
      auth_error + ConsumerManager" where
  "NewConsumerManager scram_ok files cfg redis s3 =
     (case buildDialer scram_ok files cfg of
        Inl e \<Rightarrow> Inl e
      | Inr _ \<Rightarrow> Inr \<lparr>cm_ConsumerGroup = kc_ConsumerGroup cfg, cm_redis = redis, cm_s3 = s3\<rparr>)"

definition setup_kafka :: "Surroundings \<Rightarrow> Config \<Rightarrow> RedisClient \<Rightarrow> S3Client \<Rightarrow> kafka_setup" where
  "setup_kafka su cfg redis s3 =
     (if kc_Brokers (cfg_Kafka cfg) = [] then NoKafka
      else (case NewProducer (su_scram su) (su_files su) (cfg_Kafka cfg) of
              Inl _ \<Rightarrow> KafkaFailed
            | Inr producer \<Rightarrow>
                (case NewConsumerManager (su_scram su) (su_files su) (cfg_Kafka cfg) redis s3 of
                   Inl _ \<Rightarrow> KafkaFailed
                 | Inr consumerManager \<Rightarrow> KafkaReady producer consumerManager)))"

definition new_llm :: "Surroundings \<Rightarrow> Config \<Rightarrow> Handler" where
  "new_llm su cfg =
     NewHandler (su_fl su) NewRedisCache (NewProviders (su_fl su)) (srv_UserTypeHeader (cfg_Server cfg))
       (if cfg_TopConsumers cfg > 0 then NewRedisTracker else NoopTracker)"

text \<open>main up to the server; None when the process exits or panics.\<close>

definition start_gateway :: "Surroundings \<Rightarrow> World \<Rightarrow> Gateway option \<times> World" where
  "start_gateway su w =
     (case Load (su_env su) (su_decode su) (su_config su) of
        Inl _ \<Rightarrow> (None, w)
      | Inr cfg \<Rightarrow>
          (let reg = NewRegistry (cfg_Services cfg)
           in (case NewS3Client (cfg_S3 cfg) (cfg_EncryptionKey cfg) of
                 Inl _ \<Rightarrow> (None, w)
               | Inr s3 \<Rightarrow>
                   (case NewRedis (cfg_Redis cfg) w of
                      (Inl _, w1) \<Rightarrow> (None, w1)
                    | (Inr redis, w1) \<Rightarrow>
                        (let kafka = setup_kafka su cfg redis s3
                         in if kafka = KafkaFailed then (None, w1)
                            else (case buildRouter (su_chi su) (su_yaml su) (su_version su) cfg reg w1 of
                                    (None, w2) \<Rightarrow> (None, w2)
                                  | (Some router, w2) \<Rightarrow>
                                      (Some \<lparr>gw_router = router, gw_s3 = s3, gw_redis = redis,
                                         gw_producer = (case kafka of KafkaReady p _ \<Rightarrow> Some p | _ \<Rightarrow> None),
                                         gw_manager = (case kafka of KafkaReady _ m \<Rightarrow> Some m | _ \<Rightarrow> None),
                                         gw_consumers = (case kafka of KafkaReady _ _ \<Rightarrow> Start reg no_consumers | _ \<Rightarrow> no_consumers),
                                         gw_llm = new_llm su cfg\<rparr>, w2)))))))"

text \<open>A reload changes the router and the consumers.\<close>

datatype reload_result = Reloaded | ReloadFailed load_error | ReloadPanic

definition reload :: "Surroundings \<Rightarrow> Gateway \<Rightarrow> World \<Rightarrow> reload_result \<times> Gateway \<times> World" where
  "reload su g w =
     (case Load (su_env su) (su_decode su) (su_config su) of
        Inl e \<Rightarrow> (ReloadFailed e, g, w)
      | Inr newCfg \<Rightarrow>
          (let newReg = NewRegistry (cfg_Services newCfg)
           in (case buildRouter (su_chi su) (su_yaml su) (su_version su) newCfg newReg w of
                 (None, w1) \<Rightarrow> (ReloadPanic, g, w1)
               | (Some newRouter, w1) \<Rightarrow>
                   (Reloaded, g\<lparr>gw_router := newRouter,
                      gw_consumers := (if gw_manager g \<noteq> None then Reconcile newReg (gw_consumers g) else gw_consumers g)\<rparr>, w1))))"

text \<open>reload.go.  The texts of Load's errors, of library errors without the library's detail.\<close>

fun config_error_text :: "config_error \<Rightarrow> string" where
  "config_error_text MissingS3Endpoint = ''s3.endpoint is required''"
| "config_error_text MissingS3Region = ''s3.region is required''"
| "config_error_text MissingS3Bucket = ''s3.bucket is required''"
| "config_error_text MissingRedisAddr = ''redis.addr is required''"
| "config_error_text NoService = ''at least one service must be configured''"
| "config_error_text EmptyServiceType = ''a service has an empty type''"
| "config_error_text (TopicPair t) =
     ''service '' @ go_quote t @ '': input_topic and result_topic must both be set or both be empty''"
| "config_error_text MissingBrokers = ''kafka.brokers is required when services use Kafka topics''"
| "config_error_text (UnknownProvider t p) =
     ''service '' @ go_quote t @ '': unknown provider '' @ go_quote p @ '' (valid: openai, anthropic, ollama, passthrough)''"
| "config_error_text (NegativeCacheTTL t) = ''service '' @ go_quote t @ '': response_cache_ttl must be >= 0''"

fun load_error_text :: "load_error \<Rightarrow> string" where
  "load_error_text ReadError = ''reading config''"
| "load_error_text ParseError = ''parsing config''"
| "load_error_text (InvalidConfig e) = ''invalid config: '' @ config_error_text e"

definition NewReloadHandler :: "Surroundings \<Rightarrow> Gateway \<Rightarrow> World \<Rightarrow> Response \<times> Gateway \<times> World" where
  "NewReloadHandler su g w =
     (case reload su g w of
        (ReloadFailed e, g1, w1) \<Rightarrow> (writeError 500 (''reload failed: '' @ load_error_text e) new_response, g1, w1)
      | (ReloadPanic, g1, w1) \<Rightarrow> (panic_response, g1, w1)
      | (Reloaded, g1, w1) \<Rightarrow> (WriteHeader 200 new_response, g1, w1))"

text \<open>The handlers of the current router.  Without brokers the producer is nil, and publishing panics: the
  handlers are those of a gateway that has one.\<close>

definition job_handler_of :: "Gateway \<Rightarrow> Producer \<Rightarrow> World JobHandler" where
  "job_handler_of g producer =
     gateway_jobs (ro_registry (gw_router g)) (gw_s3 g) (gw_redis g) (pr_brokers producer)
       (ro_priorityHeader (gw_router g)) (ro_consumerHeader (gw_router g))"

definition sync_handler_of :: "Gateway \<Rightarrow> Producer \<Rightarrow> SyncHandler" where
  "sync_handler_of g producer =
     gateway_sync (ro_registry (gw_router g)) (gw_s3 g) (gw_redis g) (pr_brokers producer)
       (ro_consumerHeader (gw_router g)) (Some (ServeJSON (gw_llm g)))"

end
