(* ===== verification/Gateway_Facts.thy ===== *)
theory Gateway_Facts
  imports Gateway Llm_Facts Routing Consumer_Facts
begin

text \<open>
  The gateway process: what it documents is what it serves, a reload takes effect as a whole or not
  at all, and in every state it can reach the result consumers are those of the registry it serves.
\<close>

section \<open>Paths\<close>

definition service_paths :: "ServiceConfig list \<Rightarrow> string set" where
  "service_paths cfgs = {p. p \<noteq> [] \<and> (\<exists>c \<in> set cfgs. sync_indexed c \<and> p \<in> set (config_paths c))}"

lemma index_pattern_in_set: "pp_pattern ` set (index_pattern_in pat m d ps) = insert pat (pp_pattern ` set ps)"
  by (induction ps) auto

lemma index_wildcard_in_set: "wr_pattern ` set (index_wildcard_in pat m d b ws) = insert pat (wr_pattern ` set ws)"
  by (induction ws) auto

lemma keys_put2: "fst ` set (put2 k1 k2 v m) = insert k1 (fst ` set m)"
  by (simp add: put2_def dom_update)

lemma SyncPaths_set: "set (SyncPaths r) =
    fst ` set (bySync r) \<union> pp_pattern ` set (byPattern r) \<union> wr_pattern ` set (byWildcard r)"
  by (simp add: SyncPaths_def Un_assoc)

lemma SyncPaths_index: "set (SyncPaths (index_path cfg r p)) = (if p = [] then {} else {p}) \<union> set (SyncPaths r)"
  by (simp add: SyncPaths_set index_path_def Let_def indexPattern_def indexWildcard_def index_pattern_in_set
      index_wildcard_in_set keys_put2)

lemma SyncPaths_fold: "set (SyncPaths (foldl (index_path cfg) r ps)) = (set ps - {[]}) \<union> set (SyncPaths r)"
  by (induction ps arbitrary: r) (auto simp: SyncPaths_index)

lemma SyncPaths_config: "set (SyncPaths (NewRegistry cfgs)) = service_paths cfgs"
proof (induction cfgs rule: rev_induct)
  case Nil
  then show ?case by (simp add: NewRegistry_Nil empty_registry_def SyncPaths_def service_paths_def)
next
  case (snoc c cfgs)
  have b: "set (SyncPaths (base_register r c)) = set (SyncPaths r)" for r by (simp add: SyncPaths_set)
  show ?case
    using snoc by (auto simp: NewRegistry_snoc register_paths SyncPaths_fold b service_paths_def)
qed

section \<open>Documented paths\<close>

lemma enter_path_keys: "fst ` set (enter_path d op m p) = fst ` set m \<union> (if p = [] then {} else {p})"
  by (simp add: enter_path_def dom_update)

lemma enter_paths_keys: "fst ` set (foldl (enter_path d op) m ps) = fst ` set m \<union> (set ps - {[]})"
  by (induction ps arbitrary: m) (auto simp: enter_path_keys)

lemma enter_ops_keys:
  "fst ` set (foldl (\<lambda>m (op, paths). foldl (enter_path d op) m paths) m ops) =
    fst ` set m \<union> (set (concat (map snd ops)) - {[]})"
proof (induction ops arbitrary: m)
  case (Cons x ops)
  show ?case by (cases x) (simp add: Cons.IH enter_paths_keys Un_Diff Un_assoc)
qed simp

lemma enter_def_keys:
  "fst ` set (enter_def m d) = fst ` set m \<union>
    {p. p \<noteq> [] \<and> (def_InferenceURL d \<noteq> [] \<or> def_SyncTopic d \<noteq> []) \<and> p \<in> set (concat (map snd (def_Operations d)))}"
proof (cases "def_InferenceURL d = [] \<and> def_SyncTopic d = []")
  case False
  then show ?thesis by (simp only: enter_def_def enter_ops_keys if_False) auto
qed (simp add: enter_def_def)

lemma by_path_keys:
  "fst ` set (by_path reg) = {p. p \<noteq> [] \<and> (\<exists>d \<in> set (AllDefs reg).
     (def_InferenceURL d \<noteq> [] \<or> def_SyncTopic d \<noteq> []) \<and> p \<in> set (concat (map snd (def_Operations d))))}"
proof -
  have "fst ` set (foldl enter_def m ds) = fst ` set m \<union> {p. p \<noteq> [] \<and> (\<exists>d \<in> set ds.
     (def_InferenceURL d \<noteq> [] \<or> def_SyncTopic d \<noteq> []) \<and> p \<in> set (concat (map snd (def_Operations d))))}" for m ds
  proof (induction ds arbitrary: m)
    case (Cons d ds)
    show ?case unfolding foldl.simps Cons.IH enter_def_keys by auto
  qed simp
  from this [of "[]" "AllDefs reg"] show ?thesis by (simp add: by_path_def)
qed

lemma syncPathItems_keys: "gm_keys (syncPathItems reg) = gm_keys (by_path reg)"
  by (simp add: syncPathItems_def case_prod_beta comp_def)

lemma effective_distinct:
  assumes "distinct (map (\<lambda>c. (sc_Type c, sc_Model c)) cfgs)" and "c \<in> set cfgs"
  shows "effective cfgs c"
  using assms
proof (induction cfgs rule: rev_induct)
  case (snoc x cfgs)
  show ?case
  proof (cases "c = x")
    case False
    then have c: "c \<in> set cfgs" using snoc.prems(2) by simp
    then have "\<not> (sc_Type x = sc_Type c \<and> sc_Model x = sc_Model c)" using snoc.prems(1) by force
    then show ?thesis using snoc.IH c snoc.prems(1) by (auto simp: effective_def)
  qed (simp add: effective_def)
qed simp

text \<open>C31: the API description lists what the gateway serves: when every service names its model and no two
  have the same type and model, the paths that GenerateSpec documents as synchronous are the paths
  the registry indexes, and the router serves exactly those of them that do not lie under one of
  its own prefixes.\<close>

theorem docs_match_routes:
  assumes "distinct (map (\<lambda>c. (sc_Type c, sc_Model c)) cfgs)" and "\<forall>c \<in> set cfgs. sc_Model c \<noteq> []"
  shows "set (gm_keys (syncPathItems (NewRegistry cfgs))) = set (SyncPaths (NewRegistry cfgs)) \<and>
    {p. (''POST'', p, SyncRoute) \<in> set (sync_routes (NewRegistry cfgs))} =
      {p \<in> set (gm_keys (syncPathItems (NewRegistry cfgs))). \<not> reservedGatewayPath p}"
proof -
  have all: "set (AllDefs (NewRegistry cfgs)) = newDef ` set cfgs"
    using effective_distinct [OF assms(1)] by (auto simp: set_AllDefs)
  have k: "set (gm_keys (syncPathItems (NewRegistry cfgs))) = set (SyncPaths (NewRegistry cfgs))"
    unfolding syncPathItems_keys set_map by_path_keys all SyncPaths_config service_paths_def sync_indexed_def config_paths_def
    using assms(2) by (auto simp: newDef_def)
  have n: "p \<in> set (SyncPaths r) \<Longrightarrow> HasSyncServices r" for p r by (auto simp: HasSyncServices_def SyncPaths_def)
  show ?thesis unfolding k by (auto simp: sync_routes_def dest: n)
qed

lemma docs_match_routes_witness:
  "{p. (''POST'', p, SyncRoute) \<in> set (sync_routes (NewRegistry [demo_service\<lparr>sc_InferenceURL := ''http://m''\<rparr>]))} =
     {''/v1/audio/transcriptions''}"
proof -
  let ?c = "demo_service\<lparr>sc_InferenceURL := ''http://m''\<rparr>"
  have d: "distinct (map (\<lambda>c. (sc_Type c, sc_Model c)) [?c])" "\<forall>c \<in> set [?c]. sc_Model c \<noteq> []"
    by (simp_all add: demo_service_def)
  have "set (SyncPaths (NewRegistry [?c])) = {''/v1/audio/transcriptions''}"
    unfolding SyncPaths_config by (auto simp: service_paths_def sync_indexed_def config_paths_def demo_service_def)
  moreover have "\<not> reservedGatewayPath ''/v1/audio/transcriptions''"
    by (simp add: reservedGatewayPath_def reservedGatewayPaths_def has_prefix_def)
  ultimately show ?thesis using docs_match_routes [OF d] by auto
qed

section \<open>Reloading\<close>

lemma fetchSwagger_only: "fetchSwaggerJSON url hs w = (r, w') \<Longrightarrow> http_only w w'"
  using http_do_only by (auto simp: fetchSwaggerJSON_def split: option.splits prod.splits sum.splits if_splits)

lemma FetchSwaggerSpecs_only: "FetchSwaggerSpecs cfgs w = (specs, w') \<Longrightarrow> http_only w w'"
proof (induction cfgs arbitrary: w specs)
  case (Cons svc cfgs)
  show ?case
  proof (cases "sc_SwaggerURL svc = []")
    case False
    obtain d w1 where f: "fetchSwaggerJSON (sc_SwaggerURL svc) (sc_SwaggerHeaders svc) w = (d, w1)" by fastforce
    obtain specs' where "FetchSwaggerSpecs cfgs w1 = (specs', w')"
      using Cons.prems False f by (auto split: option.splits prod.splits)
    from Cons.IH [OF this] fetchSwagger_only [OF f] show ?thesis by (rule http_only_trans [rotated])
  qed (use Cons in simp)
qed simp

lemma Types_nonempty: "cfgs \<noteq> [] \<Longrightarrow> Types (NewRegistry cfgs) \<noteq> []"
proof -
  assume "cfgs \<noteq> []"
  then obtain c where "c \<in> set cfgs" by (cases cfgs) auto
  then have "map_of (byTypeModel (NewRegistry cfgs)) (sc_Type c) \<noteq> None" by (auto simp: byTypeModel_None)
  then show ?thesis by (auto simp: Types_def)
qed

lemma GenerateSpec_some: "cfgs \<noteq> [] \<Longrightarrow> GenerateSpec yaml (NewRegistry cfgs) v \<noteq> None"
proof -
  assume "cfgs \<noteq> []"
  then have "sort (Types (NewRegistry cfgs)) \<noteq> []" using Types_nonempty by (metis length_0_conv length_sort)
  then obtain t ts where "sort (Types (NewRegistry cfgs)) = t # ts" by (cases "sort (Types (NewRegistry cfgs))") auto
  moreover have "submitJobPathItem (t # ts) reg \<noteq> None" for reg by (simp add: submitJobPathItem_def)
  ultimately show ?thesis by (simp add: GenerateSpec_def spec_paths_def Let_def)
qed

text \<open>A loaded configuration has a service, so only chi can refuse the routes.\<close>

lemma buildRouter_loaded:
  assumes "config_valid cfg" and "buildRouter chi yaml v cfg (NewRegistry (cfg_Services cfg)) w = (ro, w')"
  shows "http_only w w'"
    and "ro = None \<Longrightarrow> \<exists>p \<in> set (SyncPaths (NewRegistry (cfg_Services cfg))). \<not> chi p"
    and "ro = Some router \<Longrightarrow> ro_registry router = NewRegistry (cfg_Services cfg) \<and>
      ro_routes router = fixed_routes @ sync_routes (NewRegistry (cfg_Services cfg))"
proof -
  let ?reg = "NewRegistry (cfg_Services cfg)"
  have "cfg_Services cfg \<noteq> []" using assms(1) by (simp add: config_valid_def)
  then obtain spec where s: "GenerateSpec yaml ?reg v = Some spec" using GenerateSpec_some by blast
  obtain sw w1 where f: "FetchSwaggerSpecs (cfg_Services cfg) w = (sw, w1)" by fastforce
  have "w' = w1" using assms(2) s f by (auto simp: buildRouter_def split: if_splits)
  then show "http_only w w'" using FetchSwaggerSpecs_only [OF f] by simp
  show "\<exists>p \<in> set (SyncPaths ?reg). \<not> chi p" if "ro = None"
  proof -
    from that assms(2) s f have "\<not> list_all (\<lambda>(_, pattern, target). target = SyncRoute \<longrightarrow> chi pattern) (sync_routes ?reg)"
      by (auto simp: buildRouter_def split: if_splits)
    then show ?thesis by (auto simp: list_all_iff sync_routes_def split: if_splits)
  qed
  show "ro_registry router = ?reg \<and> ro_routes router = fixed_routes @ sync_routes ?reg" if "ro = Some router"
    using that assms(2) s f by (auto simp: buildRouter_def split: if_splits)
qed


section \<open>The states of the process\<close>

text \<open>Between its start and its end the process changes this state by reloads only, each of which finds
  whatever surroundings there are by then.  The configuration it starts from names no result topic
  twice; of the later ones nothing is asked.\<close>

inductive gateway_run :: "Gateway \<Rightarrow> bool" where
  gateway_started: "start_gateway su w = (Some g, w') \<Longrightarrow>
     distinct (map def_ResultTopic (KafkaServices (ro_registry (gw_router g)))) \<Longrightarrow> gateway_run g"
| gateway_reloaded: "gateway_run g \<Longrightarrow> reload su g w = (res, g', w') \<Longrightarrow> gateway_run g'"

definition consumers_follow :: "Registry \<Rightarrow> Consumers \<Rightarrow> bool" where
  "consumers_follow reg cs \<longleftrightarrow> consumers_ok cs \<and>
     (fst \<circ> snd) ` set (cs_running cs) = def_ResultTopic ` set (KafkaServices reg)"

lemma result_services_keys: "map_of (result_services reg) t \<noteq> None \<longleftrightarrow> t \<in> def_ResultTopic ` set (KafkaServices reg)"
proof -
  have "map_of (foldl (\<lambda>m d. AList.update (def_ResultTopic d) (def_Type d) m) m ds) t \<noteq> None \<longleftrightarrow>
      map_of m t \<noteq> None \<or> t \<in> def_ResultTopic ` set ds" for m and ds :: "Def list"
    by (induction ds arbitrary: m) auto
  from this [of "[]" "KafkaServices reg"] show ?thesis by (simp add: result_services_def)
qed

lemma fst_pairs: "fst ` {(t, s). P t s} = {t. \<exists>s. P t s}"
  by force

lemma kept_and_added:
  "fst ` ({(t, s). m t \<noteq> None \<and> (\<exists>n. (n, t, s) \<in> R)} \<union> {(t, s). m t = Some s \<and> (\<nexists>n s'. (n, t, s') \<in> R)}) =
    {t. m t \<noteq> None}"
  unfolding image_Un fst_pairs by auto

lemma Reconcile_follows:
  assumes "consumers_ok cs"
  shows "consumers_follow reg (Reconcile reg cs)"
proof -
  note R = Reconcile_spec [OF assms, of reg]
  have "(fst \<circ> snd) ` set (cs_running (Reconcile reg cs)) = fst ` (snd ` set (cs_running (Reconcile reg cs)))"
    by (simp add: image_comp)
  also have "\<dots> = {t. map_of (result_services reg) t \<noteq> None}"
    unfolding R [THEN conjunct2, THEN conjunct2] by (rule kept_and_added)
  also have "\<dots> = def_ResultTopic ` set (KafkaServices reg)" using result_services_keys by blast
  finally show ?thesis using R [THEN conjunct1] by (simp add: consumers_follow_def)
qed

lemma Start_follows:
  assumes "distinct (map def_ResultTopic (KafkaServices reg))"
  shows "consumers_follow reg (Start reg no_consumers)"
proof -
  have "(fst \<circ> snd) ` set (cs_running (Start reg no_consumers)) = fst ` (snd ` set (cs_running (Start reg no_consumers)))"
    by (simp add: image_comp)
  then show ?thesis using Start_consumers [OF assms] by (simp add: consumers_follow_def image_comp comp_def)
qed

definition gateway_inv :: "Gateway \<Rightarrow> bool" where
  "gateway_inv g \<longleftrightarrow>
     (\<exists>cfg. config_valid cfg \<and> ro_registry (gw_router g) = NewRegistry (cfg_Services cfg) \<and>
        ro_routes (gw_router g) = fixed_routes @ sync_routes (NewRegistry (cfg_Services cfg))) \<and>
     (if gw_manager g = None then gw_consumers g = no_consumers
      else consumers_follow (ro_registry (gw_router g)) (gw_consumers g))"

lemma gateway_inv_start:
  assumes "start_gateway su w = (Some g, w')"
    and "distinct (map def_ResultTopic (KafkaServices (ro_registry (gw_router g))))"
  shows "gateway_inv g"
proof -
  from assms(1) obtain cfg where cfg: "Load (su_env su) (su_decode su) (su_config su) = Inr cfg"
    by (auto simp: start_gateway_def split: sum.splits)
  let ?reg = "NewRegistry (cfg_Services cfg)"
  from assms(1) cfg obtain s3 where s3: "NewS3Client (cfg_S3 cfg) (cfg_EncryptionKey cfg) = Inr s3"
    by (auto simp: start_gateway_def Let_def split: sum.splits)
  from assms(1) cfg s3 obtain redis w1 where rd: "NewRedis (cfg_Redis cfg) w = (Inr redis, w1)"
    by (auto simp: start_gateway_def Let_def split: sum.splits prod.splits)
  from assms(1) cfg s3 rd obtain router where
    b: "buildRouter (su_chi su) (su_yaml su) (su_version su) cfg ?reg w1 = (Some router, w')" and
    g: "gw_router g = router" "gw_manager g = (case setup_kafka su cfg redis s3 of KafkaReady _ m \<Rightarrow> Some m | _ \<Rightarrow> None)"
      "gw_consumers g = (case setup_kafka su cfg redis s3 of KafkaReady _ _ \<Rightarrow> Start ?reg no_consumers | _ \<Rightarrow> no_consumers)"
    by (auto simp: start_gateway_def Let_def split: if_splits option.splits prod.splits)
  from buildRouter_loaded(3) [OF Load_cases(1) [OF cfg] b refl]
  have r: "ro_registry router = ?reg" "ro_routes router = fixed_routes @ sync_routes ?reg" by auto
  have "consumers_follow ?reg (Start ?reg no_consumers)" by (rule Start_follows) (use assms(2) g(1) r(1) in simp)
  then show ?thesis
    using Load_cases(1) [OF cfg] r g by (auto simp: gateway_inv_def split: kafka_setup.split)
qed

lemma gateway_inv_reload:
  assumes "gateway_inv g" and "reload su g w = (res, g', w')"
  shows "gateway_inv g'"
proof (cases "Load (su_env su) (su_decode su) (su_config su)")
  case (Inr cfg)
  let ?reg = "NewRegistry (cfg_Services cfg)"
  obtain ro w1 where b: "buildRouter (su_chi su) (su_yaml su) (su_version su) cfg ?reg w = (ro, w1)" by fastforce
  show ?thesis
  proof (cases ro)
    case (Some router)
    have r: "ro_registry router = ?reg" "ro_routes router = fixed_routes @ sync_routes ?reg"
      using buildRouter_loaded(3) [OF Load_cases(1) [OF Inr] b Some] by auto
    have g': "gw_router g' = router" "gw_manager g' = gw_manager g"
        "gw_consumers g' = (if gw_manager g \<noteq> None then Reconcile ?reg (gw_consumers g) else gw_consumers g)"
      using assms(2) Inr b Some by (auto simp: reload_def)
    have "gw_manager g \<noteq> None \<Longrightarrow> consumers_follow ?reg (Reconcile ?reg (gw_consumers g))"
      by (rule Reconcile_follows) (use assms(1) in \<open>auto simp: gateway_inv_def consumers_follow_def\<close>)
    then show ?thesis using Load_cases(1) [OF Inr] r g' assms(1) by (auto simp: gateway_inv_def)
  qed (use assms Inr b in \<open>auto simp: reload_def\<close>)
qed (use assms in \<open>auto simp: reload_def\<close>)

lemma gateway_run_inv: "gateway_run g \<Longrightarrow> gateway_inv g"
  by (induction rule: gateway_run.induct) (auto intro: gateway_inv_start gateway_inv_reload)


section \<open>At work\<close>

definition demo_surroundings :: Surroundings where
  "demo_surroundings = \<lparr>su_env = Map.empty, su_decode = (\<lambda>_. Some demo_config), su_config = Some [], su_yaml = (\<lambda>_. ''doc''),
     su_files = (\<lambda>_. None), su_scram = (\<lambda>_ _. True), su_chi = (\<lambda>_. True), su_fl = demo_fl, su_version = ''dev''\<rparr>"

abbreviation demo_loaded :: Config where
  "demo_loaded \<equiv> applyDefaults demo_config"

lemma demo_load: "Load (su_env demo_surroundings) (su_decode demo_surroundings) (su_config demo_surroundings) = Inr demo_loaded"
  by (simp add: Load_def Let_def validate_def applyDefaults_def demo_config_def demo_service_def
      service_defaults_def uses_kafka_def demo_surroundings_def)

lemma demo_topics: "map def_ResultTopic (KafkaServices (NewRegistry (cfg_Services demo_loaded))) = [''jobs.whisper.results'']"
  by code_simp

lemma demo_router:
  obtains router where "buildRouter (su_chi demo_surroundings) (su_yaml demo_surroundings) (su_version demo_surroundings)
      demo_loaded (NewRegistry (cfg_Services demo_loaded)) w = (Some router, w)"
    "ro_registry router = NewRegistry (cfg_Services demo_loaded)" "ro_priorityHeader router = []" "ro_consumerHeader router = []"
proof -
  have "cfg_Services demo_loaded \<noteq> []" by (simp add: applyDefaults_def demo_config_def)
  then obtain spec where s: "GenerateSpec (su_yaml demo_surroundings) (NewRegistry (cfg_Services demo_loaded)) (su_version demo_surroundings) = Some spec"
    using GenerateSpec_some by blast
  have "FetchSwaggerSpecs (cfg_Services demo_loaded) w = ([], w)"
    by (simp add: applyDefaults_def demo_config_def demo_service_def service_defaults_def)
  moreover have "srv_PriorityHeader (cfg_Server demo_loaded) = []" "srv_ConsumerHeader (cfg_Server demo_loaded) = []"
    by (simp_all add: applyDefaults_def server_defaults_def demo_config_def)
  ultimately show thesis using that s by (simp add: buildRouter_def demo_surroundings_def list_all_iff case_prod_beta)
qed

lemma demo_start:
  obtains g where "start_gateway demo_surroundings demo_llm_world = (Some g, demo_llm_world)"
    "gw_manager g \<noteq> None" "ro_registry (gw_router g) = NewRegistry (cfg_Services demo_loaded)"
    "gw_producer g \<noteq> None" "ro_priorityHeader (gw_router g) = []" "ro_consumerHeader (gw_router g) = []"
    "s3_encKey (gw_s3 g) = None" "cs_running (gw_consumers g) = [(0, ''jobs.whisper.results'', ''audio'')]"
proof -
  have c: "cs_running (Start (NewRegistry (cfg_Services demo_loaded)) no_consumers) = [(0, ''jobs.whisper.results'', ''audio'')]"
    by code_simp
  obtain router where r: "buildRouter (su_chi demo_surroundings) (su_yaml demo_surroundings) (su_version demo_surroundings)
      demo_loaded (NewRegistry (cfg_Services demo_loaded)) demo_llm_world = (Some router, demo_llm_world)"
      "ro_registry router = NewRegistry (cfg_Services demo_loaded)" "ro_priorityHeader router = []" "ro_consumerHeader router = []"
    by (rule demo_router)
  obtain s3 where s3: "NewS3Client (cfg_S3 demo_loaded) (cfg_EncryptionKey demo_loaded) = Inr s3" "s3_encKey s3 = None"
    by (simp add: NewS3Client_def ParseKey_def applyDefaults_def demo_config_def)
  obtain rd where rd: "NewRedis (cfg_Redis demo_loaded) demo_llm_world = (Inr rd, demo_llm_world)"
    by (simp add: NewRedis_def next_outcome_eq tick_calm demo_llm_world_def)
  obtain pr cm where k: "setup_kafka demo_surroundings demo_loaded rd s3 = KafkaReady pr cm"
    by (simp add: setup_kafka_def NewConsumerManager_def NewProducer_def buildDialer_def buildTransport_def buildSASL_def buildTLS_def
        applyDefaults_def demo_config_def)
  let ?g = "\<lparr>gw_router = router, gw_s3 = s3, gw_redis = rd, gw_producer = Some pr, gw_manager = Some cm,
      gw_consumers = Start (NewRegistry (cfg_Services demo_loaded)) no_consumers,
      gw_llm = new_llm demo_surroundings demo_loaded\<rparr>"
  have "start_gateway demo_surroundings demo_llm_world = (Some ?g, demo_llm_world)"
    by (simp add: start_gateway_def demo_load s3(1) rd k r(1))
  then show thesis by (rule that) (simp_all add: r(2-4) s3(2) c)
qed



end
