(* ===== verification/Pipeline.thy ===== *)
theory Pipeline
  imports Gateway_Facts Pod
begin

text \<open>
  The way of an asynchronous job through both processes: submission, relay, result consumer, status.
  Between two of these steps the rest of the system goes on; what it leaves alone is this job.
\<close>

definition undisturbed :: "S3Client \<Rightarrow> string \<Rightarrow> string \<Rightarrow> World \<Rightarrow> World \<Rightarrow> bool" where
  "undisturbed c i k w v \<longleftrightarrow> gateway_ok c v \<and> w_outcomes v = [] \<and> job_at v i = job_at w i \<and> object_at c v k = object_at c w k"

lemma undisturbedD:
  assumes "undisturbed c i k w v"
  shows "gateway_ok c v" and "w_outcomes v = []" and "job_at v i = job_at w i" and "object_at c v k = object_at c w k"
    and "world_ok v"
  using assms by (simp_all add: undisturbed_def gateway_ok_def)

lemma relay_GetObject_done:
  assumes "object_at c w k = Some d" and "w_outcomes w = []"
  obtains ct where "relay_GetObject c k w = (Inr ((d, None), - 1, ct), tick w)"
proof -
  have n: "next_outcome w = (Done, tick w)" by (rule next_outcome_done) (simp add: assms(2))
  show thesis
    using that assms(1) n by (auto simp: relay_GetObject_eq s3_stream_def object_at_def split: option.splits prod.splits)
qed

text \<open>The relay's step: with its input stored and a model that answers, the result is stored and announced.\<close>

lemma relay_step:
  assumes v: "gateway_ok c v" "w_outcomes v = []" and k: "object_at c v (ie_InputRef e) = Some d"
    and e: "decodeInputEvent req = Some e" "ie_JobID e \<noteq> []" "rq_Method req = ''POST''"
    and m: "w_answers v = Inr m # ms" "snd (hr_Body m) = None" "200 \<le> hr_Status m" "hr_Status m < 300"
    and u: "url_parse (trim_right (CHR ''/'') (inf_BaseURL ic) @ ie_InferenceURL e) = Some u"
      "trim_right (CHR ''/'') (inf_BaseURL ic) @ ie_InferenceURL e \<noteq> []"
    and s: "serveHTTP (relay_dispatcher ic c brokers topic) now req v = (resp, w, bg)"
  shows "final_status resp = 200" and "object_at c w = (object_at c v)(result_key e \<mapsto> fst (hr_Body m))"
    and "job_at w = job_at v" and "w_topics w = w_topics v @ [(topic, ie_JobID e, marshal_result_event (completed_event e now))]"
    and "gateway_ok c w"
proof -
  obtain ct where g: "relay_GetObject c (ie_InputRef e) v = (Inr ((d, None), - 1, ct), tick v)"
    by (rule relay_GetObject_done [OF k v(2)])
  let ?in = "call_input e ((d, None), - 1, ct)"
  have url: "endpointURL ic ?in = trim_right (CHR ''/'') (inf_BaseURL ic) @ ie_InferenceURL e"
    by (simp add: endpointURL_def call_input_def)
  have a: "w_answers (tick v) = Inr m # ms" using m(1) by simp
  obtain w2 where c: "multipart_Call ic ?in (tick v) = (Inr (fst (hr_Body m)), w2)"
    using multipart_Call_answer [OF _ _ a m(2-4), of ic ?in u] u unfolding url by (metis prod.collapse)
  have o: "w_outcomes v = [] \<or> (\<exists>os. w_outcomes v = Done # Done # os)" using v(2) by simp
  obtain w3 where w3: "gateway_ok c w3" "object_at c w3 = (object_at c v)(result_key e \<mapsto> fst (hr_Body m))"
      "job_at w3 = job_at v" "w_topics w3 = w_topics v" "w_outcomes w3 = tl (tl (w_outcomes v))"
      "process (relay_dispatcher ic c brokers topic) now e v =
        (Inr (), snd (PublishResultEvent brokers topic (completed_event e now) w3))"
    by (rule mp.process_result [OF v(1) o g c])
  obtain pr w4 where p: "PublishResultEvent brokers topic (completed_event e now) w3 = (pr, w4)" by fastforce
  have pr: "is_ok pr" using PublishResultEvent_outcome(1) [OF p] w3(5) v(2) by simp
  have res: "resp = WriteHeader 200 new_response" "w = w4" using s e w3(6) p by (auto simp: serveHTTP_def)
  note P = PublishResultEvent_frame [OF w3(1) p]
  have id: "re_JobID (completed_event e now) = ie_JobID e" by (simp add: completed_event_def)
  show "final_status resp = 200" by (simp add: res(1) final_status_def)
  show "object_at c w = (object_at c v)(result_key e \<mapsto> fst (hr_Body m))" using P(2) w3(2) res(2) by simp
  show "job_at w = job_at v" using P(3) w3(3) res(2) by simp
  show "w_topics w = w_topics v @ [(topic, ie_JobID e, marshal_result_event (completed_event e now))]"
    using P(4) pr w3(4) res(2) id by (auto simp: appended_def)
  show "gateway_ok c w" using P(1) res(2) by simp
qed

text \<open>Every answer of the relay keeps the invariant of the stores.\<close>

lemma serveHTTP_ok:
  assumes ok: "gateway_ok c w" and s: "serveHTTP (relay_dispatcher ic c brokers topic) now r w = (resp, w', bg)"
  shows "gateway_ok c w'"
proof -
  let ?d = "relay_dispatcher ic c brokers topic"
  have step: "gateway_ok c v" if "process ?d now e w = (res, v)" for e res v
    using mp.process_cases [OF ok that] by simp
  have "w' = w \<or> (\<exists>e res. process ?d now e w = (res, w'))"
    using s by (simp add: serveHTTP_def split: if_split_asm option.split_asm prod.split_asm sum.split_asm) blast+
  then show ?thesis using ok step by blast
qed

section \<open>At work\<close>

text \<open>The world as it is, with no failure to come and with the given answers.\<close>

definition calm :: "(string + HttpResponse) list \<Rightarrow> World \<Rightarrow> World" where
  "calm answers w = w\<lparr>w_outcomes := [], w_answers := answers\<rparr>"

lemma calm_undisturbed: "gateway_ok c w \<Longrightarrow> undisturbed c i k w (calm answers w)"
proof -
  assume ok: "gateway_ok c w"
  have "world_ok (calm answers w) = world_ok w" by (rule world_ok_frame) (simp_all add: calm_def)
  moreover have "job_at (calm answers w) = job_at w" by (rule job_at_frame) (simp add: calm_def)
  moreover have "object_at c (calm answers w) = object_at c w" by (rule object_at_frame) (simp add: calm_def)
  ultimately show ?thesis using ok by (simp add: undisturbed_def gateway_ok_def) (simp add: calm_def)
qed

definition demo_event_check :: bool where
  "demo_event_check \<longleftrightarrow>
     (case submit_check demo_jobs demo_request ''audio'' of
        Inr s \<Rightarrow> length (marshal_input_event (new_event ''audio'' s ''j1'' demo_now)) \<le> 300 \<and>
          sub_inferenceURL s = ''/v1/audio/transcriptions'' \<and> sub_consumerName s = ''team'' \<and>
          def_Model (sub_def s) = ''whisper''
      | Inl _ \<Rightarrow> False)"

lemma demo_event_checked: "demo_event_check"
  by code_simp

lemma demo_submission:
  obtains s where "submit_check demo_jobs demo_request ''audio'' = Inr s"
    "length (marshal_input_event (new_event ''audio'' s ''j1'' demo_now)) \<le> 2 ^ 20"
    "sub_inferenceURL s = ''/v1/audio/transcriptions''" "sub_consumerName s = ''team''" "def_Model (sub_def s) = ''whisper''"
proof -
  obtain s where s: "submit_check demo_jobs demo_request ''audio'' = Inr s"
      "length (marshal_input_event (new_event ''audio'' s ''j1'' demo_now)) \<le> 300"
      "sub_inferenceURL s = ''/v1/audio/transcriptions''" "sub_consumerName s = ''team''" "def_Model (sub_def s) = ''whisper''"
    using demo_event_checked by (auto simp: demo_event_check_def split: sum.splits)
  have "length (marshal_input_event (new_event ''audio'' s ''j1'' demo_now)) \<le> 2 ^ 20"
    using s(2) by (rule order_trans) simp
  with s that show thesis by blast
qed

lemma demo_model_url:
  obtains u where "url_parse (trim_right (CHR ''/'') (inf_BaseURL demo_model) @ ''/v1/audio/transcriptions'') = Some u"
    "trim_right (CHR ''/'') (inf_BaseURL demo_model) @ ''/v1/audio/transcriptions'' \<noteq> []"
proof -
  have "\<not> Option.is_none (url_parse (trim_right (CHR ''/'') (inf_BaseURL demo_model) @ ''/v1/audio/transcriptions''))"
    by code_simp
  then show thesis using that by (auto simp: Option.is_none_def)
qed

end
