(* ===== verification/Relay_Main.thy ===== *)
theory Relay_Main
  imports Pod Kafka_Auth
begin

text \<open>
  The relay process: relay/cmd/relay/main.go with relay/internal/kafka/auth.go and the constructor of
  relay/internal/kafka/publisher.go.  \<open>start_relay\<close> is main up to its server, None when the process
  exits; \<open>relay_handle\<close> is what the server's mux does with one request.  The page of promhttp, the
  time-out of a connection attempt and the server's own life are not modelled; \<open>dial\<close> tells whether an
  address accepts a connection.
\<close>

section \<open>relay/internal/kafka/auth.go\<close>

text \<open>The relay's copy of the gateway's settings, without the dialer of readers.\<close>

definition relay_buildSASL :: "(string \<Rightarrow> string \<Rightarrow> bool) \<Rightarrow> SASLConfig \<Rightarrow> auth_error + Mechanism option" where
  "relay_buildSASL scram_ok cfg =
     (let scram = (\<lambda>a. if scram_ok (sasl_Username cfg) (sasl_Password cfg)
            then Inr (Some (ScramMechanism a (sasl_Username cfg) (sasl_Password cfg))) else Inl ScramRefused);
          mechanism = to_upper (sasl_Mechanism cfg)
      in if sasl_Mechanism cfg = [] then Inr None
         else if mechanism = ''PLAIN'' then Inr (Some (PlainMechanism (sasl_Username cfg) (sasl_Password cfg)))
         else if mechanism = ''SCRAM-SHA-256'' then scram SHA256
         else if mechanism = ''SCRAM-SHA-512'' then scram SHA512
         else Inl (UnsupportedMechanism (sasl_Mechanism cfg)))"

definition relay_buildTLS :: "(string \<Rightarrow> string option) \<Rightarrow> TLSConfig \<Rightarrow> auth_error + TLSSettings option" where
  "relay_buildTLS files cfg =
     (if \<not> tls_Enabled cfg then Inr None
      else if tls_CACertPath cfg \<noteq> [] then
        (case files (tls_CACertPath cfg) of
           None \<Rightarrow> Inl (CertUnreadable (tls_CACertPath cfg))
         | Some pem \<Rightarrow> Inr (Some \<lparr>ts_RootCAs = Some pem\<rparr>))
      else Inr (Some \<lparr>ts_RootCAs = None\<rparr>))"

definition relay_buildTransport ::
    "(string \<Rightarrow> string \<Rightarrow> bool) \<Rightarrow> (string \<Rightarrow> string option) \<Rightarrow> RelayKafkaConfig \<Rightarrow> auth_error + Transport option" where
  "relay_buildTransport scram_ok files cfg =
     (case relay_buildSASL scram_ok (rkc_SASL cfg) of
        Inl e \<Rightarrow> Inl e
      | Inr mechanism \<Rightarrow>
          (case relay_buildTLS files (rkc_TLS cfg) of
             Inl e \<Rightarrow> Inl e
           | Inr tlsCfg \<Rightarrow>
               if mechanism = None \<and> tlsCfg = None then Inr None
               else Inr (Some \<lparr>tp_SASL = mechanism, tp_TLS = tlsCfg\<rparr>)))"

text \<open>The publisher before its first writer.\<close>

definition NewPublisher ::
    "(string \<Rightarrow> string \<Rightarrow> bool) \<Rightarrow> (string \<Rightarrow> string option) \<Rightarrow> RelayKafkaConfig \<Rightarrow> auth_error + Producer" where
  "NewPublisher scram_ok files cfg =
     (case relay_buildTransport scram_ok files cfg of
        Inl e \<Rightarrow> Inl e
      | Inr transport \<Rightarrow> Inr \<lparr>pr_brokers = rkc_Brokers cfg, pr_transport = transport\<rparr>)"

section \<open>The proxy to the model\<close>

definition inferenceHostPort :: "InferenceConfig \<Rightarrow> string" where
  "inferenceHostPort ic = (case url_parse (inf_BaseURL ic) of None \<Rightarrow> [] | Some u \<Rightarrow> url_Host u)"

text \<open>The process exits when the base URL has no host.\<close>

definition newInferenceProxy :: "string \<Rightarrow> URL option" where
  "newInferenceProxy baseURL =
     (case url_parse baseURL of None \<Rightarrow> None | Some target \<Rightarrow> if url_Host target = [] then None else Some target)"

text \<open>
  net/http/httputil.NewSingleHostReverseProxy: the request goes on to the target with its path below
  the target's and its query after the target's, without the headers that concern one connection
  only; values of one header are one list, and X-Forwarded-For, the client's address, is left out.
  The answer comes back the same way; without one it is a 502.
\<close>

definition hop_headers :: "string list" where
  "hop_headers = [''Connection'', ''Proxy-Connection'', ''Keep-Alive'', ''Proxy-Authenticate'', ''Proxy-Authorization'',
     ''Te'', ''Trailer'', ''Transfer-Encoding'', ''Upgrade'']"

definition connection_tokens :: "(string, string list) gomap \<Rightarrow> string list" where
  "connection_tokens hs =
     map (canonical_header \<circ> trim_space)
       (concat (map (split_on (CHR '','')) (case map_of hs ''Connection'' of Some vs \<Rightarrow> vs | None \<Rightarrow> [])))"

definition end_to_end :: "(string, string list) gomap \<Rightarrow> (string, string list) gomap" where
  "end_to_end hs = filter (\<lambda>(k, _). k \<notin> set hop_headers \<and> k \<notin> set (connection_tokens hs)) hs"

definition join_path :: "string \<Rightarrow> string \<Rightarrow> string" where
  "join_path a b =
     (if has_suffix a ''/'' \<and> has_prefix b ''/'' then a @ drop 1 b
      else if \<not> has_suffix a ''/'' \<and> \<not> has_prefix b ''/'' then a @ ''/'' @ b
      else a @ b)"

definition join_query :: "string \<Rightarrow> string \<Rightarrow> string" where
  "join_query a b = (if a = [] \<or> b = [] then a @ b else a @ ''&'' @ b)"

definition proxy_request :: "URL \<Rightarrow> Request \<Rightarrow> HttpRequest" where
  "proxy_request target r =
     \<lparr>hq_Method = rq_Method r,
      hq_URL = url_string (target\<lparr>url_Opaque := [], url_Path := join_path (url_Path target) (rq_Path r),
        url_RawQuery := join_query (url_RawQuery target) (rq_RawQuery r), url_Fragment := []\<rparr>),
      hq_Headers = map (\<lambda>(k, vs). (k, join_on (CHR '','') vs)) (end_to_end (rq_Headers r)),
      hq_Body = rq_Body r\<rparr>"

definition proxy_answer :: "HttpResponse \<Rightarrow> Response" where
  "proxy_answer resp =
     write_body (fst (hr_Body resp))
       (WriteHeader (hr_Status resp)
         (foldl (\<lambda>rs (k, vs). foldl (\<lambda>rs v. add_header k v rs) rs vs) new_response (end_to_end (hr_Headers resp))))"

definition inferenceProxy :: "URL \<Rightarrow> Request \<Rightarrow> World \<Rightarrow> Response \<times> World" where
  "inferenceProxy target r w =
     (case http_do (proxy_request target r) w of
        (Inl _, w1) \<Rightarrow> (WriteHeader 502 new_response, w1)
      | (Inr resp, w1) \<Rightarrow> (proxy_answer resp, w1))"

section \<open>main\<close>

text \<open>What the process finds around it: the environment, the files, the YAML decoder, and which SCRAM
  credentials kafka-go accepts.\<close>

record RelaySurroundings =
  rsu_env :: env
  rsu_files :: "string \<Rightarrow> string option"
  rsu_yaml :: "string \<Rightarrow> RelayConfig option"
  rsu_scram :: "string \<Rightarrow> string \<Rightarrow> bool"

record RelayProcess =
  rl_dispatcher :: Dispatcher
  rl_publisher :: Producer
  rl_inferenceAddr :: string
  rl_proxy :: URL

definition relay_config_path :: "env \<Rightarrow> string" where
  "relay_config_path env = (if os_getenv env ''CONFIG_PATH'' \<noteq> [] then os_getenv env ''CONFIG_PATH'' else ''config.yaml'')"

definition start_relay :: "RelaySurroundings \<Rightarrow> RelayProcess option" where
  "start_relay su =
     (case relay_Load (rsu_env su) (rsu_yaml su) (rsu_files su (relay_config_path (rsu_env su))) of
        Inl _ \<Rightarrow> None
      | Inr cfg \<Rightarrow>
          (case relay_NewS3Client (rcf_S3 cfg) (rcf_EncryptionKey cfg) of
             Inl _ \<Rightarrow> None
           | Inr s3Client \<Rightarrow>
               (case NewPublisher (rsu_scram su) (rsu_files su) (rcf_Kafka cfg) of
                  Inl _ \<Rightarrow> None
                | Inr publisher \<Rightarrow>
                    (case newInferenceProxy (inf_BaseURL (rcf_Inference cfg)) of
                       None \<Rightarrow> None
                     | Some target \<Rightarrow>
                         Some \<lparr>rl_dispatcher = NewDispatcher (NewAdapter cfg) s3Client (pr_brokers publisher) (rcf_ResultTopic cfg),
                           rl_publisher = publisher, rl_inferenceAddr = inferenceHostPort (rcf_Inference cfg),
                           rl_proxy = target\<rparr>))))"

definition relay_health :: "(string \<Rightarrow> bool) \<Rightarrow> string \<Rightarrow> Response" where
  "relay_health dial inferenceAddr =
     (if inferenceAddr \<noteq> [] \<and> \<not> dial inferenceAddr then http_error 503 ''inference not ready'' new_response
      else WriteHeader 200 new_response)"

text \<open>http.ServeMux answers a path that is not clean with a redirection to the clean one, here without its
  body; the root handler then makes its own distinction.\<close>

fun clean_segs :: "string list \<Rightarrow> string list \<Rightarrow> string list" where
  "clean_segs done [] = rev done"
| "clean_segs done (s # r) =
     (if s = [] \<or> s = ''.'' then clean_segs done r
      else if s = ''..'' then clean_segs (drop 1 done) r
      else clean_segs (s # done) r)"

definition clean_path :: "string \<Rightarrow> string" where
  "clean_path p =
     (let np = CHR ''/'' # join_on (CHR ''/'') (clean_segs [] (split_on (CHR ''/'') p))
      in if has_suffix p ''/'' \<and> np \<noteq> ''/'' then np @ ''/'' else np)"

datatype relay_target = RelayRedirect string | RelayMetrics | RelayHealth | RelaySync | RelayAsync | RelayProxy

definition relay_route :: "string \<Rightarrow> relay_target" where
  "relay_route path =
     (if clean_path path \<noteq> path then RelayRedirect (clean_path path)
      else if path = ''/metrics'' then RelayMetrics else if path = ''/health'' then RelayHealth
      else if path = ''/sync'' then RelaySync
      else if path \<noteq> ''/'' then RelayProxy else RelayAsync)"

text \<open>One request.  The number is the counter of synchronous jobs: before, as the handler loads it, and
  after; the page of metrics is an argument.\<close>

definition relay_handle ::
    "Response \<Rightarrow> (string \<Rightarrow> bool) \<Rightarrow> RelayProcess \<Rightarrow> time \<Rightarrow> 32 word \<Rightarrow> Request \<Rightarrow> World \<Rightarrow>
      32 word \<times> Response \<times> World \<times> (World \<Rightarrow> World)" where
  "relay_handle page dial p now n r w =
     (case relay_route (rq_Path r) of
        RelayRedirect path \<Rightarrow>
          (n, WriteHeader 301 (set_header ''Location'' (path @ (if rq_RawQuery r \<noteq> [] then ''?'' @ rq_RawQuery r else [])) new_response), w, id)
      | RelayMetrics \<Rightarrow> (n, page, w, id)
      | RelayHealth \<Rightarrow> (n, relay_health dial (rl_inferenceAddr p), w, id)
      | RelaySync \<Rightarrow> ServeHTTPSync (rl_dispatcher p) now n r w
      | RelayProxy \<Rightarrow> (let (resp, w1) = inferenceProxy (rl_proxy p) r w in (n, resp, w1, id))
      | RelayAsync \<Rightarrow> (n, ServeHTTP (rl_dispatcher p) now n r w))"

section \<open>A started relay\<close>

text \<open>Both processes read the same Kafka settings the same way.\<close>

lemma relay_transport_like_gateway:
  "relay_buildTransport scram_ok files cfg =
     buildTransport scram_ok files
       \<lparr>kc_Brokers = rkc_Brokers cfg, kc_ConsumerGroup = g, kc_SASL = rkc_SASL cfg, kc_TLS = rkc_TLS cfg\<rparr>"
proof -
  have "relay_buildSASL scram_ok = buildSASL scram_ok"
    by (rule ext) (simp add: relay_buildSASL_def buildSASL_def Let_def)
  moreover have "relay_buildTLS files = buildTLS files"
    by (rule ext) (simp add: relay_buildTLS_def buildTLS_def)
  ultimately show ?thesis by (simp add: relay_buildTransport_def buildTransport_def split: sum.split)
qed

lemma relay_validate_ok:
  "relay_validate c = Inr u \<Longrightarrow> rcf_ResultTopic c \<noteq> [] \<and> rkc_Brokers (rcf_Kafka c) \<noteq> [] \<and> s3c_Bucket (rcf_S3 c) \<noteq> [] \<and>
     inf_BaseURL (rcf_Inference c) \<noteq> []"
  by (auto simp: relay_validate_def split: if_splits)

lemma relay_Load_validated:
  "relay_Load e yaml file = Inr cfg \<Longrightarrow> relay_validate cfg = Inr ()"
  by (auto simp: relay_Load_def split: option.splits sum.splits)

text \<open>What main has done when it comes to its server.\<close>

lemma start_relayE:
  assumes "start_relay su = Some p"
  obtains cfg where "relay_validate cfg = Inr ()"
    and "relay_NewS3Client (rcf_S3 cfg) (rcf_EncryptionKey cfg) = Inr (d_s3 (rl_dispatcher p))"
    and "NewPublisher (rsu_scram su) (rsu_files su) (rcf_Kafka cfg) = Inr (rl_publisher p)"
    and "newInferenceProxy (inf_BaseURL (rcf_Inference cfg)) = Some (rl_proxy p)"
    and "rl_dispatcher p =
      relay_dispatcher (rcf_Inference cfg) (d_s3 (rl_dispatcher p)) (pr_brokers (rl_publisher p)) (rcf_ResultTopic cfg)"
    and "rl_inferenceAddr p = inferenceHostPort (rcf_Inference cfg)"
  using assms that
  by (fastforce simp: start_relay_def NewAdapter_def NewDispatcher_def dest: relay_Load_validated split: sum.splits option.splits)

lemma inferenceProxy_http: "inferenceProxy target r w = (resp, w') \<Longrightarrow> http_only w w'"
  by (auto simp: inferenceProxy_def dest: http_do_only split: prod.splits sum.splits)

text \<open>A relay that has started can do its work: it has a bucket, a result topic and brokers, a key
  that fits the cipher, credentials and TLS towards Kafka exactly when they are configured, and it is healthy exactly when
  the host of its proxy, the model, accepts a connection.\<close>

theorem relay_started:
  assumes "start_relay su = Some p"
  shows "\<exists>cfg. relay_validate cfg = Inr () \<and> rl_dispatcher p =
        relay_dispatcher (rcf_Inference cfg) (d_s3 (rl_dispatcher p)) (rkc_Brokers (rcf_Kafka cfg)) (rcf_ResultTopic cfg) \<and>
      s3_bucket (d_s3 (rl_dispatcher p)) = s3c_Bucket (rcf_S3 cfg) \<and> s3c_Bucket (rcf_S3 cfg) \<noteq> [] \<and>
      d_resultTopic (rl_dispatcher p) \<noteq> [] \<and> d_brokers (rl_dispatcher p) \<noteq> [] \<and>
      key_usable (s3_encKey (d_s3 (rl_dispatcher p))) \<and>
      (pr_transport (rl_publisher p) = None) =
        (sasl_Mechanism (rkc_SASL (rcf_Kafka cfg)) = [] \<and> \<not> tls_Enabled (rkc_TLS (rcf_Kafka cfg))) \<and>
      rl_inferenceAddr p = url_Host (rl_proxy p) \<and>
      (\<forall>dial. (final_status (relay_health dial (rl_inferenceAddr p)) = 200) = dial (url_Host (rl_proxy p)))"
proof -
  obtain cfg where v: "relay_validate cfg = Inr ()"
    and s3: "relay_NewS3Client (rcf_S3 cfg) (rcf_EncryptionKey cfg) = Inr (d_s3 (rl_dispatcher p))"
    and pub: "NewPublisher (rsu_scram su) (rsu_files su) (rcf_Kafka cfg) = Inr (rl_publisher p)"
    and px: "newInferenceProxy (inf_BaseURL (rcf_Inference cfg)) = Some (rl_proxy p)"
    and d: "rl_dispatcher p =
      relay_dispatcher (rcf_Inference cfg) (d_s3 (rl_dispatcher p)) (pr_brokers (rl_publisher p)) (rcf_ResultTopic cfg)"
    and a: "rl_inferenceAddr p = inferenceHostPort (rcf_Inference cfg)"
    using start_relayE [OF assms] by blast
  have br: "pr_brokers (rl_publisher p) = rkc_Brokers (rcf_Kafka cfg)"
    and tr: "relay_buildTransport (rsu_scram su) (rsu_files su) (rcf_Kafka cfg) = Inr (pr_transport (rl_publisher p))"
    using pub by (auto simp: NewPublisher_def split: sum.splits dest!: sym [of _ "rl_publisher p"])
  have host: "rl_inferenceAddr p = url_Host (rl_proxy p)" "url_Host (rl_proxy p) \<noteq> []"
    using px a by (auto simp: newInferenceProxy_def inferenceHostPort_def split: option.splits if_splits)
  have top: "d_resultTopic (rl_dispatcher p) = rcf_ResultTopic cfg" "d_brokers (rl_dispatcher p) = rkc_Brokers (rcf_Kafka cfg)"
    using arg_cong [OF d, of d_resultTopic] arg_cong [OF d, of d_brokers] br by (simp_all add: NewDispatcher_def)
  have bucket: "s3_bucket (d_s3 (rl_dispatcher p)) = s3c_Bucket (rcf_S3 cfg)"
    using s3 by (auto simp: relay_NewS3Client_def split: if_splits sum.splits dest!: sym [of _ "d_s3 (rl_dispatcher p)"])
  show ?thesis
    using v d br top bucket host relay_validate_ok [OF v] NewS3Client_key [OF s3 [unfolded relay_NewS3Client_eq]]
      buildTransport_secure [OF tr [unfolded relay_transport_like_gateway [where g = "[]"]]]
    by (intro exI [of _ cfg]) (auto simp: relay_health_def final_status_def http_error_def)
qed

lemma relay_routes: "relay_route ''/'' = RelayAsync" "relay_route ''/sync'' = RelaySync"
  by code_simp+

lemma relay_route_other:
  "relay_route path = RelaySync \<Longrightarrow> path = ''/sync''" "relay_route path = RelayAsync \<Longrightarrow> path = ''/''"
  by (auto simp: relay_route_def split: if_split_asm)

text \<open>C14: of the requests a relay serves only the events on its two paths can change what it shares with the
  gateway: any other request, also the inference requests it passes to the model, leaves objects,
  Redis, topics and writers alone and starts nothing; the counter of synchronous jobs is back at its
  value after every request; and an event on the root path is put off with 503, with no effect,
  exactly while that counter is positive.\<close>

theorem relay_requests:
  assumes "relay_handle page dial p now n r w = (n', resp, w', bg)"
  shows "n' = n \<and> (rq_Path r \<notin> {''/'', ''/sync''} \<longrightarrow> http_only w w' \<and> bg = id) \<and>
    (rq_Path r = ''/'' \<longrightarrow> (final_status resp = 503) = sync_busy n \<and> (sync_busy n \<longrightarrow> w' = w \<and> bg = id))"
proof (intro conjI impI)
  show "n' = n"
    using assms ServeHTTPSync_counter [of "rl_dispatcher p" now n r w]
    by (auto simp: relay_handle_def split: relay_target.splits prod.splits)
next
  assume "rq_Path r \<notin> {''/'', ''/sync''}"
  then have "relay_route (rq_Path r) \<noteq> RelaySync" "relay_route (rq_Path r) \<noteq> RelayAsync"
    using relay_route_other by auto
  then show "http_only w w'" "bg = id"
    using assms by (auto simp: relay_handle_def dest: inferenceProxy_http split: relay_target.splits prod.splits)
next
  assume p: "rq_Path r = ''/''"
  then have h: "ServeHTTP (rl_dispatcher p) now n r w = (resp, w', bg)"
    using assms by (auto simp: relay_handle_def relay_routes)
  show "(final_status resp = 503) = sync_busy n"
    using h serveHTTP_status [of "rl_dispatcher p" now r w]
    by (auto simp: ServeHTTP_def final_status_def split: if_splits)
  show "w' = w" "bg = id" if "sync_busy n" using h that by (simp_all add: ServeHTTP_def)
qed

lemma relay_handle_cases:
  assumes "relay_handle page dial p now n r w = (n', resp, w', bg)"
  shows "http_only w w' \<and> bg = id \<or> (\<exists>resp'. serveHTTP (rl_dispatcher p) now r w = (resp', w', bg))"
  using assms
  by (auto simp: relay_handle_def ServeHTTP_def ServeHTTPSync_def Let_def dest: inferenceProxy_http
      split: relay_target.splits prod.splits if_splits)

definition demo_relay_config :: RelayConfig where
  "demo_relay_config =
     \<lparr>rcf_ResultTopic = ''jobs.asr.results'',
      rcf_Kafka = \<lparr>rkc_Brokers = [''kafka:9092''],
        rkc_SASL = \<lparr>sasl_Mechanism = ''plain'', sasl_Username = ''u'', sasl_Password = ''p''\<rparr>,
        rkc_TLS = \<lparr>tls_Enabled = True, tls_CACertPath = []\<rparr>\<rparr>,
      rcf_S3 = \<lparr>s3c_Endpoint = ''http://s3'', s3c_Region = ''r'', s3c_AccessKey = ''a'', s3c_SecretKey = ''s'', s3c_Bucket = ''b''\<rparr>,
      rcf_EncryptionKey = demo_key_hex,
      rcf_Inference = \<lparr>inf_BaseURL = ''http://127.0.0.1:9000'', inf_APIKey = [], inf_ExtraFields = []\<rparr>\<rparr>"

definition demo_relay_surroundings :: RelaySurroundings where
  "demo_relay_surroundings =
     \<lparr>rsu_env = (\<lambda>_. None), rsu_files = (\<lambda>_. Some []), rsu_yaml = (\<lambda>_. Some demo_relay_config), rsu_scram = (\<lambda>_ _. True)\<rparr>"

lemma demo_relay_starts: "\<not> Option.is_none (start_relay demo_relay_surroundings)"
  by code_simp

lemma relay_started_witness:
  "\<exists>p. start_relay demo_relay_surroundings = Some p \<and> key_usable (s3_encKey (d_s3 (rl_dispatcher p))) \<and>
     rl_inferenceAddr p = url_Host (rl_proxy p)"
proof -
  obtain p where p: "start_relay demo_relay_surroundings = Some p" using demo_relay_starts by (auto simp: Option.is_none_def)
  then show ?thesis using relay_started [OF p] by blast
qed

definition demo_inference :: Request where
  "demo_inference =
     \<lparr>rq_Method = ''POST'', rq_Path = ''/v1/audio/transcriptions'', rq_RawQuery = [], rq_Query = [],
      rq_Headers = [(''Content-Type'', [''text/plain'']), (''Connection'', [''close''])], rq_Body = (''RIFF'', None), rq_form = Inl []\<rparr>"

lemma relay_requests_witness:
  "\<exists>p n' resp w' bg. start_relay demo_relay_surroundings = Some p \<and>
     relay_handle new_response (\<lambda>_. True) p demo_now 1 demo_inference empty_world = (n', resp, w', bg) \<and>
     n' = 1 \<and> http_only empty_world w'"
proof -
  obtain p where p: "start_relay demo_relay_surroundings = Some p" using demo_relay_starts by (auto simp: Option.is_none_def)
  obtain n' resp w' bg where
    h: "relay_handle new_response (\<lambda>_. True) p demo_now 1 demo_inference empty_world = (n', resp, w', bg)"
    by (metis prod.collapse)
  then show ?thesis using p relay_requests [OF h] by (auto simp: demo_inference_def)
qed

end
