(* ===== verification/System.thy ===== *)
theory System
  imports Pipeline Relay_Main
begin

text \<open>
  The two processes and their services as one system.  A step is one handler, one goroutine that a
  handler left behind, one request at a relay, one message at the result consumer, or something that
  happens to the services; between the steps of one job those of any others may come.  The synchronous
  handler takes two steps, up to its wait and after it.
\<close>

section \<open>What leaves the jobs alone\<close>

definition quiet :: "World \<Rightarrow> World \<Rightarrow> bool" where
  "quiet w w' \<longleftrightarrow> (world_ok w \<longrightarrow> world_ok w') \<and> job_at w' = job_at w \<and> w_topics w' = w_topics w"

named_theorems quiet_intros

lemma quiet_refl [quiet_intros]: "quiet w w"
  by (simp add: quiet_def)

lemma quiet_trans: "quiet w w1 \<Longrightarrow> quiet w1 w2 \<Longrightarrow> quiet w w2"
  by (simp add: quiet_def)

lemma quiet_frame:
  assumes "w_redis w' = w_redis w" and "w_writers w' = w_writers w" and "w_relay_writers w' = w_relay_writers w"
    and "w_topics w' = w_topics w"
  shows "quiet w w'"
  using assms job_at_frame [OF assms(1)] world_ok_frame [OF assms(1-3)] by (simp add: quiet_def)

lemma quiet_tick [quiet_intros]: "quiet w (tick w)"
  by (rule quiet_frame) simp_all

lemma quiet_http: "http_only w w' \<Longrightarrow> quiet w w'"
  by (rule quiet_frame) (simp_all add: http_only_def)

text \<open>Redis keys that belong to neither jobs nor consumers.\<close>

definition foreign_key :: "string \<Rightarrow> bool" where
  "foreign_key k \<longleftrightarrow> (\<forall>i. k \<noteq> jobKey i) \<and> (\<forall>c. k \<noteq> consumerKey c)"

lemma quiet_redis:
  assumes r: "redis_only w w'" and k: "\<forall>k. \<not> foreign_key k \<longrightarrow> map_of (w_redis w') k = map_of (w_redis w) k"
  shows "quiet w w'"
proof -
  have j: "map_of (w_redis w') (jobKey i) = map_of (w_redis w) (jobKey i)" for i
    using k by (auto simp: foreign_key_def)
  have c: "map_of (w_redis w') (consumerKey x) = map_of (w_redis w) (consumerKey x)" for x
    using k by (auto simp: foreign_key_def)
  have "job_at w' = job_at w" by (rule ext) (simp add: job_at_def redis_str_def j)
  moreover have "world_ok w' = world_ok w"
    using r by (simp add: world_ok_def is_string_key_def redis_only_def j c)
  ultimately show ?thesis using r by (simp add: quiet_def redis_only_def)
qed

lemma foreign_llm [simp]: "foreign_key (''llm:'' @ s)"
  by (simp add: foreign_key_def jobKey_def consumerKey_def)

lemma foreign_tokens: "foreign_key (tokens_key ut tt)"
  using foreign_llm [of "''consumer:tokens:'' @ ut @ '':'' @ tt"] by (simp add: tokens_key_def)

lemma quiet_put_zset: "foreign_key k \<Longrightarrow> quiet w (redis_put_zset k z w)"
  by (rule quiet_redis) (auto simp: redis_only_def redis_put_zset_def redis_del_def map_of_put_zset)

lemma quiet_set: "foreign_key k \<Longrightarrow> quiet w (redis_set k v ttl w)"
  by (rule quiet_redis) (auto simp: map_of_redis_set redis_only_def redis_set_def Let_def)

lemma quiet_attempt:
  assumes "attempt eff w = (acked, w')" and "\<And>v. quiet v (eff v)"
  shows "quiet w w'"
  using assms(1) by (cases rule: attempt_cases) (auto intro: quiet_trans [OF quiet_tick assms(2)] quiet_intros)

lemma quiet_Track: "t = NewRedisTracker \<or> t = NoopTracker \<Longrightarrow> quiet w (tr_Track t c ut tt n w)"
  by (cases rule: redis_Track_cases [of c ut tt n w])
    (auto simp: NewRedisTracker_def NoopTracker_def redis_zincrby_def
      intro: quiet_intros quiet_trans [OF quiet_tick quiet_put_zset [OF foreign_tokens]])

section \<open>The LLM proxy\<close>

text \<open>The handler that main makes.\<close>

definition proxy_ok :: "Handler \<Rightarrow> bool" where
  "proxy_ok h \<longleftrightarrow> lh_cache h = NewRedisCache \<and> (lh_tracker h = NewRedisTracker \<or> lh_tracker h = NoopTracker)"

lemma quiet_usage: "proxy_ok h \<Longrightarrow> quiet w (track_usage h consumer ut u w)"
  by (auto simp: track_usage_def proxy_ok_def intro: quiet_intros quiet_trans [OF quiet_Track quiet_Track] split: option.split)

lemma quiet_cache_get: "redis_cache_get k w = (r, w') \<Longrightarrow> quiet w w'"
  by (auto simp: redis_cache_get_def next_outcome_eq intro: quiet_intros
      split: outcome.splits option.splits RedisValue.splits prod.splits)

lemma quiet_serve_upstream:
  assumes "proxy_ok h" and "serve_upstream h r d prov body consumer key w = (rs, w', bg)"
  shows "quiet w w'"
proof -
  let ?v = "\<lambda>req. snd (http_do req w)"
  have q: "quiet w (?v req)" for req by (rule quiet_http) (rule http_do_only [OF prod.collapse [symmetric]])
  have "w' = w \<or> (\<exists>req. w' = ?v req \<or> (\<exists>ut u. w' = track_usage h consumer ut u (?v req)))"
    using assms(2)
    by (auto simp: serve_upstream_def Let_def split: rewrite_result.splits sum.splits option.splits prod.splits if_splits) (metis snd_conv)+
  then show ?thesis using q quiet_trans [OF q quiet_usage [OF assms(1)]] by (auto intro: quiet_intros)
qed

lemma quiet_ServeJSON:
  assumes p: "proxy_ok h" and s: "ServeJSON h r d body consumer w = (rs, w', bg)"
  shows "quiet w w'"
proof (cases "\<exists>prov key. serve_upstream h r d prov body consumer key w = (rs, w', bg)")
  case True
  then show ?thesis using quiet_serve_upstream [OF p] by blast
next
  case False
  show ?thesis
  proof (cases "w' = w")
    case w': False
    from s False w' obtain prov k where k: "Providers_Get (lh_providers h) (def_Provider d) = Inr prov"
        "cache_key h r d body = Some (Some k)" "k \<noteq> []"
      by (auto simp: ServeJSON_def Let_def split: sum.splits option.splits if_splits)
    obtain g w1 where g: "redis_cache_get k w = (g, w1)" by fastforce
    then have g': "ca_Get (lh_cache h) k w = (g, w1)" using p by (simp add: proxy_ok_def NewRedisCache_def)
    note q = quiet_cache_get [OF g]
    from s k g' consider ut u where "w' = track_usage h consumer ut u w1"
      | "serve_upstream h r d prov body consumer (Some k) w1 = (rs, w', bg)"
      by (auto simp: ServeJSON_def Let_def split: sum.splits option.splits)
    then show ?thesis using quiet_trans [OF q] quiet_usage [OF p] quiet_serve_upstream [OF p] by cases blast+
  qed (simp add: quiet_refl)
qed

section \<open>How job records change\<close>

text \<open>The statuses as stages: a pending job is before any other one; those with an answer, of which the
  later of two messages may change one into another, are one stage.\<close>

instantiation JobStatus :: preorder
begin

definition less_eq_JobStatus :: "JobStatus \<Rightarrow> JobStatus \<Rightarrow> bool" where
  "s \<le> t \<longleftrightarrow> (s \<noteq> Pending \<longrightarrow> t \<noteq> Pending)"

definition less_JobStatus :: "JobStatus \<Rightarrow> JobStatus \<Rightarrow> bool" where
  "s < t \<longleftrightarrow> s = Pending \<and> t \<noteq> Pending"

instance
  by standard (auto simp: less_eq_JobStatus_def less_JobStatus_def)

end

text \<open>What a job record says of the request never changes, and its status never goes back.\<close>

definition same_request :: "Job \<Rightarrow> Job \<Rightarrow> bool" where
  "same_request j j' \<longleftrightarrow> job_ID j' = job_ID j \<and> job_ServiceType j' = job_ServiceType j \<and> job_Model j' = job_Model j \<and>
     job_InputRef j' = job_InputRef j \<and> job_CallbackURL j' = job_CallbackURL j \<and>
     job_ConsumerName j' = job_ConsumerName j \<and> job_CreatedAt j' = job_CreatedAt j \<and>
     job_Status j \<le> job_Status j'"

definition record_moves :: "Job option \<Rightarrow> Job option \<Rightarrow> bool" where
  "record_moves old new \<longleftrightarrow> (case new of None \<Rightarrow> True | Some j' \<Rightarrow> \<exists>j. old = Some j \<and> same_request j j')"

lemma record_moves_simps [simp]: "record_moves old None" "record_moves None (Some j) = False"
  "record_moves (Some j) (Some j') = same_request j j'"
  by (simp_all add: record_moves_def)

lemma record_moves_refl [simp]: "record_moves old old"
  by (cases old) (simp_all add: same_request_def)

lemma record_moves_trans: "record_moves a b \<Longrightarrow> record_moves b c \<Longrightarrow> record_moves a c"
  by (cases a; cases b; cases c) (auto simp: same_request_def intro: order_trans)

text \<open>A message on a result topic is a finished job, any other message an event for the relay.\<close>

definition finished :: "JobStatus \<Rightarrow> bool" where
  "finished st \<longleftrightarrow> st = Completed \<or> st = Failed"

definition message_ok :: "string set \<Rightarrow> string \<times> string \<times> string \<Rightarrow> bool" where
  "message_ok results m \<longleftrightarrow>
     (if fst m \<in> results
      then \<exists>e. unmarshal_result_event (snd (snd m)) = Some e \<and> re_JobID e = fst (snd m) \<and> finished (re_Status e)
      else \<exists>e. unmarshal_input_event (snd (snd m)) = Some e \<and> ie_JobID e = fst (snd m))"

text \<open>What a step may do to the services when it submits the jobs of a set.\<close>

definition evolves :: "string set \<Rightarrow> string set \<Rightarrow> World \<Rightarrow> World \<Rightarrow> bool" where
  "evolves results fresh w w' \<longleftrightarrow> (world_ok w \<longrightarrow> world_ok w' \<and>
     (\<forall>i. i \<notin> fresh \<longrightarrow> record_moves (job_at w i) (job_at w' i)) \<and>
     (\<exists>ms. w_topics w' = w_topics w @ ms \<and> (\<forall>m \<in> set ms. message_ok results m)))"

named_theorems evolve_intros

lemma evolves_quiet: "quiet w w' \<Longrightarrow> evolves R A w w'"
  by (simp add: quiet_def evolves_def)

lemma evolves_refl [evolve_intros]: "evolves R A w w"
  by (rule evolves_quiet [OF quiet_refl])

lemma evolves_tick [evolve_intros]: "evolves R A w (tick w)"
  by (rule evolves_quiet [OF quiet_tick])

lemma evolves_trans:
  assumes a: "evolves R A w w1" and b: "evolves R A w1 w2"
  shows "evolves R A w w2"
  unfolding evolves_def
proof (intro impI conjI allI)
  assume ok: "world_ok w"
  then have ok1: "world_ok w1" using a by (simp add: evolves_def)
  then show "world_ok w2" using b by (simp add: evolves_def)
  obtain ms where "w_topics w1 = w_topics w @ ms" "\<forall>m \<in> set ms. message_ok R m" using a ok by (auto simp: evolves_def)
  moreover obtain ns where "w_topics w2 = w_topics w1 @ ns" "\<forall>m \<in> set ns. message_ok R m" using b ok1 by (auto simp: evolves_def)
  ultimately show "\<exists>ms. w_topics w2 = w_topics w @ ms \<and> (\<forall>m \<in> set ms. message_ok R m)"
    by (intro exI [of _ "ms @ ns"]) auto
  show "record_moves (job_at w i) (job_at w2 i)" if "i \<notin> A" for i
    using record_moves_trans [of "job_at w i" "job_at w1 i" "job_at w2 i"] a b ok ok1 that by (auto simp: evolves_def)
qed

lemma evolves_mono: "evolves R {} w w' \<Longrightarrow> evolves R A w w'"
  by (simp add: evolves_def)

section \<open>The calls\<close>

lemma quiet_upload: "st_Upload (s3_store c) k rd n ct w = (r, w') \<Longrightarrow> quiet w w'"
  by (rule quiet_frame) (auto simp: s3_store_def dest: s3_Upload_frame)

lemma quiet_get: "st_GetObject (s3_store c) k w = (g, w') \<Longrightarrow> quiet w w'"
  by (auto simp: s3_store_def dest: s3_GetObject_world intro: quiet_intros)

lemma quiet_delete: "quiet w (snd (st_DeleteObject (s3_store c) k w))"
  by (rule quiet_frame) (simp_all add: s3_store_def s3_DeleteObject_frame [OF prod.collapse [symmetric]])

lemma evolves_save: "job_ok j \<Longrightarrow> SaveJob rc j w = (r, w') \<Longrightarrow> evolves R {job_ID j} w w'"
  using rd.save [of w j rc r w'] redis_only_views [OF SaveJob_redis_only]
  by (auto simp: evolves_def redis_async_def changed_at_def)

lemma evolves_drop: "evolves R {} w (snd (DeleteJob rc i w))"
  unfolding evolves_def
proof (intro impI conjI allI)
  assume ok: "world_ok w"
  obtain r w' where d: "DeleteJob rc i w = (r, w')" by fastforce
  have D: "world_ok w' \<and> changed_at (is_ok r) i None (job_at w) (job_at w')"
    using rd.drop_job [OF ok, of rc i r w'] d by (simp add: redis_async_def)
  then show "world_ok (snd (DeleteJob rc i w))" using d by simp
  show "record_moves (job_at w k) (job_at (snd (DeleteJob rc i w)) k)" for k using D d by (auto simp: changed_at_def)
  show "\<exists>ms. w_topics (snd (DeleteJob rc i w)) = w_topics w @ ms \<and> (\<forall>m \<in> set ms. message_ok R m)"
    using redis_only_views [OF DeleteJob_redis_only [OF d], of undefined] d by simp
qed

lemma evolves_update:
  assumes "time_ok t" and "finished st" and u: "UpdateJobResult rc t i st ref e w = (r, w')"
  shows "evolves R {} w w'"
  unfolding evolves_def
proof (intro impI conjI allI)
  assume ok: "world_ok w"
  have st: "status_ok st" "st \<noteq> Pending" using assms(2) by (auto simp: finished_def)
  note U = rd.update [OF ok assms(1) st(1), of rc i ref e r w']
  then show "world_ok w'" using u by (simp add: redis_async_def)
  show "record_moves (job_at w k) (job_at w' k)" for k
    using U u st(2) by (cases "job_at w i") (auto simp: redis_async_def changed_at_def same_request_def less_eq_JobStatus_def)
  show "\<exists>ms. w_topics w' = w_topics w @ ms \<and> (\<forall>m \<in> set ms. message_ok R m)"
    using redis_only_views [OF UpdateJobResult_redis_only [OF u], of undefined] by simp
qed

lemma evolves_appended:
  assumes "world_ok w \<Longrightarrow> world_ok w'" and "world_ok w \<Longrightarrow> w_redis w' = w_redis w"
    and "world_ok w \<Longrightarrow> appended b m (w_topics w) (w_topics w')" and "message_ok R m"
  shows "evolves R A w w'"
  unfolding evolves_def
proof (intro impI conjI allI)
  assume ok: "world_ok w"
  show "world_ok w'" using ok assms(1) by simp
  show "record_moves (job_at w i) (job_at w' i)" for i using job_at_frame [OF assms(2) [OF ok]] by simp
  show "\<exists>ms. w_topics w' = w_topics w @ ms \<and> (\<forall>m \<in> set ms. message_ok R m)"
    using assms(3) [OF ok] assms(4) by (auto simp: appended_def)
qed

lemma evolves_publish:
  assumes "input_event_ok ev" and "topic \<notin> R" and p: "PublishInputEvent brokers topic ev w = (r, w')"
  shows "evolves R A w w'"
proof -
  have m: "message_ok R (topic, ie_JobID ev, marshal_input_event ev)"
    using assms(1,2) by (simp add: message_ok_def unmarshal_marshal_input_event)
  show ?thesis
    by (rule evolves_appended [OF PublishInputEvent_spec(1,3,4) [OF _ p] m])
qed

lemma evolves_publish_result:
  assumes "time_ok (re_CompletedAt ev)" and "finished (re_Status ev)" and "topic \<in> R"
    and p: "PublishResultEvent brokers topic ev w = (r, w')"
  shows "evolves R A w w'"
proof -
  have "result_event_ok ev" using assms(1,2) by (auto simp: result_event_ok_def finished_def)
  then have m: "message_ok R (topic, re_JobID ev, marshal_result_event ev)"
    using assms(2,3) by (simp add: message_ok_def unmarshal_marshal_result_event)
  show ?thesis
    by (rule evolves_appended [OF PublishResultEvent_spec(1,3,4) [OF _ p] m])
qed

section \<open>The handlers\<close>

text \<open>A goroutine that a handler left behind: whenever it runs, it does to the services what a step may do.\<close>

definition goroutine_ok :: "string set \<Rightarrow> (World \<Rightarrow> World) \<Rightarrow> bool" where
  "goroutine_ok results f \<longleftrightarrow> (\<forall>w. evolves results {} w (f w))"

lemma goroutine_ok_id [simp]: "goroutine_ok R id"
  by (simp add: goroutine_ok_def evolve_intros)

lemma goroutine_delete [simp]: "goroutine_ok R (\<lambda>w. snd (s3_DeleteObject c k w))"
  using quiet_delete [of _ c k] by (simp add: goroutine_ok_def evolves_quiet s3_store_def)

lemma goroutine_delete_drop [simp]: "goroutine_ok R (\<lambda>w. snd (DeleteJob rc i (snd (s3_DeleteObject c k w))))"
  unfolding goroutine_ok_def
  by (intro allI evolves_trans [OF evolves_quiet evolves_drop]) (use quiet_delete [of _ c k] in \<open>simp add: s3_store_def\<close>)

lemma goroutine_drop [simp]: "goroutine_ok R (\<lambda>w. snd (DeleteJob rc i w))"
  by (simp add: goroutine_ok_def evolves_drop)

lemma Submit_evolves:
  assumes t: "time_ok now" and run: "Submit (gateway_jobs reg c rc brokers ph ch) r st i now w = (resp, w', bg)"
    and apart: "\<And>s. submit_check (gateway_jobs reg c rc brokers ph ch) r st = Inr s \<Longrightarrow>
      submit_topic (gateway_jobs reg c rc brokers ph ch) r (sub_def s) \<notin> R"
  shows "evolves R {i} w w'" and "goroutine_ok R bg"
proof -
  let ?h = "gateway_jobs reg c rc brokers ph ch"
  have "evolves R {i} w w' \<and> goroutine_ok R bg"
  proof (cases "submit_check ?h r st")
    case (Inl e)
    then show ?thesis using run by (auto simp: Submit_def evolve_intros split: prod.splits)
  next
    case (Inr s)
    let ?ref = "input_ref i (fh_Filename (sub_file s))" and ?data = "fh_Data (sub_file s)"
    obtain r1 w1 where u: "st_Upload (s3_store c) ?ref (?data, None) (int (length ?data)) (fh_ContentType (sub_file s)) w = (r1, w1)"
      by fastforce
    obtain r2 w2 where sv: "SaveJob rc (new_job st s i now) w1 = (r2, w2)" by fastforce
    obtain r3 w3 where p: "PublishInputEvent brokers (submit_topic ?h r (sub_def s)) (new_event st s i now) w2 = (r3, w3)"
      by fastforce
    obtain r4 w4 where up: "UpdateJobResult rc now i Failed [] ''failed to enqueue'' w3 = (r4, w4)" by fastforce
    have w': "w' = (if \<not> is_ok r1 then w1 else if \<not> is_ok r2 then w2 else if is_ok r3 then w3 else w4)"
        "bg = id \<or> bg = (\<lambda>w. snd (st_DeleteObject (s3_store c) ?ref w))"
      using run Inr u sv p up
      by (auto simp: Submit_def submit_run_def gateway_jobs_def redis_async_def kafka_producer_def split: sum.splits)
    have e1: "evolves R {i} w w1" by (rule evolves_quiet [OF quiet_upload [OF u]])
    have e2: "evolves R {i} w w2"
      using evolves_trans [OF e1] evolves_save [OF new_job_ok [OF t] sv] by simp
    have e3: "evolves R {i} w w3"
      by (rule evolves_trans [OF e2 evolves_publish [OF new_event_ok [OF Inr t] apart [OF Inr] p]])
    have "evolves R {i} w w4"
      by (rule evolves_trans [OF e3 evolves_mono [OF evolves_update [OF t _ up]]]) (simp add: finished_def)
    then show ?thesis using w' e1 e2 e3 by (auto simp: s3_store_def)
  qed
  then show "evolves R {i} w w'" "goroutine_ok R bg" by simp_all
qed

lemma sync_enqueue_evolves:
  assumes t: "time_ok now" and apart: "def_SyncTopic d \<notin> R"
    and run: "sync_enqueue (gateway_sync reg c rc brokers ch llm) r f d i now w = (out, w')"
  shows "evolves R {i} w w'" and "out = Inl (resp, bg) \<Longrightarrow> goroutine_ok R bg"
proof -
  let ?h = "gateway_sync reg c rc brokers ch llm"
  have "evolves R {i} w w' \<and> (\<forall>resp bg. out = Inl (resp, bg) \<longrightarrow> goroutine_ok R bg)"
  proof (cases "sync_check ?h r f d")
    case (Inl e)
    then show ?thesis using run by (auto simp: sync_enqueue_def evolve_intros split: prod.splits)
  next
    case (Inr fh)
    let ?ref = "input_ref i (fh_Filename fh)"
    obtain r1 w1 where u: "st_Upload (s3_store c) ?ref (fh_Data fh, None) (int (length (fh_Data fh))) (fh_ContentType fh) w = (r1, w1)"
      by fastforce
    obtain r2 w2 where sv: "SaveJob rc (sync_job ?h r d i ?ref now) w1 = (r2, w2)" by fastforce
    obtain r3 w3 where p: "PublishInputEvent brokers (def_SyncTopic d) (sync_event r f d i ?ref now) w2 = (r3, w3)"
      by fastforce
    have w': "w' = (if \<not> is_ok r1 then w1 else if \<not> is_ok r2 then w2 else w3)"
        "out = Inl (resp, bg) \<Longrightarrow> bg = id \<or> bg = (\<lambda>w. snd (DeleteJob rc i (snd (s3_DeleteObject c ?ref w))))" for resp bg
      using run Inr u sv p
      by (auto simp: sync_enqueue_def interface_defs Let_def split: sum.splits)
    have e1: "evolves R {i} w w1" by (rule evolves_quiet [OF quiet_upload [OF u]])
    have e2: "evolves R {i} w w2"
      using evolves_trans [OF e1] evolves_save [OF sync_job_ok(1) [OF t] sv] sync_job_ok(2) by simp
    have "evolves R {i} w w3"
      by (rule evolves_trans [OF e2 evolves_publish [OF sync_event_ok(1) [OF t] apart p]])
    then show ?thesis using w' e1 e2 by (simp split: if_split) (use w'(2) in fastforce)
  qed
  then show "evolves R {i} w w'" "out = Inl (resp, bg) \<Longrightarrow> goroutine_ok R bg" by simp_all
qed

lemma goroutine_cleanup [simp]: "goroutine_ok R (sync_cleanup (gateway_sync reg c rc brokers ch llm) i j)"
proof (cases "job_ResultRef j = []")
  case True
  then have "sync_cleanup (gateway_sync reg c rc brokers ch llm) i j = (\<lambda>w. snd (DeleteJob rc i w))"
    by (simp add: sync_cleanup_def interface_defs fun_eq_iff)
  then show ?thesis by simp
next
  case False
  then have "sync_cleanup (gateway_sync reg c rc brokers ch llm) i j =
      (\<lambda>w. snd (DeleteJob rc i (snd (s3_DeleteObject c (job_ResultRef j) w))))"
    by (simp add: sync_cleanup_def interface_defs fun_eq_iff)
  then show ?thesis by simp
qed

lemma quiet_reads:
  assumes "GetJob rc i w = (g, w1)" and "w' = w1 \<or> (\<exists>k o2. s3_GetObject c k w1 = (o2, w'))"
  shows "quiet w w'"
proof -
  have w1: "w1 = tick w" by (rule GetJob_world [OF assms(1)])
  from assms(2) consider "w' = w1" | "w' = tick w1" using s3_GetObject_world by blast
  then show ?thesis using w1 quiet_trans [OF quiet_tick quiet_tick] quiet_tick by cases simp_all
qed

lemma sync_finish_evolves:
  assumes "sync_finish (gateway_sync reg c rc brokers ch llm) i rs w = (resp, w', bg)"
  shows "quiet w w'" and "goroutine_ok R bg"
proof -
  obtain g w1 where j: "GetJob rc i w = (g, w1)" by fastforce
  have "(w' = w1 \<or> (\<exists>k o2. s3_GetObject c k w1 = (o2, w'))) \<and> goroutine_ok R bg"
    using assms j by (auto simp: sync_finish_def sync_cleanup_def interface_defs Let_def split: sum.splits prod.splits if_splits)
  then show "quiet w w'" "goroutine_ok R bg"
    using quiet_reads [OF j] by blast+
qed

lemma GetStatus_evolves:
  assumes "GetStatus (gateway_jobs reg c rc brokers ph ch) r st i w = (resp, w', bg)"
  shows "quiet w w'" and "goroutine_ok R bg"
proof -
  obtain g w1 where j: "GetJob rc i w = (g, w1)" by fastforce
  have "(w' = w1 \<or> (\<exists>k o2. s3_GetObject c k w1 = (o2, w'))) \<and> goroutine_ok R bg"
    using assms j by (auto simp: GetStatus_def gateway_jobs_def interface_defs Let_def split: sum.splits prod.splits if_splits)
  then show "quiet w w'" "goroutine_ok R bg"
    using quiet_reads [OF j] by blast+
qed

lemma ListJobs_quiet:
  assumes "ListJobs (gateway_jobs reg c rc brokers ph ch) r w = (resp, w')"
  shows "quiet w w'"
proof -
  have "w' = w \<or> (\<exists>n m res. ListJobsByConsumer rc (header_get r ch) n m w = (res, w'))"
    using assms by (auto simp: ListJobs_def gateway_jobs_def redis_async_def Let_def split: sum.splits prod.splits if_splits)
  then show ?thesis
  proof (elim disjE exE)
    show "quiet w w'" if "ListJobsByConsumer rc (header_get r ch) n m w = (res, w')" for n m res
      by (rule quiet_frame) (rule ListJobs_frame [OF that])+
  qed (simp add: quiet_refl)
qed

text \<open>A JSON request: proxied, or answered by the LLM proxy, which may leave a write to its cache behind.\<close>

lemma goroutine_cache_fill: "proxy_ok h \<Longrightarrow> goroutine_ok R (cache_fill h d (Some (''llm:'' @ k)) st body)"
proof -
  assume p: "proxy_ok h"
  have "quiet w (snd (redis_cache_set (''llm:'' @ k) e ttl w))" for e ttl w
  proof -
    obtain acked w1 where a: "attempt (redis_set (''llm:'' @ k) (json_text True (entry_json e)) ttl) w = (acked, w1)"
      by fastforce
    have "quiet w w1" by (rule quiet_attempt [OF a]) (rule quiet_set [OF foreign_llm])
    then show ?thesis unfolding redis_cache_set_def a Let_def by simp
  qed
  then show "goroutine_ok R (cache_fill h d (Some (''llm:'' @ k)) st body)"
    using p by (auto simp: cache_fill_def goroutine_ok_def proxy_ok_def NewRedisCache_def evolves_quiet evolves_refl)
qed

lemma proxy_quiet:
  assumes "proxyToInference r d body ct w = (resp, w')"
  shows "quiet w w'"
proof -
  have "w' = w \<or> (\<exists>req a. http_do req w = (a, w'))"
    using assms by (auto simp: proxyToInference_def Let_def split: option.splits sum.splits prod.splits)
  then show ?thesis using quiet_http [OF http_do_only] by (auto intro: quiet_intros)
qed

lemma ServeJSON_goroutine:
  assumes p: "proxy_ok h" and s: "ServeJSON h r d body consumer w = (rs, w', bg)"
  shows "goroutine_ok R bg"
proof -
  have key: "goroutine_ok R (cache_fill h d key st out)" if "cache_key h r d body = Some key" for key st out
  proof (cases key)
    case None
    then show ?thesis by (simp add: cache_fill_def)
  next
    case (Some k)
    with that have "has_prefix k ''llm:cache:''" using cache_key_prefix by blast
    then obtain s where "k = ''llm:cache:'' @ s" unfolding has_prefix_iff by blast
    then have "k = ''llm:'' @ ''cache:'' @ s" by simp
    then show ?thesis using goroutine_cache_fill [OF p] Some by simp
  qed
  have up: "bg = id \<or> (\<exists>st out. bg = cache_fill h d key st out)"
    if "serve_upstream h r d prov body consumer key v = (rs, w', bg)" for prov key v
    using that by (auto simp: serve_upstream_def Let_def split: rewrite_result.splits sum.splits option.splits prod.splits if_splits)
  have "bg = id \<or> (\<exists>prov key v. cache_key h r d body = Some key \<and> serve_upstream h r d prov body consumer key v = (rs, w', bg))"
    using s by (auto simp: ServeJSON_def Let_def split: sum.splits option.splits prod.splits if_splits)
  then show ?thesis using up key by (metis goroutine_ok_id)
qed

lemma handleJSON_evolves:
  assumes p: "proxy_ok h"
    and j: "handleJSON (gateway_sync reg c rc brokers ch (Some (ServeJSON h))) r w = (resp, w', bg)"
  shows "quiet w w'" and "goroutine_ok R bg"
proof -
  have "w' = w \<and> bg = id \<or> (\<exists>d raw ct resp. proxyToInference r d raw ct w = (resp, w') \<and> bg = id) \<or>
      (\<exists>d raw consumer. ServeJSON h r d raw consumer w = (resp, w', bg))"
    using j by (auto simp: handleJSON_def Let_def split: sum.splits option.splits prod.splits if_splits)
  then show "quiet w w'" "goroutine_ok R bg"
    using proxy_quiet quiet_ServeJSON [OF p] ServeJSON_goroutine [OF p] by (auto intro: quiet_intros)
qed

text \<open>The relay: each of its calls on the way of an event.\<close>

lemma serveHTTP_evolves:
  assumes t: "time_ok now" and topic: "topic \<in> R"
    and s: "serveHTTP (relay_dispatcher ic c brokers topic) now r w = (resp, w', bg)"
  shows "evolves R {} w w'" and "goroutine_ok R bg"
proof -
  let ?d = "relay_dispatcher ic c brokers topic"
  have d: "d_s3 ?d = c" "d_adapter ?d = multipart_Call ic" "d_resultTopic ?d = topic" "d_brokers ?d = brokers"
    by (simp_all add: NewDispatcher_def)
  have process: "evolves R {} w v" if p: "process ?d now e w = (res, v)" for e res v
  proof -
    obtain g w1 where g: "relay_GetObject c (ie_InputRef e) w = (g, w1)" by fastforce
    have e1: "evolves R {} w w1" using relay_GetObject_world [OF g] by (simp add: evolve_intros)
    show ?thesis
    proof (cases g)
      case (Inl err)
      then show ?thesis using p g d e1 by (simp add: process_def)
    next
      case (Inr ob)
      obtain a w2 where a: "multipart_Call ic (call_input e ob) w1 = (a, w2)" by fastforce
      have e2: "evolves R {} w w2" by (rule evolves_trans [OF e1 evolves_quiet [OF quiet_http [OF mp.call_http [OF a]]]])
      show ?thesis
      proof (cases a)
        case (Inl ce)
        let ?ev = "failure_event e (''inference: '' @ call_error_text ce) now"
        obtain pr w3 where f: "PublishResultEvent brokers topic ?ev w2 = (pr, w3)" by fastforce
        have e3: "evolves R {} w w3"
          by (rule evolves_trans [OF e2 evolves_publish_result [OF _ _ topic f]]) (simp_all add: failure_event_def t finished_def)
        have "v = w3 \<or> v = snd (s3_DeleteObject c (ie_InputRef e) w3)"
          using p g a Inr Inl d f by (auto simp: process_def publishFailure_def relay_DeleteObject_eq split: sum.splits)
        then show ?thesis
          using e3 evolves_trans [OF e3 evolves_quiet [OF quiet_delete [of _ c]]] by (auto simp: s3_store_def)
      next
        case r: (Inr result)
        obtain pr w3 where u: "s3_Upload c (result_key e) (result, None) (int (length result)) ''application/json'' w2 = (pr, w3)"
          by fastforce
        then have "st_Upload (s3_store c) (result_key e) (result, None) (int (length result)) ''application/json'' w2 = (pr, w3)"
          by (simp add: s3_store_def)
        note e3 = evolves_trans [OF e2 evolves_quiet [OF quiet_upload [OF this]]]
        obtain qr w4 where f: "PublishResultEvent brokers topic (completed_event e now) w3 = (qr, w4)" by fastforce
        have e4: "evolves R {} w w4"
          by (rule evolves_trans [OF e3 evolves_publish_result [OF _ _ topic f]]) (simp_all add: completed_event_def t finished_def)
        have "v = w3 \<or> v = w4"
          using p g a Inr r d u f by (auto simp: process_def relay_PutObject_eq split: sum.splits)
        then show ?thesis using e3 e4 by blast
      qed
    qed
  qed
  have "(w' = w \<or> (\<exists>e res. process ?d now e w = (res, w'))) \<and> goroutine_ok R bg"
    using s by (auto simp: serveHTTP_def relay_DeleteObject_eq split: if_split_asm option.split_asm prod.split_asm sum.split_asm)
  then show "evolves R {} w w'" "goroutine_ok R bg" using process by (auto intro: evolve_intros)
qed

lemma relay_handle_evolves:
  assumes "time_ok now" and "start_relay su = Some p" and "d_resultTopic (rl_dispatcher p) \<in> R"
    and "relay_handle page dial p now n r w = (n', resp, w', bg)"
  shows "evolves R {} w w'" and "goroutine_ok R bg"
proof -
  obtain ic c brokers topic where d: "rl_dispatcher p = relay_dispatcher ic c brokers topic"
    by (rule start_relayE [OF assms(2)])
  then have t: "topic \<in> R" using assms(3) by (simp add: NewDispatcher_def)
  show "evolves R {} w w'" "goroutine_ok R bg"
    using relay_handle_cases [OF assms(4)] serveHTTP_evolves [OF assms(1) t, of ic c brokers r w] evolves_quiet [OF quiet_http]
    unfolding d by auto
qed

text \<open>The result consumer, on a message that names a finished job.\<close>

lemma quiet_notify: "quiet w (NotifyJobDone rc i w)"
  unfolding NotifyJobDone_def by (rule quiet_attempt [OF prod.collapse [symmetric]]) (rule quiet_frame; simp)

lemma handleResult_evolves:
  assumes t: "time_ok now" and e: "unmarshal_result_event raw = Some e" "finished (re_Status e)"
    and h: "handleResult cm now raw w = (res, w', hook)"
  shows "evolves R {} w w'"
proof -
  obtain r1 w1 where u: "UpdateJobResult (cm_redis cm) now (re_JobID e) (re_Status e) (re_ResultRef e) (re_Error e) w = (r1, w1)"
    by fastforce
  have e1: "evolves R {} w w1" by (rule evolves_update [OF t e(2) u])
  obtain g w2 where g: "GetJob (cm_redis cm) (re_JobID e) w1 = (g, w2)" by fastforce
  have e2: "evolves R {} w w2" using evolves_trans [OF e1 evolves_tick] GetJob_world [OF g] by simp
  have "w' = w1 \<or> w' = w2 \<or> w' = NotifyJobDone (cm_redis cm) (re_JobID e) w2"
    using h e(1) u g by (auto simp: handleResult_def Let_def split: sum.splits)
  then show ?thesis using e1 e2 evolves_trans [OF e2 evolves_quiet [OF quiet_notify]] by auto
qed

lemma quiet_webhook_loop: "quiet w (fst (webhook_loop job payload n att backoff w))"
proof (induction n arbitrary: att backoff w)
  case (Suc n)
  show ?case
  proof (cases "url_parse (job_CallbackURL job)")
    case (Some u)
    obtain a w1 where a: "http_do (webhook_request job payload u) w = (a, w1)" by fastforce
    have q: "quiet w w1" by (rule quiet_http [OF http_do_only [OF a]])
    show ?thesis
      using Some a q quiet_trans [OF q Suc.IH] by (auto simp: Let_def split: prod.split) (metis fst_conv)+
  qed (simp add: quiet_refl)
qed (simp add: quiet_refl)

lemma quiet_webhook: "quiet w (fst (sendWebhook cm job w))"
proof -
  obtain g w1 where g: "s3_GetObject (cm_s3 cm) (job_ResultRef job) w = (g, w1)" by fastforce
  have "quiet w w1" using s3_GetObject_world [OF g] by (simp add: quiet_intros)
  then show ?thesis
    using g quiet_webhook_loop quiet_trans [OF _ quiet_webhook_loop]
    by (auto simp: sendWebhook_def Let_def split: sum.split)
qed

section \<open>The gateway process\<close>

text \<open>What no reload replaces: the clients main made at the start.\<close>

definition process_ok :: "Gateway \<Rightarrow> bool" where
  "process_ok g \<longleftrightarrow> key_usable (s3_encKey (gw_s3 g)) \<and> proxy_ok (gw_llm g)"

lemma buildRouter_quiet:
  assumes "buildRouter chi yaml v cfg reg w = (ro, w')"
  shows "quiet w w'"
proof -
  obtain sw w1 where f: "FetchSwaggerSpecs (cfg_Services cfg) w = (sw, w1)" by fastforce
  have "w' = w \<or> w' = w1" using assms f by (auto simp: buildRouter_def split: option.splits if_splits)
  then show ?thesis using quiet_http [OF FetchSwaggerSpecs_only [OF f]] by (auto intro: quiet_intros)
qed

lemma reload_quiet:
  assumes "reload su g w = (res, g', w')"
  shows "quiet w w'" and "process_ok g \<Longrightarrow> process_ok g'"
proof -
  have "w' = w \<or> (\<exists>cfg ro. buildRouter (su_chi su) (su_yaml su) (su_version su) cfg (NewRegistry (cfg_Services cfg)) w = (ro, w'))"
    using assms by (auto simp: reload_def Let_def split: sum.splits option.splits prod.splits)
  then show "quiet w w'" using buildRouter_quiet by (auto intro: quiet_intros)
  show "process_ok g'" if "process_ok g"
    using assms that by (auto simp: reload_def process_ok_def Let_def split: sum.splits option.splits prod.splits)
qed

lemma start_quiet:
  assumes "start_gateway su w = (go, w')"
  shows "quiet w w'" and "go = Some g \<Longrightarrow> process_ok g"
proof -
  have "w' = w \<or> (\<exists>rcfg rd w1. NewRedis rcfg w = (rd, w1) \<and>
      (w' = w1 \<or> (\<exists>cfg reg ro. buildRouter (su_chi su) (su_yaml su) (su_version su) cfg reg w1 = (ro, w'))))"
    using assms by (auto simp: start_gateway_def Let_def split: sum.splits option.splits prod.splits if_splits)
  moreover have "NewRedis rcfg w = (rd, w1) \<Longrightarrow> w1 = tick w" for rcfg rd w1
    by (auto simp: NewRedis_def next_outcome_eq split: outcome.splits)
  ultimately show "quiet w w'" using quiet_trans [OF quiet_tick buildRouter_quiet] by (auto intro: quiet_intros)
  show "process_ok g" if "go = Some g"
    using assms that
    by (auto simp: start_gateway_def process_ok_def proxy_ok_def new_llm_def NewHandler_def Let_def NewS3Client_key
        split: sum.splits option.splits prod.splits if_splits)
qed

section \<open>The system\<close>

text \<open>The running gateway, the services, the identifiers of the jobs submitted so far, and the goroutines
  that finished handlers have left.\<close>

record System =
  sy_gateway :: Gateway
  sy_world :: World
  sy_ids :: "string list"
  sy_left :: "(World \<Rightarrow> World) list"

text \<open>
  Steps with their conditions: uuid.New gives an identifier that was not given before, the clock
  gives a time, and no input, priority or sync topic is one of the result topics \<open>results\<close>, to which
  only the relays publish, any number of them, each at any request.  Any goroutine may run, in any order, late or never.  The services may
  change how they answer, and Redis may drop any key whose time is over.  A gateway that is started
  again has lost its goroutines and its open writers.
\<close>

inductive system_step :: "string set \<Rightarrow> System \<Rightarrow> System \<Rightarrow> bool" for results :: "string set" where
  submit: "gw_producer (sy_gateway s) = Some p \<Longrightarrow> i \<notin> set (sy_ids s) \<Longrightarrow> time_ok now \<Longrightarrow>
     Submit (job_handler_of (sy_gateway s) p) r st i now (sy_world s) = (resp, w', bg) \<Longrightarrow>
     (\<And>sub. submit_check (job_handler_of (sy_gateway s) p) r st = Inr sub \<Longrightarrow>
        submit_topic (job_handler_of (sy_gateway s) p) r (sub_def sub) \<notin> results) \<Longrightarrow>
     system_step results s (s\<lparr>sy_world := w', sy_ids := i # sy_ids s, sy_left := bg # sy_left s\<rparr>)"
| status: "gw_producer (sy_gateway s) = Some p \<Longrightarrow>
     GetStatus (job_handler_of (sy_gateway s) p) r st i (sy_world s) = (resp, w', bg) \<Longrightarrow>
     system_step results s (s\<lparr>sy_world := w', sy_left := bg # sy_left s\<rparr>)"
| jobs: "gw_producer (sy_gateway s) = Some p \<Longrightarrow>
     ListJobs (job_handler_of (sy_gateway s) p) r (sy_world s) = (resp, w') \<Longrightarrow>
     system_step results s (s\<lparr>sy_world := w'\<rparr>)"
| sync_begin: "gw_producer (sy_gateway s) = Some p \<Longrightarrow> i \<notin> set (sy_ids s) \<Longrightarrow> time_ok now \<Longrightarrow> def_SyncTopic d \<notin> results \<Longrightarrow>
     sync_enqueue (sync_handler_of (sy_gateway s) p) r f d i now (sy_world s) = (out, w') \<Longrightarrow>
     system_step results s (s\<lparr>sy_world := w', sy_ids := i # sy_ids s,
       sy_left := (case out of Inl (resp, bg) \<Rightarrow> bg # sy_left s | Inr sub \<Rightarrow> sy_left s)\<rparr>)"
| sync_end: "gw_producer (sy_gateway s) = Some p \<Longrightarrow>
     sync_finish (sync_handler_of (sy_gateway s) p) i rs (sy_world s) = (resp, w', bg) \<Longrightarrow>
     system_step results s (s\<lparr>sy_world := w', sy_left := bg # sy_left s\<rparr>)"
| json: "gw_producer (sy_gateway s) = Some p \<Longrightarrow>
     handleJSON (sync_handler_of (sy_gateway s) p) r (sy_world s) = (resp, w', bg) \<Longrightarrow>
     system_step results s (s\<lparr>sy_world := w', sy_left := bg # sy_left s\<rparr>)"
| proxied: "proxyToInference r d body ct (sy_world s) = (resp, w') \<Longrightarrow> system_step results s (s\<lparr>sy_world := w'\<rparr>)"
| relay: "time_ok now \<Longrightarrow> start_relay rsu = Some rl \<Longrightarrow> d_resultTopic (rl_dispatcher rl) \<in> results \<Longrightarrow>
     relay_handle page dial rl now n r (sy_world s) = (n', resp, w', bg) \<Longrightarrow>
     system_step results s (s\<lparr>sy_world := w', sy_left := bg # sy_left s\<rparr>)"
| result: "gw_manager (sy_gateway s) = Some cm \<Longrightarrow> time_ok now \<Longrightarrow> (topic, key, raw) \<in> set (w_topics (sy_world s)) \<Longrightarrow>
     topic \<in> results \<Longrightarrow> handleResult cm now raw (sy_world s) = (res, w', hook) \<Longrightarrow>
     system_step results s (s\<lparr>sy_world := w',
       sy_left := (case hook of None \<Rightarrow> sy_left s | Some job \<Rightarrow> (\<lambda>w. fst (sendWebhook cm job w)) # sy_left s)\<rparr>)"
| goroutine: "sy_left s = xs @ f # ys \<Longrightarrow> system_step results s (s\<lparr>sy_world := f (sy_world s), sy_left := xs @ ys\<rparr>)"
| reloaded: "reload su (sy_gateway s) (sy_world s) = (res, g', w') \<Longrightarrow>
     system_step results s (s\<lparr>sy_gateway := g', sy_world := w'\<rparr>)"
| restarted: "start_gateway su (sy_world s\<lparr>w_writers := []\<rparr>) = (Some g', w') \<Longrightarrow>
     system_step results s (s\<lparr>sy_gateway := g', sy_world := w', sy_left := []\<rparr>)"
| expired: "system_step results s (s\<lparr>sy_world := redis_del k (sy_world s)\<rparr>)"
| services: "system_step results s (s\<lparr>sy_world := sy_world s\<lparr>w_outcomes := os, w_answers := ans, w_rand := rnd\<rparr>\<rparr>)"

text \<open>At the start nothing has been submitted and Redis and the topics are empty.\<close>

definition system_start :: "System \<Rightarrow> bool" where
  "system_start s \<longleftrightarrow> (\<exists>su w. start_gateway su w = (Some (sy_gateway s), sy_world s) \<and>
     w_redis w = [] \<and> w_topics w = [] \<and> w_writers w = [] \<and> w_relay_writers w = []) \<and> sy_ids s = [] \<and> sy_left s = []"

inductive system_run :: "string set \<Rightarrow> System \<Rightarrow> System \<Rightarrow> bool" for results :: "string set" where
  stay: "system_run results s s"
| go: "system_run results s s' \<Longrightarrow> system_step results s' s'' \<Longrightarrow> system_run results s s''"

section \<open>Every reachable state\<close>

definition system_inv :: "string set \<Rightarrow> System \<Rightarrow> bool" where
  "system_inv results s \<longleftrightarrow> process_ok (sy_gateway s) \<and> world_ok (sy_world s) \<and>
     (\<forall>m \<in> set (w_topics (sy_world s)). message_ok results m) \<and>
     (\<forall>i. job_at (sy_world s) i \<noteq> None \<longrightarrow> i \<in> set (sy_ids s)) \<and> (\<forall>f \<in> set (sy_left s). goroutine_ok results f)"

definition records_move :: "System \<Rightarrow> System \<Rightarrow> bool" where
  "records_move s s' \<longleftrightarrow> set (sy_ids s) \<subseteq> set (sy_ids s') \<and>
     (\<forall>i \<in> set (sy_ids s). record_moves (job_at (sy_world s) i) (job_at (sy_world s') i))"

lemma records_move_refl [simp]: "records_move s s"
  by (simp add: records_move_def)

lemma records_move_trans: "records_move s s1 \<Longrightarrow> records_move s1 s2 \<Longrightarrow> records_move s s2"
  unfolding records_move_def by (meson record_moves_trans subset_eq)

text \<open>One rule for all steps.\<close>

lemma system_inv_step:
  assumes inv: "system_inv R s" and e: "evolves R A (sy_world s) (sy_world s')"
    and ids: "set (sy_ids s') = A \<union> set (sy_ids s)" "A \<inter> set (sy_ids s) = {}"
    and g: "process_ok (sy_gateway s')" and left: "\<forall>f \<in> set (sy_left s'). goroutine_ok R f"
  shows "system_inv R s' \<and> records_move s s'"
proof -
  have ok: "world_ok (sy_world s)" using inv by (simp add: system_inv_def)
  have ok': "world_ok (sy_world s')" and m: "\<And>i. i \<notin> A \<Longrightarrow> record_moves (job_at (sy_world s) i) (job_at (sy_world s') i)"
    using e ok by (simp_all add: evolves_def)
  obtain ms where ms: "w_topics (sy_world s') = w_topics (sy_world s) @ ms" "\<forall>m \<in> set ms. message_ok R m"
    using e ok unfolding evolves_def by blast
  have known: "i \<in> set (sy_ids s')" if "job_at (sy_world s') i \<noteq> None" for i
  proof (rule ccontr)
    assume n: "i \<notin> set (sy_ids s')"
    then have "job_at (sy_world s) i = None" using inv ids(1) by (auto simp: system_inv_def)
    moreover have "i \<notin> A" using n ids(1) by blast
    ultimately show False using m [of i] that by (cases "job_at (sy_world s') i") simp_all
  qed
  have "system_inv R s'"
    unfolding system_inv_def using ok' ms inv known g left by (simp add: system_inv_def ball_Un)
  moreover have "records_move s s'" unfolding records_move_def using ids m by blast
  ultimately show ?thesis ..
qed

lemmas quiet_step = system_inv_step [OF _ evolves_quiet, of _ _ _ "{}"]

lemma producer_of_gateway:
  "job_handler_of g p = gateway_jobs (ro_registry (gw_router g)) (gw_s3 g) (gw_redis g) (pr_brokers p)
     (ro_priorityHeader (gw_router g)) (ro_consumerHeader (gw_router g))"
  "sync_handler_of g p = gateway_sync (ro_registry (gw_router g)) (gw_s3 g) (gw_redis g) (pr_brokers p)
     (ro_consumerHeader (gw_router g)) (Some (ServeJSON (gw_llm g)))"
  by (simp_all add: job_handler_of_def sync_handler_of_def)

lemma goroutine_quiet: "(\<And>w. quiet w (f w)) \<Longrightarrow> goroutine_ok R f"
  by (simp add: goroutine_ok_def evolves_quiet)

lemma quiet_services: "quiet w (w\<lparr>w_outcomes := os, w_answers := ans, w_rand := rnd\<rparr>)"
  by (rule quiet_frame) simp_all

lemma evolves_expire: "evolves R {} w (redis_del k w)"
proof -
  have r: "map_of (w_redis (redis_del k w)) x = (if x = k then None else map_of (w_redis w) x)" for x
    by (simp add: redis_del_def delete_conv')
  have "w_writers (redis_del k w) = w_writers w" "w_relay_writers (redis_del k w) = w_relay_writers w"
    by (simp_all add: redis_del_def)
  then have "world_ok w \<Longrightarrow> world_ok (redis_del k w)"
    by (auto simp: world_ok_def r dest: string_key_del)
  moreover have "record_moves (job_at w i) (job_at (redis_del k w) i)" for i
    by (simp add: job_at_def redis_str_def r split: if_splits)
  ultimately show ?thesis by (simp add: evolves_def redis_del_def)
qed

lemma system_step_inv: "system_step R s s' \<Longrightarrow> system_inv R s \<Longrightarrow> system_inv R s' \<and> records_move s s'"
proof (induction rule: system_step.induct)
  case (submit s p i now r st resp w' bg)
  note S = Submit_evolves [OF submit(3) submit(4) [unfolded producer_of_gateway] submit(5) [unfolded producer_of_gateway]]
  show ?case by (rule system_inv_step [OF submit(6), of "{i}"]) (use S submit in \<open>auto simp: system_inv_def\<close>)
next
  case (status s p r st i resp w' bg)
  note S = GetStatus_evolves [OF status(2) [unfolded producer_of_gateway]]
  show ?case by (rule quiet_step [OF status(3)]) (use S status(3) in \<open>auto simp: system_inv_def\<close>)
next
  case (jobs s p r resp w')
  note S = ListJobs_quiet [OF jobs(2) [unfolded producer_of_gateway]]
  show ?case by (rule quiet_step [OF jobs(3)]) (use S jobs(3) in \<open>auto simp: system_inv_def\<close>)
next
  case (sync_begin s p i now d r f out w')
  note S = sync_enqueue_evolves [OF sync_begin(3,4) sync_begin(5) [unfolded producer_of_gateway]]
  show ?case
    by (rule system_inv_step [OF sync_begin(6), of "{i}"])
      (use S sync_begin in \<open>auto simp: system_inv_def split: sum.splits prod.splits\<close>)
next
  case (sync_end s p i rs resp w' bg)
  note S = sync_finish_evolves [OF sync_end(2) [unfolded producer_of_gateway]]
  show ?case by (rule quiet_step [OF sync_end(3)]) (use S sync_end(3) in \<open>auto simp: system_inv_def\<close>)
next
  case (json s p r resp w' bg)
  have "proxy_ok (gw_llm (sy_gateway s))" using json(3) by (simp add: system_inv_def process_ok_def)
  note S = handleJSON_evolves [OF this json(2) [unfolded producer_of_gateway]]
  show ?case by (rule quiet_step [OF json(3)]) (use S json(3) in \<open>auto simp: system_inv_def\<close>)
next
  case (proxied r d body ct s resp w')
  show ?case
    by (rule quiet_step [OF proxied(2)]) (use proxy_quiet [OF proxied(1)] proxied(2) in \<open>auto simp: system_inv_def\<close>)
next
  case (relay now rsu rl page dial n r s n' resp w' bg)
  note S = relay_handle_evolves [OF relay(1-4)]
  show ?case by (rule system_inv_step [OF relay(5), of "{}"]) (use S relay(5) in \<open>auto simp: system_inv_def\<close>)
next
  case (result s cm now topic key raw res w' hook)
  have "message_ok R (topic, key, raw)" using result(3,6) by (auto simp: system_inv_def)
  then obtain e where e: "unmarshal_result_event raw = Some e" "finished (re_Status e)"
    using result(4) by (auto simp: message_ok_def)
  note S = handleResult_evolves [OF result(2) e result(5)]
  have "goroutine_ok R (\<lambda>w. fst (sendWebhook cm job w))" for job by (rule goroutine_quiet) (rule quiet_webhook)
  then show ?case
    by (intro system_inv_step [OF result(6), of "{}"]) (use S result(6) in \<open>auto simp: system_inv_def split: option.splits\<close>)
next
  case (goroutine s xs f ys)
  have "evolves R {} (sy_world s) (f (sy_world s))" using goroutine by (simp add: system_inv_def goroutine_ok_def)
  then show ?case
    by (intro system_inv_step [OF goroutine(2), of "{}"]) (use goroutine in \<open>auto simp: system_inv_def\<close>)
next
  case (reloaded su s res g' w')
  note S = reload_quiet [OF reloaded(1)]
  show ?case by (rule quiet_step [OF reloaded(2)]) (use S reloaded(2) in \<open>auto simp: system_inv_def\<close>)
next
  case (restarted su s g' w')
  let ?w = "sy_world s\<lparr>w_writers := []\<rparr>"
  have "quiet (sy_world s) ?w"
    using job_at_frame [of ?w "sy_world s"] by (simp add: quiet_def world_ok_def writers_ok_def is_string_key_def)
  note Q = quiet_trans [OF this start_quiet(1) [OF restarted(1)]]
  show ?case
    by (rule quiet_step [OF restarted(2)]) (use Q start_quiet(2) [OF restarted(1)] restarted(2) in \<open>auto simp: system_inv_def\<close>)
next
  case (expired s k)
  show ?case
    by (rule system_inv_step [OF expired, of "{}"]) (use evolves_expire expired in \<open>auto simp: system_inv_def\<close>)
next
  case (services s os ans rnd)
  show ?case
    by (rule quiet_step [OF services]) (use quiet_services services in \<open>auto simp: system_inv_def\<close>)
qed

lemma system_inv_start: "system_start s \<Longrightarrow> system_inv R s"
proof -
  assume "system_start s"
  then obtain su w where w: "start_gateway su w = (Some (sy_gateway s), sy_world s)" "w_redis w = []" "w_topics w = []"
      "w_writers w = []" "w_relay_writers w = []" and s: "sy_ids s = []" "sy_left s = []"
    by (auto simp: system_start_def)
  note Q = start_quiet [OF w(1)]
  have "world_ok w" using w by (simp add: world_ok_def writers_ok_def is_string_key_def)
  moreover have "job_at w i = None" for i using w(2) by (simp add: job_at_def redis_str_def)
  ultimately show ?thesis using Q w(3) s by (simp add: system_inv_def quiet_def)
qed

lemma system_run_inv: "system_run R s s' \<Longrightarrow> system_inv R s \<Longrightarrow> system_inv R s' \<and> records_move s s'"
  by (induction rule: system_run.induct) (auto dest: system_step_inv intro: records_move_trans)

lemma system_run_trans: "system_run R s1 s2 \<Longrightarrow> system_run R s0 s1 \<Longrightarrow> system_run R s0 s2"
  by (induction rule: system_run.induct) (auto intro: system_run.go)

text \<open>C3: everything the processes read is well typed, in every state the system can reach, whatever fails
  and however the steps interleave: the record under the key of a job is text that decodes to a
  job with this identifier and valid times, a message on a result topic decodes to an event of a
  completed or failed job, and a message on any other topic decodes to an event for the relay, each
  with the job identifier that is its key.\<close>

theorem system_types:
  assumes "system_start s0" and "system_run results s0 s"
  shows "(\<forall>i v t. map_of (w_redis (sy_world s)) (jobKey i) = Some (v, t) \<longrightarrow>
      (\<exists>data j. v = RString data \<and> unmarshal_job data = Some j \<and> job_ID j = i \<and> job_ok j)) \<and>
    (\<forall>topic key payload. (topic, key, payload) \<in> set (w_topics (sy_world s)) \<longrightarrow>
      (if topic \<in> results
       then \<exists>e. unmarshal_result_event payload = Some e \<and> re_JobID e = key \<and> (re_Status e = Completed \<or> re_Status e = Failed)
       else \<exists>e. unmarshal_input_event payload = Some e \<and> ie_JobID e = key))"
proof -
  have inv: "system_inv results s" using system_run_inv [OF assms(2)] system_inv_start [OF assms(1)] by blast
  then have ok: "world_ok (sy_world s)" by (simp add: system_inv_def)
  have rec: "\<exists>data j. v = RString data \<and> unmarshal_job data = Some j \<and> job_ID j = i \<and> job_ok j"
    if k: "map_of (w_redis (sy_world s)) (jobKey i) = Some (v, t)" for i v t
  proof -
    have "record_ok i v" using ok k by (simp add: world_ok_def)
    then obtain data j where v: "v = RString data" "unmarshal_job data = Some j"
      by (auto simp: record_ok_def record_text_def unmarshal_job_def split: RedisValue.splits)
    have "job_at (sy_world s) i = Some j" using k v by (simp add: job_at_def redis_str_def)
    then show ?thesis using rd.job_id [OF ok] v by blast
  qed
  have "\<forall>m \<in> set (w_topics (sy_world s)). message_ok results m" using inv by (simp add: system_inv_def)
  then show ?thesis using rec unfolding message_ok_def finished_def by fastforce
qed

text \<open>C2: the life of a job: once a job has been submitted its record only goes forward, whatever the
  system does in between.  A record that is delivered, expired or was never written does not come
  back; what it says of the request, its type, model, input, callback, consumer and date, never
  changes; and a job that is completed or failed is never pending again.\<close>

theorem job_lifecycle:
  assumes "system_start s0" and "system_run results s0 s" and "system_run results s s'" and "i \<in> set (sy_ids s)"
  shows "(job_at (sy_world s) i = None \<longrightarrow> job_at (sy_world s') i = None) \<and>
    (\<forall>j j'. job_at (sy_world s) i = Some j \<longrightarrow> job_at (sy_world s') i = Some j' \<longrightarrow> same_request j j')"
proof -
  have "system_inv results s" using system_run_inv [OF assms(2)] system_inv_start [OF assms(1)] by blast
  then have "records_move s s'" using system_run_inv [OF assms(3)] by blast
  then have m: "record_moves (job_at (sy_world s) i) (job_at (sy_world s') i)" using assms(4) by (simp add: records_move_def)
  show ?thesis
    using m by (cases "job_at (sy_world s) i"; cases "job_at (sy_world s') i") simp_all
qed

section \<open>At work\<close>

abbreviation demo_results :: "string set" where
  "demo_results \<equiv> {''jobs.whisper.results''}"

lemma demo_handler_check:
  "submit_check (gateway_jobs reg c rc brokers ph ch) r st = submit_check (gateway_jobs reg demo_s3 demo_redis [] ph ch) r st"
  unfolding submit_check_def gateway_jobs_def NewJobHandler_simps by (rule refl)

lemma demo_system_check:
  "is_ok (submit_check (gateway_jobs (NewRegistry (cfg_Services demo_loaded)) demo_s3 demo_redis [] [] []) demo_request ''audio'')"
  by code_simp

text \<open>A run that has accepted one job.\<close>

lemma demo_system:
  obtains s0 s j where "system_start s0" "system_run demo_results s0 s" "sy_ids s = [''j1'']"
    "job_at (sy_world s) ''j1'' = Some j" "length (w_topics (sy_world s)) = 1"
proof -
  obtain g where g: "start_gateway demo_surroundings demo_llm_world = (Some g, demo_llm_world)"
    "ro_registry (gw_router g) = NewRegistry (cfg_Services demo_loaded)" "gw_producer g \<noteq> None"
    "ro_priorityHeader (gw_router g) = []" "ro_consumerHeader (gw_router g) = []" "s3_encKey (gw_s3 g) = None"
    by (rule demo_start)
  obtain p where p: "gw_producer g = Some p" using g(3) by auto
  let ?start = "\<lparr>sy_gateway = g, sy_world = demo_llm_world, sy_ids = [], sy_left = []\<rparr>"
  let ?h = "job_handler_of g p"
  have h: "?h = gateway_jobs (NewRegistry (cfg_Services demo_loaded)) (gw_s3 g) (gw_redis g) (pr_brokers p) [] []"
    by (simp add: job_handler_of_def g)
  obtain sub where sub: "submit_check ?h demo_request ''audio'' = Inr sub"
    using demo_system_check unfolding h demo_handler_check [of _ "gw_s3 g"] by (auto simp: is_ok_iff)
  obtain cfg where cfg: "cfg \<in> set (cfg_Services demo_loaded)" "sub_def sub = newDef cfg"
    using sub unfolding h
    by (auto simp: submit_check_def gateway_jobs_def split: sum.splits if_splits option.splits elim!: RouteAsync_config)
  have apart: "submit_topic ?h demo_request (sub_def sub) \<notin> demo_results"
    using cfg by (simp add: h submit_topic_def gateway_jobs_def newDef_def applyDefaults_def demo_config_def
        service_defaults_def demo_service_def)
  obtain resp w' bg where r: "Submit ?h demo_request ''audio'' ''j1'' demo_now demo_llm_world = (resp, w', bg)"
    by (metis prod.collapse)
  have st: "final_status resp = 202"
    using no_faults_submit [OF _ g(6) sub [unfolded h], of demo_llm_world "''j1''" demo_now] r h
    by (simp add: demo_llm_world_def)
  have w: "world_ok demo_llm_world" "key_usable (s3_encKey (gw_s3 g))"
    using g(6) by (simp_all add: world_ok_def demo_llm_world_def writers_ok_def is_string_key_def key_usable_def)
  then have ok: "gateway_ok (gw_s3 g) demo_llm_world" by (simp add: gateway_ok_def)
  let ?next = "?start\<lparr>sy_world := w', sy_ids := ''j1'' # sy_ids ?start, sy_left := bg # sy_left ?start\<rparr>"
  have "system_step demo_results ?start ?next"
    by (rule submit [where s = ?start and p = p and now = demo_now and r = demo_request and st = "''audio''" and resp = resp])
      (use p r sub apart demo_now_ok in auto)
  then have run: "system_run demo_results ?start ?next" by (rule go [OF stay])
  have start: "system_start ?start"
    unfolding system_start_def by (auto intro!: exI [of _ demo_surroundings] exI [of _ demo_llm_world] simp: g(1))
      (simp_all add: demo_llm_world_def)
  have "job_at w' ''j1'' \<noteq> None" "length (w_topics w') = 1"
    using Submit_accepted_facts [OF ok demo_now_ok r [unfolded h] st] by (auto simp: demo_llm_world_def)
  then show thesis using that [OF start run] by auto
qed

lemma system_types_witness:
  "\<exists>s. system_run demo_results s s \<and> length (w_topics (sy_world s)) = 1 \<and>
     (\<forall>topic key payload. (topic, key, payload) \<in> set (w_topics (sy_world s)) \<longrightarrow> topic \<notin> demo_results \<longrightarrow>
       (\<exists>e. unmarshal_input_event payload = Some e \<and> ie_JobID e = key))"
proof -
  obtain s0 s j where s: "system_start s0" "system_run demo_results s0 s" "length (w_topics (sy_world s)) = 1"
    by (rule demo_system)
  show ?thesis using system_types [OF s(1,2)] s(3) stay [of demo_results s] by fastforce
qed

lemma job_lifecycle_witness:
  "\<exists>(s :: System) j. job_at (sy_world s) ''j1'' = Some j \<and> same_request j j \<and>
     (let s' = s\<lparr>sy_world := redis_del ''consumer::jobs'' (sy_world s)\<rparr>
      in \<forall>j'. job_at (sy_world s') ''j1'' = Some j' \<longrightarrow> same_request j j')"
proof -
  obtain s0 s j where s: "system_start s0" "system_run demo_results s0 s" "sy_ids s = [''j1'']"
      "job_at (sy_world s) ''j1'' = Some j"
    by (rule demo_system)
  let ?later = "s\<lparr>sy_world := redis_del ''consumer::jobs'' (sy_world s)\<rparr>"
  have run: "system_run demo_results s ?later" by (rule go [OF stay expired])
  have later: "\<forall>j'. job_at (sy_world ?later) ''j1'' = Some j' \<longrightarrow> same_request j j'" "same_request j j"
    using job_lifecycle [OF s(1,2) run, of "''j1''"] job_lifecycle [OF s(1,2) stay, of "''j1''"] s(3,4) by auto
  show ?thesis unfolding Let_def by (intro exI [of _ s] exI [of _ j] conjI) (use s(4) later in simp_all)
qed

end
