(* ===== verification/Requests.thy ===== *)
theory Requests
  imports System
begin

text \<open>
  What the gateway's server does with one request: the router of cmd/gateway/main.go with every handler
  behind it, and the proof that each request is a run of the system.  The chi router is a parameter:
  for the routes it was given, a method and a path it answers with a route and the values of its
  placeholders, or that there is none.  Nothing is assumed of it.
\<close>

section \<open>The router\<close>

datatype chi_answer = ChiNotFound | ChiMethodNotAllowed | ChiRoute route_target "(string, string) gomap"

type_synonym chi_router = "route list \<Rightarrow> string \<Rightarrow> string \<Rightarrow> chi_answer"

definition url_param :: "(string, string) gomap \<Rightarrow> string \<Rightarrow> string" where
  "url_param ps k = (case map_of ps k of Some v \<Rightarrow> v | None \<Rightarrow> [])"

text \<open>What a request finds beside the state: the identifier and the time it would give a job, the events of
  its wait, and what happens to the services meanwhile.\<close>

record Chance =
  ch_id :: string
  ch_now :: time
  ch_events :: "wait_event list"
  ch_meanwhile :: "World \<Rightarrow> World"

text \<open>One request; \<open>page\<close> is the answer of promhttp.  None is a request that is not answered.  The gateway is
  one with a producer \<open>p\<close>.\<close>

definition gateway_handle ::
    "chi_router \<Rightarrow> Response \<Rightarrow> Surroundings \<Rightarrow> Chance \<Rightarrow> Gateway \<Rightarrow> Producer \<Rightarrow> Request \<Rightarrow> World \<Rightarrow>
      (Response \<times> Gateway \<times> World \<times> (World \<Rightarrow> World)) option" where
  "gateway_handle chi page su ch g p r w =
     (case chi (ro_routes (gw_router g)) (rq_Method r) (rq_Path r) of
        ChiNotFound \<Rightarrow> Some (http_error 404 ''404 page not found'' new_response, g, w, id)
      | ChiMethodNotAllowed \<Rightarrow> Some (WriteHeader 405 new_response, g, w, id)
      | ChiRoute target ps \<Rightarrow>
          (case target of
             HealthRoute \<Rightarrow> Some (Health (ch_now ch), g, w, id)
           | MetricsRoute \<Rightarrow> Some (page, g, w, id)
           | DocsRoute \<Rightarrow> Some (DocsUI (ro_swagger (gw_router g)), g, w, id)
           | OpenAPIRoute \<Rightarrow> Some (NewDocsSpec (ro_spec (gw_router g)), g, w, id)
           | SwaggerRoute \<Rightarrow>
               Some (NewSwaggerHandler (ro_swagger (gw_router g)) (url_param ps ''type'') (url_param ps ''model''), g, w, id)
           | ListJobsRoute \<Rightarrow> (let (resp, w1) = ListJobs (job_handler_of g p) r w in Some (resp, g, w1, id))
           | SubmitRoute \<Rightarrow>
               (let (resp, w1, bg) = Submit (job_handler_of g p) r (url_param ps ''service_type'') (ch_id ch) (ch_now ch) w
                in Some (resp, g, w1, bg))
           | StatusRoute \<Rightarrow>
               (let (resp, w1, bg) = GetStatus (job_handler_of g p) r (url_param ps ''service_type'') (url_param ps ''id'') w
                in Some (resp, g, w1, bg))
           | ReloadRoute \<Rightarrow> (let (resp, g1, w1) = NewReloadHandler su g w in Some (resp, g1, w1, id))
           | ModelsRoute \<Rightarrow> Some (ListModels (ro_registry (gw_router g)), g, w, id)
           | SyncRoute \<Rightarrow>
               (case Sync_ServeHTTP (sync_handler_of g p) r (ch_id ch) (ch_now ch) (ch_events ch) (ch_meanwhile ch) w of
                  None \<Rightarrow> None
                | Some (resp, w1, bg) \<Rightarrow> Some (resp, g, w1, bg))))"

section \<open>Requests as runs of the system\<close>

text \<open>No topic the gateway publishes on is a topic of results.\<close>

definition topics_apart :: "string set \<Rightarrow> ServiceConfig list \<Rightarrow> bool" where
  "topics_apart results cfgs \<longleftrightarrow>
     list_all (\<lambda>c. sc_InputTopic c \<notin> results \<and> sc_PriorityTopic c \<notin> results \<and> sc_SyncTopic c \<notin> results) cfgs"

lemma newDef_topics:
  "def_InputTopic (newDef c) = sc_InputTopic c" "def_PriorityTopic (newDef c) = sc_PriorityTopic c"
  "def_SyncTopic (newDef c) = sc_SyncTopic c"
  by (simp_all add: newDef_def)

lemma submit_apart:
  assumes "topics_apart results cfgs" and "ro_registry (gw_router g) = NewRegistry cfgs"
    and "submit_check (job_handler_of g p) r st = Inr sub"
  shows "submit_topic (job_handler_of g p) r (sub_def sub) \<notin> results"
proof -
  obtain m where "RouteAsync (NewRegistry cfgs) st m = Inr (sub_def sub)"
    using assms(2,3) by (auto simp: submit_check_def job_handler_of_def gateway_jobs_def Let_def split: sum.splits if_splits option.splits)
  then obtain c where "c \<in> set cfgs" "sub_def sub = newDef c" by (rule RouteAsync_config)
  then show ?thesis using assms(1) by (auto simp: topics_apart_def list_all_iff submit_topic_def newDef_topics)
qed

lemma sync_apart:
  assumes "topics_apart results cfgs" and "RouteSync (NewRegistry cfgs) path m = Inr d"
  shows "def_SyncTopic d \<notin> results"
  using RouteSync_origin [OF assms(2)] assms(1) by (auto simp: topics_apart_def list_all_iff newDef_topics)

text \<open>The system meanwhile: from any state the request may have reached, what happens until its wait ends is a
  run of the system that keeps the process, though not its router or consumers.\<close>

definition same_process :: "Gateway \<Rightarrow> Gateway \<Rightarrow> bool" where
  "same_process g g' \<longleftrightarrow> gw_s3 g' = gw_s3 g \<and> gw_redis g' = gw_redis g \<and> gw_producer g' = gw_producer g"

definition meanwhile_run :: "string set \<Rightarrow> (World \<Rightarrow> World) \<Rightarrow> System \<Rightarrow> bool" where
  "meanwhile_run results env s \<longleftrightarrow>
     (\<forall>s1. system_run results s s1 \<longrightarrow> same_process (sy_gateway s) (sy_gateway s1) \<longrightarrow>
       (\<exists>s2. system_run results s1 s2 \<and> sy_world s2 = env (sy_world s1) \<and> same_process (sy_gateway s1) (sy_gateway s2)))"

lemma sync_finish_same:
  assumes "same_process g g'"
  shows "sync_finish (sync_handler_of g' p) i rs w = sync_finish (sync_handler_of g p) i rs w"
proof -
  have c: "sh_s3 (sync_handler_of g' p) = sh_s3 (sync_handler_of g p)" "sh_redis (sync_handler_of g' p) = sh_redis (sync_handler_of g p)"
    using assms by (simp_all add: same_process_def sync_handler_of_def gateway_sync_def NewSyncHandler_def)
  then have d: "sync_cleanup (sync_handler_of g' p) = sync_cleanup (sync_handler_of g p)"
    by (intro ext) (simp add: sync_cleanup_def)
  show ?thesis unfolding sync_finish_def c d by (rule refl)
qed

text \<open>A request that has been served: the services are those a run leads to, the gateway too when it is
  changed, and the goroutine it left is one of the system.\<close>

definition served_as :: "string set \<Rightarrow> System \<Rightarrow> Gateway \<Rightarrow> World \<Rightarrow> (World \<Rightarrow> World) \<Rightarrow> bool" where
  "served_as results s g' w' bg \<longleftrightarrow>
     (\<exists>s'. system_run results s s' \<and> sy_world s' = w' \<and> (g' = sy_gateway s \<or> g' = sy_gateway s') \<and> (bg = id \<or> bg \<in> set (sy_left s')))"

lemma served_stay: "served_as results s (sy_gateway s) (sy_world s) id"
  unfolding served_as_def using stay by blast

lemma served_step:
  assumes "system_step results s s'" and "sy_world s' = w'" and "g' = sy_gateway s \<or> g' = sy_gateway s'" and "bg = id \<or> bg \<in> set (sy_left s')"
  shows "served_as results s g' w' bg"
  unfolding served_as_def using assms go [OF stay] by blast

lemma via_kafka_served:
  assumes p: "gw_producer (sy_gateway s) = Some p" and i: "i \<notin> set (sy_ids s)" "time_ok now" "def_SyncTopic d \<notin> results"
    and e: "meanwhile_run results env s"
    and h: "handleMultipartViaKafka (sync_handler_of (sy_gateway s) p) r f d i now events env (sy_world s) = Some (resp, w', bg)"
  shows "served_as results s (sy_gateway s) w' bg"
proof -
  let ?h = "sync_handler_of (sy_gateway s) p"
  obtain out w1 where q: "sync_enqueue ?h r f d i now (sy_world s) = (out, w1)" by fastforce
  let ?s1 = "s\<lparr>sy_world := w1, sy_ids := i # sy_ids s,
       sy_left := (case out of Inl (resp, bg) \<Rightarrow> bg # sy_left s | Inr sub \<Rightarrow> sy_left s)\<rparr>"
  have st: "system_step results s ?s1" by (rule sync_begin [OF p i q])
  show ?thesis
  proof (cases out)
    case (Inl a)
    then show ?thesis using h q by (intro served_step [OF st]) (auto simp: handleMultipartViaKafka_def split: prod.splits)
  next
    case (Inr sub)
    have "same_process (sy_gateway s) (sy_gateway ?s1)" by (simp add: same_process_def)
    then obtain s2 where s2: "system_run results ?s1 s2" "sy_world s2 = env w1" "same_process (sy_gateway ?s1) (sy_gateway s2)"
      using e go [OF stay st] unfolding meanwhile_run_def by fastforce
    have run: "system_run results s s2" by (rule system_run_trans [OF s2(1) go [OF stay st]])
    obtain rs woken where l: "wait_loop events new_response = (rs, woken)" by fastforce
    consider "woken = Some False" "w' = env w1" "bg = id" | "woken = Some True" "sync_finish ?h i rs (env w1) = (resp, w', bg)"
      using h q Inr l by (auto simp: handleMultipartViaKafka_def split: option.splits bool.splits)
    then show ?thesis
    proof cases
      case 1
      then show ?thesis using run s2(2) unfolding served_as_def by blast
    next
      case 2
      have "sync_finish (sync_handler_of (sy_gateway s2) p) i rs (sy_world s2) = (resp, w', bg)"
        using 2(2) sync_finish_same [OF s2(3)] s2(2) by simp
      moreover have "gw_producer (sy_gateway s2) = Some p" using s2(3) p by (simp add: same_process_def)
      ultimately have "system_step results s2 (s2\<lparr>sy_world := w', sy_left := bg # sy_left s2\<rparr>)" by (rule sync_end [rotated])
      then show ?thesis unfolding served_as_def using go [OF run] by force
    qed
  qed
qed

lemma proxied_served:
  assumes "reconstructMultipart f (sy_world s) = (form, w1)" and "proxyToInference r d b ct w1 = (resp, w')"
  shows "served_as results s (sy_gateway s) w' id"
proof -
  have rnd: "w1 = sy_world s\<lparr>w_outcomes := w_outcomes (sy_world s), w_answers := w_answers (sy_world s), w_rand := w_rand w1\<rparr>"
    using assms(1) by (auto simp: reconstructMultipart_def next_boundary_def split: list.splits)
  have "system_run results s (s\<lparr>sy_world := w1\<rparr>)"
    by (subst rnd) (rule go [OF stay services])
  moreover have "system_step results (s\<lparr>sy_world := w1\<rparr>) (s\<lparr>sy_world := w1\<rparr>\<lparr>sy_world := w'\<rparr>)"
    by (rule proxied) (use assms(2) in simp)
  ultimately have "system_run results s (s\<lparr>sy_world := w1\<rparr>\<lparr>sy_world := w'\<rparr>)" by (rule go)
  then show ?thesis unfolding served_as_def by force
qed

lemma sync_served:
  assumes p: "gw_producer (sy_gateway s) = Some p" and reg: "ro_registry (gw_router (sy_gateway s)) = NewRegistry cfgs"
    and i: "i \<notin> set (sy_ids s)" "time_ok now" "topics_apart results cfgs" and e: "meanwhile_run results env s"
    and h: "Sync_ServeHTTP (sync_handler_of (sy_gateway s) p) r i now events env (sy_world s) = Some (resp, w', bg)"
  shows "served_as results s (sy_gateway s) w' bg"
proof -
  let ?h = "sync_handler_of (sy_gateway s) p"
  have hr: "sh_registry ?h = NewRegistry cfgs" by (simp add: sync_handler_of_def gateway_sync_def NewSyncHandler_def reg)
  consider "w' = sy_world s" "bg = id" | "handleJSON ?h r (sy_world s) = (resp, w', bg)"
    | "handleMultipart ?h r i now events env (sy_world s) = Some (resp, w', bg)"
    using h by (auto simp: Sync_ServeHTTP_def Let_def split: if_splits)
  then show ?thesis
  proof cases
    case 1
    then show ?thesis using served_stay by simp
  next
    case 2
    show ?thesis by (rule served_step [OF json [OF p 2]]) simp_all
  next
    case 3
    show ?thesis
    proof (cases "parse_form None r")
      case (Inl x)
      then show ?thesis using 3 served_stay by (auto simp: handleMultipart_def)
    next
      case (Inr f)
      show ?thesis
      proof (cases "RouteSync (NewRegistry cfgs) (rq_Path r) (form_value r f ''model'')")
        case (Inl x)
        then show ?thesis using 3 Inr served_stay by (auto simp: handleMultipart_def hr)
      next
        case d: (Inr d)
        obtain form w1 where q: "reconstructMultipart f (sy_world s) = (form, w1)" by fastforce
        obtain b ct where f: "form = (b, ct)" by fastforce
        obtain rs w2 where pr: "proxyToInference r d b ct w1 = (rs, w2)" by fastforce
        consider "handleMultipartViaKafka ?h r f d i now events env (sy_world s) = Some (resp, w', bg)" | "w' = w2" "bg = id"
          using 3 Inr d q f pr by (auto simp: handleMultipart_def hr split: if_splits)
        then show ?thesis
          using via_kafka_served [OF p i(1,2) sync_apart [OF i(3) d] e] proxied_served [OF q pr] by cases simp_all
      qed
    qed
  qed
qed


text \<open>At work: a submission through a router that knows one path, in a system that has just started.\<close>

definition demo_chi :: chi_router where
  "demo_chi routes method path =
     (if (''POST'', ''/jobs/{service_type}'', SubmitRoute) \<in> set routes \<and> method = ''POST''
      then ChiRoute SubmitRoute [(''service_type'', ''audio'')] else ChiNotFound)"

definition demo_chance :: Chance where
  "demo_chance = \<lparr>ch_id = ''j1'', ch_now = demo_now, ch_events = [], ch_meanwhile = id\<rparr>"

lemma demo_apart: "topics_apart demo_results (cfg_Services demo_loaded)"
  by code_simp

lemma meanwhile_nothing: "meanwhile_run results id s"
  unfolding meanwhile_run_def by (metis id_apply same_process_def stay)


end
