(* ===== verification/Metrics.thy ===== *)
theory Metrics
  imports Prelude
begin

text \<open>
  internal/metrics/metrics.go and relay/internal/metrics/metrics.go: the Prometheus collectors of the two
  processes with their names, kinds, labels and buckets, and the calls on them.  A call to a
  collector is fit when it passes as many label values as the collector has labels, is one its kind
  has, and does not let a counter go down: client_golang panics on any other.  Given buckets are
  in thousandths, so that all are whole numbers; help texts are left out.
\<close>

section \<open>Collectors\<close>

text \<open>Buckets are written out or are those of client_golang: its default ones, or so many from a start on, each a
  multiple of the one before.\<close>

datatype buckets = Given "int list" | DefBuckets | ExponentialBuckets int int nat

datatype collector_kind = CounterKind | GaugeKind | HistogramKind buckets

record Collector =
  cl_Name :: string
  cl_Kind :: collector_kind
  cl_Labels :: "string list"

datatype gateway_metric =
    RequestsTotal | RequestDuration | SyncWaitDuration | SyncJobsInFlight
  | S3OperationDuration | S3ErrorsTotal | KafkaPublishDuration | KafkaPublishErrorsTotal
  | RedisOperationDuration | RedisErrorsTotal | JobsByConsumerTotal
  | CacheHitsTotal | CacheMissesTotal | CacheErrorsTotal
  | LLMTokensTotal | LLMRequestsTotal | LLMRequestDuration | LLMTokensPerRequest | LLMConsumerTokensTop

fun gateway_collector :: "gateway_metric \<Rightarrow> Collector" where
  "gateway_collector RequestsTotal =
     \<lparr>cl_Name = ''kevent_requests_total'', cl_Kind = CounterKind,
      cl_Labels = [''mode'', ''service_type'', ''model'', ''status'']\<rparr>"
| "gateway_collector RequestDuration =
     \<lparr>cl_Name = ''kevent_request_duration_seconds'',
      cl_Kind = HistogramKind (Given [100, 500, 1000, 5000, 10000, 30000, 60000, 120000, 300000]),
      cl_Labels = [''mode'', ''service_type'', ''model'']\<rparr>"
| "gateway_collector SyncWaitDuration =
     \<lparr>cl_Name = ''kevent_sync_wait_duration_seconds'',
      cl_Kind = HistogramKind (Given [500, 1000, 5000, 10000, 30000, 60000, 120000, 300000]),
      cl_Labels = [''service_type'', ''model'']\<rparr>"
| "gateway_collector SyncJobsInFlight =
     \<lparr>cl_Name = ''kevent_sync_jobs_in_flight'', cl_Kind = GaugeKind, cl_Labels = []\<rparr>"
| "gateway_collector S3OperationDuration =
     \<lparr>cl_Name = ''kevent_s3_operation_duration_seconds'', cl_Kind = HistogramKind DefBuckets, cl_Labels = [''operation'']\<rparr>"
| "gateway_collector S3ErrorsTotal =
     \<lparr>cl_Name = ''kevent_s3_errors_total'', cl_Kind = CounterKind, cl_Labels = [''operation'']\<rparr>"
| "gateway_collector KafkaPublishDuration =
     \<lparr>cl_Name = ''kevent_kafka_publish_duration_seconds'', cl_Kind = HistogramKind DefBuckets, cl_Labels = [''topic'']\<rparr>"
| "gateway_collector KafkaPublishErrorsTotal =
     \<lparr>cl_Name = ''kevent_kafka_publish_errors_total'', cl_Kind = CounterKind, cl_Labels = [''topic'']\<rparr>"
| "gateway_collector RedisOperationDuration =
     \<lparr>cl_Name = ''kevent_redis_operation_duration_seconds'', cl_Kind = HistogramKind DefBuckets, cl_Labels = [''operation'']\<rparr>"
| "gateway_collector RedisErrorsTotal =
     \<lparr>cl_Name = ''kevent_redis_errors_total'', cl_Kind = CounterKind, cl_Labels = [''operation'']\<rparr>"
| "gateway_collector JobsByConsumerTotal =
     \<lparr>cl_Name = ''kevent_jobs_by_consumer_total'', cl_Kind = CounterKind,
      cl_Labels = [''mode'', ''service_type'', ''model'', ''consumer'']\<rparr>"
| "gateway_collector CacheHitsTotal =
     \<lparr>cl_Name = ''kevent_cache_hits_total'', cl_Kind = CounterKind, cl_Labels = [''service_type'', ''model'']\<rparr>"
| "gateway_collector CacheMissesTotal =
     \<lparr>cl_Name = ''kevent_cache_misses_total'', cl_Kind = CounterKind, cl_Labels = [''service_type'', ''model'']\<rparr>"
| "gateway_collector CacheErrorsTotal =
     \<lparr>cl_Name = ''kevent_cache_errors_total'', cl_Kind = CounterKind, cl_Labels = [''service_type'', ''model'', ''operation'']\<rparr>"
| "gateway_collector LLMTokensTotal =
     \<lparr>cl_Name = ''kevent_llm_tokens_total'', cl_Kind = CounterKind,
      cl_Labels = [''service_type'', ''model'', ''user_type'', ''type'']\<rparr>"
| "gateway_collector LLMRequestsTotal =
     \<lparr>cl_Name = ''kevent_llm_requests_total'', cl_Kind = CounterKind,
      cl_Labels = [''service_type'', ''model'', ''provider'', ''user_type'', ''status'']\<rparr>"
| "gateway_collector LLMRequestDuration =
     \<lparr>cl_Name = ''kevent_llm_request_duration_seconds'',
      cl_Kind = HistogramKind (Given [50, 100, 250, 500, 1000, 2000, 5000, 10000, 30000, 60000, 120000]),
      cl_Labels = [''service_type'', ''model'', ''provider'', ''user_type'']\<rparr>"
| "gateway_collector LLMTokensPerRequest =
     \<lparr>cl_Name = ''kevent_llm_tokens_per_request'',
      cl_Kind = HistogramKind (Given [50000, 100000, 250000, 500000, 1000000, 2000000, 5000000, 10000000, 32000000, 100000000]),
      cl_Labels = [''service_type'', ''model'', ''user_type'']\<rparr>"
| "gateway_collector LLMConsumerTokensTop =
     \<lparr>cl_Name = ''kevent_llm_consumer_tokens_top'', cl_Kind = GaugeKind,
      cl_Labels = [''consumer'', ''user_type'', ''type'']\<rparr>"

datatype relay_metric =
    JobsTotal | InferenceDuration | InputSizeBytes | SyncPriority | DeferredTotal
  | RelayS3OperationDuration | RelayS3ErrorsTotal | RelayKafkaPublishErrorsTotal
  | ProxyRequestsTotal | ProxyDuration

fun relay_collector :: "relay_metric \<Rightarrow> Collector" where
  "relay_collector JobsTotal =
     \<lparr>cl_Name = ''kevent_relay_jobs_total'', cl_Kind = CounterKind, cl_Labels = [''service_type'', ''status'']\<rparr>"
| "relay_collector InferenceDuration =
     \<lparr>cl_Name = ''kevent_relay_inference_duration_seconds'',
      cl_Kind = HistogramKind (Given [500, 1000, 5000, 10000, 30000, 60000, 120000, 300000, 600000]), cl_Labels = [''service_type'']\<rparr>"
| "relay_collector InputSizeBytes =
     \<lparr>cl_Name = ''kevent_relay_input_size_bytes'', cl_Kind = HistogramKind (ExponentialBuckets 1024 4 10),
      cl_Labels = [''service_type'']\<rparr>"
| "relay_collector SyncPriority =
     \<lparr>cl_Name = ''kevent_relay_sync_priority'', cl_Kind = GaugeKind, cl_Labels = []\<rparr>"
| "relay_collector DeferredTotal =
     \<lparr>cl_Name = ''kevent_relay_deferred_total'', cl_Kind = CounterKind, cl_Labels = []\<rparr>"
| "relay_collector RelayS3OperationDuration =
     \<lparr>cl_Name = ''kevent_relay_s3_operation_duration_seconds'', cl_Kind = HistogramKind DefBuckets, cl_Labels = [''operation'']\<rparr>"
| "relay_collector RelayS3ErrorsTotal =
     \<lparr>cl_Name = ''kevent_relay_s3_errors_total'', cl_Kind = CounterKind, cl_Labels = [''operation'']\<rparr>"
| "relay_collector RelayKafkaPublishErrorsTotal =
     \<lparr>cl_Name = ''kevent_relay_kafka_publish_errors_total'', cl_Kind = CounterKind, cl_Labels = []\<rparr>"
| "relay_collector ProxyRequestsTotal =
     \<lparr>cl_Name = ''kevent_relay_proxy_requests_total'', cl_Kind = CounterKind, cl_Labels = [''service_type'', ''status'']\<rparr>"
| "relay_collector ProxyDuration =
     \<lparr>cl_Name = ''kevent_relay_proxy_duration_seconds'',
      cl_Kind = HistogramKind (Given [100, 500, 1000, 5000, 10000, 30000, 60000, 120000, 300000]), cl_Labels = [''service_type'']\<rparr>"

section \<open>Calls\<close>

text \<open>\<open>Observe\<close> with None observes a duration, which the model does not know.\<close>

datatype 'm call =
    Inc 'm "string list"
  | Dec 'm "string list"
  | Add 'm "string list" int
  | Observe 'm "string list" "int option"

fun call_labels :: "'m call \<Rightarrow> string list" where
  "call_labels (Inc _ ls) = ls"
| "call_labels (Dec _ ls) = ls"
| "call_labels (Add _ ls _) = ls"
| "call_labels (Observe _ ls _) = ls"

fun call_metric :: "'m call \<Rightarrow> 'm" where
  "call_metric (Inc m _) = m"
| "call_metric (Dec m _) = m"
| "call_metric (Add m _ _) = m"
| "call_metric (Observe m _ _) = m"

fun kind_takes :: "collector_kind \<Rightarrow> 'm call \<Rightarrow> bool" where
  "kind_takes CounterKind (Inc _ _) = True"
| "kind_takes CounterKind (Add _ _ n) = (0 \<le> n)"
| "kind_takes GaugeKind (Observe _ _ _) = False"
| "kind_takes GaugeKind _ = True"
| "kind_takes (HistogramKind _) (Observe _ _ _) = True"
| "kind_takes _ _ = False"

definition fit :: "('m \<Rightarrow> Collector) \<Rightarrow> 'm call \<Rightarrow> bool" where
  "fit coll c \<longleftrightarrow>
     length (call_labels c) = length (cl_Labels (coll (call_metric c))) \<and> kind_takes (cl_Kind (coll (call_metric c))) c"

abbreviation gateway_fit :: "gateway_metric call \<Rightarrow> bool" where
  "gateway_fit \<equiv> fit gateway_collector"

abbreviation relay_fit :: "relay_metric call \<Rightarrow> bool" where
  "relay_fit \<equiv> fit relay_collector"

text \<open>How often a series, a collector with its label values, is incremented.\<close>

definition increments :: "'m \<Rightarrow> string list \<Rightarrow> 'm call list \<Rightarrow> nat" where
  "increments m ls cs = length (filter (\<lambda>c. case c of Inc m' ls' \<Rightarrow> m' = m \<and> ls' = ls | _ \<Rightarrow> False) cs)"

definition series_level :: "'m \<Rightarrow> 'm call list \<Rightarrow> int" where
  "series_level m cs =
     (\<Sum>c\<leftarrow>cs. case c of Inc m' _ \<Rightarrow> if m' = m then 1 else 0 | Dec m' _ \<Rightarrow> if m' = m then - 1 else 0 | _ \<Rightarrow> 0)"

section \<open>Registration\<close>

text \<open>promauto registers every collector when the process starts, and panics unless names and labels are
  as the exposition format has them, buckets go up, and no two collectors have one name.\<close>

definition letter :: "char \<Rightarrow> bool" where
  "letter c \<longleftrightarrow> (CHR ''a'' \<le> c \<and> c \<le> CHR ''z'') \<or> (CHR ''A'' \<le> c \<and> c \<le> CHR ''Z'') \<or> c = CHR ''_''"

definition name_ok :: "string \<Rightarrow> bool" where
  "name_ok s \<longleftrightarrow> (case s of [] \<Rightarrow> False | c # r \<Rightarrow> letter c \<and> list_all (\<lambda>x. letter x \<or> (CHR ''0'' \<le> x \<and> x \<le> CHR ''9'')) r)"

fun buckets_ok :: "buckets \<Rightarrow> bool" where
  "buckets_ok (Given bs) = (bs \<noteq> [] \<and> sorted_wrt (<) bs)"
| "buckets_ok DefBuckets = True"
| "buckets_ok (ExponentialBuckets start factor count) = (start > 0 \<and> factor > 1 \<and> count > 0)"

definition collector_ok :: "Collector \<Rightarrow> bool" where
  "collector_ok c \<longleftrightarrow> name_ok (cl_Name c) \<and> list_all (\<lambda>l. name_ok l \<and> \<not> has_prefix l ''__'') (cl_Labels c) \<and>
     distinct (cl_Labels c) \<and>
     (case cl_Kind c of HistogramKind bs \<Rightarrow> buckets_ok bs \<and> ''le'' \<notin> set (cl_Labels c) | _ \<Rightarrow> True)"

definition gateway_metrics :: "gateway_metric list" where
  "gateway_metrics =
     [RequestsTotal, RequestDuration, SyncWaitDuration, SyncJobsInFlight, S3OperationDuration, S3ErrorsTotal,
      KafkaPublishDuration, KafkaPublishErrorsTotal, RedisOperationDuration, RedisErrorsTotal, JobsByConsumerTotal,
      CacheHitsTotal, CacheMissesTotal, CacheErrorsTotal, LLMTokensTotal, LLMRequestsTotal, LLMRequestDuration,
      LLMTokensPerRequest, LLMConsumerTokensTop]"

definition relay_metrics :: "relay_metric list" where
  "relay_metrics =
     [JobsTotal, InferenceDuration, InputSizeBytes, SyncPriority, DeferredTotal, RelayS3OperationDuration,
      RelayS3ErrorsTotal, RelayKafkaPublishErrorsTotal, ProxyRequestsTotal, ProxyDuration]"

lemma gateway_metrics_all: "m \<in> set gateway_metrics"
  by (cases m) (simp_all add: gateway_metrics_def)

lemma relay_metrics_all: "m \<in> set relay_metrics"
  by (cases m) (simp_all add: relay_metrics_def)

lemma collectors_ok:
  "list_all (collector_ok \<circ> gateway_collector) gateway_metrics" "list_all (collector_ok \<circ> relay_collector) relay_metrics"
  by code_simp+

lemma collectors_distinct:
  "distinct (map (cl_Name \<circ> gateway_collector) gateway_metrics)" "distinct (map (cl_Name \<circ> relay_collector) relay_metrics)"
  by code_simp+

text \<open>The processes come up with their collectors.\<close>

theorem collectors_register:
  "collector_ok (gateway_collector m) \<and> collector_ok (relay_collector m') \<and>
   inj (cl_Name \<circ> gateway_collector) \<and> inj (cl_Name \<circ> relay_collector)"
proof -
  have "collector_ok (gateway_collector m)" "collector_ok (relay_collector m')"
    using collectors_ok gateway_metrics_all [of m] relay_metrics_all [of m'] by (auto simp: list_all_iff)
  moreover have "set gateway_metrics = UNIV" "set relay_metrics = UNIV"
    using gateway_metrics_all relay_metrics_all by auto
  then have "inj (cl_Name \<circ> gateway_collector)" "inj (cl_Name \<circ> relay_collector)"
    using collectors_distinct by (metis distinct_map)+
  ultimately show ?thesis by blast
qed

end
