(* ===== verification/Measured.thy ===== *)
theory Measured
  imports Requests Metrics
begin

text \<open>
  The calls on the collectors of Metrics that the functions of both processes make, function by function
  and in order: each \<open>f_calls\<close> follows the control flow of \<open>f\<close> and leaves out what the functions it
  calls count themselves.  Label values are taken to be UTF-8, which client_golang asks for.
\<close>

section \<open>Clients\<close>

text \<open>An operation of a client: its duration, and its failure.\<close>

definition s3_calls :: "string \<Rightarrow> store_error + 'a \<Rightarrow> gateway_metric call list" where
  "s3_calls operation res =
     Observe S3OperationDuration [operation] None #
     (case res of Inl _ \<Rightarrow> [Inc S3ErrorsTotal [operation]] | Inr _ \<Rightarrow> [])"

text \<open>A body that breaks off or does not decrypt is read after the call has been counted.\<close>

definition s3_get_calls :: "store_error + 'a \<Rightarrow> gateway_metric call list" where
  "s3_get_calls res =
     (case res of Inl (StreamError _) \<Rightarrow> [Observe S3OperationDuration [''get''] None] | _ \<Rightarrow> s3_calls ''get'' res)"

definition redis_calls :: "string \<Rightarrow> store_error + 'a \<Rightarrow> gateway_metric call list" where
  "redis_calls operation res =
     Observe RedisOperationDuration [operation] None #
     (case res of Inl _ \<Rightarrow> [Inc RedisErrorsTotal [operation]] | Inr _ \<Rightarrow> [])"

text \<open>GetJob counts neither a job that is not there nor a record that does not decode.\<close>

definition GetJob_calls :: "store_error + 'a \<Rightarrow> gateway_metric call list" where
  "GetJob_calls res =
     (case res of
        Inl (JobNotFound _) \<Rightarrow> [Observe RedisOperationDuration [''get_job''] None]
      | Inl (BadRecord _) \<Rightarrow> [Observe RedisOperationDuration [''get_job''] None]
      | _ \<Rightarrow> redis_calls ''get_job'' res)"

definition PublishInputEvent_calls :: "string \<Rightarrow> store_error + 'a \<Rightarrow> gateway_metric call list" where
  "PublishInputEvent_calls topic res =
     Observe KafkaPublishDuration [topic] None #
     (case res of Inl _ \<Rightarrow> [Inc KafkaPublishErrorsTotal [topic]] | Inr _ \<Rightarrow> [])"

definition relay_s3_calls :: "string \<Rightarrow> store_error + 'a \<Rightarrow> relay_metric call list" where
  "relay_s3_calls operation res =
     Observe RelayS3OperationDuration [operation] None #
     (case res of Inl _ \<Rightarrow> [Inc RelayS3ErrorsTotal [operation]] | Inr _ \<Rightarrow> [])"

definition PublishResultEvent_calls :: "store_error + 'a \<Rightarrow> relay_metric call list" where
  "PublishResultEvent_calls res = (case res of Inl _ \<Rightarrow> [Inc RelayKafkaPublishErrorsTotal []] | Inr _ \<Rightarrow> [])"

section \<open>The job handler\<close>

definition submit_mode :: "'w JobHandler \<Rightarrow> Request \<Rightarrow> Def \<Rightarrow> string" where
  "submit_mode h r d =
     (if jh_priorityHeader h \<noteq> [] \<and> header_get r (jh_priorityHeader h) \<noteq> [] \<and> def_PriorityTopic d \<noteq> []
      then ''async-priority'' else ''async'')"

definition Submit_calls ::
    "'w JobHandler \<Rightarrow> Request \<Rightarrow> string \<Rightarrow> string \<Rightarrow> time \<Rightarrow> 'w \<Rightarrow> gateway_metric call list" where
  "Submit_calls h r serviceType jobID now w =
     (case submit_check h r serviceType of
        Inl _ \<Rightarrow> []
      | Inr s \<Rightarrow>
          (let file = sub_file s; inputRef = input_ref jobID (fh_Filename file); mode = submit_mode h r (sub_def s);
               m = def_Model (sub_def s)
           in (case st_Upload (jh_store h) inputRef (fh_Data file, None) (int (length (fh_Data file))) (fh_ContentType file) w of
                 (Inl _, _) \<Rightarrow> []
               | (Inr _, w1) \<Rightarrow>
              (case aj_SaveJob (jh_redis h) (new_job serviceType s jobID now) w1 of
                 (Inl _, _) \<Rightarrow> []
               | (Inr _, w2) \<Rightarrow>
              (case ep_PublishInputEvent (jh_producer h) (submit_topic h r (sub_def s)) (new_event serviceType s jobID now) w2 of
                 (Inl _, _) \<Rightarrow> []
               | (Inr _, _) \<Rightarrow>
                   [Inc RequestsTotal [mode, serviceType, m, ''202''],
                    Observe RequestDuration [mode, serviceType, m] None] @
                   (if sub_consumerName s \<noteq> [] then [Inc JobsByConsumerTotal [mode, serviceType, m, sub_consumerName s]]
                    else []))))))"

section \<open>The synchronous handler\<close>

definition counted :: "string \<Rightarrow> Def \<Rightarrow> int \<Rightarrow> gateway_metric call" where
  "counted mode d status = Inc RequestsTotal [mode, def_Type d, def_Model d, int_text status]"

definition sync_finish_calls :: "SyncHandler \<Rightarrow> Def \<Rightarrow> string \<Rightarrow> World \<Rightarrow> gateway_metric call list" where
  "sync_finish_calls h d jobID w =
     (case js_GetJob (sh_redis h) jobID w of
        (Inl _, _) \<Rightarrow> []
      | (Inr job, w1) \<Rightarrow>
          (if job_Status job = Failed then [counted ''sync'' d 422]
           else (case st_GetObject (sh_s3 h) (job_ResultRef job) w1 of
                   (Inl _, _) \<Rightarrow> [counted ''sync'' d 500]
                 | (Inr _, _) \<Rightarrow> [counted ''sync'' d 200])))"

text \<open>Between the two changes of the gauge.\<close>

definition via_kafka_inner ::
    "SyncHandler \<Rightarrow> Request \<Rightarrow> Form \<Rightarrow> Def \<Rightarrow> string \<Rightarrow> time \<Rightarrow> wait_event list \<Rightarrow> (World \<Rightarrow> World) \<Rightarrow> World \<Rightarrow>
      gateway_metric call list" where
  "via_kafka_inner h r f d jobID now events env w =
     (let consumerName = (if sh_consumerHeader h \<noteq> [] then header_get r (sh_consumerHeader h) else [])
      in (case sync_enqueue h r f d jobID now w of
            (Inl _, _) \<Rightarrow> []
          | (Inr _, w1) \<Rightarrow>
              (if consumerName \<noteq> [] then [Inc JobsByConsumerTotal [''sync'', def_Type d, def_Model d, consumerName]] else []) @
              (case snd (wait_loop events new_response) of
                 None \<Rightarrow> []
               | Some notified \<Rightarrow>
                   Observe SyncWaitDuration [def_Type d, def_Model d] None #
                   (if notified then sync_finish_calls h d jobID (env w1) else [counted ''sync'' d 504]))))"

definition handleMultipartViaKafka_calls ::
    "SyncHandler \<Rightarrow> Request \<Rightarrow> Form \<Rightarrow> Def \<Rightarrow> string \<Rightarrow> time \<Rightarrow> wait_event list \<Rightarrow> (World \<Rightarrow> World) \<Rightarrow> World \<Rightarrow>
      gateway_metric call list" where
  "handleMultipartViaKafka_calls h r f d jobID now events env w =
     Inc SyncJobsInFlight [] # via_kafka_inner h r f d jobID now events env w @
     (if handleMultipartViaKafka h r f d jobID now events env w = None then []
      else [Dec SyncJobsInFlight [], Observe RequestDuration [''sync'', def_Type d, def_Model d] None])"

definition proxyToInference_calls :: "Request \<Rightarrow> Def \<Rightarrow> reader \<Rightarrow> string \<Rightarrow> World \<Rightarrow> gateway_metric call list" where
  "proxyToInference_calls r d body contentType w =
     (case url_parse (def_InferenceURL d) of
        None \<Rightarrow> [counted ''sync-direct'' d 500]
      | Some base \<Rightarrow>
          (case url_parse (url_string (base\<lparr>url_Path := rq_Path r, url_RawQuery := rq_RawQuery r\<rparr>)) of
             None \<Rightarrow> [counted ''sync-direct'' d 500]
           | Some u \<Rightarrow>
               (case http_do (upstream_request r d body contentType u) w of
                  (Inl _, _) \<Rightarrow> [counted ''sync-direct'' d 502]
                | (Inr resp, _) \<Rightarrow> [counted ''sync-direct'' d (hr_Status resp)]))) @
     [Observe RequestDuration [''sync-direct'', def_Type d, def_Model d] None]"

section \<open>The LLM proxy\<close>

definition tokens_added :: "Def \<Rightarrow> string \<Rightarrow> string \<Rightarrow> int \<Rightarrow> gateway_metric call" where
  "tokens_added d userType kind n = Add LLMTokensTotal [def_Type d, def_Model d, userType, kind] n"

definition tokens_observed :: "Def \<Rightarrow> string \<Rightarrow> Usage \<Rightarrow> gateway_metric call list" where
  "tokens_observed d userType u =
     (let total = i64 (us_PromptTokens u + us_CompletionTokens u)
      in if total > 0 then [Observe LLMTokensPerRequest [def_Type d, def_Model d, userType] (Some total)] else [])"

text \<open>Of a cached body only positive counts are added.\<close>

definition emitTokenMetrics_calls :: "Def \<Rightarrow> string \<Rightarrow> string \<Rightarrow> gateway_metric call list" where
  "emitTokenMetrics_calls d userType body =
     (case emitTokenMetrics body of
        None \<Rightarrow> []
      | Some u \<Rightarrow>
          (if us_PromptTokens u > 0 then [tokens_added d userType ''prompt'' (us_PromptTokens u)] else []) @
          (if us_CompletionTokens u > 0 then [tokens_added d userType ''completion'' (us_CompletionTokens u)] else []) @
          tokens_observed d userType u)"

text \<open>Of a provider's answer all are, and the first negative one panics.\<close>

definition usage_calls :: "Def \<Rightarrow> string \<Rightarrow> Usage option \<Rightarrow> gateway_metric call list" where
  "usage_calls d userType usage =
     (case usage of
        None \<Rightarrow> []
      | Some u \<Rightarrow>
          tokens_added d userType ''prompt'' (us_PromptTokens u) #
          (if us_PromptTokens u < 0 then []
           else tokens_added d userType ''completion'' (us_CompletionTokens u) #
             (if us_CompletionTokens u < 0 then [] else tokens_observed d userType u)))"

definition llm_counted :: "Def \<Rightarrow> string \<Rightarrow> string \<Rightarrow> int \<Rightarrow> gateway_metric call" where
  "llm_counted d provider userType status =
     Inc LLMRequestsTotal [def_Type d, def_Model d, provider, userType, int_text status]"

definition llm_timed :: "Def \<Rightarrow> string \<Rightarrow> string \<Rightarrow> gateway_metric call" where
  "llm_timed d provider userType = Observe LLMRequestDuration [def_Type d, def_Model d, provider, userType] None"

definition serve_upstream_calls ::
    "Handler \<Rightarrow> Request \<Rightarrow> Def \<Rightarrow> Provider \<Rightarrow> string \<Rightarrow> World \<Rightarrow> gateway_metric call list" where
  "serve_upstream_calls h r d prov body w =
     (let userType = (if lh_userTypeHeader h \<noteq> [] then header_get r (lh_userTypeHeader h) else []);
          count = llm_counted d (def_Provider d) userType
      in (case upstream_body h d body of
            Rewritten upstreamBody \<Rightarrow>
              (case pv_BuildRequest prov d upstreamBody (rq_Path r) of
                 Inl _ \<Rightarrow> []
               | Inr req \<Rightarrow>
                   (case http_do req w of
                      (Inl _, _) \<Rightarrow> [count 502]
                    | (Inr resp, _) \<Rightarrow>
                        (case snd (hr_Body resp) of
                           Some _ \<Rightarrow> [count 502]
                         | None \<Rightarrow>
                             (case pv_TranslateResponse prov (hr_Status resp) (hr_Headers resp) (fst (hr_Body resp)) of
                                Inl _ \<Rightarrow> [count 500]
                              | Inr (finalStatus, _, usage) \<Rightarrow>
                                  [count finalStatus, llm_timed d (def_Provider d) userType] @ usage_calls d userType usage))))
          | _ \<Rightarrow> []))"

definition cache_errors :: "Def \<Rightarrow> string \<Rightarrow> gateway_metric call" where
  "cache_errors d operation = Inc CacheErrorsTotal [def_Type d, def_Model d, operation]"

text \<open>A key error is counted, and the request goes on without the cache.\<close>

definition cache_key_calls :: "Handler \<Rightarrow> Request \<Rightarrow> Def \<Rightarrow> string \<Rightarrow> gateway_metric call list" where
  "cache_key_calls h r d body =
     (if str_contains (header_get r ''Cache-Control'') ''no-cache'' \<or> def_ResponseCacheTTL d \<le> 0 then []
      else (case Key (lh_fl h) (def_Provider d) (def_Model d) body of KeyFailed \<Rightarrow> [cache_errors d ''key''] | _ \<Rightarrow> []))"

definition ServeJSON_calls :: "Handler \<Rightarrow> Request \<Rightarrow> Def \<Rightarrow> string \<Rightarrow> World \<Rightarrow> gateway_metric call list" where
  "ServeJSON_calls h r d body w =
     (let userType = (if lh_userTypeHeader h \<noteq> [] then header_get r (lh_userTypeHeader h) else []);
          miss = Inc CacheMissesTotal [def_Type d, def_Model d]
      in (case Providers_Get (lh_providers h) (def_Provider d) of
            Inl _ \<Rightarrow> []
          | Inr prov \<Rightarrow>
              (case cache_key h r d body of
                 None \<Rightarrow> []
               | Some None \<Rightarrow> cache_key_calls h r d body @ serve_upstream_calls h r d prov body w
               | Some (Some k) \<Rightarrow>
                   if k = [] then serve_upstream_calls h r d prov body w
                   else (case ca_Get (lh_cache h) k w of
                           (Inr (Some entry), _) \<Rightarrow>
                             [Inc CacheHitsTotal [def_Type d, def_Model d]] @
                             emitTokenMetrics_calls d userType (en_Body entry) @
                             [llm_counted d ''cache'' userType 200, llm_timed d ''cache'' userType]
                         | (Inr None, w1) \<Rightarrow> miss # serve_upstream_calls h r d prov body w1
                         | (Inl _, w1) \<Rightarrow> cache_errors d ''get'' # miss # serve_upstream_calls h r d prov body w1))))"

text \<open>The goroutine that fills the cache.\<close>

definition cache_fill_calls :: "Def \<Rightarrow> 'e + unit \<Rightarrow> gateway_metric call list" where
  "cache_fill_calls d res = (case res of Inl _ \<Rightarrow> [cache_errors d ''set''] | Inr _ \<Rightarrow> [])"

section \<open>The relay\<close>

definition process_calls :: "Dispatcher \<Rightarrow> InputEvent \<Rightarrow> World \<Rightarrow> relay_metric call list" where
  "process_calls d event w =
     (case relay_GetObject (d_s3 d) (ie_InputRef event) w of
        (Inl _, _) \<Rightarrow> []
      | (Inr ob, w1) \<Rightarrow>
          (if fst (snd ob) > 0 then [Observe InputSizeBytes [ie_ServiceType event] (Some (fst (snd ob)))] else []) @
          [Observe InferenceDuration [ie_ServiceType event] None] @
          (case d_adapter d (call_input event ob) w1 of
             (Inl _, _) \<Rightarrow> [Inc JobsTotal [ie_ServiceType event, ''failed'']]
           | (Inr result, w2) \<Rightarrow>
               (case relay_PutObject (d_s3 d) (result_key event) (result, None) (int (length result)) ''application/json'' w2 of
                  (Inl _, _) \<Rightarrow> []
                | (Inr _, _) \<Rightarrow> [Inc JobsTotal [ie_ServiceType event, ''completed'']])))"

definition serveHTTP_calls :: "Dispatcher \<Rightarrow> Request \<Rightarrow> World \<Rightarrow> relay_metric call list" where
  "serveHTTP_calls d r w =
     (if rq_Method r \<noteq> ''POST'' then []
      else (case decodeInputEvent r of
              None \<Rightarrow> []
            | Some event \<Rightarrow> if ie_JobID event = [] then [] else process_calls d event w))"

definition ServeHTTP_calls :: "Dispatcher \<Rightarrow> 32 word \<Rightarrow> Request \<Rightarrow> World \<Rightarrow> relay_metric call list" where
  "ServeHTTP_calls d syncPriority r w =
     (if sync_busy syncPriority then [Inc DeferredTotal []] else serveHTTP_calls d r w)"

definition ServeHTTPSync_calls :: "Dispatcher \<Rightarrow> Request \<Rightarrow> World \<Rightarrow> relay_metric call list" where
  "ServeHTTPSync_calls d r w = Inc SyncPriority [] # serveHTTP_calls d r w @ [Dec SyncPriority []]"

definition relay_proxy_calls :: "string \<Rightarrow> URL \<Rightarrow> Request \<Rightarrow> World \<Rightarrow> relay_metric call list" where
  "relay_proxy_calls serviceType target r w =
     [Inc ProxyRequestsTotal [serviceType, int_text (final_status (fst (inferenceProxy target r w)))],
      Observe ProxyDuration [serviceType] None]"

end
