(* ===== verification/Measured_Facts.thy ===== *)
theory Measured_Facts
  imports Measured
begin

text \<open>
  What the collectors are told: every call is one its collector takes, unless the handler panics on it;
  and how far the counts agree with what the clients are answered.
\<close>

section \<open>Calls that fit\<close>

named_theorems fits "calls that their collectors take"

lemma fit_simps [simp]:
  "gateway_fit (counted mode d st)" "gateway_fit (llm_counted d prov ut st)" "gateway_fit (llm_timed d prov ut)"
  "gateway_fit (cache_errors d op)" "gateway_fit (tokens_added d ut k n) = (0 \<le> n)"
  by (simp_all add: fit_def counted_def llm_counted_def llm_timed_def cache_errors_def tokens_added_def)

lemma client_calls_fit [fits]:
  "list_all gateway_fit (s3_calls op res)" "list_all gateway_fit (s3_get_calls res)" "list_all gateway_fit (redis_calls op res)"
  "list_all gateway_fit (GetJob_calls res)" "list_all gateway_fit (PublishInputEvent_calls topic res)"
  "list_all relay_fit (relay_s3_calls op res)" "list_all relay_fit (PublishResultEvent_calls res)"
  by (auto simp: fit_def s3_calls_def s3_get_calls_def redis_calls_def GetJob_calls_def PublishInputEvent_calls_def
      relay_s3_calls_def PublishResultEvent_calls_def split: sum.split store_error.split)

lemma Submit_calls_fit [fits]: "list_all gateway_fit (Submit_calls h r st i now w)"
  by (auto simp: Submit_calls_def fit_def Let_def split: sum.split prod.split)

lemma sync_calls_fit [fits]: "list_all gateway_fit (handleMultipartViaKafka_calls h r f d i now events env w)"
proof -
  have "list_all gateway_fit (sync_finish_calls h d i v)" for v
    by (auto simp: sync_finish_calls_def split: sum.split prod.split)
  then have "list_all gateway_fit (via_kafka_inner h r f d i now events env w)"
    by (auto simp: via_kafka_inner_def Let_def split: sum.split prod.split option.split) (simp_all add: fit_def)
  then show ?thesis by (simp add: handleMultipartViaKafka_calls_def) (simp add: fit_def)
qed

lemma proxy_calls_fit [fits]: "list_all gateway_fit (proxyToInference_calls r d b ct w)"
  by (auto simp: proxyToInference_calls_def split: option.split sum.split prod.split) (simp_all add: fit_def)

lemma emit_calls_fit [fits]: "list_all gateway_fit (emitTokenMetrics_calls d ut body)"
  by (auto simp: emitTokenMetrics_calls_def tokens_observed_def Let_def split: option.split) (simp_all add: fit_def)

lemma usage_calls_fit: "list_all gateway_fit (usage_calls d ut u) \<longleftrightarrow> \<not> usage_negative u"
  by (auto simp: usage_calls_def usage_negative_def tokens_observed_def Let_def split: option.split) (simp_all add: fit_def)

lemma serve_upstream_calls_fit:
  "list_all gateway_fit (serve_upstream_calls h r d prov body w) \<or> fst (serve_upstream h r d prov body c key w) = panic_response"
  by (auto simp: serve_upstream_calls_def serve_upstream_def Let_def usage_calls_fit
      split: rewrite_result.split sum.split option.split prod.split)

lemma ServeJSON_calls_fit:
  "list_all gateway_fit (ServeJSON_calls h r d body w) \<or> fst (ServeJSON h r d body c w) = panic_response"
proof -
  have k: "list_all gateway_fit (cache_key_calls h r d body)"
    by (auto simp: cache_key_calls_def split: key_result.split)
  have m: "gateway_fit (Inc CacheMissesTotal [def_Type d, def_Model d])" "gateway_fit (Inc CacheHitsTotal [def_Type d, def_Model d])"
    by (simp_all add: fit_def)
  show ?thesis
    using k m serve_upstream_calls_fit [of h r d _ body _ c] emit_calls_fit
    by (auto simp: ServeJSON_calls_def ServeJSON_def Let_def split: sum.split option.split prod.split)
qed

lemma relay_calls_fit [fits]:
  "list_all relay_fit (process_calls dd e w)" "list_all relay_fit (serveHTTP_calls dd r w)"
  "list_all relay_fit (ServeHTTP_calls dd n r w)" "list_all relay_fit (ServeHTTPSync_calls dd r w)"
  "list_all relay_fit (relay_proxy_calls ty target r w)"
proof -
  show p: "list_all relay_fit (process_calls dd e w)" for dd e w
    by (auto simp: process_calls_def fit_def split: sum.split prod.split)
  show s: "list_all relay_fit (serveHTTP_calls dd r w)" for dd r w
    using p by (auto simp: serveHTTP_calls_def split: option.split)
  show "list_all relay_fit (ServeHTTP_calls dd n r w)" using s by (simp add: ServeHTTP_calls_def) (simp add: fit_def)
  show "list_all relay_fit (ServeHTTPSync_calls dd r w)" using s by (simp add: ServeHTTPSync_calls_def) (simp add: fit_def)
  show "list_all relay_fit (relay_proxy_calls ty target r w)" by (simp add: relay_proxy_calls_def fit_def)
qed


section \<open>Counts and answers\<close>

lemma int_text_202: "int_text 202 = ''202''"
  by code_simp

lemma Submit_counts:
  "Submit_calls h r st i now w =
    (case submit_check h r st of
       Inl _ \<Rightarrow> []
     | Inr s \<Rightarrow>
         if final_status (fst (Submit h r st i now w)) = 202
         then [Inc RequestsTotal [submit_mode h r (sub_def s), st, def_Model (sub_def s), ''202''],
               Observe RequestDuration [submit_mode h r (sub_def s), st, def_Model (sub_def s)] None] @
              (if sub_consumerName s \<noteq> []
               then [Inc JobsByConsumerTotal [submit_mode h r (sub_def s), st, def_Model (sub_def s), sub_consumerName s]] else [])
         else [])"
  by (auto simp: Submit_calls_def Submit_def submit_run_def submit_response_status final_status_def writeError_def Let_def
      split: sum.split prod.split)


text \<open>The label rows of the counted requests.\<close>

definition requests :: "gateway_metric call list \<Rightarrow> string list list" where
  "requests cs = map call_labels (filter (\<lambda>c. call_metric c = RequestsTotal) cs)"

lemma requests_simps [simp]:
  "requests [] = []" "requests (a @ b) = requests a @ requests b"
  "requests (Inc m ls # cs) = (if m = RequestsTotal then [ls] else []) @ requests cs"
  "requests (Dec m ls # cs) = (if m = RequestsTotal then [ls] else []) @ requests cs"
  "requests (Observe m ls v # cs) = (if m = RequestsTotal then [ls] else []) @ requests cs"
  "requests (counted mode d st # cs) = [[mode, def_Type d, def_Model d, int_text st]] @ requests cs"
  by (simp_all add: requests_def counted_def)

lemma level_simps [simp]:
  "series_level m [] = 0" "series_level m (a @ b) = series_level m a + series_level m b"
  "series_level m (Inc m' ls # cs) = (if m' = m then 1 else 0) + series_level m cs"
  "series_level m (Dec m' ls # cs) = series_level m cs - (if m' = m then 1 else 0)"
  "series_level m (Observe m' ls v # cs) = series_level m cs"
  by (simp_all add: series_level_def)

lemma level_counted [simp]: "series_level SyncJobsInFlight (counted mode d st # cs) = series_level SyncJobsInFlight cs"
  by (simp add: counted_def)

lemma Submit_requests:
  "\<exists>mode m. requests (Submit_calls h r st i now w) =
    (if final_status (fst (Submit h r st i now w)) = 202 then [[mode, st, m, ''202'']] else [])"
proof (cases "submit_check h r st")
  case (Inl e)
  then show ?thesis
    using submit_check_code [of h r st "fst e" "snd e"]
    by (auto simp: Submit_counts Submit_def final_status_def split: prod.splits)
next
  case (Inr s)
  then show ?thesis by (auto simp: Submit_counts)
qed

lemma foldl_add_header_status [simp]: "rs_Status (foldl (\<lambda>rs v. add_header key v rs) rs hs) = rs_Status rs"
  by (induction hs arbitrary: rs) simp_all

lemma foldl_headers_status [simp]:
  "rs_Status (foldl (\<lambda>rs (key, hs). foldl (\<lambda>rs v. add_header key v rs) rs hs) rs kvs) = rs_Status rs"
  by (induction kvs arbitrary: rs) auto

lemma copy_response_status: "rs_Status rs = None \<Longrightarrow> final_status (copy_response resp rs) = hr_Status resp"
  by (simp add: copy_response_def final_status_def)

lemma proxy_requests:
  "requests (proxyToInference_calls r d b ct w) =
    [[''sync-direct'', def_Type d, def_Model d, int_text (final_status (fst (proxyToInference r d b ct w)))]]"
  by (auto simp: proxyToInference_calls_def proxyToInference_def copy_response_status Let_def
      split: option.split sum.split prod.split) (simp_all add: final_status_def)

text \<open>What the wait leaves on the response.\<close>

lemma wait_loop_status:
  "rs_Status rs = None \<or> rs_Status rs = Some 200 \<Longrightarrow> wait_loop es rs = (rs', Some True) \<Longrightarrow>
   rs_Status rs' = rs_Status rs \<or> (rs_Status rs' = Some 200 \<and> Keepalive \<in> set es)"
proof (induction es rs rule: wait_loop.induct)
  case (3 es rs)
  have "rs_Status (keep_alive rs) = Some 200" using 3(2) by (auto simp: keep_alive_def commit_def)
  then show ?case using 3(1) 3(3) by auto
qed (auto split: if_splits)

lemma wait_loop_timeout:
  "rs_Status rs = None \<or> rs_Status rs = Some 200 \<Longrightarrow> wait_loop es rs = (rs', Some False) \<Longrightarrow>
   final_status rs' = 504 \<or> (final_status rs' = 200 \<and> (rs_Status rs = Some 200 \<or> Keepalive \<in> set es))"
proof (induction es rs rule: wait_loop.induct)
  case (3 es rs)
  have "rs_Status (keep_alive rs) = Some 200" using 3(2) by (auto simp: keep_alive_def commit_def)
  then show ?case using 3(1) 3(3) by auto
qed (auto simp: final_status_def split: if_splits)

lemma sync_finish_requests:
  assumes "rs_Status rs = None \<or> (rs_Status rs = Some 200 \<and> k)"
  shows "series_level SyncJobsInFlight (sync_finish_calls h d i v) = 0 \<and>
    (requests (sync_finish_calls h d i v) = [] \<or>
     (\<exists>status. requests (sync_finish_calls h d i v) = [[''sync'', def_Type d, def_Model d, int_text status]] \<and>
       (final_status (fst (sync_finish h i rs v)) = status \<or> (final_status (fst (sync_finish h i rs v)) = 200 \<and> k))))"
  using assms by (auto simp: sync_finish_calls_def sync_finish_def final_status_def commit_def split: sum.split prod.split)


lemma via_kafka_requests:
  "(case handleMultipartViaKafka h r f d i now events env w of
      None \<Rightarrow> series_level SyncJobsInFlight (handleMultipartViaKafka_calls h r f d i now events env w) = 1 \<and>
        requests (handleMultipartViaKafka_calls h r f d i now events env w) = []
    | Some (resp, _) \<Rightarrow> series_level SyncJobsInFlight (handleMultipartViaKafka_calls h r f d i now events env w) = 0 \<and>
        (requests (handleMultipartViaKafka_calls h r f d i now events env w) = [] \<or>
         (\<exists>status. requests (handleMultipartViaKafka_calls h r f d i now events env w) =
              [[''sync'', def_Type d, def_Model d, int_text status]] \<and>
            (final_status resp = status \<or> (final_status resp = 200 \<and> Keepalive \<in> set events)))))"
proof (cases "sync_enqueue h r f d i now w")
  case (Pair res w1)
  then show ?thesis
  proof (cases res)
    case (Inl a)
    with Pair show ?thesis
      by (cases a) (simp add: handleMultipartViaKafka_calls_def via_kafka_inner_def handleMultipartViaKafka_def Let_def)
  next
    case (Inr sub)
    obtain rs dn where l: "wait_loop events new_response = (rs, dn)" by (cases "wait_loop events new_response")
    consider "dn = None" | "dn = Some False" | "dn = Some True" by (metis (full_types) option.exhaust)
    then show ?thesis
    proof cases
      case 1
      then show ?thesis using Pair Inr l
        by (simp add: handleMultipartViaKafka_calls_def via_kafka_inner_def handleMultipartViaKafka_def Let_def)
    next
      case 2
      then show ?thesis using Pair Inr l wait_loop_timeout [of new_response events rs]
        by (auto simp: handleMultipartViaKafka_calls_def via_kafka_inner_def handleMultipartViaKafka_def Let_def)
    next
      case 3
      have "rs_Status rs = None \<or> (rs_Status rs = Some 200 \<and> Keepalive \<in> set events)"
        using wait_loop_status [of new_response events rs] l 3 by auto
      then show ?thesis using Pair Inr l 3 sync_finish_requests [of rs "Keepalive \<in> set events" h d i "env w1"]
        by (auto simp: handleMultipartViaKafka_calls_def via_kafka_inner_def handleMultipartViaKafka_def Let_def split: prod.split)
    qed
  qed
qed


section \<open>What is never counted\<close>

text \<open>The object store client of the relay gives every size as -1, so no input size is ever observed.\<close>

lemma relay_size_unknown: "relay_GetObject c k w = (Inr ob, w') \<Longrightarrow> fst (snd ob) = - 1"
  by (auto simp: relay_GetObject_def Let_def split: prod.splits outcome.splits option.splits)

lemma input_size_never_observed: "InputSizeBytes \<notin> call_metric ` set (process_calls d e w)"
proof (cases "relay_GetObject (d_s3 d) (ie_InputRef e) w")
  case (Pair r w1)
  then show ?thesis
  proof (cases r)
    case (Inr ob)
    then have *: "fst (snd ob) = - 1" using relay_size_unknown Pair by blast
    obtain a w2 where "d_adapter d (call_input e ob) w1 = (a, w2)" by fastforce
    with Pair Inr * show ?thesis by (cases a) (auto simp: process_calls_def split: sum.splits prod.splits)
  qed (simp add: process_calls_def)
qed

end
