(* ===== verification/Brokerless.thy ===== *)
theory Brokerless
  imports Requests
begin

text \<open>
  A gateway that was started without brokers.  Its producer is a nil pointer, on which a publication
  panics; the server answers a panic with 500.  The configuration it started with asks for no
  publication, but a reload may bring one that does, and the producer stays nil.
\<close>

section \<open>Handlers without a producer\<close>

text \<open>Submit up to the publication, where it panics.  No goroutine is left.\<close>

definition Submit_nil ::
    "'w JobHandler \<Rightarrow> Request \<Rightarrow> string \<Rightarrow> string \<Rightarrow> time \<Rightarrow> 'w \<Rightarrow> Response \<times> 'w" where
  "Submit_nil h r serviceType jobID now w =
     (case submit_check h r serviceType of
        Inl (code, msg) \<Rightarrow> (writeError code msg new_response, w)
      | Inr s \<Rightarrow>
          (let file = sub_file s
           in (case st_Upload (jh_store h) (input_ref jobID (fh_Filename file)) (fh_Data file, None) (int (length (fh_Data file)))
                      (fh_ContentType file) w of
                 (Inl _, w1) \<Rightarrow> (writeError 500 ''failed to store file'' new_response, w1)
               | (Inr _, w1) \<Rightarrow>
                   (case aj_SaveJob (jh_redis h) (new_job serviceType s jobID now) w1 of
                      (Inl _, w2) \<Rightarrow> (writeError 500 ''failed to save job'' new_response, w2)
                    | (Inr _, w2) \<Rightarrow> (panic_response, w2)))))"

definition handleMultipartViaKafka_nil ::
    "SyncHandler \<Rightarrow> Request \<Rightarrow> Form \<Rightarrow> Def \<Rightarrow> string \<Rightarrow> time \<Rightarrow> World \<Rightarrow> Response \<times> World" where
  "handleMultipartViaKafka_nil h r f d jobID now w =
     (case sync_check h r f d of
        Inl (code, msg) \<Rightarrow> (writeError code msg new_response, w)
      | Inr header \<Rightarrow>
          (let inputRef = input_ref jobID (fh_Filename header)
           in (case st_Upload (sh_s3 h) inputRef (fh_Data header, None) (int (length (fh_Data header))) (fh_ContentType header) w of
                 (Inl _, w1) \<Rightarrow> (writeError 500 ''failed to store file'' new_response, w1)
               | (Inr _, w1) \<Rightarrow>
                   (case js_SaveJob (sh_redis h) (sync_job h r d jobID inputRef now) w1 of
                      (Inl _, w2) \<Rightarrow> (writeError 500 ''failed to save job'' new_response, w2)
                    | (Inr _, w2) \<Rightarrow> (panic_response, w2)))))"

text \<open>The form and the definition of a request that goes over Kafka.\<close>

definition over_kafka :: "SyncHandler \<Rightarrow> Request \<Rightarrow> (Form \<times> Def) option" where
  "over_kafka h r =
     (if rq_Method r = ''POST'' \<and> has_prefix (media_type (header_get r ''Content-Type'')) ''multipart/form-data'' then
        (case parse_form None r of
           Inl _ \<Rightarrow> None
         | Inr f \<Rightarrow>
             (case RouteSync (sh_registry h) (rq_Path r) (form_value r f ''model'') of
                Inl _ \<Rightarrow> None
              | Inr d \<Rightarrow> if def_SyncTopic d \<noteq> [] then Some (f, d) else None))
      else None)"

definition nil_producer :: Producer where
  "nil_producer = \<lparr>pr_brokers = [], pr_transport = None\<rparr>"

text \<open>One request, whichever gateway it is.  The other routes do not use the producer.\<close>

definition gateway_request ::
    "chi_router \<Rightarrow> Response \<Rightarrow> Surroundings \<Rightarrow> Chance \<Rightarrow> Gateway \<Rightarrow> Request \<Rightarrow> World \<Rightarrow>
      (Response \<times> Gateway \<times> World \<times> (World \<Rightarrow> World)) option" where
  "gateway_request chi page su ch g r w =
     (case gw_producer g of
        Some p \<Rightarrow> gateway_handle chi page su ch g p r w
      | None \<Rightarrow>
          (let other = gateway_handle chi page su ch g nil_producer r w
           in (case chi (ro_routes (gw_router g)) (rq_Method r) (rq_Path r) of
                 ChiRoute target ps \<Rightarrow>
                   (case target of
                      SubmitRoute \<Rightarrow>
                        (let (resp, w1) = Submit_nil (job_handler_of g nil_producer) r (url_param ps ''service_type'') (ch_id ch) (ch_now ch) w
                         in Some (resp, g, w1, id))
                    | SyncRoute \<Rightarrow>
                        (case over_kafka (sync_handler_of g nil_producer) r of
                           Some (f, d) \<Rightarrow>
                             (let (resp, w1) = handleMultipartViaKafka_nil (sync_handler_of g nil_producer) r f d (ch_id ch) (ch_now ch) w
                              in Some (resp, g, w1, id))
                         | None \<Rightarrow> other)
                    | _ \<Rightarrow> other)
               | _ \<Rightarrow> other)))"

section \<open>With the configuration it started with\<close>

definition topicless :: "ServiceConfig list \<Rightarrow> bool" where
  "topicless cfgs \<longleftrightarrow> list_all (\<lambda>c. \<not> uses_kafka c) cfgs"

lemma topicless_submit:
  assumes "topicless cfgs" and "ro_registry (gw_router g) = NewRegistry cfgs"
  shows "\<not> is_ok (submit_check (job_handler_of g p) r st)"
proof
  assume "is_ok (submit_check (job_handler_of g p) r st)"
  then obtain m d where d: "RouteAsync (NewRegistry cfgs) st m = Inr d" "def_InputTopic d \<noteq> []"
    using assms(2) by (auto simp: is_ok_iff submit_check_def job_handler_of_def gateway_jobs_def split: sum.splits if_splits option.splits)
  then obtain c where "c \<in> set cfgs" "d = newDef c" by (auto elim: RouteAsync_config)
  then show False using assms(1) d(2) by (auto simp: topicless_def list_all_iff uses_kafka_def newDef_topics)
qed

lemma topicless_sync:
  assumes "topicless cfgs" and "ro_registry (gw_router g) = NewRegistry cfgs"
  shows "over_kafka (sync_handler_of g p) r = None"
proof -
  have "def_SyncTopic d = []" if "RouteSync (NewRegistry cfgs) path m = Inr d" for path m d
    using RouteSync_origin [OF that] assms(1) by (auto simp: topicless_def list_all_iff uses_kafka_def newDef_topics)
  moreover have "sh_registry (sync_handler_of g p) = NewRegistry cfgs"
    by (simp add: sync_handler_of_def gateway_sync_def NewSyncHandler_def assms(2))
  ultimately show ?thesis by (auto simp: over_kafka_def split: sum.splits)
qed

lemma started_topicless:
  assumes "start_gateway su w = (Some g, w1)" and "gw_producer g = None"
  obtains cfgs where "topicless cfgs" "ro_registry (gw_router g) = NewRegistry cfgs"
proof -
  obtain cfg where cfg: "Load (su_env su) (su_decode su) (su_config su) = Inr cfg"
      "kc_Brokers (cfg_Kafka cfg) = []" "ro_registry (gw_router g) = NewRegistry (cfg_Services cfg)"
    using assms by (auto simp: start_gateway_def setup_kafka_def buildRouter_def Let_def
        split: sum.splits option.splits prod.splits if_splits)
  have "topicless (cfg_Services cfg)"
    using Load_cases [OF cfg(1)] cfg(2) by (auto simp: config_valid_def topicless_def list_all_iff)
  then show thesis using that cfg(3) by blast
qed

text \<open>A gateway that is started without brokers never touches its nil producer: it answers every request
  as a gateway with a producer would, and publishes nothing.\<close>

theorem brokerless_safe:
  assumes "start_gateway su w0 = (Some g, w1)" and "gw_producer g = None"
  shows "gateway_request chi page su' ch g r w = gateway_handle chi page su' ch g nil_producer r w"
proof -
  obtain cfgs where c: "topicless cfgs" "ro_registry (gw_router g) = NewRegistry cfgs" by (rule started_topicless [OF assms])
  have "Submit (job_handler_of g nil_producer) r st i now w =
      (fst (Submit_nil (job_handler_of g nil_producer) r st i now w), snd (Submit_nil (job_handler_of g nil_producer) r st i now w), id)"
    for st i now
    using topicless_submit [OF c, of nil_producer r st] by (auto simp: Submit_nil_def Submit_def is_ok_iff split: sum.splits)
  then show ?thesis
    by (auto simp: gateway_request_def assms(2) topicless_sync [OF c] gateway_handle_def Let_def
        split: chi_answer.split route_target.split prod.split)
qed

section \<open>After a reload\<close>

lemma writeError_no_panic: "writeError code msg new_response \<noteq> panic_response"
proof -
  have "rs_Body (writeError code msg new_response) \<noteq> []"
    by (simp add: writeError_def encode_json_def write_body_def Let_def del: json_text.simps)
  moreover have "rs_Body panic_response = []"
    by (simp add: panic_response_def WriteHeader_def new_response_def)
  ultimately show ?thesis by metis
qed

context job_backend
begin

lemma nil_panic:
  assumes ok: "ok w" and t: "time_ok now"
    and run: "Submit_nil (NewJobHandler reg store redis producer ph ch) r st i now w = (panic_response, w')"
  shows "\<exists>s. submit_check (NewJobHandler reg store redis producer ph ch) r st = Inr s \<and>
    obj w' = (obj w)(input_ref i (fh_Filename (sub_file s)) \<mapsto> fh_Data (sub_file s)) \<and>
    jobs w' = (jobs w)(i \<mapsto> new_job st s i now) \<and> log w' = log w"
proof -
  let ?h = "NewJobHandler reg store redis producer ph ch"
  obtain s where s: "submit_check ?h r st = Inr s"
    using run writeError_no_panic by (auto simp: Submit_nil_def split: sum.splits prod.splits)
  let ?ref = "input_ref i (fh_Filename (sub_file s))" and ?data = "fh_Data (sub_file s)"
  obtain r1 w1 where u: "st_Upload store ?ref (?data, None) (int (length ?data)) (fh_ContentType (sub_file s)) w = (r1, w1)"
    by fastforce
  obtain r2 w2 where sv: "aj_SaveJob redis (new_job st s i now) w1 = (r2, w2)" by fastforce
  have rs: "r1 = Inr ()" "r2 = Inr ()" "w' = w2"
    using run u sv s writeError_no_panic by (auto simp: Submit_nil_def split: sum.splits)
  note U = upload [OF ok u] upload_frame [OF ok u]
  have ok1: "ok w1" using U by simp
  note S = save [OF ok1 new_job_ok [OF t] sv] save_frame [OF ok1 sv]
  show ?thesis using U S rs s by simp
qed

end

text \<open>Once a reload has brought a service with topics, a submission that gets as far as the publication is
  answered with an error, while its job is stored as pending with its file and nothing was
  published: no result can ever come.\<close>

theorem brokerless_loses_job:
  assumes "gateway_ok c w" and "time_ok now"
    and "Submit_nil (gateway_jobs reg c rc brokers ph ch) r st i now w = (panic_response, w')"
  shows "final_status panic_response = 500 \<and>
    (\<exists>s. job_at w' i = Some (new_job st s i now) \<and>
      object_at c w' (input_ref i (fh_Filename (sub_file s))) = Some (fh_Data (sub_file s))) \<and>
    w_topics w' = w_topics w"
proof -
  have "final_status panic_response = 500" by (simp add: panic_response_def final_status_def)
  with gw.nil_panic [OF assms(1,2) assms(3) [unfolded gateway_jobs_def]] show ?thesis by fastforce
qed

end
