(* ===== verification/Access_Log.thy ===== *)
theory Access_Log
  imports Brokerless
begin

text \<open>
  internal/handler/middleware.go: the line that the gateway writes to its log for every request that
  ends, and how far it says what the client got.  The duration, the request's
  identifier and the client's address are arguments.
\<close>

record LogEntry =
  le_method :: string
  le_path :: string
  le_status :: int
  le_bytes :: nat
  le_duration_ms :: int
  le_request_id :: string
  le_remote :: string

text \<open>chi's response writer has status 0 until something is written through it.\<close>

definition written_status :: "Response \<Rightarrow> int" where
  "written_status rs = (case rs_Status rs of None \<Rightarrow> 0 | Some code \<Rightarrow> code)"

definition StructuredLogger :: "int \<Rightarrow> string \<Rightarrow> string \<Rightarrow> Request \<Rightarrow> Response \<Rightarrow> LogEntry" where
  "StructuredLogger duration reqID remote r rs =
     \<lparr>le_method = rq_Method r, le_path = rq_Path r, le_status = written_status rs, le_bytes = length (rs_Body rs),
      le_duration_ms = duration, le_request_id = reqID, le_remote = remote\<rparr>"

text \<open>The middleware is outside of the one that recovers, so a panic is logged as the 500 it becomes.  A
  request that is never answered is not logged.\<close>

definition logged_request ::
    "int \<Rightarrow> string \<Rightarrow> string \<Rightarrow> chi_router \<Rightarrow> Response \<Rightarrow> Surroundings \<Rightarrow> Chance \<Rightarrow> Gateway \<Rightarrow> Request \<Rightarrow> World \<Rightarrow>
      LogEntry option" where
  "logged_request duration reqID remote chi page su ch g r w =
     map_option (\<lambda>(resp, g', w', bg). StructuredLogger duration reqID remote r resp) (gateway_request chi page su ch g r w)"

lemma logged_status:
  "le_status (StructuredLogger ms i a r rs) = (if rs_Status rs = None then 0 else final_status rs)"
  by (auto simp: StructuredLogger_def written_status_def final_status_def)

text \<open>The request counter and the log agree on a proxied request.\<close>

lemma logged_not_found:
  "chi (ro_routes (gw_router g)) (rq_Method r) (rq_Path r) = ChiNotFound \<Longrightarrow>
   \<exists>e. logged_request ms i a chi page su ch g r w = Some e \<and> le_status e = 404"
  by (auto simp: logged_request_def gateway_request_def gateway_handle_def logged_status http_error_def final_status_def Let_def
      split: option.split)

text \<open>A status request whose result is no JSON: the client sees an empty 200, the log has a 0.\<close>

lemma silent_answer_logged: "le_status (StructuredLogger ms i a r (encode_json None new_response)) = 0 \<and>
    final_status (encode_json None new_response) = 200"
  by (simp add: logged_status encode_json_def final_status_def)

end
