(* ===== verification/Lifecycle.thy ===== *)
theory Lifecycle
  imports "HOL-Library.Multiset" Brokerless
begin

text \<open>
  The life of the two processes from the start of the server to the end of main, cmd/gateway/main.go and
  relay/cmd/relay/main.go: requests arrive and are answered, consumers take results and leave
  webhooks, a signal or an error of the server starts the stop, the gateway waits for its
  consumers and webhooks, and the server is given 30 seconds for the requests that are left.
  Time is not modelled: giving up is a step that may happen at any moment once it is possible.
\<close>

section \<open>Runs\<close>

text \<open>The runs of a step relation with what they did, in order.\<close>

inductive runs :: "('s \<Rightarrow> 'e \<Rightarrow> 's \<Rightarrow> bool) \<Rightarrow> 's \<Rightarrow> 'e list \<Rightarrow> 's \<Rightarrow> bool" for step :: "'s \<Rightarrow> 'e \<Rightarrow> 's \<Rightarrow> bool" where
  runs_nil: "runs step s [] s"
| runs_snoc: "runs step s es s' \<Longrightarrow> step s' e s'' \<Longrightarrow> runs step s (es @ [e]) s''"

lemma runs_append: "runs step s' es' s'' \<Longrightarrow> runs step s es s' \<Longrightarrow> runs step s (es @ es') s''"
proof (induction rule: runs.induct)
  case (runs_snoc s' es' s1 e s2)
  then show ?case using runs.runs_snoc [of step s "es @ es'" s1 e s2] by simp
qed simp

lemma runs_split: "runs step s es s'' \<Longrightarrow> es = xs @ ys \<Longrightarrow> \<exists>s'. runs step s xs s' \<and> runs step s' ys s''"
proof (induction arbitrary: ys rule: runs.induct)
  case (runs_nil s)
  then show ?case using runs.runs_nil [of step s] by auto
next
  case (runs_snoc s es s1 e s2)
  have all: "runs step s (es @ [e]) s2" by (rule runs.runs_snoc [where s' = s1]) (use runs_snoc in auto)
  show ?case
  proof (cases ys rule: rev_cases)
    case Nil
    then show ?thesis using all runs_snoc.prems runs.runs_nil [of step s2] by auto
  next
    case (snoc zs z)
    then have "es = xs @ zs" "z = e" using runs_snoc.prems by auto
    moreover obtain s' where "runs step s xs s'" "runs step s' zs s1" using runs_snoc.IH [OF \<open>es = xs @ zs\<close>] by blast
    moreover have "runs step s' (zs @ [e]) s2" by (rule runs.runs_snoc [where s' = s1]) (use calculation runs_snoc in auto)
    ultimately show ?thesis using snoc by auto
  qed
qed

lemma runs_one: "step s e s' \<Longrightarrow> runs step s [e] s'"
  using runs_snoc [where es = "[]", OF runs_nil] by simp

lemma runs_step: "step s e s' \<Longrightarrow> runs step s' es s'' \<Longrightarrow> runs step s (e # es) s''"
  using runs_append [where es = "[e]", OF _ runs_one] by simp

section \<open>A process that stops\<close>

text \<open>
  What both processes promise once they are told to stop: nothing adds to what is left to do, the steps of
  the stop lessen it, and one of them can always be taken.
\<close>

locale stopping =
  fixes step :: "'s \<Rightarrow> 'e \<Rightarrow> 's \<Rightarrow> bool" and told :: "'s \<Rightarrow> bool" and stopped :: "'s \<Rightarrow> bool"
    and ending :: "'e \<Rightarrow> bool" and todo :: "'s \<Rightarrow> nat"
  assumes told_step: "step s e s' \<Longrightarrow> told s \<Longrightarrow> told s'"
    and todo_step: "step s e s' \<Longrightarrow> told s \<Longrightarrow> todo s' + (if ending e then 1 else 0) \<le> todo s"
    and goes_on: "told s \<Longrightarrow> \<not> stopped s \<Longrightarrow> \<exists>e s'. ending e \<and> step s e s'"
begin

lemma stop_bound:
  assumes "runs step s es s'" and "told s"
  shows "told s'" and "length (filter ending es) + todo s' \<le> todo s"
proof -
  have "told s' \<and> length (filter ending es) + todo s' \<le> todo s"
    using assms
  proof (induction rule: runs.induct)
    case (runs_snoc s es s1 e s2)
    then show ?case using told_step [OF runs_snoc(2)] todo_step [OF runs_snoc(2)] by (auto split: if_splits)
  qed simp
  then show "told s'" "length (filter ending es) + todo s' \<le> todo s" by auto
qed

lemma can_stop: "told s \<Longrightarrow> \<exists>es s'. runs step s es s' \<and> list_all ending es \<and> stopped s'"
proof (induction "todo s" arbitrary: s rule: less_induct)
  case less
  show ?case
  proof (cases "stopped s")
    case True
    then show ?thesis using runs_nil [of step s] by (intro exI [of _ "[]"] exI [of _ s]) simp
  next
    case False
    obtain e s1 where e: "ending e" "step s e s1" using goes_on [OF less(2) False] by blast
    then have "todo s1 < todo s" using todo_step [OF e(2) less(2)] by simp
    then obtain es s' where "runs step s1 es s'" "list_all ending es" "stopped s'"
      using less(1) told_step [OF e(2) less(2)] by blast
    then show ?thesis
      using runs_step [of step s e s1 es s'] e by (intro exI [of _ "e # es"] exI [of _ s']) simp
  qed
qed

lemma stops:
  assumes "runs step s es s'" and "told s"
  shows "length (filter ending es) \<le> todo s \<and>
    (\<exists>fs s''. runs step s' fs s'' \<and> list_all ending fs \<and> length (filter ending es) + length fs \<le> todo s \<and> stopped s'')"
proof -
  note b = stop_bound [OF assms]
  obtain fs s'' where f: "runs step s' fs s''" "list_all ending fs" "stopped s''"
    using can_stop [OF b(1)] by blast
  have "filter ending fs = fs" using f(2) by (simp add: filter_id_conv list_all_iff)
  then have "length fs \<le> todo s'" using stop_bound(2) [OF f(1) b(1)] by simp
  then show ?thesis using b(2) f by (intro conjI exI [of _ fs] exI [of _ s'']) auto
qed

end

section \<open>The gateway\<close>

text \<open>
  Draining is the wait for the consumers, Closing the wait for the requests.  \<open>pc_busy\<close> holds the
  messages consumers have taken, each with its context, and when it will be handled; \<open>pc_webhooks\<close> the jobs of the
  webhook goroutines, which the manager waits for as well; \<open>pc_left\<close> the other goroutines handlers
  have left, which nobody waits for.
\<close>

datatype phase = Serving | Draining | Closing | Stopped

record Process =
  pc_phase :: phase
  pc_gateway :: Gateway
  pc_world :: World
  pc_requests :: "Request list"
  pc_busy :: "(nat \<times> string \<times> time) list"
  pc_webhooks :: "Job list"
  pc_left :: "(World \<Rightarrow> World) list"

datatype process_event =
    Arrive Request
  | Answer Request Response
  | Take nat string
  | Handle nat string "Job option"
  | Deliver Job
  | Leftover
  | Stop
  | Drained
  | Closed
  | GaveUp
  | Outside

text \<open>Cancelling the root context ends every consumer that has no message in its hands, and those a reload
  starts later with a context that is cancelled already.\<close>

definition stop_consumers :: "Gateway \<Rightarrow> Gateway" where
  "stop_consumers g = g\<lparr>gw_consumers := (gw_consumers g)\<lparr>cs_running := []\<rparr>\<rparr>"

definition consumers_at :: "phase \<Rightarrow> Gateway \<Rightarrow> Gateway" where
  "consumers_at ph g = (if ph = Serving then g else stop_consumers g)"

text \<open>
  The steps.  The server takes requests until it is shut down, and each is answered by the router that is in place
  when it is.  A message is taken with a live context only: with a cancelled one the
  fetch fails, or Redis refuses the update and nothing has happened.  What has been taken is finished,
  in any way the services let it end.  The wait is skipped without a manager.  At the end of main
  the goroutines that are left are lost, and after 30 seconds the requests too.  \<open>Outside\<close> is what the
  services and the other processes do.
\<close>

inductive process_step :: "chi_router \<Rightarrow> Response \<Rightarrow> Process \<Rightarrow> process_event \<Rightarrow> Process \<Rightarrow> bool"
  for chi :: chi_router and page :: Response where
  arrive: "pc_phase s \<in> {Serving, Draining} \<Longrightarrow>
     process_step chi page s (Arrive r) (s\<lparr>pc_requests := r # pc_requests s\<rparr>)"
| answer: "pc_phase s \<noteq> Stopped \<Longrightarrow> r \<in> set (pc_requests s) \<Longrightarrow>
     gateway_request chi page su ch (pc_gateway s) r (pc_world s) = Some (resp, g', w', bg) \<Longrightarrow>
     process_step chi page s (Answer r resp)
       (s\<lparr>pc_gateway := consumers_at (pc_phase s) g', pc_world := w', pc_requests := remove1 r (pc_requests s),
          pc_left := bg # pc_left s\<rparr>)"
| take_message: "pc_phase s = Serving \<Longrightarrow> gw_manager (pc_gateway s) \<noteq> None \<Longrightarrow>
     (n, topic, ty) \<in> set (cs_running (gw_consumers (pc_gateway s))) \<Longrightarrow> n \<notin> fst ` set (pc_busy s) \<Longrightarrow>
     (topic, key, raw) \<in> set (w_topics (pc_world s)) \<Longrightarrow> time_ok now \<Longrightarrow>
     process_step chi page s (Take n raw) (s\<lparr>pc_busy := (n, raw, now) # pc_busy s\<rparr>)"
| handle: "pc_busy s = xs @ (n, raw, now) # ys \<Longrightarrow> gw_manager (pc_gateway s) = Some cm \<Longrightarrow>
     handleResult cm now raw (pc_world s) = (res, w', hook) \<Longrightarrow>
     process_step chi page s (Handle n raw hook)
       (s\<lparr>pc_world := (if is_ok res then snd (next_outcome w') else w'), pc_busy := xs @ ys,
          pc_webhooks := (case hook of None \<Rightarrow> pc_webhooks s | Some job \<Rightarrow> job # pc_webhooks s)\<rparr>)"
| deliver: "pc_webhooks s = xs @ job # ys \<Longrightarrow> gw_manager (pc_gateway s) = Some cm \<Longrightarrow>
     process_step chi page s (Deliver job)
       (s\<lparr>pc_world := fst (sendWebhook cm job (pc_world s)), pc_webhooks := xs @ ys\<rparr>)"
| leftover: "pc_left s = xs @ f # ys \<Longrightarrow>
     process_step chi page s Leftover (s\<lparr>pc_world := f (pc_world s), pc_left := xs @ ys\<rparr>)"
| stop: "pc_phase s = Serving \<Longrightarrow>
     process_step chi page s Stop (s\<lparr>pc_phase := Draining, pc_gateway := stop_consumers (pc_gateway s)\<rparr>)"
| drained: "pc_phase s = Draining \<Longrightarrow> gw_manager (pc_gateway s) = None \<or> (pc_busy s = [] \<and> pc_webhooks s = []) \<Longrightarrow>
     process_step chi page s Drained (s\<lparr>pc_phase := Closing\<rparr>)"
| closed: "pc_phase s = Closing \<Longrightarrow> pc_requests s = [] \<Longrightarrow>
     process_step chi page s Closed (s\<lparr>pc_phase := Stopped, pc_left := []\<rparr>)"
| gave_up: "pc_phase s = Closing \<Longrightarrow>
     process_step chi page s GaveUp (s\<lparr>pc_phase := Stopped, pc_requests := [], pc_left := []\<rparr>)"
| outside: "process_step chi page s Outside (s\<lparr>pc_world := w'\<rparr>)"

definition process_start :: "Process \<Rightarrow> bool" where
  "process_start s \<longleftrightarrow> (\<exists>su w. start_gateway su w = (Some (pc_gateway s), pc_world s)) \<and> pc_phase s = Serving \<and>
     pc_requests s = [] \<and> pc_busy s = [] \<and> pc_webhooks s = [] \<and> pc_left s = []"


section \<open>The gateway stops\<close>

lemma stop_consumers_simps [simp]:
  "gw_manager (stop_consumers g) = gw_manager g" "cs_running (gw_consumers (stop_consumers g)) = []"
  by (simp_all add: stop_consumers_def)

lemma consumers_at_manager [simp]: "gw_manager (consumers_at ph g) = gw_manager g"
  by (simp add: consumers_at_def)

lemma reload_manager: "reload su g w = (res, g', w') \<Longrightarrow> gw_manager g' = gw_manager g"
  by (auto simp: reload_def Let_def split: sum.splits option.splits prod.splits)

lemma handle_manager:
  assumes "gateway_handle chi page su ch g p r w = Some (resp, g', w', bg)"
  shows "gw_manager g' = gw_manager g"
proof -
  have "gw_manager g' = gw_manager g" if "NewReloadHandler su g w = (res, g', w')" for res
    using that reload_manager [of su g w] by (auto simp: NewReloadHandler_def split: prod.splits reload_result.splits)
  then show ?thesis
    using assms by (auto simp: gateway_handle_def split: chi_answer.splits route_target.splits prod.splits option.splits)
qed

lemma request_manager:
  "gateway_request chi page su ch g r w = Some (resp, g', w', bg) \<Longrightarrow> gw_manager g' = gw_manager g"
  by (auto simp: gateway_request_def Let_def dest: handle_manager
      split: option.splits chi_answer.splits route_target.splits prod.splits)

fun phase_left :: "phase \<Rightarrow> nat" where
  "phase_left Serving = 3"
| "phase_left Draining = 2"
| "phase_left Closing = 1"
| "phase_left Stopped = 0"

fun shutdown_event :: "process_event \<Rightarrow> bool" where
  "shutdown_event (Handle _ _ _) = True"
| "shutdown_event (Deliver _) = True"
| "shutdown_event Drained = True"
| "shutdown_event Closed = True"
| "shutdown_event GaveUp = True"
| "shutdown_event _ = False"

definition work_left :: "Process \<Rightarrow> nat" where
  "work_left s = 2 * length (pc_busy s) + length (pc_webhooks s) + phase_left (pc_phase s)"

lemma goes_on_by: "process_step chi page s e s' \<Longrightarrow> shutdown_event e \<Longrightarrow> \<exists>e s'. shutdown_event e \<and> process_step chi page s e s'"
  by blast

lemma process_goes_on:
  assumes "pc_phase s \<noteq> Serving" and "pc_phase s \<noteq> Stopped"
  shows "\<exists>e s'. shutdown_event e \<and> process_step chi page s e s'"
proof (cases "pc_phase s")
  case Draining
  consider "gw_manager (pc_gateway s) = None \<or> (pc_busy s = [] \<and> pc_webhooks s = [])"
    | cm m ms where "gw_manager (pc_gateway s) = Some cm" "pc_busy s = m # ms"
    | cm j js where "gw_manager (pc_gateway s) = Some cm" "pc_webhooks s = j # js"
    by (metis list.exhaust option.exhaust)
  then show ?thesis
  proof cases
    case 1
    show ?thesis by (rule goes_on_by [OF drained [OF Draining 1]]) simp
  next
    case (2 cm m ms)
    obtain n raw now where m: "m = (n, raw, now)" by (cases m)
    obtain res w' hook where h: "handleResult cm now raw (pc_world s) = (res, w', hook)" by (metis prod.collapse)
    have "pc_busy s = [] @ (n, raw, now) # ms" using 2 m by simp
    from goes_on_by [OF handle [OF this 2(1) h]] show ?thesis by simp
  next
    case (3 cm j js)
    have "pc_webhooks s = [] @ j # js" using 3 by simp
    from goes_on_by [OF deliver [OF this 3(1)]] show ?thesis by simp
  qed
next
  case Closing
  from goes_on_by [OF gave_up [OF this]] show ?thesis by simp
qed (use assms in auto)

interpretation gwstop: stopping "process_step chi page" "\<lambda>s. pc_phase s \<noteq> Serving" "\<lambda>s. pc_phase s = Stopped" shutdown_event work_left
  for chi page
proof
  show "process_step chi page s e s' \<Longrightarrow> pc_phase s \<noteq> Serving \<Longrightarrow> pc_phase s' \<noteq> Serving" for s e s'
    by (erule process_step.cases) auto
  show "process_step chi page s e s' \<Longrightarrow> pc_phase s \<noteq> Serving \<Longrightarrow> work_left s' + (if shutdown_event e then 1 else 0) \<le> work_left s" for s e s'
    by (erule process_step.cases) (auto simp: work_left_def split: option.splits)
qed (rule process_goes_on)

section \<open>The relay stops\<close>

text \<open>main of the relay waits for its requests only, and for 30 seconds.  The counter of synchronous jobs is the
  matter of Pod: here a request may find it at any number.\<close>

record RelayLife =
  rp_phase :: phase
  rp_relay :: RelayProcess
  rp_world :: World
  rp_requests :: "Request list"
  rp_left :: "(World \<Rightarrow> World) list"

datatype relay_event = RArrive Request | RAnswer Request Response | RLeftover | RStop | RClosed | RGaveUp | ROutside

inductive relay_step :: "Response \<Rightarrow> (string \<Rightarrow> bool) \<Rightarrow> RelayLife \<Rightarrow> relay_event \<Rightarrow> RelayLife \<Rightarrow> bool"
  for page :: Response and dial :: "string \<Rightarrow> bool" where
  r_arrive: "rp_phase s = Serving \<Longrightarrow> relay_step page dial s (RArrive r) (s\<lparr>rp_requests := r # rp_requests s\<rparr>)"
| r_answer: "rp_phase s \<noteq> Stopped \<Longrightarrow> r \<in> set (rp_requests s) \<Longrightarrow> time_ok now \<Longrightarrow>
     relay_handle page dial (rp_relay s) now n r (rp_world s) = (n', resp, w', bg) \<Longrightarrow>
     relay_step page dial s (RAnswer r resp)
       (s\<lparr>rp_world := w', rp_requests := remove1 r (rp_requests s), rp_left := bg # rp_left s\<rparr>)"
| r_leftover: "rp_left s = xs @ f # ys \<Longrightarrow>
     relay_step page dial s RLeftover (s\<lparr>rp_world := f (rp_world s), rp_left := xs @ ys\<rparr>)"
| r_stop: "rp_phase s = Serving \<Longrightarrow> relay_step page dial s RStop (s\<lparr>rp_phase := Closing\<rparr>)"
| r_closed: "rp_phase s = Closing \<Longrightarrow> rp_requests s = [] \<Longrightarrow>
     relay_step page dial s RClosed (s\<lparr>rp_phase := Stopped, rp_left := []\<rparr>)"
| r_gave_up: "rp_phase s = Closing \<Longrightarrow>
     relay_step page dial s RGaveUp (s\<lparr>rp_phase := Stopped, rp_requests := [], rp_left := []\<rparr>)"
| r_outside: "relay_step page dial s ROutside (s\<lparr>rp_world := w'\<rparr>)"

fun relay_shutdown_event :: "relay_event \<Rightarrow> bool" where
  "relay_shutdown_event RClosed = True"
| "relay_shutdown_event RGaveUp = True"
| "relay_shutdown_event _ = False"

interpretation rlstop: stopping "relay_step page dial" "\<lambda>s. rp_phase s \<in> {Closing, Stopped}" "\<lambda>s. rp_phase s = Stopped"
    relay_shutdown_event "\<lambda>s. phase_left (rp_phase s)" for page dial
proof
  show "relay_step page dial s e s' \<Longrightarrow> rp_phase s \<in> {Closing, Stopped} \<Longrightarrow> rp_phase s' \<in> {Closing, Stopped}" for s e s'
    by (erule relay_step.cases) auto
  show "relay_step page dial s e s' \<Longrightarrow> rp_phase s \<in> {Closing, Stopped} \<Longrightarrow>
      phase_left (rp_phase s') + (if relay_shutdown_event e then 1 else 0) \<le> phase_left (rp_phase s)" for s e s'
    by (erule relay_step.cases) auto
  show "\<exists>e s'. relay_shutdown_event e \<and> relay_step page dial s e s'"
    if "rp_phase s \<in> {Closing, Stopped}" "rp_phase s \<noteq> Stopped" for s
    using that r_gave_up [of s] relay_shutdown_event.simps(2) by blast
qed


section \<open>What the stop leaves done\<close>

text \<open>From the events: the requests that came and were answered, the messages taken and handled, and the
  webhooks owed and delivered.\<close>

definition arrived :: "process_event list \<Rightarrow> Request multiset" where
  "arrived es = mset (concat (map (\<lambda>e. case e of Arrive r \<Rightarrow> [r] | _ \<Rightarrow> []) es))"

definition answered :: "process_event list \<Rightarrow> Request multiset" where
  "answered es = mset (concat (map (\<lambda>e. case e of Answer r _ \<Rightarrow> [r] | _ \<Rightarrow> []) es))"

definition taken :: "process_event list \<Rightarrow> (nat \<times> string) multiset" where
  "taken es = mset (concat (map (\<lambda>e. case e of Take n raw \<Rightarrow> [(n, raw)] | _ \<Rightarrow> []) es))"

definition handled :: "process_event list \<Rightarrow> (nat \<times> string) multiset" where
  "handled es = mset (concat (map (\<lambda>e. case e of Handle n raw _ \<Rightarrow> [(n, raw)] | _ \<Rightarrow> []) es))"

definition owed :: "process_event list \<Rightarrow> Job multiset" where
  "owed es = mset (concat (map (\<lambda>e. case e of Handle _ _ (Some job) \<Rightarrow> [job] | _ \<Rightarrow> []) es))"

definition delivered :: "process_event list \<Rightarrow> Job multiset" where
  "delivered es = mset (concat (map (\<lambda>e. case e of Deliver job \<Rightarrow> [job] | _ \<Rightarrow> []) es))"

definition process_inv :: "process_event list \<Rightarrow> Process \<Rightarrow> bool" where
  "process_inv es s \<longleftrightarrow>
     taken es = handled es + mset (map (\<lambda>(n, raw, now). (n, raw)) (pc_busy s)) \<and>
     owed es = delivered es + mset (pc_webhooks s) \<and>
     (GaveUp \<notin> set es \<longrightarrow> arrived es = answered es + mset (pc_requests s)) \<and>
     (pc_phase s = Stopped \<longrightarrow> pc_requests s = []) \<and>
     (gw_manager (pc_gateway s) = None \<longrightarrow> pc_busy s = [] \<and> pc_webhooks s = []) \<and>
     (pc_phase s \<in> {Closing, Stopped} \<longrightarrow> pc_busy s = [] \<and> pc_webhooks s = []) \<and>
     (pc_phase s \<noteq> Serving \<longrightarrow> cs_running (gw_consumers (pc_gateway s)) = []) \<and>
     (pc_phase s = Serving \<longleftrightarrow> Stop \<notin> set es)"

lemmas counts = arrived_def answered_def taken_def handled_def owed_def delivered_def

lemma process_inv_step: "process_step chi page s e s' \<Longrightarrow> process_inv es s \<Longrightarrow> process_inv (es @ [e]) s'"
proof (induction rule: process_step.induct)
  case (answer s r su ch resp g' w' bg)
  then show ?case using request_manager [OF answer(3)] by (auto simp: process_inv_def counts consumers_at_def)
next
  case (handle s xs n raw now ys cm res w' hook)
  then show ?case by (auto simp: process_inv_def counts split: option.splits)
qed (auto simp: process_inv_def counts)

lemma process_inv_runs: "runs (process_step chi page) s es s' \<Longrightarrow> process_start s \<Longrightarrow> process_inv es s'"
proof (induction rule: runs.induct)
  case (runs_nil s)
  then show ?case by (simp add: process_start_def process_inv_def counts)
qed (rule process_inv_step)


lemma taken_append: "taken (es @ fs) = taken es + taken fs"
  by (simp add: taken_def)

lemma nothing_taken: "runs (process_step chi page) s es s' \<Longrightarrow> pc_phase s \<noteq> Serving \<Longrightarrow> taken es = {#}"
proof (induction rule: runs.induct)
  case (runs_snoc s es s1 e s2)
  then have "pc_phase s1 \<noteq> Serving" using gwstop.stop_bound(1) by blast
  with runs_snoc(2) have "taken [e] = {#}" by (elim process_step.cases) (simp_all add: taken_def)
  then show ?case using runs_snoc by (simp add: taken_append)
qed (simp add: taken_def)

lemma stop_step: "process_step chi page s Stop s' \<Longrightarrow> pc_phase s' = Draining"
  by (erule process_step.cases) auto

text \<open>C15: the gateway stops in order.  When it closes its server, every message a consumer had taken has
  been handled, once, every webhook that was owed has been sent, none of either is under way, and
  no consumer runs; since the signal no message was taken.  And when main ends without having
  given up, every request that ever arrived has been answered.\<close>

theorem stop_in_order:
  assumes "process_start s0" and "runs (process_step chi page) s0 es s" and "pc_phase s \<in> {Closing, Stopped}"
  shows "taken es = handled es \<and> owed es = delivered es \<and> pc_busy s = [] \<and> pc_webhooks s = [] \<and>
    cs_running (gw_consumers (pc_gateway s)) = [] \<and>
    (\<exists>xs ys. es = xs @ Stop # ys \<and> taken ys = {#}) \<and>
    (pc_phase s = Stopped \<and> GaveUp \<notin> set es \<longrightarrow> arrived es = answered es)"
proof -
  have inv: "process_inv es s" by (rule process_inv_runs [OF assms(2,1)])
  have "Stop \<in> set es" using inv assms(3) by (auto simp: process_inv_def)
  then obtain xs ys where es: "es = xs @ Stop # ys" by (auto simp: in_set_conv_decomp)
  then have es': "es = (xs @ [Stop]) @ ys" by simp
  obtain s2 where s2: "runs (process_step chi page) s0 (xs @ [Stop]) s2" "runs (process_step chi page) s2 ys s"
    using runs_split [OF assms(2) es'] by blast
  obtain s1 where "process_step chi page s1 Stop s2" using s2(1) by (cases rule: runs.cases) auto
  then have "taken ys = {#}" using nothing_taken [OF s2(2)] stop_step by fastforce
  then have "\<exists>xs ys. es = xs @ Stop # ys \<and> taken ys = {#}" using es by blast
  moreover have "taken es = handled es" "owed es = delivered es" "pc_busy s = []" "pc_webhooks s = []"
      "cs_running (gw_consumers (pc_gateway s)) = []"
    using inv assms(3) by (auto simp: process_inv_def)
  moreover have "pc_phase s = Stopped \<and> GaveUp \<notin> set es \<longrightarrow> arrived es = answered es"
    using inv by (auto simp: process_inv_def)
  ultimately show ?thesis by blast
qed

section \<open>At work\<close>

text \<open>A gateway that is told to stop with a request to answer and a message in a consumer's hands.\<close>

abbreviation nowhere :: chi_router where
  "nowhere \<equiv> \<lambda>routes method path. ChiNotFound"

definition demo_before :: "process_event list" where
  "demo_before = [Outside, Take 0 ''x'', Arrive demo_request, Stop]"

definition demo_after :: "Response \<Rightarrow> process_event list" where
  "demo_after resp = [Handle 0 ''x'' None, Drained, Answer demo_request resp, Closed]"

lemma demo_bad_result: "unmarshal_result_event ''x'' = None"
  by code_simp

lemma demo_life:
  obtains s0 s1 s2 resp where "process_start s0" "runs (process_step nowhere new_response) s0 demo_before s1"
    "pc_phase s1 = Draining" "work_left s1 = 4" "runs (process_step nowhere new_response) s1 (demo_after resp) s2"
    "pc_phase s2 = Stopped"
proof -
  obtain g where g: "start_gateway demo_surroundings demo_llm_world = (Some g, demo_llm_world)" "gw_manager g \<noteq> None"
    "gw_producer g \<noteq> None" "cs_running (gw_consumers g) = [(0, ''jobs.whisper.results'', ''audio'')]"
    by (rule demo_start)
  obtain cm p where cm: "gw_manager g = Some cm" and p: "gw_producer g = Some p" using g by auto
  let ?w = "demo_llm_world\<lparr>w_topics := [(''jobs.whisper.results'', ''k'', ''x'')]\<rparr>"
  let ?s0 = "\<lparr>pc_phase = Serving, pc_gateway = g, pc_world = demo_llm_world, pc_requests = [], pc_busy = [],
      pc_webhooks = [], pc_left = []\<rparr>"
  let ?a = "?s0\<lparr>pc_world := ?w\<rparr>"
  let ?b = "?a\<lparr>pc_busy := [(0, ''x'', demo_now)]\<rparr>"
  let ?c = "?b\<lparr>pc_requests := [demo_request]\<rparr>"
  let ?s1 = "?c\<lparr>pc_phase := Draining, pc_gateway := stop_consumers g\<rparr>"
  let ?d = "?s1\<lparr>pc_busy := []\<rparr>"
  let ?e = "?d\<lparr>pc_phase := Closing\<rparr>"
  let ?resp = "http_error 404 ''404 page not found'' new_response"
  let ?f = "?e\<lparr>pc_gateway := stop_consumers (stop_consumers g), pc_requests := [], pc_left := [id]\<rparr>"
  let ?s2 = "?f\<lparr>pc_phase := Stopped, pc_left := []\<rparr>"
  let ?st = "process_step nowhere new_response"
  have 1: "?st ?s0 Outside ?a" by (rule outside)
  have 2: "?st ?a (Take 0 ''x'') ?b"
    using take_message [of ?a 0 "''jobs.whisper.results''" "''audio''" "''k''" "''x''" demo_now] g demo_now_ok by simp
  have 3: "?st ?b (Arrive demo_request) ?c" using arrive [of ?b] by simp
  have 4: "?st ?c Stop ?s1" using stop [of ?c] by simp
  have 5: "?st ?s1 (Handle 0 ''x'' None) ?d"
    using handle [of ?s1 "[]" 0 "''x''" demo_now "[]" cm "Inl BadEvent" ?w None] cm
    by (simp add: handleResult_def demo_bad_result)
  have 6: "?st ?d Drained ?e" using drained [of ?d] by simp
  have 7: "?st ?e (Answer demo_request ?resp) ?f"
    using answer [of ?e demo_request nowhere new_response demo_surroundings demo_chance ?resp "stop_consumers g" ?w id] p
    by (simp add: gateway_request_def gateway_handle_def stop_consumers_def consumers_at_def)
  have 8: "?st ?f Closed ?s2" using closed [of ?f] by simp
  have start: "process_start ?s0"
    unfolding process_start_def using g(1) by auto
  have "runs ?st ?s0 demo_before ?s1"
    unfolding demo_before_def using runs_step [of ?st, OF 1 runs_step [of ?st, OF 2 runs_step [of ?st, OF 3 runs_one [of ?st, OF 4]]]] .
  moreover have "runs ?st ?s1 (demo_after ?resp) ?s2"
    unfolding demo_after_def using runs_step [of ?st, OF 5 runs_step [of ?st, OF 6 runs_step [of ?st, OF 7 runs_one [of ?st, OF 8]]]] .
  ultimately show thesis using that [OF start] by (simp add: work_left_def)
qed

lemma demo_relay_life:
  obtains t t' where "rp_phase t = Closing" "runs (relay_step new_response (\<lambda>_. True)) t [RGaveUp] t'"
proof -
  obtain p where "start_relay demo_relay_surroundings = Some p" using demo_relay_starts by (auto simp: Option.is_none_def)
  let ?t = "\<lparr>rp_phase = Closing, rp_relay = p, rp_world = demo_llm_world, rp_requests = [demo_inference], rp_left = []\<rparr>"
  have "relay_step new_response (\<lambda>_. True) ?t RGaveUp (?t\<lparr>rp_phase := Stopped, rp_requests := [], rp_left := []\<rparr>)"
    by (rule r_gave_up) simp
  from runs_one [of "relay_step new_response (\<lambda>_. True)", OF this] show thesis by (intro that [of ?t]) simp_all
qed


lemma stop_in_order_witness:
  "\<exists>s0 s resp. process_start s0 \<and> runs (process_step nowhere new_response) s0 (demo_before @ demo_after resp) s \<and>
     pc_phase s = Stopped \<and> taken (demo_before @ demo_after resp) = {#(0, ''x'')#} \<and>
     handled (demo_before @ demo_after resp) = {#(0, ''x'')#} \<and> arrived (demo_before @ demo_after resp) = {#demo_request#} \<and>
     answered (demo_before @ demo_after resp) = {#demo_request#}"
proof -
  obtain s0 s1 s2 resp where s: "process_start s0" "runs (process_step nowhere new_response) s0 demo_before s1"
      "runs (process_step nowhere new_response) s1 (demo_after resp) s2" "pc_phase s2 = Stopped"
    by (rule demo_life)
  have r: "runs (process_step nowhere new_response) s0 (demo_before @ demo_after resp) s2"
    by (rule runs_append [OF s(3,2)])
  have t: "taken (demo_before @ demo_after resp) = {#(0, ''x'')#}" "arrived (demo_before @ demo_after resp) = {#demo_request#}"
    "GaveUp \<notin> set (demo_before @ demo_after resp)"
    by (simp_all add: taken_def arrived_def demo_before_def demo_after_def)
  have "pc_phase s2 \<in> {Closing, Stopped}" using s(4) by simp
  note o = stop_in_order [OF s(1) r this]
  show ?thesis
    using s(1,4) r t o by (intro exI [of _ s0] exI [of _ s2] exI [of _ resp]) simp
qed

end
